(* ===== verification/Prelude.thy ===== *)
theory Prelude
  imports Complex_Main "HOL-Library.Word" "HOL-Library.AList" "HOL-Library.Char_ord"
    "HOL-Library.List_Lexorder"
begin

text \<open>
  Shared vocabulary of the NIDAN development: names for the machine integer types of
  the Rust source, results as sums, minimum search over an iterator, association lists
  that stand for \<open>DashMap\<close> and \<open>HashMap\<close> values, byte encodings of integers and the few
  string functions of the Rust standard library that the program uses.  The generic
  lemmas proved here carry the component proofs.
\<close>

named_theorems inv_intros
named_theorems op_simps

section \<open>Names for the types of the source\<close>

type_synonym u8 = "8 word"
type_synonym u16 = "16 word"
type_synonym u32 = "32 word"
type_synonym u64 = "64 word"
type_synonym bytes = "8 word list"

text \<open>\<open>DateTime<Utc>\<close> and \<open>Instant\<close> values are integers of nanoseconds.\<close>

type_synonym timestamp = int

type_synonym ('e, 'a) result = "'e + 'a"

abbreviation Err :: "'e \<Rightarrow> ('e, 'a) result" where
  "Err \<equiv> Inl"

abbreviation Ok :: "'a \<Rightarrow> ('e, 'a) result" where
  "Ok \<equiv> Inr"

definition is_ok :: "('e, 'a) result \<Rightarrow> bool" where
  "is_ok r = (case r of Inl _ \<Rightarrow> False | Inr _ \<Rightarrow> True)"

lemma is_ok_simps [simp]: "is_ok (Inr a)" "\<not> is_ok (Inl e)"
  by (simp_all add: is_ok_def)

definition bind_result :: "('e, 'a) result \<Rightarrow> ('a \<Rightarrow> ('e, 'b) result) \<Rightarrow> ('e, 'b) result" where
  "bind_result r f = (case r of Inl e \<Rightarrow> Inl e | Inr a \<Rightarrow> f a)"

lemma bind_result_simps [simp]:
  "bind_result (Inl e) f = Inl e"
  "bind_result (Inr a) f = f a"
  by (simp_all add: bind_result_def)

definition ok_or :: "'a option \<Rightarrow> 'e \<Rightarrow> ('e, 'a) result" where
  "ok_or x e = (case x of None \<Rightarrow> Inl e | Some a \<Rightarrow> Inr a)"

lemma ok_or_simps [simp]: "ok_or None e = Inl e" "ok_or (Some a) e = Inr a"
  by (simp_all add: ok_or_def)

definition guard_result :: "bool \<Rightarrow> 'e \<Rightarrow> ('e, unit) result" where
  "guard_result ok e = (if ok then Inr () else Inl e)"

lemma guard_result_simps [simp]: "guard_result True e = Inr ()" "guard_result False e = Inl e"
  by (simp_all add: guard_result_def)

section \<open>Durations\<close>

definition nanos_per_sec :: int where
  "nanos_per_sec = 1000000000"

definition secs :: "int \<Rightarrow> int" where
  "secs s = s * nanos_per_sec"

text \<open>\<open>TimeDelta::num_seconds\<close>: whole seconds, truncated towards zero.\<close>

definition num_seconds :: "int \<Rightarrow> int" where
  "num_seconds d = (if d < 0 then - ((- d) div nanos_per_sec) else d div nanos_per_sec)"

lemma num_seconds_mono: "a \<le> b \<Longrightarrow> num_seconds a \<le> num_seconds b"
proof -
  assume le: "a \<le> b"
  have neg: "- ((- x) div nanos_per_sec) \<le> 0" if "x < 0" for x :: int
    using that by (simp add: nanos_per_sec_def)
  have pos: "0 \<le> x div nanos_per_sec" if "0 \<le> x" for x :: int
    using that by (simp add: nanos_per_sec_def)
  consider "b < 0" | "a < 0" "0 \<le> b" | "0 \<le> a" using le by linarith
  then show ?thesis
  proof cases
    case 1
    have "(- b) div nanos_per_sec \<le> (- a) div nanos_per_sec"
      using le by (intro zdiv_mono1) (simp_all add: nanos_per_sec_def)
    then show ?thesis using 1 le by (simp add: num_seconds_def)
  next
    case 2
    then show ?thesis using neg [of a] pos [of b] by (simp add: num_seconds_def)
  next
    case 3
    have "a div nanos_per_sec \<le> b div nanos_per_sec"
      using le by (intro zdiv_mono1) (simp_all add: nanos_per_sec_def)
    then show ?thesis using 3 le by (simp add: num_seconds_def)
  qed
qed

section \<open>Minimum over an iterator\<close>

text \<open>\<open>Iterator::min_by_key\<close>: the first element whose key is minimal.\<close>

fun min_by_key :: "('a \<Rightarrow> 'k::linorder) \<Rightarrow> 'a list \<Rightarrow> 'a option" where
  "min_by_key k [] = None"
| "min_by_key k (x # xs) =
    (case min_by_key k xs of
      None \<Rightarrow> Some x
    | Some y \<Rightarrow> if k y < k x then Some y else Some x)"

lemma min_by_key_None [simp]: "min_by_key k xs = None \<longleftrightarrow> xs = []"
  by (cases xs) (auto split: option.splits)

lemma min_by_key_mem: "min_by_key k xs = Some x \<Longrightarrow> x \<in> set xs"
  by (induction xs arbitrary: x) (auto split: option.splits if_splits)

lemma min_by_key_least: "min_by_key k xs = Some x \<Longrightarrow> y \<in> set xs \<Longrightarrow> k x \<le> k y"
proof (induction xs arbitrary: x y)
  case Nil
  then show ?case by simp
next
  case (Cons a xs)
  show ?case
  proof (cases "min_by_key k xs")
    case None
    then show ?thesis using Cons.prems by auto
  next
    case (Some z)
    then have *: "\<And>y. y \<in> set xs \<Longrightarrow> k z \<le> k y" using Cons.IH by blast
    then show ?thesis using Cons.prems Some by (fastforce split: if_splits)
  qed
qed

section \<open>Association lists\<close>

text \<open>
  A \<open>DashMap\<close> is an association list with distinct keys.  Its order is the (unspecified)
  iteration order of the map: every lemma holds for every order.
\<close>

lemma map_of_mem_values: "map_of m k = Some v \<Longrightarrow> v \<in> set (map snd m)"
  by (induction m) (auto split: if_splits)

lemma update_set:
  "distinct (map fst m) \<Longrightarrow>
    set (AList.update k v m) = insert (k, v) (set m - {p. fst p = k})"
proof (induction m)
  case Nil
  then show ?case by simp
next
  case (Cons p m)
  obtain a b where p: "p = (a, b)" by (cases p)
  show ?case
  proof (cases "a = k")
    case True
    have "q \<in> set m \<Longrightarrow> fst q \<noteq> k" for q using Cons.prems True p by force
    then have "set m - {p. fst p = k} = set m" by auto
    then show ?thesis using True p by auto
  next
    case False
    then show ?thesis using Cons p by auto
  qed
qed

lemma delete_set: "set (AList.delete k m) = set m - {p. fst p = k}"
  by (auto simp: AList.delete_eq)

lemma delete_subset: "set (AList.delete k m) \<subseteq> set m"
  by (auto simp: AList.delete_eq)

lemma mem_update_cases:
  assumes "distinct (map fst m)" "(i, e) \<in> set (AList.update k v m)"
  obtains "i = k" "e = v" | "i \<noteq> k" "(i, e) \<in> set m"
  using assms by (auto simp: update_set)

lemma length_update:
  "length (AList.update k v m) = (if k \<in> fst ` set m then length m else Suc (length m))"
  by (induction m) auto

text \<open>Number of entries of a map whose value satisfies a predicate.\<close>

definition count_vals :: "('v \<Rightarrow> bool) \<Rightarrow> ('k \<times> 'v) list \<Rightarrow> nat" where
  "count_vals P m = length (filter (\<lambda>p. P (snd p)) m)"

lemma count_vals_simps [simp]:
  "count_vals P [] = 0"
  "count_vals P (p # m) = (if P (snd p) then 1 else 0) + count_vals P m"
  by (simp_all add: count_vals_def)

lemma count_vals_update_new:
  "k \<notin> fst ` set m \<Longrightarrow>
    count_vals P (AList.update k v m) = count_vals P m + (if P v then 1 else 0)"
  by (induction m) auto

lemma count_vals_update_old:
  "distinct (map fst m) \<Longrightarrow> map_of m k = Some w \<Longrightarrow>
    count_vals P (AList.update k v m) + (if P w then 1 else 0)
      = count_vals P m + (if P v then 1 else 0)"
  by (induction m) auto

lemma count_vals_update_le:
  "count_vals P (AList.update k v m) \<le> Suc (count_vals P m)"
  by (induction m) auto

lemma count_vals_delete_le: "count_vals P (AList.delete k m) \<le> count_vals P m"
  by (induction m) auto

lemma count_vals_delete:
  "distinct (map fst m) \<Longrightarrow> map_of m k = Some w \<Longrightarrow>
    count_vals P (AList.delete k m) + (if P w then 1 else 0) = count_vals P m"
proof (induction m)
  case Nil
  then show ?case by simp
next
  case (Cons p m)
  obtain a b where p: "p = (a, b)" by (cases p)
  show ?case
  proof (cases "a = k")
    case True
    then have "k \<notin> set (map fst m)" using Cons.prems p by auto
    then have "AList.delete k m = m" by (simp add: AList.delete_id)
    then show ?thesis using True Cons.prems p by auto
  next
    case False
    then show ?thesis using Cons p by auto
  qed
qed

lemma count_vals_eq_0: "count_vals P m = 0 \<longleftrightarrow> (\<forall>p \<in> set m. \<not> P (snd p))"
  by (induction m) auto

lemma count_vals_le_length: "count_vals P m \<le> length m"
  by (simp add: count_vals_def)

lemma count_vals_mono:
  "(\<And>v. P v \<Longrightarrow> Q v) \<Longrightarrow> count_vals P m \<le> count_vals Q m"
  by (induction m) (auto split: if_splits simp: le_Suc_eq)

section \<open>Bytes\<close>

fun le_bytes :: "nat \<Rightarrow> nat \<Rightarrow> bytes" where
  "le_bytes 0 n = []"
| "le_bytes (Suc k) n = word_of_nat (n mod 256) # le_bytes k (n div 256)"

fun le_nat :: "bytes \<Rightarrow> nat" where
  "le_nat [] = 0"
| "le_nat (b # bs) = unat b + 256 * le_nat bs"

definition be_bytes :: "nat \<Rightarrow> nat \<Rightarrow> bytes" where
  "be_bytes k n = rev (le_bytes k n)"

definition be_nat :: "bytes \<Rightarrow> nat" where
  "be_nat bs = le_nat (rev bs)"

lemma length_le_bytes [simp]: "length (le_bytes k n) = k"
  by (induction k arbitrary: n) auto

lemma length_be_bytes [simp]: "length (be_bytes k n) = k"
  by (simp add: be_bytes_def)

lemma le_nat_le_bytes: "n < 256 ^ k \<Longrightarrow> le_nat (le_bytes k n) = n"
proof (induction k arbitrary: n)
  case 0
  then show ?case by simp
next
  case (Suc k)
  have "n div 256 < 256 ^ k" using Suc.prems by (simp add: less_mult_imp_div_less mult.commute)
  then have "le_nat (le_bytes k (n div 256)) = n div 256" by (rule Suc.IH)
  then show ?case by (simp add: unat_of_nat take_bit_eq_mod)
qed

lemma be_nat_be_bytes: "n < 256 ^ k \<Longrightarrow> be_nat (be_bytes k n) = n"
  by (simp add: be_nat_def be_bytes_def le_nat_le_bytes)

lemma unat_u8: "unat (b :: u8) < 256"
  using unsigned_less [of b] by simp

lemma unat_u32: "unat (w :: u32) < 4294967296"
  using unsigned_less [of w, where 'a = nat] by simp

lemma unat_u64: "unat (w :: u64) < 18446744073709551616"
  using unsigned_less [of w, where 'a = nat] by simp

lemma le_nat_bound: "le_nat bs < 256 ^ length bs"
proof (induction bs)
  case Nil
  then show ?case by simp
next
  case (Cons b bs)
  have "unat b < 256" by (rule unat_u8)
  then show ?case using Cons by simp
qed

lemma be_nat_bound: "be_nat bs < 256 ^ length bs"
  using le_nat_bound [of "rev bs"] by (simp add: be_nat_def)

lemma le_bytes_le_nat: "length bs = k \<Longrightarrow> le_bytes k (le_nat bs) = bs"
proof (induction bs arbitrary: k)
  case Nil
  then show ?case by simp
next
  case (Cons b bs)
  have b: "unat b < 256" by (rule unat_u8)
  have "le_nat (b # bs) mod 256 = unat b" using b by simp
  moreover have "le_nat (b # bs) div 256 = le_nat bs" using b by simp
  ultimately show ?case using Cons by auto
qed

lemma le_bytes_inj:
  assumes "le_bytes k a = le_bytes k b" "a < 256 ^ k" "b < 256 ^ k"
  shows "a = b"
  using assms le_nat_le_bytes by metis

section \<open>Strings\<close>

definition starts_with :: "'a list \<Rightarrow> 'a list \<Rightarrow> bool" where
  "starts_with s p = (take (length p) s = p)"

lemma starts_with_iff: "starts_with s p \<longleftrightarrow> (\<exists>r. s = p @ r)"
  by (metis append_take_drop_id append_eq_conv_conj starts_with_def)

lemma starts_with_append [simp]: "starts_with (p @ r) p"
  by (simp add: starts_with_def)

lemma starts_with_Nil [simp]: "starts_with s []"
  by (simp add: starts_with_def)

text \<open>\<open>str::find\<close>: the offset of the first occurrence.\<close>

fun str_find :: "'a list \<Rightarrow> 'a list \<Rightarrow> nat option" where
  "str_find [] p = (if p = [] then Some 0 else None)"
| "str_find (c # s) p =
    (if starts_with (c # s) p then Some 0 else map_option Suc (str_find s p))"

lemma str_find_Some:
  "str_find s p = Some i \<Longrightarrow> i + length p \<le> length s \<and> take (length p) (drop i s) = p"
proof (induction s arbitrary: i)
  case Nil
  then show ?case by (auto split: if_splits)
next
  case (Cons c s)
  show ?case
  proof (cases "starts_with (c # s) p")
    case True
    then have "length p \<le> length (c # s)" unfolding starts_with_iff
      by (metis le_add1 length_append)
    then show ?thesis using Cons.prems True by (auto simp: starts_with_def)
  next
    case False
    then obtain j where "str_find s p = Some j" "i = Suc j" using Cons.prems by auto
    then show ?thesis using Cons.IH by auto
  qed
qed

lemma str_find_skip:
  assumes "\<And>j. j < length a \<Longrightarrow> \<not> starts_with (drop j a @ p @ r) p"
  shows "str_find (a @ p @ r) p = Some (length a)"
  using assms
proof (induction a)
  case Nil
  show ?case
  proof (cases "p @ r")
    case Nil
    then show ?thesis by simp
  next
    case (Cons x xs)
    then have "starts_with (x # xs) p" by (metis starts_with_append)
    then show ?thesis using Cons by simp
  qed
next
  case (Cons c a)
  have "\<not> starts_with ((c # a) @ p @ r) p" using Cons.prems [of 0] by simp
  moreover have "str_find (a @ p @ r) p = Some (length a)"
  proof (rule Cons.IH)
    fix j assume "j < length a"
    then show "\<not> starts_with (drop j a @ p @ r) p" using Cons.prems [of "Suc j"] by simp
  qed
  ultimately show ?case by simp
qed

text \<open>\<open>str::replace\<close> for a non-empty pattern.\<close>

function (sequential) str_replace :: "'a list \<Rightarrow> 'a list \<Rightarrow> 'a list \<Rightarrow> 'a list" where
  "str_replace [] p r = []"
| "str_replace (c # s) p r =
    (if p \<noteq> [] \<and> starts_with (c # s) p
     then r @ str_replace (drop (length p) (c # s)) p r
     else c # str_replace s p r)"
  by pat_completeness auto
termination
  by (relation "measure (\<lambda>(s, p, r). length s)") (auto simp: neq_Nil_conv)

text \<open>\<open>str::split\<close> on one character.\<close>

fun str_split :: "'a \<Rightarrow> 'a list \<Rightarrow> 'a list list" where
  "str_split d [] = [[]]"
| "str_split d (c # s) =
    (if c = d then [] # str_split d s
     else (case str_split d s of [] \<Rightarrow> [[c]] | w # ws \<Rightarrow> (c # w) # ws))"

lemma str_split_not_Nil [simp]: "str_split d s \<noteq> []"
  by (induction s) (auto split: list.splits)

lemma str_split_clean: "d \<notin> set s \<Longrightarrow> str_split d s = [s]"
  by (induction s) auto

lemma str_split_append: "d \<notin> set a \<Longrightarrow> str_split d (a @ d # b) = a # str_split d b"
  by (induction a) auto

lemma str_split_pieces: "w \<in> set (str_split d s) \<Longrightarrow> d \<notin> set w"
  by (induction s arbitrary: w) (auto split: list.splits if_splits)

text \<open>\<open>str::trim\<close> on the ASCII white space characters.\<close>

definition is_space :: "char \<Rightarrow> bool" where
  "is_space c = (of_char c \<in> {9, 10, 11, 12, 13, 32 :: nat})"

definition trim :: "string \<Rightarrow> string" where
  "trim s = rev (dropWhile is_space (rev (dropWhile is_space s)))"

lemma trim_no_space: "(\<And>c. c \<in> set s \<Longrightarrow> \<not> is_space c) \<Longrightarrow> trim s = s"
proof -
  assume *: "\<And>c. c \<in> set s \<Longrightarrow> \<not> is_space c"
  have "dropWhile is_space s = s" using * by (cases s) auto
  moreover have "dropWhile is_space (rev s) = rev s"
  proof (cases "rev s")
    case Nil
    then show ?thesis by simp
  next
    case (Cons c r)
    then have "c \<in> set s" by (metis list.set_intros(1) set_rev)
    then show ?thesis using * Cons by simp
  qed
  ultimately show ?thesis by (simp add: trim_def)
qed

text \<open>
  \<open>str::to_lowercase\<close>, on the ASCII letters: no other character of Unicode has a lower-case
  form made of the letters and digits of the names compared.
\<close>

definition lower_char :: "char \<Rightarrow> char" where
  "lower_char c = (if (65 :: nat) \<le> of_char c \<and> of_char c \<le> (90 :: nat) then char_of (of_char c + (32 :: nat)) else c)"

definition to_lowercase :: "string \<Rightarrow> string" where
  "to_lowercase s = map lower_char s"

text \<open>Decimal printing of a natural number (\<open>to_string\<close> on the unsigned types).\<close>

fun dec_string :: "nat \<Rightarrow> string" where
  "dec_string n =
    (if n < 10 then [char_of (48 + n)] else dec_string (n div 10) @ [char_of (48 + n mod 10)])"

declare dec_string.simps [simp del]

lemma dec_string_not_Nil [simp]: "dec_string n \<noteq> []"
  by (subst dec_string.simps) simp

lemma dec_string_inj: "dec_string m = dec_string n \<Longrightarrow> m = n"
proof (induction m arbitrary: n rule: dec_string.induct)
  case (1 m)
  have digit: "char_of (48 + a) = (char_of (48 + b) :: char) \<Longrightarrow> a < 10 \<Longrightarrow> b < 10 \<Longrightarrow> a = b" for a b :: nat
  proof -
    assume e: "char_of (48 + a) = (char_of (48 + b) :: char)" and ab: "a < 10" "b < 10"
    have "of_char (char_of (48 + a) :: char) = (of_char (char_of (48 + b) :: char) :: nat)"
      using e by simp
    then show "a = b" using ab by (simp add: of_char_of)
  qed
  have eq: "dec_string m = dec_string n" by (rule 1)
  show ?case
  proof (cases "m < 10")
    case True
    then have "dec_string n = [char_of (48 + m)]" using eq by (simp add: dec_string.simps [of m])
    then show ?thesis using True digit by (auto simp: dec_string.simps [of n] split: if_splits)
  next
    case False
    then have m: "dec_string m = dec_string (m div 10) @ [char_of (48 + m mod 10)]"
      by (simp add: dec_string.simps [of m])
    show ?thesis
    proof (cases "n < 10")
      case True
      then show ?thesis using eq m by (simp add: dec_string.simps [of n])
    next
      case n: False
      then have n': "dec_string n = dec_string (n div 10) @ [char_of (48 + n mod 10)]"
        by (simp add: dec_string.simps [of n])
      have "dec_string (m div 10) = dec_string (n div 10)"
        and last: "char_of (48 + m mod 10) = (char_of (48 + n mod 10) :: char)"
        using eq m n' by auto
      then have "m div 10 = n div 10" using 1(1) False by blast
      moreover have "m mod 10 = n mod 10" using digit [OF last] by simp
      ultimately show ?thesis by (metis div_mult_mod_eq)
    qed
  qed
qed

text \<open>Decimal printing of an integer (\<open>to_string\<close> on the signed types).\<close>

definition int_string :: "int \<Rightarrow> string" where
  "int_string i = (if i < 0 then ''-'' @ dec_string (nat (- i)) else dec_string (nat i))"

section \<open>UTF-8\<close>

text \<open>\<open>std::str::from_utf8\<close> accepts the well-formed byte sequences of the Unicode standard.\<close>

definition cont_byte :: "u8 \<Rightarrow> bool" where
  "cont_byte b \<longleftrightarrow> 0x80 \<le> b \<and> b \<le> 0xBF"

fun utf8_valid :: "bytes \<Rightarrow> bool" where
  "utf8_valid [] = True"
| "utf8_valid (a # r) =
    (if a < 0x80 then utf8_valid r
     else if a < 0xC2 then False
     else if a < 0xE0 then
       (case r of b # r1 \<Rightarrow> cont_byte b \<and> utf8_valid r1 | _ \<Rightarrow> False)
     else if a < 0xF0 then
       (case r of b # c # r1 \<Rightarrow>
           cont_byte b \<and> cont_byte c \<and> (a = 0xE0 \<longrightarrow> 0xA0 \<le> b) \<and> (a = 0xED \<longrightarrow> b < 0xA0)
           \<and> utf8_valid r1
         | _ \<Rightarrow> False)
     else if a < 0xF5 then
       (case r of b # c # d # r1 \<Rightarrow>
           cont_byte b \<and> cont_byte c \<and> cont_byte d \<and> (a = 0xF0 \<longrightarrow> 0x90 \<le> b)
           \<and> (a = 0xF4 \<longrightarrow> b < 0x90) \<and> utf8_valid r1
         | _ \<Rightarrow> False)
     else False)"

definition bytes_string :: "bytes \<Rightarrow> string" where
  "bytes_string b = map (\<lambda>w. char_of (unat w)) b"

definition string_bytes :: "string \<Rightarrow> bytes" where
  "string_bytes s = map (\<lambda>c. word_of_nat (of_char c)) s"

definition from_utf8 :: "bytes \<Rightarrow> string option" where
  "from_utf8 b = (if utf8_valid b then Some (bytes_string b) else None)"

text \<open>The letter e with an acute accent, in UTF-8.\<close>

definition e_acute :: string where
  "e_acute = [CHR 0xC3, CHR 0xA9]"

lemma utf8_ascii: "(\<And>b. b \<in> set bs \<Longrightarrow> b < 0x80) \<Longrightarrow> utf8_valid bs"
  by (induction bs) auto

lemma bytes_string_bytes [simp]: "bytes_string (string_bytes s) = s"
proof -
  have "char_of (unat (word_of_nat (of_char c) :: u8)) = c" for c
  proof -
    have "(of_char c :: nat) < 256" by simp
    then show ?thesis by (simp add: unat_of_nat take_bit_nat_eq_self)
  qed
  then show ?thesis by (simp add: bytes_string_def string_bytes_def comp_def)
qed

section \<open>Reads of byte vectors\<close>

definition sub_vec :: "'a list \<Rightarrow> nat \<Rightarrow> nat \<Rightarrow> 'a list" where
  "sub_vec xs i j = take (j - i) (drop i xs)"

end
