(* ===== verification/Framing.thy ===== *)
theory Framing
  imports Prelude
begin

text \<open>
  Length-prefixed frames.  Every channel of the program sends a fixed-width length followed
  by that many bytes: big-endian on the QUIC streams and on the host-agent channel,
  little-endian on the capture channel of the agent.  A byte stream is the list of bytes
  the peer has sent; \<open>read_exact\<close> fails when the stream ends early.  The locale
  \<open>len_prefix\<close> states what a length encoding promises and proves once that frames are
  recovered from the concatenation of their encodings; it is interpreted on both encodings.
\<close>

datatype read_error = UnexpectedEof | BadLength nat

definition read_exact :: "nat \<Rightarrow> bytes \<Rightarrow> (read_error, bytes \<times> bytes) result" where
  "read_exact n s = (if length s < n then Err UnexpectedEof else Ok (take n s, drop n s))"

lemma read_exact_append [simp]: "length a = n \<Longrightarrow> read_exact n (a @ r) = Ok (a, r)"
  by (simp add: read_exact_def)

lemma read_exact_all [simp]: "read_exact (length a) a = Ok (a, [])"
  by (simp add: read_exact_def)

lemma read_exact_SomeD:
  "read_exact n s = Inr (a, r) \<Longrightarrow> s = a @ r \<and> length a = n"
  by (auto simp: read_exact_def split: if_splits)

text \<open>Read a length of \<open>w\<close> bytes, check it, read the payload.\<close>

definition read_frame ::
  "nat \<Rightarrow> (bytes \<Rightarrow> nat) \<Rightarrow> (nat \<Rightarrow> bool) \<Rightarrow> bytes \<Rightarrow> (read_error, bytes \<times> bytes) result"
where
  "read_frame w dec ok s =
    bind_result (read_exact w s) (\<lambda>(l, r).
      if ok (dec l) then read_exact (dec l) r else Err (BadLength (dec l)))"

definition write_frame :: "(nat \<Rightarrow> bytes) \<Rightarrow> bytes \<Rightarrow> bytes" where
  "write_frame enc p = enc (length p) @ p"

text \<open>Read frames until the stream is used up; the fuel is the number of frames.\<close>

fun read_frames ::
  "nat \<Rightarrow> (bytes \<Rightarrow> nat) \<Rightarrow> (nat \<Rightarrow> bool) \<Rightarrow> nat \<Rightarrow> bytes \<Rightarrow> bytes list \<times> bytes"
where
  "read_frames w dec ok 0 s = ([], s)"
| "read_frames w dec ok (Suc n) s =
    (case read_frame w dec ok s of
      Inl _ \<Rightarrow> ([], s)
    | Inr (p, r) \<Rightarrow> (let (ps, r') = read_frames w dec ok n r in (p # ps, r')))"

locale len_prefix =
  fixes width :: nat
    and enc :: "nat \<Rightarrow> bytes"
    and dec :: "bytes \<Rightarrow> nat"
    and bound :: nat
  assumes enc_width: "length (enc n) = width"
    and dec_enc: "n < bound \<Longrightarrow> dec (enc n) = n"
begin

lemma read_write:
  assumes "length p < bound" "ok (length p)"
  shows "read_frame width dec ok (write_frame enc p @ r) = Ok (p, r)"
  using assms by (simp add: read_frame_def write_frame_def enc_width dec_enc)

lemma read_write_rejects:
  assumes "length p < bound" "\<not> ok (length p)"
  shows "read_frame width dec ok (write_frame enc p @ r) = Err (BadLength (length p))"
  using assms by (simp add: read_frame_def write_frame_def enc_width dec_enc)

lemma read_write_all:
  assumes "\<And>p. p \<in> set ps \<Longrightarrow> length p < bound \<and> ok (length p)"
  shows "read_frames width dec ok (length ps) (concat (map (write_frame enc) ps) @ r) = (ps, r)"
  using assms
proof (induction ps)
  case Nil
  then show ?case by simp
next
  case (Cons p ps)
  have "read_frame width dec ok (write_frame enc p @ concat (map (write_frame enc) ps) @ r)
      = Ok (p, concat (map (write_frame enc) ps) @ r)"
    using Cons.prems [of p] by (intro read_write) auto
  then show ?case using Cons by simp
qed

lemma write_frame_length: "length (write_frame enc p) = width + length p"
  by (simp add: write_frame_def enc_width)

lemma write_frame_inj:
  assumes "write_frame enc p @ r = write_frame enc q @ s" "length p < bound" "length q < bound"
  shows "p = q \<and> r = s"
proof -
  have "read_frame width dec (\<lambda>_. True) (write_frame enc p @ r) = Ok (p, r)"
    using assms(2) by (simp add: read_write)
  moreover have "read_frame width dec (\<lambda>_. True) (write_frame enc q @ s) = Ok (q, s)"
    using assms(3) by (simp add: read_write)
  ultimately show ?thesis unfolding assms(1) by simp
qed

end

text \<open>\<open>u32::to_be_bytes\<close> and \<open>u32::to_le_bytes\<close>, of a length cast with \<open>as u32\<close>.\<close>

definition be32 :: "nat \<Rightarrow> bytes" where
  "be32 n = be_bytes 4 (n mod 2 ^ 32)"

definition le32 :: "nat \<Rightarrow> bytes" where
  "le32 n = le_bytes 4 (n mod 2 ^ 32)"

lemma length_be32 [simp]: "length (be32 n) = 4" and length_le32 [simp]: "length (le32 n) = 4"
  by (simp_all add: be32_def le32_def)

lemma be_nat_be32 [simp]: "n < 2 ^ 32 \<Longrightarrow> be_nat (be32 n) = n"
  using be_nat_be_bytes [of n 4] by (simp add: be32_def)

lemma le_nat_le32 [simp]: "n < 2 ^ 32 \<Longrightarrow> le_nat (le32 n) = n"
  using le_nat_le_bytes [of n 4] by (simp add: le32_def)

interpretation be_frames: len_prefix 4 be32 be_nat "2 ^ 32"
  by unfold_locales simp_all

interpretation le_frames: len_prefix 4 le32 le_nat "2 ^ 32"
  by unfold_locales simp_all

lemma read_frame_consumes:
  assumes "read_frame w dec ok s = Inr (p, r)"
  shows "length s = w + length p + length r" "ok (length p)"
  using assms unfolding read_frame_def
  by (auto simp: read_exact_def bind_result_def split: sum.splits if_splits)

lemma read_frames_all:
  "read_frames w dec ok n s = (ps, r) \<Longrightarrow> p \<in> set ps \<Longrightarrow> ok (length p)"
proof (induction n arbitrary: s ps r)
  case 0
  then show ?case by simp
next
  case (Suc n)
  show ?case
  proof (cases "read_frame w dec ok s")
    case (Inl e)
    then show ?thesis using Suc.prems by simp
  next
    case (Inr x)
    obtain q t where x: "x = (q, t)" by (cases x)
    obtain qs t' where rest: "read_frames w dec ok n t = (qs, t')"
      by (cases "read_frames w dec ok n t")
    have "ps = q # qs" using Suc.prems Inr x rest by simp
    then show ?thesis using Suc.IH [OF rest] Suc.prems(2) read_frame_consumes(2) [of w dec ok s q t] Inr x
      by auto
  qed
qed

end
