(* ===== verification/HostProto.thy ===== *)
theory HostProto
  imports Framing
begin

text \<open>
  The broker to host-agent protocol (\<open>nidan-proto/src/host_agent.rs\<close>).  Requests are the
  constructors of \<open>agent_request\<close>; a response carries an optional JSON value.  The JSON
  library is not part of the program: the shapes of value the protocol exchanges are the
  constructors of \<open>json_value\<close>, \<open>JOther\<close> standing for any value that is neither a VM nor a
  list of VMs, and printing to and parsing from bytes are parameters of the operations.
\<close>

definition host_agent_default_port :: u32 where
  "host_agent_default_port = 6900"

definition vmaddr_cid_host :: u32 where
  "vmaddr_cid_host = 2"

datatype agent_request =
    ListVms string
  | GetStatus string
  | CloneVm (clone_template: string) (clone_new_name: string)
  | StartVm string
  | StopVm string
  | DeleteVm string
  | SetVsockCid string u32

record agent_vm =
  av_provider_id :: string
  av_name :: string
  av_status :: string

datatype json_value = JVm agent_vm | JVms "agent_vm list" | JOther

record agent_response =
  success :: bool
  ar_result :: "json_value option"
  ar_error :: "string option"

datatype agent_error = AgentMsg string | UnknownError | MissingResult | BadResult

definition ok_empty :: agent_response where
  "ok_empty = \<lparr>success = True, ar_result = None, ar_error = None\<rparr>"

definition ok_with :: "('a \<Rightarrow> json_value) \<Rightarrow> 'a \<Rightarrow> agent_response" where
  "ok_with to_value v = \<lparr>success = True, ar_result = Some (to_value v), ar_error = None\<rparr>"

definition resp_err :: "string \<Rightarrow> agent_response" where
  "resp_err m = \<lparr>success = False, ar_result = None, ar_error = Some m\<rparr>"

definition response_error :: "agent_response \<Rightarrow> agent_error" where
  "response_error r = (case ar_error r of Some m \<Rightarrow> AgentMsg m | None \<Rightarrow> UnknownError)"

definition into_result :: "(json_value \<Rightarrow> 'a option) \<Rightarrow> agent_response \<Rightarrow> (agent_error, 'a) result"
where
  "into_result from_value r =
    (if \<not> success r then Err (response_error r)
     else bind_result (ok_or (ar_result r) MissingResult)
       (\<lambda>v. ok_or (from_value v) BadResult))"

definition into_unit_result :: "agent_response \<Rightarrow> (agent_error, unit) result" where
  "into_unit_result r = (if success r then Ok () else Err (response_error r))"

fun vm_of_value :: "json_value \<Rightarrow> agent_vm option" where
  "vm_of_value (JVm v) = Some v"
| "vm_of_value (JVms _) = None"
| "vm_of_value JOther = None"

fun vms_of_value :: "json_value \<Rightarrow> agent_vm list option" where
  "vms_of_value (JVms vs) = Some vs"
| "vms_of_value (JVm _) = None"
| "vms_of_value JOther = None"

lemma into_result_ok_with [simp]:
  "from_value (to_value v) = Some v \<Longrightarrow> into_result from_value (ok_with to_value v) = Ok v"
  by (simp add: into_result_def ok_with_def)

lemma into_result_err [simp]: "into_result f (resp_err m) = Err (AgentMsg m)"
  by (simp add: into_result_def resp_err_def response_error_def)

lemma into_result_ok_empty [simp]: "into_result f ok_empty = Err MissingResult"
  by (simp add: into_result_def ok_empty_def)

lemma into_unit_result_simps [simp]:
  "into_unit_result ok_empty = Ok ()"
  "into_unit_result (ok_with t v) = Ok ()"
  "into_unit_result (resp_err m) = Err (AgentMsg m)"
  by (simp_all add: into_unit_result_def ok_empty_def ok_with_def resp_err_def response_error_def)

section \<open>Messages\<close>

text \<open>
  \<open>encode_message\<close> and \<open>decode_message\<close> of \<open>nidan-proto/src/lib.rs\<close>: the JSON text of a
  message behind its length on four bytes, big-endian.
\<close>

definition encode_message :: "('a \<Rightarrow> bytes option) \<Rightarrow> 'a \<Rightarrow> bytes option" where
  "encode_message to_json m = map_option (write_frame be32) (to_json m)"

definition decode_message :: "(bytes \<Rightarrow> 'a option) \<Rightarrow> bytes \<Rightarrow> 'a option" where
  "decode_message of_json b = of_json b"

end
