(* ===== verification/Provider.thy ===== *)
theory Provider
  imports HostProto
begin

text \<open>
  The abstraction of VM back ends (\<open>nidan-broker/src/provider/mod.rs\<close>).  A back end answers
  each call of the trait \<open>VmProvider\<close> from the calls it received before, newest first; the
  hypervisor behind it is outside the program.  Two back ends of the source are modelled:
  \<open>static_provider\<close>, which refuses every dynamic operation, and \<open>host_agent_provider\<close>
  (\<open>nidan-broker/src/provider/host_agent.rs\<close>), which sends each call over vsock.
\<close>

datatype vm_status = Running | Stopped | Unknown string

record provider_vm =
  provider_id :: string
  pv_name :: "string option"
  pv_status :: vm_status

datatype provider_call =
    PListVms
  | PGetStatus string
  | PCloneVm string string
  | PStartVm string
  | PStopVm string
  | PDeleteVm string
  | PSetVsockCid string u32

type_synonym calls = "provider_call list"

datatype provider_error =
    StaticUnsupported string
  | ConnectFailed
  | SerialiseFailed
  | TransportFailed read_error
  | ResponseTooLarge nat
  | BadResponse
  | AgentFailed string agent_error
  | BackendFailed string

record vm_provider =
  backend_name :: string
  vp_list_vms :: "calls \<Rightarrow> (provider_error, provider_vm list) result"
  vp_get_status :: "calls \<Rightarrow> string \<Rightarrow> (provider_error, provider_vm) result"
  vp_clone_vm :: "calls \<Rightarrow> string \<Rightarrow> string \<Rightarrow> (provider_error, provider_vm) result"
  vp_start_vm :: "calls \<Rightarrow> string \<Rightarrow> (provider_error, unit) result"
  vp_stop_vm :: "calls \<Rightarrow> string \<Rightarrow> (provider_error, unit) result"
  vp_delete_vm :: "calls \<Rightarrow> string \<Rightarrow> (provider_error, unit) result"
  vp_set_vsock_cid :: "calls \<Rightarrow> string \<Rightarrow> u32 \<Rightarrow> (provider_error, unit) result"

definition static_provider :: vm_provider where
  "static_provider = \<lparr>
    backend_name = ''static'',
    vp_list_vms = (\<lambda>_. Ok []),
    vp_get_status = (\<lambda>_ _. Err (StaticUnsupported ''get_status'')),
    vp_clone_vm = (\<lambda>_ _ _. Err (StaticUnsupported ''clone'')),
    vp_start_vm = (\<lambda>_ _. Err (StaticUnsupported ''start'')),
    vp_stop_vm = (\<lambda>_ _. Err (StaticUnsupported ''stop'')),
    vp_delete_vm = (\<lambda>_ _. Err (StaticUnsupported ''delete'')),
    vp_set_vsock_cid = (\<lambda>_ _ _. Err (StaticUnsupported ''set_vsock_cid''))\<rparr>"

section \<open>The host-agent back end\<close>

record host_agent_provider_config =
  host_cid :: u32
  hp_port :: u32
  vm_prefix :: string
  connect_timeout_secs :: u64

definition default_host_agent_provider_config :: host_agent_provider_config where
  "default_host_agent_provider_config =
    \<lparr>host_cid = 2, hp_port = 6900, vm_prefix = ''nidan-'', connect_timeout_secs = 5\<rparr>"

text \<open>
  The vsock transport: connecting to a peer and writing bytes yields the bytes the peer
  writes back before it closes, or nothing when the connection fails.
\<close>

type_synonym transport = "calls \<Rightarrow> u32 \<Rightarrow> u32 \<Rightarrow> bytes \<Rightarrow> bytes option"

definition max_response :: nat where "max_response = 1024 * 1024"

definition send_request ::
  "(agent_request \<Rightarrow> bytes option) \<Rightarrow> (bytes \<Rightarrow> agent_response option) \<Rightarrow> transport \<Rightarrow>
    host_agent_provider_config \<Rightarrow> calls \<Rightarrow> agent_request \<Rightarrow> (provider_error, agent_response) result"
where
  "send_request to_json of_json net cfg cs req =
    bind_result (ok_or (to_json req) SerialiseFailed) (\<lambda>payload.
    bind_result (ok_or (net cs (host_cid cfg) (hp_port cfg) (write_frame be32 payload)) ConnectFailed)
      (\<lambda>stream.
    case read_exact 4 stream of
      Inl e \<Rightarrow> Err (TransportFailed e)
    | Inr (resp_len, rest) \<Rightarrow>
        (let resp_size = be_nat resp_len in
         if max_response < resp_size then Err (ResponseTooLarge resp_size)
         else (case read_exact resp_size rest of
           Inl e \<Rightarrow> Err (TransportFailed e)
         | Inr (buf, _) \<Rightarrow> ok_or (of_json buf) BadResponse))))"

definition agent_vm_to_provider :: "agent_vm \<Rightarrow> provider_vm" where
  "agent_vm_to_provider v = \<lparr>
    provider_id = av_provider_id v,
    pv_name = Some (av_name v),
    pv_status = (if av_status v = ''running'' then Running
      else if av_status v = ''stopped'' then Stopped
      else Unknown (av_status v))\<rparr>"

definition agent_result :: "string \<Rightarrow> (agent_error, 'a) result \<Rightarrow> (provider_error, 'a) result" where
  "agent_result what r = (case r of Inl e \<Rightarrow> Err (AgentFailed what e) | Inr a \<Rightarrow> Ok a)"

definition agent_list_vms ::
  "(calls \<Rightarrow> agent_request \<Rightarrow> (provider_error, agent_response) result) \<Rightarrow> string \<Rightarrow> calls \<Rightarrow>
    (provider_error, provider_vm list) result"
where
  "agent_list_vms send prefix cs =
    bind_result (send cs (ListVms prefix)) (\<lambda>resp.
    bind_result (agent_result ''list_vms'' (into_result vms_of_value resp)) (\<lambda>vms.
      Ok (map agent_vm_to_provider vms)))"

definition agent_vm_op ::
  "(calls \<Rightarrow> agent_request \<Rightarrow> (provider_error, agent_response) result) \<Rightarrow> string \<Rightarrow> agent_request \<Rightarrow>
    calls \<Rightarrow> (provider_error, provider_vm) result"
where
  "agent_vm_op send what req cs =
    bind_result (send cs req) (\<lambda>resp.
    bind_result (agent_result what (into_result vm_of_value resp)) (\<lambda>vm.
      Ok (agent_vm_to_provider vm)))"

definition agent_unit_op ::
  "(calls \<Rightarrow> agent_request \<Rightarrow> (provider_error, agent_response) result) \<Rightarrow> string \<Rightarrow> agent_request \<Rightarrow>
    calls \<Rightarrow> (provider_error, unit) result"
where
  "agent_unit_op send what req cs =
    bind_result (send cs req) (\<lambda>resp. agent_result what (into_unit_result resp))"

definition host_agent_provider ::
  "(calls \<Rightarrow> agent_request \<Rightarrow> (provider_error, agent_response) result) \<Rightarrow> string \<Rightarrow> vm_provider"
where
  "host_agent_provider send prefix = \<lparr>
    backend_name = ''host-agent'',
    vp_list_vms = agent_list_vms send prefix,
    vp_get_status = (\<lambda>cs i. agent_vm_op send ''get_status'' (GetStatus i) cs),
    vp_clone_vm = (\<lambda>cs t n. agent_vm_op send ''clone_vm'' (CloneVm t n) cs),
    vp_start_vm = (\<lambda>cs i. agent_unit_op send ''start_vm'' (StartVm i) cs),
    vp_stop_vm = (\<lambda>cs i. agent_unit_op send ''stop_vm'' (StopVm i) cs),
    vp_delete_vm = (\<lambda>cs i. agent_unit_op send ''delete_vm'' (DeleteVm i) cs),
    vp_set_vsock_cid = (\<lambda>cs i cid. agent_unit_op send ''set_vsock_cid'' (SetVsockCid i cid) cs)\<rparr>"

section \<open>Choice of the back end\<close>

datatype backend_error = ProxmoxUnsupported | LibvirtSectionMissing | HostAgentSectionMissing | UnknownBackend string

datatype backend = StaticBackend | LibvirtBackend | HostAgentBackend

definition build_provider :: "string \<Rightarrow> bool \<Rightarrow> bool \<Rightarrow> (backend_error, backend) result" where
  "build_provider name has_libvirt has_host_agent =
    (if name = ''static'' then Ok StaticBackend
     else if name = ''proxmox'' then Err ProxmoxUnsupported
     else if name = ''libvirt'' then (if has_libvirt then Ok LibvirtBackend else Err LibvirtSectionMissing)
     else if name = ''host-agent'' then
       (if has_host_agent then Ok HostAgentBackend else Err HostAgentSectionMissing)
     else Err (UnknownBackend name))"

lemma agent_result_simps [simp]:
  "agent_result w (Inr a) = Ok a" "agent_result w (Inl e) = Err (AgentFailed w e)"
  by (simp_all add: agent_result_def)

lemma static_provider_simps [simp]:
  "vp_list_vms static_provider cs = Ok []"
  "vp_get_status static_provider cs i = Err (StaticUnsupported ''get_status'')"
  "vp_clone_vm static_provider cs t n = Err (StaticUnsupported ''clone'')"
  "vp_start_vm static_provider cs i = Err (StaticUnsupported ''start'')"
  "vp_stop_vm static_provider cs i = Err (StaticUnsupported ''stop'')"
  "vp_delete_vm static_provider cs i = Err (StaticUnsupported ''delete'')"
  "vp_set_vsock_cid static_provider cs i cid = Err (StaticUnsupported ''set_vsock_cid'')"
  by (simp_all add: static_provider_def)

text \<open>A response that fits the limit reaches the caller as the host agent wrote it.\<close>

lemma send_request_delivers:
  assumes "to_json req = Some p" "length b \<le> max_response" "of_json b = Some resp"
    and "net cs (host_cid cfg) (hp_port cfg) (write_frame be32 p) = Some (write_frame be32 b)"
  shows "send_request to_json of_json net cfg cs req = Ok resp"
proof -
  have "length b < 2 ^ 32" using assms(2) by (simp add: max_response_def)
  then show ?thesis using assms by (simp add: send_request_def write_frame_def)
qed

end
