(* ===== verification/CidAlloc.thy ===== *)
theory CidAlloc
  imports Prelude
begin

text \<open>
  The allocator of vsock identifiers (\<open>CidAllocator\<close> of \<open>nidan-broker/src/pool/mod.rs\<close>).
  The locale \<open>cid_source\<close> is the contract the pool relies on: an allocated identifier is
  fresh and in range, and releasing it makes it available again.  The client lemmas about
  runs of allocations and releases are proved in the locale and hold for the allocator of
  the code by the interpretation.
\<close>

record cid_allocator =
  cid_lo :: u32
  cid_hi :: u32
  used :: "u32 list"

definition cid_new :: "u32 \<Rightarrow> u32 \<Rightarrow> cid_allocator" where
  "cid_new lo hi = \<lparr>cid_lo = lo, cid_hi = hi, used = []\<rparr>"

text \<open>The loop \<open>for cid in start..=end\<close>, with the numbers of the range still to be tried.\<close>

fun first_free :: "nat list \<Rightarrow> u32 list \<Rightarrow> u32 option" where
  "first_free [] us = None"
| "first_free (c # cs) us =
    (if word_of_nat c \<in> set us then first_free cs us else Some (word_of_nat c))"

definition cid_range :: "cid_allocator \<Rightarrow> nat list" where
  "cid_range a = [unat (cid_lo a)..<Suc (unat (cid_hi a))]"

definition allocate :: "cid_allocator \<Rightarrow> u32 option \<times> cid_allocator" where
  "allocate a =
    (case first_free (cid_range a) (used a) of
      None \<Rightarrow> (None, a)
    | Some c \<Rightarrow> (Some c, a\<lparr>used := c # used a\<rparr>))"

definition cid_release :: "u32 \<Rightarrow> cid_allocator \<Rightarrow> cid_allocator" where
  "cid_release c a = a\<lparr>used := filter (\<lambda>x. x \<noteq> c) (used a)\<rparr>"

text \<open>\<open>(self.end - self.start + 1) as usize - self.used.len()\<close>: the first part in \<open>u32\<close>, the
  subtraction in \<open>usize\<close>, both wrapping in the cid_release profile.\<close>

definition cid_available :: "cid_allocator \<Rightarrow> u64" where
  "cid_available a = ucast (cid_hi a - cid_lo a + 1) - word_of_nat (length (used a))"

definition alloc_inv :: "cid_allocator \<Rightarrow> bool" where
  "alloc_inv a \<longleftrightarrow> distinct (used a) \<and> (\<forall>c \<in> set (used a). cid_lo a \<le> c \<and> c \<le> cid_hi a)"

lemma new_inv [inv_intros]: "alloc_inv (cid_new lo hi)"
  by (simp add: alloc_inv_def cid_new_def)

lemma first_free_Some:
  "first_free cs us = Some c \<Longrightarrow> c \<notin> set us \<and> (\<exists>n \<in> set cs. c = word_of_nat n)"
  by (induction cs) (auto split: if_splits)

lemma first_free_None: "first_free cs us = None \<longleftrightarrow> (\<forall>n \<in> set cs. word_of_nat n \<in> set us)"
  by (induction cs) auto

lemma mem_cid_range:
  "(\<exists>n \<in> set (cid_range a). c = word_of_nat n) \<longleftrightarrow> cid_lo a \<le> c \<and> c \<le> cid_hi a"
proof
  assume "\<exists>n \<in> set (cid_range a). c = word_of_nat n"
  then obtain n where n: "unat (cid_lo a) \<le> n" "n \<le> unat (cid_hi a)" "c = word_of_nat n"
    by (auto simp: cid_range_def)
  have "n < 2 ^ 32" using n(2) unat_u32 [of "cid_hi a"] by simp
  then have "unat c = n" using n(3) by (simp add: unat_of_nat take_bit_nat_eq_self)
  then show "cid_lo a \<le> c \<and> c \<le> cid_hi a" using n by (simp add: word_le_nat_alt)
next
  assume *: "cid_lo a \<le> c \<and> c \<le> cid_hi a"
  then have "unat c \<in> set (cid_range a)"
    by (auto simp: cid_range_def word_le_nat_alt)
  then show "\<exists>n \<in> set (cid_range a). c = word_of_nat n" by (intro bexI [of _ "unat c"]) simp_all
qed

lemma allocate_Some:
  assumes "allocate a = (Some c, a')"
  shows "c \<notin> set (used a)" "cid_lo a \<le> c" "c \<le> cid_hi a" "used a' = c # used a"
    "cid_lo a' = cid_lo a" "cid_hi a' = cid_hi a"
proof -
  have f: "first_free (cid_range a) (used a) = Some c" and a': "a' = a\<lparr>used := c # used a\<rparr>"
    using assms by (auto simp: allocate_def split: option.splits)
  show "c \<notin> set (used a)" using first_free_Some [OF f] by blast
  show "cid_lo a \<le> c" "c \<le> cid_hi a" using first_free_Some [OF f] mem_cid_range by blast+
  show "used a' = c # used a" "cid_lo a' = cid_lo a" "cid_hi a' = cid_hi a" using a' by simp_all
qed

lemma allocate_None:
  "allocate a = (None, a') \<longleftrightarrow> a' = a \<and> (\<forall>c. cid_lo a \<le> c \<and> c \<le> cid_hi a \<longrightarrow> c \<in> set (used a))"
proof -
  have "first_free (cid_range a) (used a) = None
      \<longleftrightarrow> (\<forall>c. cid_lo a \<le> c \<and> c \<le> cid_hi a \<longrightarrow> c \<in> set (used a))"
    unfolding first_free_None using mem_cid_range by metis
  then show ?thesis by (auto simp: allocate_def split: option.splits)
qed

lemma allocate_inv [inv_intros]:
  assumes "alloc_inv a" "allocate a = (r, a')"
  shows "alloc_inv a'"
proof (cases r)
  case None
  then show ?thesis using assms by (simp add: allocate_None)
next
  case (Some c)
  then have *: "allocate a = (Some c, a')" using assms(2) by simp
  show ?thesis using allocate_Some [OF *] assms(1) by (auto simp: alloc_inv_def)
qed

lemma cid_release_inv [inv_intros]: "alloc_inv a \<Longrightarrow> alloc_inv (cid_release c a)"
  by (simp add: alloc_inv_def cid_release_def)

lemma used_release [simp]: "set (used (cid_release c a)) = set (used a) - {c}"
  by (auto simp: cid_release_def)

lemma range_release [simp]: "cid_lo (cid_release c a) = cid_lo a" "cid_hi (cid_release c a) = cid_hi a"
  by (simp_all add: cid_release_def)

section \<open>The contract\<close>

locale cid_source =
  fixes alloc :: "'s \<Rightarrow> 'c option \<times> 's"
    and free :: "'c \<Rightarrow> 's \<Rightarrow> 's"
    and in_use :: "'s \<Rightarrow> 'c set"
    and valid :: "'s \<Rightarrow> 'c \<Rightarrow> bool"
    and inv :: "'s \<Rightarrow> bool"
  assumes alloc_fresh: "inv s \<Longrightarrow> alloc s = (Some c, s') \<Longrightarrow> c \<notin> in_use s \<and> valid s c"
    and alloc_uses: "inv s \<Longrightarrow> alloc s = (Some c, s') \<Longrightarrow> in_use s' = insert c (in_use s)"
    and alloc_fails: "inv s \<Longrightarrow> alloc s = (None, s') \<Longrightarrow> s' = s \<and> (\<forall>c. valid s c \<longrightarrow> c \<in> in_use s)"
    and alloc_inv: "inv s \<Longrightarrow> alloc s = (r, s') \<Longrightarrow> inv s'"
    and alloc_valid: "inv s \<Longrightarrow> alloc s = (r, s') \<Longrightarrow> valid s' = valid s"
    and free_uses: "inv s \<Longrightarrow> in_use (free c s) = in_use s - {c}"
    and free_inv: "inv s \<Longrightarrow> inv (free c s)"
    and free_valid: "inv s \<Longrightarrow> valid (free c s) = valid s"
begin

text \<open>An allocation that is undone leaves the identifiers in use as they were.\<close>

lemma alloc_free_same: "inv s \<Longrightarrow> alloc s = (Some c, s') \<Longrightarrow> in_use (free c s') = in_use s"
  using alloc_fresh alloc_uses alloc_inv free_uses by fastforce

fun alloc_many :: "nat \<Rightarrow> 's \<Rightarrow> 'c list \<times> 's" where
  "alloc_many 0 s = ([], s)"
| "alloc_many (Suc n) s =
    (case alloc s of
      (None, s') \<Rightarrow> ([], s')
    | (Some c, s') \<Rightarrow> (let (cs, s'') = alloc_many n s' in (c # cs, s'')))"

lemma alloc_many_distinct:
  "inv s \<Longrightarrow> alloc_many n s = (cs, s') \<Longrightarrow>
    distinct cs \<and> set cs \<inter> in_use s = {} \<and> in_use s' = in_use s \<union> set cs \<and> inv s'"
proof (induction n arbitrary: s cs s')
  case 0
  then show ?case by simp
next
  case (Suc n)
  obtain r t where a: "alloc s = (r, t)" by (cases "alloc s")
  show ?case
  proof (cases r)
    case None
    then show ?thesis using Suc.prems a alloc_fails by auto
  next
    case (Some c)
    obtain ds u where m: "alloc_many n t = (ds, u)" by (cases "alloc_many n t")
    have t: "inv t" "in_use t = insert c (in_use s)" "c \<notin> in_use s"
      using alloc_inv alloc_uses alloc_fresh Suc.prems(1) a Some by blast+
    have eq: "cs = c # ds" "s' = u" using Suc.prems(2) a Some m by simp_all
    show ?thesis using Suc.IH [OF t(1) m] t eq by auto
  qed
qed

end

interpretation cids: cid_source allocate cid_release "\<lambda>a. set (used a)"
  "\<lambda>a c. cid_lo a \<le> c \<and> c \<le> cid_hi a" alloc_inv
proof unfold_locales
  fix s c s' assume "alloc_inv s" "allocate s = (Some c, s')"
  then show "c \<notin> set (used s) \<and> cid_lo s \<le> c \<and> c \<le> cid_hi s"
    and "set (used s') = insert c (set (used s))"
    using allocate_Some by auto
next
  fix s s' assume "alloc_inv s" "allocate s = (None, s')"
  then show "s' = s \<and> (\<forall>c. cid_lo s \<le> c \<and> c \<le> cid_hi s \<longrightarrow> c \<in> set (used s))"
    using allocate_None by blast
next
  fix s s' and r :: "u32 option" assume "alloc_inv s" "allocate s = (r, s')"
  then show "alloc_inv s'" and "(\<lambda>c. cid_lo s' \<le> c \<and> c \<le> cid_hi s') = (\<lambda>c. cid_lo s \<le> c \<and> c \<le> cid_hi s)"
    by (simp_all add: allocate_inv) (cases r, simp_all add: allocate_None allocate_Some)
qed (auto intro: cid_release_inv)

text \<open>The number of free identifiers, when the range is proper.\<close>

lemma available_count:
  assumes "alloc_inv a" "cid_lo a \<le> cid_hi a" "cid_hi a - cid_lo a < max_word"
  shows "unat (cid_available a) + length (used a) = unat (cid_hi a - cid_lo a) + 1"
proof -
  let ?n = "unat (cid_hi a - cid_lo a) + 1"
  have card: "length (used a) \<le> ?n"
  proof -
    have inj: "inj_on unat (set (used a))" by (auto intro: inj_onI simp: word_unat_eq_iff)
    have sub: "unat ` set (used a) \<subseteq> {unat (cid_lo a)..unat (cid_hi a)}"
      using assms(1) by (auto simp: alloc_inv_def word_le_nat_alt)
    have "length (used a) = card (set (used a))"
      using assms(1) by (simp add: alloc_inv_def distinct_card)
    also have "\<dots> = card (unat ` set (used a))" using inj by (simp add: card_image)
    also have "\<dots> \<le> card {unat (cid_lo a)..unat (cid_hi a)}" using sub by (intro card_mono) auto
    also have "\<dots> = ?n" using assms(2) by (simp add: unat_sub word_le_nat_alt)
    finally show ?thesis .
  qed
  have "cid_hi a - cid_lo a \<noteq> - 1" using assms(3) by auto
  then have "1 + (cid_hi a - cid_lo a) \<noteq> 0" by (metis add.commute eq_neg_iff_add_eq_0)
  then have n: "unat (cid_hi a - cid_lo a + 1) = ?n"
    using unatSuc [of "cid_hi a - cid_lo a"] by (simp add: add.commute)
  have "?n < 2 ^ 64" using unat_u32 [of "cid_hi a - cid_lo a"] by simp
  then have u: "unat (ucast (cid_hi a - cid_lo a + 1) :: u64) = ?n"
    using n by (simp add: unsigned_ucast_eq take_bit_nat_eq_self)
  have l: "unat (word_of_nat (length (used a)) :: u64) = length (used a)"
    using card \<open>?n < 2 ^ 64\<close> by (simp add: unat_of_nat take_bit_nat_eq_self)
  show ?thesis unfolding cid_available_def using u l card
    by (simp add: unat_sub word_le_nat_alt)
qed

end
