(* ===== verification/Pool.thy ===== *)
theory Pool
  imports Provider CidAlloc
begin

text \<open>
  The VM pool of the broker (\<open>nidan-broker/src/pool/mod.rs\<close>): static and cloned VMs, their
  assignment to sessions, the warm pool, and the three garbage collectors.  The state is
  the record \<open>pool\<close>; every operation returns it updated, with the calls made to the
  provider recorded newest first.  An operation that reads the clock takes the reading as
  its argument \<open>now\<close>.
\<close>

section \<open>Data\<close>

datatype vm_state =
    Available
  | WarmReady (warm_since: timestamp)
  | Assigned (session_id: string) (assigned_since: timestamp)
  | Initializing
  | Unhealthy string timestamp
  | Disabled

definition is_available :: "vm_state \<Rightarrow> bool" where
  "is_available s = (s = Available)"

text \<open>The labels of the states, in UTF-8.\<close>

fun label :: "vm_state \<Rightarrow> string" where
  "label Available = ''disponible''"
| "label (WarmReady _) = ''chaude''"
| "label (Assigned _ _) = ''assign'' @ e_acute @ ''e''"
| "label Initializing = ''init''"
| "label (Unhealthy _ _) = ''hors service''"
| "label Disabled = ''d'' @ e_acute @ ''sactiv'' @ e_acute @ ''e''"

record vm_pool_entry =
  e_id :: string
  e_host :: string
  e_port :: u16
  e_tags :: "string list"
  e_state :: vm_state
  added_at :: timestamp
  last_health :: "timestamp option"
  sessions_served :: u64
  dynamic :: bool
  e_provider_id :: "string option"
  e_cid :: "u32 option"
  user_id :: "string option"

definition addr :: "vm_pool_entry \<Rightarrow> string" where
  "addr e = e_host e @ '':'' @ dec_string (unat (e_port e))"

record vm_static =
  vs_id :: string
  vs_host :: string
  vs_port :: u16
  vs_tags :: "string list"

record dynamic_config =
  template :: string
  vm_port :: u16
  cid_start :: u32
  cid_end :: u32
  vm_ip_pattern :: string
  min_ready :: u32
  max_total :: u32
  boot_timeout_secs :: u64
  gc_orphan_interval_secs :: u64
  orphan_grace_secs :: u64
  max_per_user :: u32
  protected_vms :: "string list"

record pool_config =
  static_vms :: "vm_static list"
  min_available :: nat
  health_check_timeout_secs :: u64
  health_check_interval_secs :: u64
  dynamic_cfg :: "dynamic_config option"

record pool =
  vms :: "(string \<times> vm_pool_entry) list"
  cid_alloc :: cid_allocator
  calls :: calls
  replenish_permit :: bool
  orphan_candidates :: "(string \<times> timestamp) list"

datatype pool_error =
    NoVmAvailable
  | VmVanished string
  | GlobalQuota nat u32
  | UserQuota nat u32
  | NoDynamicPool
  | NoCidLeft
  | CloneFailed provider_error
  | StartFailed provider_error

section \<open>Construction\<close>

definition static_entry :: "timestamp \<Rightarrow> vm_static \<Rightarrow> vm_pool_entry" where
  "static_entry now v = \<lparr>e_id = vs_id v, e_host = vs_host v, e_port = vs_port v,
    e_tags = vs_tags v, e_state = Available, added_at = now, last_health = None,
    sessions_served = 0, dynamic = False, e_provider_id = None, e_cid = None, user_id = None\<rparr>"

definition build :: "pool_config \<Rightarrow> timestamp \<Rightarrow> pool" where
  "build cfg now = \<lparr>
    vms = fold (\<lambda>v. AList.update (vs_id v) (static_entry now v)) (static_vms cfg) [],
    cid_alloc = (case dynamic_cfg cfg of
        Some dc \<Rightarrow> cid_new (cid_start dc) (cid_end dc) | None \<Rightarrow> cid_new 10 99),
    calls = [], replenish_permit = False, orphan_candidates = []\<rparr>"

section \<open>Counting and searching\<close>

definition entries :: "pool \<Rightarrow> vm_pool_entry list" where
  "entries p = map snd (vms p)"

fun is_warm :: "vm_state \<Rightarrow> bool" where
  "is_warm (WarmReady _) = True"
| "is_warm _ = False"

fun is_assigned :: "vm_state \<Rightarrow> bool" where
  "is_assigned (Assigned _ _) = True"
| "is_assigned _ = False"

fun is_unhealthy :: "vm_state \<Rightarrow> bool" where
  "is_unhealthy (Unhealthy _ _) = True"
| "is_unhealthy _ = False"

definition warm_count :: "pool \<Rightarrow> nat" where
  "warm_count p = count_vals (\<lambda>e. is_warm (e_state e)) (vms p)"

definition user_dynamic_count :: "pool \<Rightarrow> string \<Rightarrow> nat" where
  "user_dynamic_count p u = count_vals (\<lambda>e. dynamic e \<and> user_id e = Some u) (vms p)"

definition total_dynamic :: "pool \<Rightarrow> nat" where
  "total_dynamic p = count_vals dynamic (vms p)"

definition find_warm_ready :: "pool \<Rightarrow> string option" where
  "find_warm_ready p =
    map_option e_id (min_by_key (\<lambda>e. warm_since (e_state e))
      (filter (\<lambda>e. is_warm (e_state e)) (entries p)))"

definition find_available :: "pool \<Rightarrow> string option \<Rightarrow> string option" where
  "find_available p tag =
    map_option e_id (min_by_key sessions_served
      (filter (\<lambda>e. is_available (e_state e) \<and>
          (case tag of None \<Rightarrow> True | Some t \<Rightarrow> t \<in> set (e_tags e))) (entries p)))"

record pool_status =
  st_total :: nat
  st_available :: nat
  st_assigned :: nat
  st_unhealthy :: nat

definition status :: "pool \<Rightarrow> pool_status" where
  "status p = \<lparr>st_total = length (vms p),
    st_available = count_vals (\<lambda>e. is_available (e_state e)) (vms p),
    st_assigned = count_vals (\<lambda>e. is_assigned (e_state e)) (vms p),
    st_unhealthy = count_vals (\<lambda>e. is_unhealthy (e_state e)) (vms p)\<rparr>"

definition get :: "pool \<Rightarrow> string \<Rightarrow> vm_pool_entry option" where
  "get p i = map_of (vms p) i"

definition insert_vm :: "string \<Rightarrow> vm_pool_entry \<Rightarrow> pool \<Rightarrow> pool" where
  "insert_vm i e p = p\<lparr>vms := AList.update i e (vms p)\<rparr>"

definition remove_vm :: "string \<Rightarrow> pool \<Rightarrow> pool" where
  "remove_vm i p = p\<lparr>vms := AList.delete i (vms p)\<rparr>"

definition trigger_replenish :: "pool \<Rightarrow> pool" where
  "trigger_replenish p = p\<lparr>replenish_permit := True\<rparr>"

section \<open>Calls to the provider\<close>

definition call :: "provider_call \<Rightarrow> (calls \<Rightarrow> 'a) \<Rightarrow> pool \<Rightarrow> 'a \<times> pool" where
  "call c answer p = (answer (calls p), p\<lparr>calls := c # calls p\<rparr>)"

definition alloc_cid :: "pool \<Rightarrow> u32 option \<times> pool" where
  "alloc_cid p = (case allocate (cid_alloc p) of (r, a) \<Rightarrow> (r, p\<lparr>cid_alloc := a\<rparr>))"

definition free_cid :: "u32 \<Rightarrow> pool \<Rightarrow> pool" where
  "free_cid c p = p\<lparr>cid_alloc := cid_release c (cid_alloc p)\<rparr>"

text \<open>
  The clone, vsock configuration and start of a new VM, common to the warm pool and to the
  provisioning on demand; a failed clone gives its identifier back, a failed start also
  deletes the clone, a failed vsock configuration is only logged.
\<close>

definition boot_clone ::
  "vm_provider \<Rightarrow> dynamic_config \<Rightarrow> u32 \<Rightarrow> pool \<Rightarrow> (pool_error, provider_vm) result \<times> pool"
where
  "boot_clone prov dc cid p =
    (case call (PCloneVm (template dc) []) (\<lambda>cs. vp_clone_vm prov cs (template dc) []) p of
      (Inl e, p1) \<Rightarrow> (Err (CloneFailed e), free_cid cid p1)
    | (Inr new_vm, p1) \<Rightarrow>
        (let pid = provider_id new_vm in
         case call (PSetVsockCid pid cid) (\<lambda>cs. vp_set_vsock_cid prov cs pid cid) p1 of
           (_, p2) \<Rightarrow>
        (case call (PStartVm pid) (\<lambda>cs. vp_start_vm prov cs pid) p2 of
           (Inl e, p3) \<Rightarrow>
             (case call (PDeleteVm pid) (\<lambda>cs. vp_delete_vm prov cs pid) p3 of
               (_, p4) \<Rightarrow> (Err (StartFailed e), free_cid cid p4))
         | (Inr _, p3) \<Rightarrow> (Ok new_vm, p3))))"

definition cid_host_address :: "dynamic_config \<Rightarrow> u32 \<Rightarrow> string" where
  "cid_host_address dc cid = str_replace (vm_ip_pattern dc) ''{cid}'' (dec_string (unat cid))"

definition clone_entry ::
  "dynamic_config \<Rightarrow> timestamp \<Rightarrow> u32 \<Rightarrow> string \<Rightarrow> string \<Rightarrow> vm_state \<Rightarrow> u64 \<Rightarrow> string option \<Rightarrow> vm_pool_entry"
where
  "clone_entry dc now cid name pid st served user = \<lparr>e_id = name,
    e_host = cid_host_address dc cid, e_port = vm_port dc, e_tags = [''dynamic''],
    e_state = st, added_at = now, last_health = None, sessions_served = served,
    dynamic = True, e_provider_id = Some pid, e_cid = Some cid, user_id = user\<rparr>"

section \<open>Assignment\<close>

definition assign ::
  "timestamp \<Rightarrow> string \<Rightarrow> string option \<Rightarrow> pool \<Rightarrow> (pool_error, vm_pool_entry) result \<times> pool"
where
  "assign now sid tag p =
    (case (case find_available p tag of Some i \<Rightarrow> Some i | None \<Rightarrow> find_available p None) of
      None \<Rightarrow> (Err NoVmAvailable, p)
    | Some i \<Rightarrow>
        (case get p i of
          None \<Rightarrow> (Err (VmVanished i), p)
        | Some e \<Rightarrow>
            let e' = e\<lparr>e_state := Assigned sid now, sessions_served := sessions_served e + 1\<rparr>
            in (Ok e', insert_vm i e' p)))"

definition quota_error :: "pool_config \<Rightarrow> string \<Rightarrow> pool \<Rightarrow> pool_error option" where
  "quota_error cfg user p =
    (case dynamic_cfg cfg of
      None \<Rightarrow> None
    | Some dc \<Rightarrow>
        if unat (max_total dc) \<le> total_dynamic p
        then Some (GlobalQuota (total_dynamic p) (max_total dc))
        else if unat (max_per_user dc) \<le> user_dynamic_count p user
        then Some (UserQuota (user_dynamic_count p user) (max_per_user dc))
        else None)"

definition provision_cold ::
  "vm_provider \<Rightarrow> pool_config \<Rightarrow> timestamp \<Rightarrow> string \<Rightarrow> string \<Rightarrow> pool \<Rightarrow>
    (pool_error, vm_pool_entry) result \<times> pool"
where
  "provision_cold prov cfg now sid user p =
    (case dynamic_cfg cfg of
      None \<Rightarrow> (Err NoDynamicPool, p)
    | Some dc \<Rightarrow>
        (case alloc_cid p of
          (None, p1) \<Rightarrow> (Err NoCidLeft, p1)
        | (Some cid, p1) \<Rightarrow>
            (case boot_clone prov dc cid p1 of
              (Inl e, p2) \<Rightarrow> (Err e, p2)
            | (Inr new_vm, p2) \<Rightarrow>
                let name = (case pv_name new_vm of
                        Some n \<Rightarrow> n | None \<Rightarrow> ''dyn-'' @ dec_string (unat cid));
                    e = clone_entry dc now cid name (provider_id new_vm)
                          (Assigned sid now) 1 (Some user)
                in (Ok e, insert_vm name e p2))))"

definition assign_or_provision ::
  "vm_provider \<Rightarrow> pool_config \<Rightarrow> timestamp \<Rightarrow> string \<Rightarrow> string option \<Rightarrow> string \<Rightarrow> pool \<Rightarrow>
    (pool_error, vm_pool_entry) result \<times> pool"
where
  "assign_or_provision prov cfg now sid tag user p =
    (case assign now sid tag p of
      (Inr e, p') \<Rightarrow> (Ok e, p')
    | (Inl _, _) \<Rightarrow>
        (case quota_error cfg user p of
          Some err \<Rightarrow> (Err err, p)
        | None \<Rightarrow>
            (case Option.bind (find_warm_ready p) (\<lambda>i. map_option (\<lambda>e. (i, e)) (get p i)) of
              Some (i, e) \<Rightarrow>
                let e' = e\<lparr>e_state := Assigned sid now,
                      sessions_served := sessions_served e + 1, user_id := Some user\<rparr>
                in (Ok e', trigger_replenish (insert_vm i e' p))
            | None \<Rightarrow> provision_cold prov cfg now sid user p)))"

section \<open>The warm pool\<close>

definition provision_warm_vm ::
  "vm_provider \<Rightarrow> pool_config \<Rightarrow> timestamp \<Rightarrow> pool \<Rightarrow> (pool_error, unit) result \<times> pool"
where
  "provision_warm_vm prov cfg now p =
    (case dynamic_cfg cfg of
      None \<Rightarrow> (Err NoDynamicPool, p)
    | Some dc \<Rightarrow>
        (case alloc_cid p of
          (None, p1) \<Rightarrow> (Err NoCidLeft, p1)
        | (Some cid, p1) \<Rightarrow>
            (case boot_clone prov dc cid p1 of
              (Inl e, p2) \<Rightarrow> (Err e, p2)
            | (Inr new_vm, p2) \<Rightarrow>
                let name = (case pv_name new_vm of
                        Some n \<Rightarrow> n | None \<Rightarrow> ''warm-'' @ dec_string (unat cid));
                    e = clone_entry dc now cid name (provider_id new_vm) (WarmReady now) 0 None
                in (Ok (), insert_vm name e p2))))"

text \<open>
  The loop of \<open>replenish\<close> ends because each round that succeeds takes an identifier from the
  allocator: the measure is the number of identifiers left.
\<close>

definition free_cids :: "cid_allocator \<Rightarrow> nat" where
  "free_cids a = length (filter (\<lambda>n. word_of_nat n \<notin> set (used a)) (cid_range a))"

lemma filter_length_less:
  assumes "x \<in> set xs" "P x" "\<not> Q x" "\<And>y. Q y \<Longrightarrow> P y"
  shows "length (filter Q xs) < length (filter P xs)"
proof -
  have "length (filter Q ys) \<le> length (filter P ys)" for ys
    by (induction ys) (use assms(4) in auto)
  then show ?thesis using assms(1-3)
    by (induction xs) (auto simp: le_imp_less_Suc assms(4))
qed

lemma free_cids_allocate:
  assumes "allocate a = (Some c, a')"
  shows "free_cids a' < free_cids a"
proof -
  obtain n where n: "n \<in> set (cid_range a)" "c = word_of_nat n"
    using allocate_Some(2,3) [OF assms] mem_cid_range by blast
  have "cid_range a' = cid_range a" using allocate_Some [OF assms] by (simp add: cid_range_def)
  then show ?thesis unfolding free_cids_def
    using n allocate_Some(1,4) [OF assms] by (auto intro!: filter_length_less)
qed

lemma call_simps [simp]:
  "vms (snd (call c f p)) = vms p" "cid_alloc (snd (call c f p)) = cid_alloc p"
  "orphan_candidates (snd (call c f p)) = orphan_candidates p"
  "replenish_permit (snd (call c f p)) = replenish_permit p"
  "calls (snd (call c f p)) = c # calls p"
  by (simp_all add: call_def)

lemma boot_clone_Ok:
  assumes "boot_clone prov dc cid p = (Inr v, p')"
  shows "vms p' = vms p" "cid_alloc p' = cid_alloc p"
    "orphan_candidates p' = orphan_candidates p" "replenish_permit p' = replenish_permit p"
    "\<exists>cs. vp_clone_vm prov cs (template dc) [] = Ok v"
  using assms
  by (auto simp: boot_clone_def call_def Let_def split: prod.splits sum.splits)

lemma boot_clone_Err:
  assumes "boot_clone prov dc cid p = (Inl e, p')"
  shows "vms p' = vms p" "cid_alloc p' = cid_release cid (cid_alloc p)"
    "orphan_candidates p' = orphan_candidates p" "replenish_permit p' = replenish_permit p"
  using assms
  by (auto simp: boot_clone_def call_def free_cid_def Let_def split: prod.splits sum.splits)

lemma provision_warm_uses_cid:
  assumes "provision_warm_vm prov cfg now p = (Inr u, p')"
  shows "free_cids (cid_alloc p') < free_cids (cid_alloc p)"
proof -
  obtain dc c p1 v p2 where "dynamic_cfg cfg = Some dc" and a: "alloc_cid p = (Some c, p1)"
    and b: "boot_clone prov dc c p1 = (Inr v, p2)" and p': "cid_alloc p' = cid_alloc p2"
    using assms unfolding provision_warm_vm_def
    by (auto simp: Let_def insert_vm_def split: option.splits prod.splits sum.splits)
  have "allocate (cid_alloc p) = (Some c, cid_alloc p1)"
    using a by (auto simp: alloc_cid_def split: prod.splits)
  then show ?thesis using free_cids_allocate boot_clone_Ok(2) [OF b] p' by simp
qed

function replenish :: "vm_provider \<Rightarrow> pool_config \<Rightarrow> timestamp \<Rightarrow> pool \<Rightarrow> pool" where
  "replenish prov cfg now p =
    (case dynamic_cfg cfg of
      None \<Rightarrow> p
    | Some dc \<Rightarrow>
        if unat (min_ready dc) \<le> warm_count p then p
        else if unat (max_total dc) \<le> total_dynamic p then p
        else (case provision_warm_vm prov cfg now p of
            (Inl _, p') \<Rightarrow> p'
          | (Inr _, p') \<Rightarrow> replenish prov cfg now p'))"
  by pat_completeness auto
termination
  by (relation "measure (\<lambda>(_, _, _, p). free_cids (cid_alloc p))")
    (auto dest!: sym [of _ "provision_warm_vm _ _ _ _"] provision_warm_uses_cid)

declare replenish.simps [simp del]

section \<open>Release\<close>

definition best_effort_destroy :: "vm_provider \<Rightarrow> string \<Rightarrow> pool \<Rightarrow> pool" where
  "best_effort_destroy prov pid p =
    snd (call (PDeleteVm pid) (\<lambda>cs. vp_delete_vm prov cs pid)
      (snd (call (PStopVm pid) (\<lambda>cs. vp_stop_vm prov cs pid) p)))"

definition free_opt :: "u32 option \<Rightarrow> pool \<Rightarrow> pool" where
  "free_opt c p = (case c of None \<Rightarrow> p | Some cid \<Rightarrow> free_cid cid p)"

definition release :: "vm_provider \<Rightarrow> string \<Rightarrow> string \<Rightarrow> pool \<Rightarrow> pool" where
  "release prov i sid p =
    (case get p i of
      None \<Rightarrow> p
    | Some e \<Rightarrow>
        (case e_state e of
          Assigned s _ \<Rightarrow>
            if s \<noteq> sid then p
            else if dynamic e then
              (let p1 = (case e_provider_id e of
                     None \<Rightarrow> p | Some pid \<Rightarrow> best_effort_destroy prov pid p)
               in trigger_replenish (remove_vm i (free_opt (e_cid e) p1)))
            else insert_vm i (e\<lparr>e_state := Available\<rparr>) p
        | _ \<Rightarrow> p))"

definition mark_unhealthy :: "timestamp \<Rightarrow> string \<Rightarrow> string \<Rightarrow> pool \<Rightarrow> pool" where
  "mark_unhealthy now i reason p =
    (case get p i of
      None \<Rightarrow> p
    | Some e \<Rightarrow> insert_vm i (e\<lparr>e_state := Unhealthy reason now\<rparr>) p)"

section \<open>Garbage collection\<close>

definition expired :: "timestamp \<Rightarrow> u64 \<Rightarrow> pool \<Rightarrow> (string \<times> string) list" where
  "expired now max_age p =
    List.map_filter (\<lambda>e. case e_state e of
        Assigned sid since \<Rightarrow>
          if sint max_age < num_seconds (now - since) then Some (e_id e, sid) else None
      | _ \<Rightarrow> None) (entries p)"

definition gc_expired_sessions :: "vm_provider \<Rightarrow> timestamp \<Rightarrow> u64 \<Rightarrow> pool \<Rightarrow> pool" where
  "gc_expired_sessions prov now max_age p =
    (let ex = expired now max_age p in
     if ex = [] then p
     else trigger_replenish (fold (\<lambda>(i, sid). release prov i sid) ex p))"

definition stale :: "provider_vm list \<Rightarrow> pool \<Rightarrow> (string \<times> u32 option) list" where
  "stale listed p =
    List.map_filter (\<lambda>e. case e_provider_id e of
        None \<Rightarrow> None
      | Some pid \<Rightarrow>
          if dynamic e \<and> pid \<notin> provider_id ` set listed then Some (e_id e, e_cid e) else None)
      (entries p)"

definition gc_stale_sessions :: "vm_provider \<Rightarrow> pool_config \<Rightarrow> pool \<Rightarrow> pool" where
  "gc_stale_sessions prov cfg p =
    (case dynamic_cfg cfg of
      None \<Rightarrow> p
    | Some _ \<Rightarrow>
        (case call PListVms (vp_list_vms prov) p of
          (Inl _, p1) \<Rightarrow> p1
        | (Inr listed, p1) \<Rightarrow>
            (let st = stale listed p1 in
             if st = [] then p1
             else trigger_replenish
               (fold (\<lambda>(i, c) q. remove_vm i (free_opt c q)) st p1))))"

definition known_pids :: "pool \<Rightarrow> string list" where
  "known_pids p = List.map_filter e_provider_id (entries p)"

definition is_orphan :: "dynamic_config \<Rightarrow> string list \<Rightarrow> provider_vm \<Rightarrow> bool" where
  "is_orphan dc known vm =
    (let name = (case pv_name vm of None \<Rightarrow> [] | Some n \<Rightarrow> n) in
     if name = template dc \<or> provider_id vm = template dc then False
     else if name \<in> set (protected_vms dc) then False
     else provider_id vm \<notin> set known)"

definition collect_orphan ::
  "vm_provider \<Rightarrow> dynamic_config \<Rightarrow> bool \<Rightarrow> timestamp \<Rightarrow> provider_vm \<Rightarrow> nat \<times> pool \<Rightarrow> nat \<times> pool"
where
  "collect_orphan prov dc skip_grace now vm = (\<lambda>(destroyed, p).
    let pid = provider_id vm;
        first_seen = (case map_of (orphan_candidates p) pid of Some t \<Rightarrow> t | None \<Rightarrow> now);
        p1 = (case map_of (orphan_candidates p) pid of
            Some _ \<Rightarrow> p
          | None \<Rightarrow> p\<lparr>orphan_candidates := AList.update pid now (orphan_candidates p)\<rparr>);
        age = num_seconds (now - first_seen)
    in if \<not> skip_grace \<and> age < sint (orphan_grace_secs dc) then (destroyed, p1)
       else
         let p2 = (if pv_status vm = Running
               then snd (call (PStopVm pid) (\<lambda>cs. vp_stop_vm prov cs pid) p1) else p1)
         in (case call (PDeleteVm pid) (\<lambda>cs. vp_delete_vm prov cs pid) p2 of
              (Inr _, p3) \<Rightarrow>
                (Suc destroyed, p3\<lparr>orphan_candidates := AList.delete pid (orphan_candidates p3)\<rparr>)
            | (Inl _, p3) \<Rightarrow> (destroyed, p3)))"

definition cleanup_orphans ::
  "vm_provider \<Rightarrow> pool_config \<Rightarrow> bool \<Rightarrow> timestamp \<Rightarrow> pool \<Rightarrow> nat \<times> pool"
where
  "cleanup_orphans prov cfg skip_grace now p =
    (case dynamic_cfg cfg of
      None \<Rightarrow> (0, p)
    | Some dc \<Rightarrow>
        (case call PListVms (vp_list_vms prov) p of
          (Inl _, p1) \<Rightarrow> (0, p1)
        | (Inr listed, p1) \<Rightarrow>
            (let orphans = filter (is_orphan dc (known_pids p1)) listed in
             if orphans = [] then (0, p1\<lparr>orphan_candidates := []\<rparr>)
             else
               (let p2 = p1\<lparr>orphan_candidates :=
                   filter (\<lambda>(pid, _). pid \<in> provider_id ` set orphans) (orphan_candidates p1)\<rparr>
                in fold (collect_orphan prov dc skip_grace now) orphans (0, p2)))))"

section \<open>Background loops\<close>

definition replenish_boot :: "vm_provider \<Rightarrow> pool_config \<Rightarrow> timestamp \<Rightarrow> pool \<Rightarrow> pool" where
  "replenish_boot prov cfg now p =
    replenish prov cfg now (snd (cleanup_orphans prov cfg True now p))"

definition gc_round :: "vm_provider \<Rightarrow> pool_config \<Rightarrow> timestamp \<Rightarrow> pool \<Rightarrow> pool" where
  "gc_round prov cfg now p =
    gc_stale_sessions prov cfg (snd (cleanup_orphans prov cfg False now p))"

text \<open>One VM of a round of health checks, with the answer of the probe of its address.\<close>

definition health_check_vm :: "(string \<Rightarrow> bool) \<Rightarrow> timestamp \<Rightarrow> string \<Rightarrow> pool \<Rightarrow> pool" where
  "health_check_vm ping now i p =
    (case get p i of
      None \<Rightarrow> p
    | Some e \<Rightarrow>
        let healthy = ping (addr e); e1 = e\<lparr>last_health := Some now\<rparr>;
            e2 = (if \<not> healthy then
                    (if is_available (e_state e)
                     then e1\<lparr>e_state := Unhealthy ''health check timeout'' now\<rparr> else e1)
                  else if is_unhealthy (e_state e) then e1\<lparr>e_state := Available\<rparr> else e1)
        in insert_vm i e2 p)"

definition health_check_round :: "(string \<Rightarrow> bool) \<Rightarrow> timestamp \<Rightarrow> pool \<Rightarrow> pool" where
  "health_check_round ping now p =
    fold (health_check_vm ping now)
      (map e_id (filter (\<lambda>e. e_state e \<noteq> Disabled) (entries p))) p"

end
