(* ===== verification/BrokerConfig.thy ===== *)
theory BrokerConfig
  imports Pool
begin

text \<open>
  The configuration of the broker (\<open>nidan-broker/src/config.rs\<close>) with the values of absent
  fields, its validation and the default configuration that the program falls back to.
  Reading the file and parsing TOML are not modelled; whether a path exists is the
  parameter \<open>exists_path\<close> of the validation.
\<close>

section \<open>Sections of the configuration\<close>

record tls_config =
  ca_cert :: string
  tls_cert :: string
  tls_key :: string
  allowed_client_domains :: "string list"

record network_config =
  quic_bind :: string
  admin_bind :: string
  session_timeout_secs :: u64
  max_sessions :: nat
  proxy_address :: "string option"

record jwt_config =
  jwt_secret :: string
  jwt_issuer :: string

record kerberos_config =
  keytab_path :: string
  service_principal :: string
  krb_realm :: string

record oidc_config =
  issuer_url :: string
  client_id :: string
  audience :: string
  identity_claim :: string

record auth_config =
  enabled_methods :: "string list"
  jwt_cfg :: jwt_config
  kerberos_cfg :: "kerberos_config option"
  oidc_cfg :: "oidc_config option"
  session_token_ttl_secs :: u64

record security_config =
  rate_limit_auth :: bool
  max_auth_attempts :: u32
  ban_duration_secs :: u64
  audit_all_auth :: bool

record admin_config =
  admin_token :: "string option"
  metrics_enabled :: bool

record libvirt_provider_config =
  lp_uri :: string
  storage_pool :: string
  lp_vm_prefix :: string

record provider_config =
  provider_backend :: string
  libvirt_section :: "libvirt_provider_config option"
  host_agent_section :: "host_agent_provider_config option"

record broker_config =
  network :: network_config
  auth_section :: auth_config
  pool_section :: pool_config
  tls :: tls_config
  security :: security_config
  admin :: admin_config
  provider_section :: provider_config

section \<open>Default values\<close>

definition default_dynamic_config :: "string \<Rightarrow> dynamic_config" where
  "default_dynamic_config tmpl = \<lparr>template = tmpl, vm_port = 7444, cid_start = 10, cid_end = 99,
    vm_ip_pattern = ''192.168.122.{cid}'', min_ready = 3, max_total = 10, boot_timeout_secs = 120,
    gc_orphan_interval_secs = 60, orphan_grace_secs = 180, max_per_user = 3, protected_vms = []\<rparr>"

definition default_provider_config :: provider_config where
  "default_provider_config = \<lparr>provider_backend = ''static'', libvirt_section = None,
    host_agent_section = None\<rparr>"

definition default_libvirt_provider_config :: libvirt_provider_config where
  "default_libvirt_provider_config = \<lparr>lp_uri = ''qemu:///system'', storage_pool = ''default'',
    lp_vm_prefix = ''nidan-''\<rparr>"

definition default_network_config :: network_config where
  "default_network_config = \<lparr>quic_bind = ''0.0.0.0:7443'', admin_bind = ''127.0.0.1:7080'',
    session_timeout_secs = 3600, max_sessions = 100, proxy_address = None\<rparr>"

definition default_auth_config :: auth_config where
  "default_auth_config = \<lparr>enabled_methods = [''mtls''],
    jwt_cfg = \<lparr>jwt_secret = ''CHANGEME_minimum_32_chars_secret!'', jwt_issuer = ''nidan-broker''\<rparr>,
    kerberos_cfg = None, oidc_cfg = None, session_token_ttl_secs = 300\<rparr>"

definition default_security_config :: security_config where
  "default_security_config = \<lparr>rate_limit_auth = True, max_auth_attempts = 5,
    ban_duration_secs = 300, audit_all_auth = True\<rparr>"

definition default_broker_config :: broker_config where
  "default_broker_config = \<lparr>network = default_network_config, auth_section = default_auth_config,
    pool_section = \<lparr>static_vms = [], min_available = 1, health_check_timeout_secs = 5,
      health_check_interval_secs = 30, dynamic_cfg = None\<rparr>,
    tls = \<lparr>ca_cert = ''/etc/nidan/certs/ca.crt'', tls_cert = ''/etc/nidan/certs/broker.crt'',
      tls_key = ''/etc/nidan/certs/broker.key'', allowed_client_domains = []\<rparr>,
    security = default_security_config,
    admin = \<lparr>admin_token = None, metrics_enabled = True\<rparr>,
    provider_section = default_provider_config\<rparr>"

section \<open>Validation\<close>

datatype broker_config_error =
    QuicBindEmpty
  | JwtSecretTooShort
  | CaCertMissing string
  | InvalidStaticVm
  | UnknownProviderBackend string
  | LibvirtSectionAbsent
  | HostAgentSectionAbsent

definition provider_validate :: "provider_config \<Rightarrow> (broker_config_error, unit) result" where
  "provider_validate p =
    (if provider_backend p \<notin> {''static'', ''proxmox'', ''libvirt'', ''host-agent''}
     then Err (UnknownProviderBackend (provider_backend p))
     else if provider_backend p = ''libvirt'' \<and> libvirt_section p = None
     then Err LibvirtSectionAbsent
     else if provider_backend p = ''host-agent'' \<and> host_agent_section p = None
     then Err HostAgentSectionAbsent
     else Ok ())"

definition broker_config_validate ::
  "(string \<Rightarrow> bool) \<Rightarrow> broker_config \<Rightarrow> (broker_config_error, unit) result"
where
  "broker_config_validate exists_path c =
    (if quic_bind (network c) = [] then Err QuicBindEmpty
     else if length (jwt_secret (jwt_cfg (auth_section c))) < 32 then Err JwtSecretTooShort
     else if \<not> exists_path (ca_cert (tls c)) then Err (CaCertMissing (ca_cert (tls c)))
     else if \<exists>v \<in> set (static_vms (pool_section c)). vs_id v = [] \<or> vs_host v = []
     then Err InvalidStaticVm
     else provider_validate (provider_section c))"

text \<open>The configuration a start-up uses: the file's, or the default when it cannot be loaded.\<close>

definition startup_config :: "('e, broker_config) result \<Rightarrow> broker_config" where
  "startup_config loaded = (case loaded of Inr c \<Rightarrow> c | Inl _ \<Rightarrow> default_broker_config)"

lemma provider_validate_backends:
  "provider_validate p = Ok () \<longleftrightarrow>
    provider_backend p = ''static'' \<or> provider_backend p = ''proxmox''
    \<or> provider_backend p = ''libvirt'' \<and> libvirt_section p \<noteq> None
    \<or> provider_backend p = ''host-agent'' \<and> host_agent_section p \<noteq> None"
  by (auto simp: provider_validate_def)

lemma default_dynamic_sane:
  "boot_timeout_secs (default_dynamic_config t) < orphan_grace_secs (default_dynamic_config t)
    \<and> max_total (default_dynamic_config t)
        \<le> cid_end (default_dynamic_config t) - cid_start (default_dynamic_config t)"
  by (simp add: default_dynamic_config_def)

text \<open>
  When the configuration file cannot be read or parsed, the broker starts with the default
  configuration, and validation accepts it as soon as a CA certificate is installed: session
  tokens are then signed with the secret printed in the source.
\<close>

theorem unreadable_config_uses_public_secret:
  assumes "exists_path ''/etc/nidan/certs/ca.crt''"
  shows "broker_config_validate exists_path (startup_config (Err e)) = Ok ()
    \<and> jwt_secret (jwt_cfg (auth_section (startup_config (Err e)))) = ''CHANGEME_minimum_32_chars_secret!''"
  using assms
  by (simp add: startup_config_def broker_config_validate_def default_broker_config_def
      default_network_config_def default_auth_config_def default_provider_config_def
      provider_validate_def)

theorem unreadable_config_uses_public_secret_witness:
  "broker_config_validate (\<lambda>p. p = ''/etc/nidan/certs/ca.crt'') (startup_config (Err ''parse'')) = Ok ()"
  using unreadable_config_uses_public_secret [of "\<lambda>p. p = ''/etc/nidan/certs/ca.crt''" "''parse''"]
  by simp

text \<open>
  A configuration that passes validation names a backend that the factory can build, with
  the one exception of \<open>proxmox\<close>, which validation accepts and the factory refuses.
\<close>

theorem validated_backend_builds:
  assumes "broker_config_validate exists_path c = Ok ()"
  shows "is_ok (build_provider (provider_backend (provider_section c))
      (libvirt_section (provider_section c) \<noteq> None) (host_agent_section (provider_section c) \<noteq> None))
    \<longleftrightarrow> provider_backend (provider_section c) \<noteq> ''proxmox''"
proof -
  have "provider_validate (provider_section c) = Ok ()"
    using assms by (simp add: broker_config_validate_def split: if_splits)
  then show ?thesis
    unfolding provider_validate_backends by (auto simp: build_provider_def)
qed

theorem validated_backend_builds_witness:
  "\<not> is_ok (build_provider ''proxmox'' False False)"
proof -
  let ?c = "default_broker_config\<lparr>provider_section := default_provider_config\<lparr>provider_backend := ''proxmox''\<rparr>\<rparr>"
  have "broker_config_validate (\<lambda>_. True) ?c = Ok ()"
    by (simp add: broker_config_validate_def default_broker_config_def
      default_network_config_def default_auth_config_def default_provider_config_def provider_validate_def)
  from validated_backend_builds [OF this] show ?thesis by (simp add: default_provider_config_def)
qed

end
