(* ===== verification/RateLimit.thy ===== *)
theory RateLimit
  imports Prelude
begin

text \<open>
  Rate limiting of authentication attempts (\<open>nidan-broker/src/auth/ratelimit.rs\<close>): failures
  of an address in a sliding window, and a ban once there are too many.  The locale
  \<open>attempt_limiter\<close> is what the authentication engine relies on; its client lemmas about
  histories of attempts hold for the limiter of the code by interpretation.
\<close>

type_synonym ip = string

record ip_entry =
  failures :: "timestamp list"
  banned_until :: "timestamp option"

definition ip_entry_new :: ip_entry where
  "ip_entry_new = \<lparr>failures = [], banned_until = None\<rparr>"

definition prune :: "timestamp \<Rightarrow> int \<Rightarrow> ip_entry \<Rightarrow> ip_entry" where
  "prune now window e = e\<lparr>failures := filter (\<lambda>t. now - window < t) (failures e)\<rparr>"

definition failure_count :: "timestamp \<Rightarrow> int \<Rightarrow> ip_entry \<Rightarrow> nat \<times> ip_entry" where
  "failure_count now window e = (let e' = prune now window e in (length (failures e'), e'))"

record rate_limiter =
  rl_entries :: "(ip \<times> ip_entry) list"
  max_failures :: u32
  ban_duration :: int
  rl_window :: int

definition rate_limiter_new :: "u32 \<Rightarrow> u64 \<Rightarrow> rate_limiter" where
  "rate_limiter_new max_f ban_secs = \<lparr>rl_entries = [], max_failures = max_f,
    ban_duration = secs (uint ban_secs), rl_window = secs 300\<rparr>"

definition is_banned :: "timestamp \<Rightarrow> ip \<Rightarrow> rate_limiter \<Rightarrow> bool" where
  "is_banned now i rl =
    (case map_of (rl_entries rl) i of
      None \<Rightarrow> False
    | Some e \<Rightarrow> (case banned_until e of None \<Rightarrow> False | Some t \<Rightarrow> now < t))"

definition is_rate_limited :: "timestamp \<Rightarrow> ip \<Rightarrow> rate_limiter \<Rightarrow> bool \<times> rate_limiter" where
  "is_rate_limited now i rl =
    (case map_of (rl_entries rl) i of
      None \<Rightarrow> (False, rl)
    | Some e \<Rightarrow>
        (case failure_count now (rl_window rl) e of
          (n, e') \<Rightarrow> (unat (max_failures rl) \<le> n,
            rl\<lparr>rl_entries := AList.update i e' (rl_entries rl)\<rparr>)))"

definition record_failure :: "timestamp \<Rightarrow> ip \<Rightarrow> rate_limiter \<Rightarrow> rate_limiter" where
  "record_failure now i rl =
    (let e0 = (case map_of (rl_entries rl) i of None \<Rightarrow> ip_entry_new | Some e \<Rightarrow> e);
         e1 = e0\<lparr>failures := failures e0 @ [now]\<rparr>
     in case failure_count now (rl_window rl) e1 of
          (n, e2) \<Rightarrow>
            let e3 = (if unat (max_failures rl) \<le> n
                      then e2\<lparr>banned_until := Some (now + ban_duration rl)\<rparr> else e2)
            in rl\<lparr>rl_entries := AList.update i e3 (rl_entries rl)\<rparr>)"

definition record_success :: "ip \<Rightarrow> rate_limiter \<Rightarrow> rate_limiter" where
  "record_success i rl = rl\<lparr>rl_entries := AList.delete i (rl_entries rl)\<rparr>"

record rate_limit_stats =
  tracked_ips :: nat
  banned_ips :: nat

definition stats :: "timestamp \<Rightarrow> rate_limiter \<Rightarrow> rate_limit_stats" where
  "stats now rl = \<lparr>tracked_ips = length (rl_entries rl),
    banned_ips = count_vals (\<lambda>e. case banned_until e of None \<Rightarrow> False | Some t \<Rightarrow> now < t) (rl_entries rl)\<rparr>"

section \<open>The contract\<close>

locale attempt_limiter =
  fixes banned :: "timestamp \<Rightarrow> 'k \<Rightarrow> 's \<Rightarrow> bool"
    and failure :: "timestamp \<Rightarrow> 'k \<Rightarrow> 's \<Rightarrow> 's"
    and success :: "'k \<Rightarrow> 's \<Rightarrow> 's"
  assumes failure_other: "k \<noteq> j \<Longrightarrow> banned t k (failure u j s) = banned t k s"
    and success_other: "k \<noteq> j \<Longrightarrow> banned t k (success j s) = banned t k s"
    and success_clears: "\<not> banned t k (success k s)"
begin

text \<open>What happens to other addresses never changes the verdict on an address.\<close>

fun event :: "'k \<times> timestamp option \<Rightarrow> 's \<Rightarrow> 's" where
  "event (j, Some u) s = failure u j s"
| "event (j, None) s = success j s"

lemma others_do_not_matter:
  "\<forall>e \<in> set es. fst e \<noteq> k \<Longrightarrow> banned t k (fold event es s) = banned t k s"
proof (induction es arbitrary: s)
  case Nil
  then show ?case by simp
next
  case (Cons e es)
  obtain j u where e: "e = (j, u)" by (cases e)
  have "banned t k (event e s) = banned t k s"
    using Cons.prems e failure_other success_other by (cases u) auto
  then show ?case using Cons by simp
qed

lemma cleared_until_failure:
  "\<forall>e \<in> set es. fst e \<noteq> k \<Longrightarrow> \<not> banned t k (fold event es (success k s))"
  using others_do_not_matter success_clears by blast

end

interpretation limiter: attempt_limiter is_banned record_failure record_success
  by unfold_locales
    (simp_all add: is_banned_def record_failure_def record_success_def failure_count_def Let_def
      update_conv' delete_conv')

section \<open>Bans\<close>

lemma record_failure_params [simp]:
  "max_failures (record_failure now i rl) = max_failures rl"
  "ban_duration (record_failure now i rl) = ban_duration rl"
  "rl_window (record_failure now i rl) = rl_window rl"
  by (simp_all add: record_failure_def failure_count_def Let_def)

definition failures_of :: "ip \<Rightarrow> rate_limiter \<Rightarrow> timestamp list" where
  "failures_of i rl = (case map_of (rl_entries rl) i of None \<Rightarrow> [] | Some e \<Rightarrow> failures e)"

lemma failures_of_record:
  "failures_of i (record_failure now i rl)
    = filter (\<lambda>t. now - rl_window rl < t) (failures_of i rl @ [now])"
  by (auto simp: failures_of_def record_failure_def failure_count_def prune_def Let_def ip_entry_new_def
      update_conv' split: option.splits)

lemma record_failure_bans:
  assumes "unat (max_failures rl) \<le> length (filter (\<lambda>t. now - rl_window rl < t) (failures_of i rl @ [now]))"
    and "later < now + ban_duration rl"
  shows "is_banned later i (record_failure now i rl)"
  using assms
  by (auto simp: is_banned_def failures_of_def record_failure_def failure_count_def prune_def Let_def
      ip_entry_new_def update_conv' split: option.splits)

text \<open>A list of failures at the given times.\<close>

definition fail_at :: "ip \<Rightarrow> timestamp list \<Rightarrow> rate_limiter \<Rightarrow> rate_limiter" where
  "fail_at i ts rl = fold (\<lambda>t. record_failure t i) ts rl"

lemma fail_at_params [simp]:
  "max_failures (fail_at i ts rl) = max_failures rl"
  "ban_duration (fail_at i ts rl) = ban_duration rl"
  "rl_window (fail_at i ts rl) = rl_window rl"
  unfolding fail_at_def by (induction ts arbitrary: rl) simp_all

lemma fail_at_counts:
  assumes "\<forall>t \<in> set ts. t0 \<le> t \<and> t < t0 + rl_window rl"
  shows "\<exists>old. failures_of i (fail_at i ts rl) = old @ ts"
  using assms
proof (induction ts rule: rev_induct)
  case Nil
  then show ?case by (simp add: fail_at_def)
next
  case (snoc t ts)
  obtain old where old: "failures_of i (fail_at i ts rl) = old @ ts" using snoc by auto
  have keep: "filter (\<lambda>u. t - rl_window rl < u) (ts @ [t]) = ts @ [t]"
    using snoc.prems by (auto simp: filter_id_conv)
  have "fail_at i (ts @ [t]) rl = record_failure t i (fail_at i ts rl)" by (simp add: fail_at_def)
  then have "failures_of i (fail_at i (ts @ [t]) rl)
      = filter (\<lambda>u. t - rl_window rl < u) (failures_of i (fail_at i ts rl) @ [t])"
    using failures_of_record [of i t "fail_at i ts rl"] by simp
  then show ?case using old keep by auto
qed

text \<open>When the ban lasts as long as the window, the rate limit never refuses anyone itself.\<close>

definition ban_inv :: "timestamp \<Rightarrow> rate_limiter \<Rightarrow> bool" where
  "ban_inv now rl \<longleftrightarrow> (\<forall>i e. map_of (rl_entries rl) i = Some e \<longrightarrow>
    (\<forall>t \<in> set (failures e). t \<le> now) \<and>
    (unat (max_failures rl) \<le> length (failures e) \<longrightarrow>
      (\<exists>b. banned_until e = Some b \<and> (\<forall>t \<in> set (failures e). t + rl_window rl \<le> b))))"

lemma ban_inv_new: "0 < max_f \<Longrightarrow> ban_inv now (rate_limiter_new max_f ban)"
  by (simp add: ban_inv_def rate_limiter_new_def)

lemma ban_inv_mono: "ban_inv now rl \<Longrightarrow> now \<le> later \<Longrightarrow> ban_inv later rl"
  unfolding ban_inv_def by (meson order_trans)

lemma ban_inv_failure:
  assumes inv: "ban_inv now rl" and ban: "rl_window rl \<le> ban_duration rl" and w: "0 < rl_window rl"
  shows "ban_inv now (record_failure now i rl)"
proof -
  let ?e0 = "case map_of (rl_entries rl) i of None \<Rightarrow> ip_entry_new | Some e \<Rightarrow> e"
  let ?fs = "filter (\<lambda>t. now - rl_window rl < t) (failures ?e0 @ [now])"
  have le: "\<forall>t \<in> set ?fs. t \<le> now"
    using inv w by (auto simp: ban_inv_def ip_entry_new_def split: option.splits)
  define e3 where "e3 = (if unat (max_failures rl) \<le> length ?fs
      then ?e0\<lparr>failures := ?fs, banned_until := Some (now + ban_duration rl)\<rparr> else ?e0\<lparr>failures := ?fs\<rparr>)"
  have m: "map_of (rl_entries (record_failure now i rl)) = (map_of (rl_entries rl))(i \<mapsto> e3)"
    by (simp add: record_failure_def failure_count_def prune_def Let_def update_conv' e3_def)
  have e3: "(\<forall>t \<in> set (failures e3). t \<le> now) \<and> (unat (max_failures rl) \<le> length (failures e3) \<longrightarrow>
      (\<exists>b. banned_until e3 = Some b \<and> (\<forall>t \<in> set (failures e3). t + rl_window rl \<le> b)))"
    using le ban by (force simp: e3_def)
  show ?thesis unfolding ban_inv_def m using e3 inv by (auto simp: ban_inv_def)
qed

lemma ban_inv_success: "ban_inv now rl \<Longrightarrow> ban_inv now (record_success i rl)"
  by (auto simp: ban_inv_def record_success_def delete_conv' split: if_splits)

lemma rate_limited_banned:
  assumes inv: "ban_inv now rl" and "\<not> is_banned now i rl"
  shows "\<not> fst (is_rate_limited now i rl) \<or> max_failures rl = 0"
proof (cases "map_of (rl_entries rl) i")
  case None
  then show ?thesis by (simp add: is_rate_limited_def)
next
  case (Some e)
  let ?fs = "filter (\<lambda>t. now - rl_window rl < t) (failures e)"
  have "?fs = []" if big: "unat (max_failures rl) \<le> length ?fs"
  proof -
    have "length ?fs \<le> length (failures e)" by (rule length_filter_le)
    then obtain b where b: "banned_until e = Some b" "\<forall>t \<in> set (failures e). t + rl_window rl \<le> b"
      using inv Some big unfolding ban_inv_def by (meson order_trans)
    have "b \<le> now" using assms(2) Some b(1) by (simp add: is_banned_def)
    then show ?thesis using b(2) by (auto simp: filter_empty_conv)
  qed
  then show ?thesis using Some
    by (auto simp: is_rate_limited_def failure_count_def prune_def Let_def unat_eq_0)
qed

lemma ban_inv_limited:
  assumes "ban_inv now rl"
  shows "ban_inv now (snd (is_rate_limited now i rl))"
proof (cases "map_of (rl_entries rl) i")
  case None
  then show ?thesis using assms by (simp add: is_rate_limited_def)
next
  case (Some e)
  let ?e = "prune now (rl_window rl) e"
  have len: "length (failures ?e) \<le> length (failures e)" by (simp add: prune_def)
  have sub: "set (failures ?e) \<subseteq> set (failures e)" by (auto simp: prune_def)
  have b: "banned_until ?e = banned_until e" by (simp add: prune_def)
  have m: "map_of (rl_entries (snd (is_rate_limited now i rl))) = (map_of (rl_entries rl))(i \<mapsto> ?e)"
    "max_failures (snd (is_rate_limited now i rl)) = max_failures rl"
    "rl_window (snd (is_rate_limited now i rl)) = rl_window rl"
    using Some by (simp_all add: is_rate_limited_def failure_count_def Let_def update_conv')
  have e: "(\<forall>t \<in> set (failures e). t \<le> now) \<and> (unat (max_failures rl) \<le> length (failures e) \<longrightarrow>
      (\<exists>b. banned_until e = Some b \<and> (\<forall>t \<in> set (failures e). t + rl_window rl \<le> b)))"
    using assms Some by (simp add: ban_inv_def)
  then have "(\<forall>t \<in> set (failures ?e). t \<le> now) \<and> (unat (max_failures rl) \<le> length (failures ?e) \<longrightarrow>
      (\<exists>b. banned_until ?e = Some b \<and> (\<forall>t \<in> set (failures ?e). t + rl_window rl \<le> b)))"
    unfolding b using len sub by (meson order_trans subsetD)
  then show ?thesis using assms unfolding ban_inv_def m by auto
qed

end
