(* ===== verification/Proto.thy ===== *)
theory Proto
  imports HostProto
begin

text \<open>
  The protocol between client, broker and server (\<open>nidan-proto/src/lib.rs\<close>): constants, coded
  enumerations, messages and their validation; and the session identifiers of
  \<open>nidan-common/src/session.rs\<close>.  A value of type \<open>f32\<close> is a finite number (a rational),
  an infinity or not a number; the protocol only compares such values.
\<close>

section \<open>Constants\<close>

definition max_video_frame_bytes :: nat where "max_video_frame_bytes = 4 * 1024 * 1024"
definition proto_max_clipboard_bytes :: nat where "proto_max_clipboard_bytes = 1024 * 1024"
definition chacha20_nonce_size :: nat where "chacha20_nonce_size = 12"
definition session_key_size :: nat where "session_key_size = 32"
definition exchange_nonce_size :: nat where "exchange_nonce_size = 32"

definition ctrl_msg_open :: u8 where "ctrl_msg_open = 0"
definition ctrl_msg_input :: u8 where "ctrl_msg_input = 1"
definition ctrl_msg_clipboard :: u8 where "ctrl_msg_clipboard = 2"

definition clip_dir_client_to_server :: int where "clip_dir_client_to_server = 1"
definition clip_dir_server_to_client :: int where "clip_dir_server_to_client = 2"

definition clip_mime_to_str :: "int \<Rightarrow> string" where
  "clip_mime_to_str code =
    (if code = 0 then ''text/plain'' else if code = 1 then ''text/html''
     else if code = 2 then ''image/png'' else ''application/octet-stream'')"

section \<open>Coded enumerations\<close>

datatype video_codec = CodecUnspecified | H264 | H265 | Av1

fun video_codec_code :: "video_codec \<Rightarrow> int" where
  "video_codec_code CodecUnspecified = 0"
| "video_codec_code H264 = 1"
| "video_codec_code H265 = 2"
| "video_codec_code Av1 = 3"

datatype pixel_format = FormatUnspecified | Yuv420p | Yuv444p

fun pixel_format_code :: "pixel_format \<Rightarrow> int" where
  "pixel_format_code FormatUnspecified = 0"
| "pixel_format_code Yuv420p = 1"
| "pixel_format_code Yuv444p = 2"

datatype session_state =
    StateUnspecified | StateInit | StateAuth | StateActive | StatePaused | StateClosing | StateClosed | StateError

fun session_state_code :: "session_state \<Rightarrow> int" where
  "session_state_code StateUnspecified = 0"
| "session_state_code StateInit = 1"
| "session_state_code StateAuth = 2"
| "session_state_code StateActive = 3"
| "session_state_code StatePaused = 4"
| "session_state_code StateClosing = 5"
| "session_state_code StateClosed = 6"
| "session_state_code StateError = 7"

datatype audit_severity = SevUnspecified | SevDebug | SevInfo | SevWarning | SevError | SevCritical

fun audit_severity_code :: "audit_severity \<Rightarrow> int" where
  "audit_severity_code SevUnspecified = 0"
| "audit_severity_code SevDebug = 1"
| "audit_severity_code SevInfo = 2"
| "audit_severity_code SevWarning = 3"
| "audit_severity_code SevError = 4"
| "audit_severity_code SevCritical = 5"

datatype auth_result = ResultUnspecified | ResultSuccess | ResultFailure | ResultMfaNeeded | ResultExpired

fun auth_result_code :: "auth_result \<Rightarrow> int" where
  "auth_result_code ResultUnspecified = 0"
| "auth_result_code ResultSuccess = 1"
| "auth_result_code ResultFailure = 2"
| "auth_result_code ResultMfaNeeded = 3"
| "auth_result_code ResultExpired = 4"

datatype auth_method = MethodUnspecified | Mtls | Kerberos | Oidc | Saml

fun auth_method_code :: "auth_method \<Rightarrow> int" where
  "auth_method_code MethodUnspecified = 0"
| "auth_method_code Mtls = 1"
| "auth_method_code Kerberos = 2"
| "auth_method_code Oidc = 3"
| "auth_method_code Saml = 4"

definition auth_method_try_from :: "int \<Rightarrow> auth_method option" where
  "auth_method_try_from v =
    (if v = 0 then Some MethodUnspecified else if v = 1 then Some Mtls
     else if v = 2 then Some Kerberos else if v = 3 then Some Oidc
     else if v = 4 then Some Saml else None)"

datatype audit_event_type =
    EventUnspecified | SessionStart | SessionEnd | AuthSuccess | AuthFailure
  | ClipboardTransfer | ClipboardBlocked | InputAnomaly | ResolutionChange
  | VmAssigned | VmReleased | PolicyViolation | StreamInterrupted

fun audit_event_code :: "audit_event_type \<Rightarrow> int" where
  "audit_event_code EventUnspecified = 0"
| "audit_event_code SessionStart = 1"
| "audit_event_code SessionEnd = 2"
| "audit_event_code AuthSuccess = 3"
| "audit_event_code AuthFailure = 4"
| "audit_event_code ClipboardTransfer = 5"
| "audit_event_code ClipboardBlocked = 6"
| "audit_event_code InputAnomaly = 7"
| "audit_event_code ResolutionChange = 8"
| "audit_event_code VmAssigned = 9"
| "audit_event_code VmReleased = 10"
| "audit_event_code PolicyViolation = 11"
| "audit_event_code StreamInterrupted = 12"

definition audit_event_try_from :: "int \<Rightarrow> audit_event_type option" where
  "audit_event_try_from v =
    (if v = 0 then Some EventUnspecified else if v = 1 then Some SessionStart
     else if v = 2 then Some SessionEnd else if v = 3 then Some AuthSuccess
     else if v = 4 then Some AuthFailure else if v = 5 then Some ClipboardTransfer
     else if v = 6 then Some ClipboardBlocked else if v = 7 then Some InputAnomaly
     else if v = 8 then Some ResolutionChange else if v = 9 then Some VmAssigned
     else if v = 10 then Some VmReleased else if v = 11 then Some PolicyViolation
     else if v = 12 then Some StreamInterrupted else None)"

section \<open>Messages\<close>

datatype f32 = F32 rat | F32_inf bool | F32_nan

record video_frame =
  frame_seq :: u64
  monitor_index :: u32
  vf_codec :: int
  vf_pixel_format :: int
  keyframe :: bool
  encoded_data :: bytes
  vf_nonce :: bytes
  vf_width :: u32
  vf_height :: u32
  pts_ms :: u32
  encode_duration_us :: u32
  damage_hint :: bytes
  encrypted :: bool

record client_session_request =
  client_version :: string
  req_auth_method :: int
  auth_token :: bytes
  preferred_vm_tag :: string
  session_label :: string
  req_client_nonce :: bytes

record broker_session_response =
  resp_auth_result :: int
  resp_session_id :: string
  resp_vm_id :: string
  server_address :: string
  session_token :: bytes
  resp_server_nonce :: bytes
  resp_server_public_key :: bytes
  resp_error_message :: string

record client_server_handshake =
  hs_session_id :: string
  hs_session_token :: bytes
  preferred_codec :: int
  preferred_format :: int
  target_fps :: u32
  target_bitrate_kbps :: u32
  audio_enabled :: bool
  seamless_mode :: bool
  client_public_key :: bytes
  client_nonce :: bytes

record server_handshake_ack =
  accepted :: bool
  selected_codec :: int
  selected_format :: int
  ack_state :: int
  stream_id :: u32
  ack_width :: u32
  ack_height :: u32
  server_public_key :: bytes
  server_nonce :: bytes
  e2e_enabled :: bool
  ack_error_message :: string

record key_event =
  keycode :: u32
  scancode :: u32
  shift :: bool
  ctrl :: bool
  alt :: bool
  meta :: bool
  repeat :: bool

record mouse_event =
  button :: int
  mouse_x :: f32
  mouse_y :: f32
  scroll_dx :: f32
  scroll_dy :: f32
  monitor_idx :: u32

datatype input_payload = KeyPayload key_event | MousePayload mouse_event

record input_event =
  ie_seq :: u64
  ie_type :: int
  timestamp_ms :: u32
  ie_event :: "input_payload option"

type_synonym input_batch = "input_event list"

record clipboard_transfer_request =
  clip_session_id :: string
  clip_direction :: int
  clip_mime_type :: int
  clip_content :: bytes
  content_hash :: u64
  size_bytes :: u32

record audit_event =
  event_id :: string
  event_type :: int
  severity :: int
  ae_session_id :: string
  ae_user_id :: string
  ae_vm_id :: string
  ae_client_ip :: string
  description :: string

record ping = ping_seq :: u64 ping_timestamp_us :: u64
record pong = pong_seq :: u64 echo_timestamp_us :: u64 server_timestamp_us :: u64

definition make_ping :: "u64 \<Rightarrow> u64 \<Rightarrow> ping" where
  "make_ping now seq = \<lparr>ping_seq = seq, ping_timestamp_us = now\<rparr>"

definition make_pong :: "u64 \<Rightarrow> ping \<Rightarrow> pong" where
  "make_pong now p = \<lparr>pong_seq = ping_seq p, echo_timestamp_us = ping_timestamp_us p,
    server_timestamp_us = now\<rparr>"

definition rtt_from_pong :: "u64 \<Rightarrow> pong \<Rightarrow> u64" where
  "rtt_from_pong now p = (if echo_timestamp_us p \<le> now then now - echo_timestamp_us p else 0)"

section \<open>Validation\<close>

datatype validation_error =
    MissingField string
  | ValueTooLarge string nat nat
  | InvalidFormat string

definition video_frame_validate :: "video_frame \<Rightarrow> (validation_error, unit) result" where
  "video_frame_validate f =
    (if encoded_data f = [] then Err (MissingField ''encoded_data'')
     else if max_video_frame_bytes < length (encoded_data f)
     then Err (ValueTooLarge ''encoded_data'' (length (encoded_data f)) max_video_frame_bytes)
     else if length (vf_nonce f) \<noteq> chacha20_nonce_size then Err (InvalidFormat ''nonce'')
     else Ok ())"

definition in_unit_range :: "f32 \<Rightarrow> bool" where
  "in_unit_range x = (case x of F32 r \<Rightarrow> 0 \<le> r \<and> r \<le> 1 | _ \<Rightarrow> False)"

definition input_event_validate :: "input_event \<Rightarrow> (validation_error, unit) result" where
  "input_event_validate e =
    (case ie_event e of
      Some (MousePayload m) \<Rightarrow>
        if \<not> in_unit_range (mouse_x m) \<or> \<not> in_unit_range (mouse_y m)
        then Err (InvalidFormat ''mouse.x/y'') else Ok ()
    | _ \<Rightarrow> Ok ())"

section \<open>Session identifiers\<close>

definition hex_digit :: "nat \<Rightarrow> char" where
  "hex_digit n = (if n < 10 then char_of (48 + n) else char_of (87 + n))"

text \<open>\<open>{:0wx}\<close> of a number below \<open>16 ^ w\<close>.\<close>

fun hex_pad :: "nat \<Rightarrow> nat \<Rightarrow> string" where
  "hex_pad 0 n = []"
| "hex_pad (Suc w) n = hex_pad w (n div 16) @ [hex_digit (n mod 16)]"

definition session_id_new :: "bytes \<Rightarrow> string" where
  "session_id_new bytes =
    (let u = (\<lambda>i j. be_nat (take (j - i) (drop i bytes))) in
     hex_pad 8 (u 0 4) @ ''-'' @ hex_pad 4 (u 4 6) @ ''-4'' @ hex_pad 3 (u 6 8 mod 4096) @ ''-''
     @ hex_pad 4 (u 8 10 mod 16384 + 32768) @ ''-'' @ hex_pad 12 (u 10 16))"

lemma auth_method_round_trip: "auth_method_try_from (auth_method_code a) = Some a"
  by (cases a) (simp_all add: auth_method_try_from_def)

lemma audit_event_round_trip: "audit_event_try_from (audit_event_code a) = Some a"
  by (cases a) (simp_all add: audit_event_try_from_def)

lemma length_hex_pad [simp]: "length (hex_pad w n) = w"
  by (induction w arbitrary: n) auto

lemma hex_digit_inj: "a < 16 \<Longrightarrow> b < 16 \<Longrightarrow> hex_digit a = hex_digit b \<Longrightarrow> a = b"
proof -
  assume ab: "a < 16" "b < 16" and e: "hex_digit a = hex_digit b"
  have "of_char (hex_digit a) = (of_char (hex_digit b) :: nat)" using e by simp
  then show "a = b" using ab by (simp add: hex_digit_def split: if_splits)
qed

lemma hex_pad_inj: "m < 16 ^ w \<Longrightarrow> n < 16 ^ w \<Longrightarrow> hex_pad w m = hex_pad w n \<Longrightarrow> m = n"
proof (induction w arbitrary: m n)
  case 0
  then show ?case by simp
next
  case (Suc w)
  have d: "m div 16 < 16 ^ w" "n div 16 < 16 ^ w"
    using Suc.prems by (simp_all add: less_mult_imp_div_less mult.commute)
  have "hex_pad w (m div 16) = hex_pad w (n div 16)" and "hex_digit (m mod 16) = hex_digit (n mod 16)"
    using Suc.prems(3) by auto
  then have "m div 16 = n div 16" "m mod 16 = n mod 16"
    using Suc.IH d hex_digit_inj [of "m mod 16" "n mod 16"] by auto
  then show ?case by (metis div_mult_mod_eq)
qed

text \<open>Two digits a byte.\<close>

definition hex_encode :: "bytes \<Rightarrow> string" where
  "hex_encode b = concat (map (\<lambda>x. [hex_digit (unat x div 16), hex_digit (unat x mod 16)]) b)"

lemma hex_encode_inj: "hex_encode a = hex_encode b \<Longrightarrow> a = b"
proof (induction a arbitrary: b)
  case Nil
  then show ?case by (cases b) (simp_all add: hex_encode_def)
next
  case (Cons x a)
  obtain y b' where b: "b = y # b'" using Cons.prems by (cases b) (simp_all add: hex_encode_def)
  have lt: "unat z div 16 < 16" for z :: u8 using unat_u8 [of z] by (simp add: less_mult_imp_div_less)
  have h: "hex_digit (unat x div 16) = hex_digit (unat y div 16)" "hex_digit (unat x mod 16) = hex_digit (unat y mod 16)"
    "hex_encode a = hex_encode b'"
    using Cons.prems unfolding b by (simp_all add: hex_encode_def)
  have "unat x div 16 = unat y div 16" "unat x mod 16 = unat y mod 16"
    using hex_digit_inj [OF lt lt h(1)] hex_digit_inj [OF _ _ h(2)] by simp_all
  then have "unat x = unat y" by (metis div_mult_mod_eq)
  then show ?case using Cons.IH [OF h(3)] b by (simp add: word_unat_eq_iff)
qed

lemma length_session_id [simp]: "length (session_id_new bytes) = 36"
  by (simp add: session_id_new_def Let_def)

end
