(* ===== verification/Auth.thy ===== *)
theory Auth
  imports BrokerConfig RateLimit Proto
begin

text \<open>
  The authentication engine of the broker (\<open>nidan-broker/src/auth/mod.rs\<close>, \<open>oidc.rs\<close>,
  \<open>jwt.rs\<close>) and the verification of session tokens by the proxy
  (\<open>nidan-proxy-encoder/src/session_token.rs\<close>).  Base64, the JSON parser and the token
  library are parameters.  The state of the engine is its rate limiter.  An attempt reads
  two clocks: the monotonic one of the rate limiter and the calendar.
\<close>

section \<open>Identities and outcomes\<close>

datatype auth_method_used = UsedMtls | UsedKerberos | UsedOidc | UsedSaml

fun method_string :: "auth_method_used \<Rightarrow> string" where
  "method_string UsedMtls = ''mTLS''"
| "method_string UsedKerberos = ''Kerberos''"
| "method_string UsedOidc = ''OIDC''"
| "method_string UsedSaml = ''SAML''"

record auth_identity =
  ai_user_id :: string
  ai_display_name :: "string option"
  ai_groups :: "string list"
  ai_method :: auth_method_used
  ai_realm :: "string option"
  ai_authenticated_at :: timestamp
  ai_client_ip :: ip

datatype auth_failure_reason =
    InvalidCredentials
  | ExpiredCredentials
  | UnknownMethod
  | RateLimited
  | Banned
  | InternalError string

text \<open>The messages sent to clients, in UTF-8.\<close>

fun reason_string :: "auth_failure_reason \<Rightarrow> string" where
  "reason_string InvalidCredentials = ''identifiants invalides''"
| "reason_string ExpiredCredentials = ''identifiants expir'' @ e_acute @ ''s''"
| "reason_string UnknownMethod = ''m'' @ e_acute @ ''thode d'' @ [CHR 0x27] @ ''auth inconnue''"
| "reason_string RateLimited = ''trop de tentatives''"
| "reason_string Banned = ''IP bannie''"
| "reason_string (InternalError e) = ''erreur interne: '' @ e"

datatype auth_outcome =
    OutSuccess auth_identity
  | OutFailure auth_failure_reason
  | MfaRequired string

fun outcome_code :: "auth_outcome \<Rightarrow> int" where
  "outcome_code (OutSuccess _) = auth_result_code ResultSuccess"
| "outcome_code (MfaRequired _) = auth_result_code ResultMfaNeeded"
| "outcome_code (OutFailure ExpiredCredentials) = auth_result_code ResultExpired"
| "outcome_code (OutFailure _) = auth_result_code ResultFailure"

section \<open>Client certificates\<close>

text \<open>\<open>str::trim_start_matches\<close> removes a prefix as often as it occurs.\<close>

function (sequential) trim_start_matches :: "'a list \<Rightarrow> 'a list \<Rightarrow> 'a list" where
  "trim_start_matches [] s = s"
| "trim_start_matches (a # p) s =
    (if starts_with s (a # p) then trim_start_matches (a # p) (drop (length (a # p)) s) else s)"
  by pat_completeness auto
termination
  by (relation "measure (\<lambda>(p, s). length s)") (auto simp: starts_with_def intro!: diff_less)

definition extract_cn_from_dn :: "string \<Rightarrow> string option" where
  "extract_cn_from_dn dn =
    map_option (\<lambda>part. trim_start_matches ''CN='' (trim part))
      (find (\<lambda>part. starts_with (trim part) ''CN='') (str_split (CHR '','') dn))"

section \<open>OpenID Connect tokens\<close>

datatype json =
    JNull
  | JBool bool
  | JInt int
  | JFloat rat
  | JStr string
  | JArr "json list"
  | JObj "(string \<times> json) list"

fun as_str :: "json \<Rightarrow> string option" where
  "as_str (JStr s) = Some s"
| "as_str _ = None"

fun as_i64 :: "json \<Rightarrow> int option" where
  "as_i64 (JInt i) = (if - (2 ^ 63) \<le> i \<and> i < 2 ^ 63 then Some i else None)"
| "as_i64 _ = None"

type_synonym oidc_claims = "(string \<times> json) list"

datatype oidc_error = MalformedToken | PayloadNotBase64 | PayloadNotJson | WrongAudience | TokenExpired

fun audience_matches :: "string \<Rightarrow> json \<Rightarrow> bool" where
  "audience_matches a (JStr s) = (s = a)"
| "audience_matches a (JArr js) = (\<exists>j \<in> set js. as_str j = Some a)"
| "audience_matches a _ = False"

text \<open>\<open>DateTime::timestamp\<close>: whole seconds, rounded down.\<close>

definition unix_secs :: "timestamp \<Rightarrow> int" where
  "unix_secs t = t div nanos_per_sec"

definition validate_bearer_token ::
  "(string \<Rightarrow> bytes option) \<Rightarrow> (bytes \<Rightarrow> oidc_claims option) \<Rightarrow> timestamp \<Rightarrow> oidc_config \<Rightarrow> string \<Rightarrow>
    (oidc_error, oidc_claims) result"
where
  "validate_bearer_token b64 parse now cfg token =
    (case str_split (CHR ''.'') token of
      [_, payload, _] \<Rightarrow>
        (case b64 payload of
          None \<Rightarrow> Err PayloadNotBase64
        | Some bs \<Rightarrow>
            (case parse bs of
              None \<Rightarrow> Err PayloadNotJson
            | Some claims \<Rightarrow>
                if (case map_of claims ''aud'' of None \<Rightarrow> False | Some aud \<Rightarrow> \<not> audience_matches (audience cfg) aud)
                then Err WrongAudience
                else (case Option.bind (map_of claims ''exp'') as_i64 of
                    None \<Rightarrow> Ok claims
                  | Some e \<Rightarrow> if e < unix_secs now then Err TokenExpired else Ok claims)))
    | _ \<Rightarrow> Err MalformedToken)"

section \<open>The engine\<close>

record oidc_lib =
  b64_decode :: "string \<Rightarrow> bytes option"
  parse_claims :: "bytes \<Rightarrow> oidc_claims option"

definition security_max_attempts :: "auth_config \<Rightarrow> u32" where
  "security_max_attempts cfg = 5"

definition security_ban_secs :: "auth_config \<Rightarrow> u64" where
  "security_ban_secs cfg = 300"

definition engine_limiter :: "auth_config \<Rightarrow> rate_limiter" where
  "engine_limiter cfg = rate_limiter_new (security_max_attempts cfg) (security_ban_secs cfg)"

definition auth_mtls :: "auth_config \<Rightarrow> timestamp \<Rightarrow> string option \<Rightarrow> ip \<Rightarrow> auth_outcome" where
  "auth_mtls cfg now cert i =
    (if ''mtls'' \<notin> set (enabled_methods cfg) then OutFailure UnknownMethod
     else (case cert of
         None \<Rightarrow> OutFailure InvalidCredentials
       | Some dn \<Rightarrow>
           if dn = [] then OutFailure InvalidCredentials
           else (let u = (case extract_cn_from_dn dn of Some cn \<Rightarrow> cn | None \<Rightarrow> dn)
                 in OutSuccess \<lparr>ai_user_id = u, ai_display_name = Some u, ai_groups = [],
                      ai_method = UsedMtls, ai_realm = None, ai_authenticated_at = now, ai_client_ip = i\<rparr>)))"

definition auth_kerberos :: "auth_config \<Rightarrow> timestamp \<Rightarrow> bytes \<Rightarrow> ip \<Rightarrow> auth_outcome" where
  "auth_kerberos cfg now token i =
    (if ''kerberos'' \<notin> set (enabled_methods cfg) then OutFailure UnknownMethod
     else (case kerberos_cfg cfg of
         None \<Rightarrow> OutFailure (InternalError (''Kerberos non configur'' @ e_acute))
       | Some k \<Rightarrow>
           if token = [] then OutFailure InvalidCredentials
           else (let p = ''stub_user@'' @ krb_realm k
                 in OutSuccess \<lparr>ai_user_id = p, ai_display_name = Some p, ai_groups = [],
                      ai_method = UsedKerberos, ai_realm = Some (krb_realm k),
                      ai_authenticated_at = now, ai_client_ip = i\<rparr>)))"

definition claim_user :: "oidc_config \<Rightarrow> oidc_claims \<Rightarrow> string" where
  "claim_user oc claims =
    (case Option.bind (map_of claims (identity_claim oc)) as_str of Some u \<Rightarrow> u | None \<Rightarrow> ''unknown'')"

definition auth_oidc :: "oidc_lib \<Rightarrow> auth_config \<Rightarrow> timestamp \<Rightarrow> bytes \<Rightarrow> ip \<Rightarrow> auth_outcome" where
  "auth_oidc L cfg now token i =
    (if ''oidc'' \<notin> set (enabled_methods cfg) then OutFailure UnknownMethod
     else (case oidc_cfg cfg of
         None \<Rightarrow> OutFailure (InternalError (''OIDC non configur'' @ e_acute))
       | Some oc \<Rightarrow>
           (case from_utf8 token of
             None \<Rightarrow> OutFailure InvalidCredentials
           | Some t \<Rightarrow>
               (case validate_bearer_token (b64_decode L) (parse_claims L) now oc t of
                 Inl _ \<Rightarrow> OutFailure InvalidCredentials
               | Inr claims \<Rightarrow> OutSuccess \<lparr>ai_user_id = claim_user oc claims,
                   ai_display_name = Option.bind (map_of claims ''name'') as_str, ai_groups = [],
                   ai_method = UsedOidc, ai_realm = Some (issuer_url oc),
                   ai_authenticated_at = now, ai_client_ip = i\<rparr>))))"

definition auth_saml :: auth_outcome where
  "auth_saml = OutFailure (InternalError (''SAML non encore impl'' @ e_acute @ ''ment'' @ e_acute))"

record attempt =
  at_instant :: timestamp
  at_utc :: timestamp
  at_method :: auth_method
  at_token :: bytes
  at_ip :: ip
  at_cert :: "string option"

definition check_credentials :: "oidc_lib \<Rightarrow> auth_config \<Rightarrow> attempt \<Rightarrow> auth_outcome" where
  "check_credentials L cfg a =
    (case at_method a of
      Mtls \<Rightarrow> auth_mtls cfg (at_utc a) (at_cert a) (at_ip a)
    | Kerberos \<Rightarrow> auth_kerberos cfg (at_utc a) (at_token a) (at_ip a)
    | Oidc \<Rightarrow> auth_oidc L cfg (at_utc a) (at_token a) (at_ip a)
    | Saml \<Rightarrow> auth_saml
    | MethodUnspecified \<Rightarrow> OutFailure UnknownMethod)"

definition authenticate ::
  "oidc_lib \<Rightarrow> auth_config \<Rightarrow> attempt \<Rightarrow> rate_limiter \<Rightarrow> auth_outcome \<times> rate_limiter"
where
  "authenticate L cfg a rl =
    (if is_banned (at_instant a) (at_ip a) rl then (OutFailure Banned, rl)
     else (case is_rate_limited (at_instant a) (at_ip a) rl of
         (True, rl1) \<Rightarrow> (OutFailure RateLimited, record_failure (at_instant a) (at_ip a) rl1)
       | (False, rl1) \<Rightarrow>
           (let outcome = check_credentials L cfg a
            in (outcome, case outcome of
                  OutSuccess _ \<Rightarrow> record_success (at_ip a) rl1
                | OutFailure _ \<Rightarrow> record_failure (at_instant a) (at_ip a) rl1
                | MfaRequired _ \<Rightarrow> rl1))))"

fun authenticate_all ::
  "oidc_lib \<Rightarrow> auth_config \<Rightarrow> attempt list \<Rightarrow> rate_limiter \<Rightarrow> auth_outcome list \<times> rate_limiter"
where
  "authenticate_all L cfg [] rl = ([], rl)"
| "authenticate_all L cfg (a # as) rl =
    (case authenticate L cfg a rl of
      (out, rl1) \<Rightarrow> (case authenticate_all L cfg as rl1 of (outs, rl2) \<Rightarrow> (out # outs, rl2)))"

section \<open>Session tokens\<close>

record session_claims =
  c_sub :: string
  c_iss :: string
  c_iat :: int
  c_exp :: int
  c_session_id :: string
  c_vm_id :: string
  c_auth_method :: string
  c_groups :: "string list"
  c_realm :: "string option"
  c_cid :: "u32 option"

record jwt_validation =
  v_issuer :: "string option"
  v_leeway :: int
  v_validate_exp :: bool

text \<open>
  The token library: encoding claims under a key, and decoding a token at a time (in
  seconds) under a key with the checks that a validation asks for.
\<close>

record jwt_lib =
  jwt_encode :: "string \<Rightarrow> session_claims \<Rightarrow> string option"
  jwt_decode :: "int \<Rightarrow> string \<Rightarrow> jwt_validation \<Rightarrow> string \<Rightarrow> session_claims option"

record jwt_engine =
  je_secret :: string
  je_issuer :: string
  je_ttl_secs :: u64
  je_validation :: jwt_validation

definition jwt_engine_new :: "string \<Rightarrow> string \<Rightarrow> u64 \<Rightarrow> jwt_engine" where
  "jwt_engine_new secret issuer ttl = \<lparr>je_secret = secret, je_issuer = issuer, je_ttl_secs = ttl,
    je_validation = \<lparr>v_issuer = Some issuer, v_leeway = 0, v_validate_exp = True\<rparr>\<rparr>"

datatype token_error = TtlOutOfRange | SigningFailed | InvalidToken | SecretNotConfigured

text \<open>\<open>Duration::seconds\<close> panics beyond the range of its milliseconds.\<close>

definition duration_seconds :: "int \<Rightarrow> int option" where
  "duration_seconds s = (if \<bar>s\<bar> \<le> 9223372036854775 then Some (secs s) else None)"

definition claims_for ::
  "jwt_engine \<Rightarrow> timestamp \<Rightarrow> int \<Rightarrow> auth_identity \<Rightarrow> string \<Rightarrow> string \<Rightarrow> u32 option \<Rightarrow> session_claims"
where
  "claims_for E now ttl ident sid vm cid =
    \<lparr>c_sub = ai_user_id ident, c_iss = je_issuer E, c_iat = unix_secs now, c_exp = unix_secs (now + ttl),
     c_session_id = sid, c_vm_id = vm, c_auth_method = method_string (ai_method ident),
     c_groups = ai_groups ident, c_realm = ai_realm ident, c_cid = cid\<rparr>"

definition sign ::
  "jwt_lib \<Rightarrow> jwt_engine \<Rightarrow> timestamp \<Rightarrow> auth_identity \<Rightarrow> string \<Rightarrow> string \<Rightarrow> u32 option \<Rightarrow> (token_error, string) result"
where
  "sign J E now ident sid vm cid =
    (case duration_seconds (sint (je_ttl_secs E)) of
      None \<Rightarrow> Err TtlOutOfRange
    | Some d \<Rightarrow> ok_or (jwt_encode J (je_secret E) (claims_for E now d ident sid vm cid)) SigningFailed)"

definition verify :: "jwt_lib \<Rightarrow> jwt_engine \<Rightarrow> timestamp \<Rightarrow> string \<Rightarrow> (token_error, session_claims) result" where
  "verify J E now token =
    ok_or (jwt_decode J (unix_secs now) (je_secret E) (je_validation E) token) InvalidToken"

definition verify_ignore_expiry ::
  "jwt_lib \<Rightarrow> jwt_engine \<Rightarrow> timestamp \<Rightarrow> string \<Rightarrow> (token_error, session_claims) result"
where
  "verify_ignore_expiry J E now token =
    ok_or (jwt_decode J (unix_secs now) (je_secret E) ((je_validation E)\<lparr>v_validate_exp := False\<rparr>) token)
      InvalidToken"

text \<open>The proxy asks for the library's default leeway of 60 seconds and for no issuer.\<close>

definition proxy_validation :: jwt_validation where
  "proxy_validation = \<lparr>v_issuer = None, v_leeway = 60, v_validate_exp = True\<rparr>"

definition verify_session_token ::
  "jwt_lib \<Rightarrow> timestamp \<Rightarrow> string \<Rightarrow> string \<Rightarrow> (token_error, session_claims) result"
where
  "verify_session_token J now token secret =
    (if secret = [] then Err SecretNotConfigured
     else ok_or (jwt_decode J (unix_secs now) secret proxy_validation token) InvalidToken)"

definition engine_jwt :: "auth_config \<Rightarrow> jwt_engine" where
  "engine_jwt cfg =
    jwt_engine_new (jwt_secret (jwt_cfg cfg)) (jwt_issuer (jwt_cfg cfg)) (session_token_ttl_secs cfg)"

definition issue_session_token ::
  "jwt_lib \<Rightarrow> auth_config \<Rightarrow> timestamp \<Rightarrow> auth_identity \<Rightarrow> string \<Rightarrow> string \<Rightarrow> u32 option \<Rightarrow> (token_error, string) result"
where
  "issue_session_token J cfg = sign J (engine_jwt cfg)"

definition validate_session_token ::
  "jwt_lib \<Rightarrow> auth_config \<Rightarrow> timestamp \<Rightarrow> string \<Rightarrow> (token_error, session_claims) result"
where
  "validate_session_token J cfg = verify J (engine_jwt cfg)"

end
