(* ===== verification/Store.thy ===== *)
theory Store
  imports Prelude
begin

text \<open>
  The contract of a registry of values that carry their own key, which the pool of VMs and
  the registry of sessions share: what a lookup returns after an insertion and after a
  removal.  The lemmas about runs of insertions and removals are proved once from it.
\<close>

locale keyed_store =
  fixes key :: "'v \<Rightarrow> 'k"
    and put :: "'v \<Rightarrow> 's \<Rightarrow> 's"
    and del :: "'k \<Rightarrow> 's \<Rightarrow> 's"
    and look :: "'s \<Rightarrow> 'k \<Rightarrow> 'v option"
  assumes look_put: "look (put v s) j = (if key v = j then Some v else look s j)"
    and look_del: "look (del k s) j = (if k = j then None else look s j)"
begin

lemma look_del_all: "look (fold del ks s) j = (if j \<in> set ks then None else look s j)"
  by (induction ks arbitrary: s) (auto simp: look_del)

lemma look_put_all:
  assumes "distinct (map key vs)" "v \<in> set vs"
  shows "look (fold put vs s) (key v) = Some v"
  using assms
proof (induction vs rule: rev_induct)
  case Nil
  then show ?case by simp
next
  case (snoc w vs)
  show ?case
  proof (cases "v = w")
    case True
    then show ?thesis by (simp add: look_put)
  next
    case False
    then have "v \<in> set vs" using snoc.prems by simp
    then have "key w \<noteq> key v" using snoc.prems by auto
    then show ?thesis using snoc \<open>v \<in> set vs\<close> by (simp add: look_put)
  qed
qed

lemma put_del_same: "look (del (key v) (put v s)) j = (if key v = j then None else look s j)"
  by (simp add: look_put look_del)

end

end
