(* ===== verification/Session.thy ===== *)
theory Session
  imports Store
begin

text \<open>
  The registry of broker sessions (\<open>nidan-broker/src/session.rs\<close>).
\<close>

datatype broker_session_state = Authenticating | Active | Closing | Closed

record broker_session =
  bs_id :: string
  bs_user_id :: string
  bs_client_ip :: string
  bs_vm_id :: string
  bs_vm_addr :: string
  bs_state :: broker_session_state
  bs_auth_method :: string
  started_at :: timestamp
  last_seen :: timestamp

type_synonym session_registry = "(string \<times> broker_session) list"

definition registry_new :: session_registry where
  "registry_new = []"

definition register :: "broker_session \<Rightarrow> session_registry \<Rightarrow> session_registry" where
  "register s reg = AList.update (bs_id s) s reg"

definition close :: "string \<Rightarrow> session_registry \<Rightarrow> broker_session option \<times> session_registry" where
  "close i reg =
    (let reg1 = (case map_of reg i of
           None \<Rightarrow> reg | Some s \<Rightarrow> AList.update i (s\<lparr>bs_state := Closed\<rparr>) reg)
     in (map_of reg1 i, AList.delete i reg1))"

definition session_get :: "session_registry \<Rightarrow> string \<Rightarrow> broker_session option" where
  "session_get reg i = map_of reg i"

definition session_all :: "session_registry \<Rightarrow> broker_session list" where
  "session_all reg = map snd reg"

definition active_count :: "session_registry \<Rightarrow> nat" where
  "active_count reg = count_vals (\<lambda>s. bs_state s = Active) reg"

definition revoke :: "string \<Rightarrow> session_registry \<Rightarrow> bool \<times> session_registry" where
  "revoke i reg =
    (case map_of reg i of
      None \<Rightarrow> (False, reg)
    | Some s \<Rightarrow> (True, AList.update i (s\<lparr>bs_state := Closing\<rparr>) reg))"

definition registry_ok :: "session_registry \<Rightarrow> bool" where
  "registry_ok reg \<longleftrightarrow> distinct (map fst reg)"

lemma register_ok [inv_intros]: "registry_ok reg \<Longrightarrow> registry_ok (register s reg)"
  by (simp add: registry_ok_def register_def distinct_update)

lemma active_register_new:
  "map_of reg (bs_id s) = None \<Longrightarrow> bs_state s = Active \<Longrightarrow>
    active_count (register s reg) = Suc (active_count reg)"
  by (simp add: active_count_def register_def count_vals_update_new map_of_eq_None_iff)

lemma active_register_mono:
  "registry_ok reg \<Longrightarrow> bs_state s = Active \<Longrightarrow> active_count reg \<le> active_count (register s reg)"
proof (cases "map_of reg (bs_id s)")
  case None
  then show "registry_ok reg \<Longrightarrow> bs_state s = Active \<Longrightarrow> ?thesis"
    using active_register_new [OF None] by simp
next
  case (Some w)
  assume "registry_ok reg" "bs_state s = Active"
  then show ?thesis
    using count_vals_update_old [of reg "bs_id s" w "\<lambda>s. bs_state s = Active" s] Some
    by (simp add: active_count_def register_def registry_ok_def split: if_splits)
qed

lemma close_removes: "map_of (snd (close i reg)) j = (if i = j then None else map_of reg j)"
  by (auto simp: close_def Let_def delete_conv' update_conv' split: option.splits)

interpretation sessions: keyed_store bs_id register "\<lambda>i reg. snd (close i reg)" session_get
  by unfold_locales (auto simp: register_def session_get_def close_removes update_conv')

end
