(* ===== verification/PoolReach.thy ===== *)
theory PoolReach
  imports PoolInv
begin

text \<open>
  The pools the broker can reach: the pool built from a configuration, and the operations of
  the broker and of its background tasks in any order, with any arguments and any answers of
  the provider.  The invariant and the quotas hold in all of them.
\<close>

inductive pool_step :: "vm_provider \<Rightarrow> pool_config \<Rightarrow> pool \<Rightarrow> pool \<Rightarrow> bool"
  for prov :: vm_provider and cfg :: pool_config
where
  step_assign: "assign_or_provision prov cfg now sid tag user p = (r, q) \<Longrightarrow> pool_step prov cfg p q"
| step_release: "pool_step prov cfg p (release prov i sid p)"
| step_mark: "pool_step prov cfg p (mark_unhealthy now i reason p)"
| step_replenish: "pool_step prov cfg p (replenish prov cfg now p)"
| step_boot: "pool_step prov cfg p (replenish_boot prov cfg now p)"
| step_gc: "pool_step prov cfg p (gc_round prov cfg now p)"
| step_expire: "pool_step prov cfg p (gc_expired_sessions prov now max_age p)"
| step_health: "pool_step prov cfg p (health_check_round ping now p)"

inductive_cases pool_stepE: "pool_step prov cfg p q"

inductive reachable :: "vm_provider \<Rightarrow> pool_config \<Rightarrow> pool \<Rightarrow> bool"
  for prov :: vm_provider and cfg :: pool_config
where
  reach_init: "reachable prov cfg (build cfg now)"
| reach_step: "reachable prov cfg p \<Longrightarrow> pool_step prov cfg p q \<Longrightarrow> reachable prov cfg q"

section \<open>The initial pool\<close>

lemma build_vms:
  "distinct (map fst (vms (build cfg now)))
    \<and> (\<forall>(i, e) \<in> set (vms (build cfg now)). e_id e = i \<and> \<not> dynamic e \<and> e_cid e = None
        \<and> e_provider_id e = None \<and> e_state e = Available)"
proof -
  define Q :: "string \<times> vm_pool_entry \<Rightarrow> bool" where "Q = (\<lambda>(i, e). e_id e = i \<and> \<not> dynamic e
      \<and> e_cid e = None \<and> e_provider_id e = None \<and> e_state e = Available)"
  define P where "P m \<longleftrightarrow> distinct (map fst m) \<and> (\<forall>x \<in> set m. Q x)" for m
  have P: "P (AList.update (vs_id v) (static_entry now v) m)" if m: "P m" for v m
  proof -
    have d: "distinct (map fst m)" using m by (simp add: P_def)
    have "Q (vs_id v, static_entry now v)" by (simp add: static_entry_def Q_def)
    then show ?thesis using m by (auto simp: update_set [OF d] distinct_update P_def)
  qed
  have "P (fold (\<lambda>v. AList.update (vs_id v) (static_entry now v)) vs [])" for vs
    by (rule fold_keeps, erule P, simp add: P_def)
  then show ?thesis by (simp add: build_def P_def Q_def)
qed

lemma build_inv: "pool_inv (build cfg now)"
proof -
  have "cids_apart (vms (build cfg now))"
    using build_vms [of cfg now] by (auto simp: cids_apart_def)
  moreover have "alloc_inv (cid_alloc (build cfg now))"
    by (simp add: build_def new_inv split: option.splits)
  ultimately show ?thesis
    using build_vms [of cfg now] by (auto simp: pool_inv_def entry_ok_def)
qed

lemma build_no_dynamic: "total_dynamic (build cfg now) = 0"
  using build_vms [of cfg now] by (auto simp: total_dynamic_def count_vals_eq_0)

section \<open>Every step keeps the invariant\<close>

lemma pool_step_inv:
  assumes "pool_step prov cfg p q" "pool_inv p"
  shows "pool_inv q"
  using assms
proof (induction rule: pool_step.induct)
  case (step_assign now sid tag user p r q)
  then show ?case using assign_or_provision_inv by blast
qed (simp_all add: release_inv mark_unhealthy_inv replenish_inv replenish_boot_def cleanup_orphans_inv
    gc_round_def gc_stale_inv gc_expired_inv health_check_round_inv)

lemma reachable_inv: "reachable prov cfg p \<Longrightarrow> pool_inv p"
  by (induction rule: reachable.induct) (auto intro: build_inv pool_step_inv)

section \<open>Quotas\<close>

lemma user_le_total: "user_dynamic_count p u \<le> total_dynamic p"
  unfolding user_dynamic_count_def total_dynamic_def by (rule count_vals_mono) simp

lemma count_replace:
  assumes "pool_inv p" "get p i = Some e"
  shows "count_vals P (vms (insert_vm i f p)) + (if P e then 1 else 0)
    = count_vals P (vms p) + (if P f then 1 else 0)"
  using count_vals_update_old [OF pool_invD(1) [OF assms(1)], of i e] assms(2) by (simp add: get_def)

lemma total_replace:
  assumes "pool_inv p" "get p i = Some e" "dynamic f = dynamic e"
  shows "total_dynamic (insert_vm i f p) = total_dynamic p"
  using count_replace [OF assms(1,2), of dynamic f] assms(3) by (simp add: total_dynamic_def split: if_splits)

lemma user_replace:
  assumes "pool_inv p" "get p i = Some e" "dynamic f = dynamic e" "user_id f = user_id e"
  shows "user_dynamic_count (insert_vm i f p) u = user_dynamic_count p u"
  using count_replace [OF assms(1,2), of "\<lambda>e. dynamic e \<and> user_id e = Some u" f] assms(3,4)
  by (simp add: user_dynamic_count_def split: if_splits)

lemma quota_replace:
  assumes "pool_inv p" "get p i = Some e" "dynamic f = dynamic e" "user_id f = user_id e"
    "quota_inv cfg p"
  shows "quota_inv cfg (insert_vm i f p)"
  using assms(5) total_replace [OF assms(1-3)] user_replace [OF assms(1-4)]
  by (simp add: quota_inv_def split: option.splits)

lemma counts_insert_le:
  "total_dynamic (insert_vm i f p) \<le> Suc (total_dynamic p)"
  "user_dynamic_count (insert_vm i f p) u
    \<le> user_dynamic_count p u + (if user_id f = Some u then 1 else 0)"
proof -
  show "total_dynamic (insert_vm i f p) \<le> Suc (total_dynamic p)"
    by (simp add: total_dynamic_def count_vals_update_le)
  have "count_vals P (AList.update i f m) \<le> count_vals P m + (if P f then 1 else 0)" for P m
    by (induction m) auto
  from this [of "\<lambda>e. dynamic e \<and> user_id e = Some u" "vms p"]
  show "user_dynamic_count (insert_vm i f p) u
    \<le> user_dynamic_count p u + (if user_id f = Some u then 1 else 0)"
    unfolding user_dynamic_count_def by (auto split: if_splits)
qed

lemma counts_remove_le:
  "total_dynamic (remove_vm i p) \<le> total_dynamic p"
  "user_dynamic_count (remove_vm i p) u \<le> user_dynamic_count p u"
  by (simp_all add: total_dynamic_def user_dynamic_count_def count_vals_delete_le)

lemma counts_cong:
  "vms q = vms p \<Longrightarrow> total_dynamic q = total_dynamic p"
  "vms q = vms p \<Longrightarrow> user_dynamic_count q u = user_dynamic_count p u"
  by (simp_all add: total_dynamic_def user_dynamic_count_def)

lemma quota_shrink:
  assumes "total_dynamic q \<le> total_dynamic p" "\<And>u. user_dynamic_count q u \<le> user_dynamic_count p u"
    "quota_inv cfg p"
  shows "quota_inv cfg q"
  using assms by (auto simp: quota_inv_def split: option.splits intro: order_trans)

lemma quota_trigger [simp]: "quota_inv cfg (trigger_replenish p) = quota_inv cfg p"
  by (rule quota_inv_cong) simp

lemma quota_error_None:
  "quota_error cfg u p = None \<Longrightarrow> dynamic_cfg cfg = Some dc \<Longrightarrow>
    total_dynamic p < unat (max_total dc) \<and> user_dynamic_count p u < unat (max_per_user dc)"
  by (auto simp: quota_error_def split: if_splits)

lemma quota_cold:
  assumes "provision_cold prov cfg now sid user p = (r, q)" "quota_error cfg user p = None"
    "quota_inv cfg p"
  shows "quota_inv cfg q"
  using assms(1)
proof (cases rule: provision_cold_cases)
  case (failed dc c p1 e)
  have "vms q = vms p" using boot_clone_Err(1) [OF failed(3)] alloc_cid_Some(2) [OF failed(2)] by simp
  then show ?thesis using assms(3) quota_inv_cong by blast
next
  case (ok dc c p1 v p2 n)
  have v: "vms p2 = vms p" using boot_clone_Ok(1) [OF ok(3)] alloc_cid_Some(2) [OF ok(2)] by simp
  note lt = quota_error_None [OF assms(2) ok(1)]
  let ?f = "clone_entry dc now c n (provider_id v) (Assigned sid now) 1 (Some user)"
  have "total_dynamic q \<le> Suc (total_dynamic p)"
    using counts_insert_le(1) [of n ?f p2] counts_cong(1) [OF v] ok(6) by simp
  moreover have "user_dynamic_count q u \<le> user_dynamic_count p u + (if user = u then 1 else 0)" for u
    using counts_insert_le(2) [of n ?f p2 u] counts_cong(2) [OF v] ok(6) by simp
  ultimately show ?thesis using lt assms(3) ok(1)
    by (auto simp: quota_inv_def intro: order_trans)
      (smt (verit) Suc_eq_plus1 add.right_neutral le_trans less_eq_Suc_le)+
qed (use assms(3) in auto)

lemma quota_assign_or_provision:
  assumes inv: "pool_inv p" and a: "assign_or_provision prov cfg now sid tag user p = (r, q)"
    and quota: "quota_inv cfg p"
  shows "quota_inv cfg q"
proof (cases rule: assign_or_provision_cases [OF inv a, case_names available refused warm cold])
  case (available i e)
  then show ?thesis using quota_replace [OF inv] quota by simp
next
  case (warm i e)
  let ?f = "e\<lparr>e_state := Assigned sid now, sessions_served := sessions_served e + 1, user_id := Some user\<rparr>"
  have q: "vms q = vms (insert_vm i ?f p)" using warm(6) by simp
  have tot: "total_dynamic q = total_dynamic p"
    using counts_cong(1) [OF q] total_replace [OF inv warm(1), of ?f] by simp
  have usr: "user_dynamic_count q u \<le> user_dynamic_count p u + (if user = u then 1 else 0)" for u
    using counts_cong(2) [OF q] counts_insert_le(2) [of i ?f p u] by simp
  show ?thesis
  proof (cases "dynamic_cfg cfg")
    case None
    then show ?thesis using quota tot by (simp add: quota_inv_def)
  next
    case (Some dc)
    have "user_dynamic_count q u \<le> unat (max_per_user dc)" for u
      using usr [of u] quota_error_None [OF warm(3) Some] quota Some
      by (auto simp: quota_inv_def split: if_splits intro: order_trans)
    then show ?thesis using quota tot Some by (simp add: quota_inv_def)
  qed
next
  case cold
  then show ?thesis using quota_cold quota by blast
qed (use quota in simp)

lemma quota_warm:
  assumes "provision_warm_vm prov cfg now p = (r, q)" "dynamic_cfg cfg = Some dc"
    "total_dynamic p < unat (max_total dc)" "quota_inv cfg p"
  shows "quota_inv cfg q"
  using assms(1)
proof (cases rule: provision_warm_cases)
  case (failed dc c p1 e)
  have "vms q = vms p" using boot_clone_Err(1) [OF failed(3)] alloc_cid_Some(2) [OF failed(2)] by simp
  then show ?thesis using assms(4) quota_inv_cong by blast
next
  case (ok dc' c p1 v p2 n)
  have v: "vms p2 = vms p" using boot_clone_Ok(1) [OF ok(3)] alloc_cid_Some(2) [OF ok(2)] by simp
  let ?f = "clone_entry dc' now c n (provider_id v) (WarmReady now) 0 None"
  have "total_dynamic q \<le> Suc (total_dynamic p)"
    using counts_insert_le(1) [of n ?f p2] counts_cong(1) [OF v] ok(5) by simp
  moreover have "user_dynamic_count q u \<le> user_dynamic_count p u" for u
    using counts_insert_le(2) [of n ?f p2 u] counts_cong(2) [OF v] ok(5) by simp
  ultimately show ?thesis using assms(2-4) by (auto simp: quota_inv_def intro: order_trans)
qed (use assms(4) in auto)

lemma quota_replenish: "quota_inv cfg p \<Longrightarrow> quota_inv cfg (replenish prov cfg now p)"
proof (induction prov cfg now p rule: replenish.induct)
  case (1 prov cfg now p)
  obtain r q where w: "provision_warm_vm prov cfg now p = (r, q)"
    by (cases "provision_warm_vm prov cfg now p")
  show ?case
    using 1 w quota_warm [OF w] by (subst replenish.simps) (auto split: option.splits sum.splits)
qed

lemma quota_release:
  assumes inv: "pool_inv p" and quota: "quota_inv cfg p"
  shows "quota_inv cfg (release prov i sid p)"
proof (cases "get p i")
  case None
  then show ?thesis using quota by (simp add: release_def)
next
  case (Some e)
  have "quota_inv cfg (remove_vm i (free_opt c q))" if "vms q = vms p" for c q
    using quota counts_remove_le [of i "free_opt c q"] that counts_cong [of "free_opt c q" p]
    by (intro quota_shrink [OF _ _ quota]) simp_all
  moreover have "vms (case e_provider_id e of None \<Rightarrow> p | Some pid \<Rightarrow> best_effort_destroy prov pid p) = vms p"
    by (simp split: option.splits)
  ultimately show ?thesis
    using release_cases [OF Some, of prov sid] quota quota_replace [OF inv Some _ _ quota] by auto
qed

lemma quota_remove_all:
  "quota_inv cfg p \<Longrightarrow> quota_inv cfg (fold (\<lambda>(i, c) q. remove_vm i (free_opt c q)) st p)"
proof (rule fold_keeps)
  fix x :: "string \<times> u32 option" and s assume q: "quota_inv cfg s"
  obtain i c where x: "x = (i, c)" by (cases x)
  show "quota_inv cfg ((\<lambda>(i, c) q. remove_vm i (free_opt c q)) x s)"
    using counts_remove_le [of i "free_opt c s"] counts_cong [of "free_opt c s" s] x
    by (intro quota_shrink [OF _ _ q]) simp_all
qed

lemma quota_gc_stale: "quota_inv cfg p \<Longrightarrow> quota_inv cfg (gc_stale_sessions prov cfg p)"
proof -
  assume q: "quota_inv cfg p"
  have "call PListVms (vp_list_vms prov) p = (r, p1) \<Longrightarrow> quota_inv cfg p1" for r p1
    using q quota_inv_cong [of p1 p cfg] call_frame [of PListVms "vp_list_vms prov" p r p1] by simp
  then show ?thesis using q quota_remove_all
    by (auto simp: gc_stale_sessions_def Let_def split: option.splits prod.splits sum.splits)
qed

lemma quota_cleanup: "quota_inv cfg p \<Longrightarrow> quota_inv cfg (snd (cleanup_orphans prov cfg skip now p))"
  using cleanup_orphans_frame quota_inv_cong by blast

lemma quota_health_vm:
  assumes "pool_inv p" "quota_inv cfg p"
  shows "quota_inv cfg (health_check_vm ping now i p)"
proof (cases "get p i")
  case None
  then show ?thesis using assms(2) by (simp add: health_check_vm_def)
next
  case (Some e)
  have "dynamic f = dynamic e \<Longrightarrow> user_id f = user_id e \<Longrightarrow> quota_inv cfg (insert_vm i f p)" for f
    using quota_replace [OF assms(1) Some _ _ assms(2)] by blast
  then show ?thesis using Some by (simp add: health_check_vm_def Let_def)
qed

lemma quota_mark:
  "pool_inv p \<Longrightarrow> quota_inv cfg p \<Longrightarrow> quota_inv cfg (mark_unhealthy now i reason p)"
  by (auto simp: mark_unhealthy_def split: option.splits intro: quota_replace)

lemma quota_health_round:
  assumes "pool_inv p" "quota_inv cfg p"
  shows "quota_inv cfg (health_check_round ping now p)"
proof -
  have "pool_inv (fold (health_check_vm ping now) is p) \<and> quota_inv cfg (fold (health_check_vm ping now) is p)" for "is"
    using assms by (intro fold_keeps [of "\<lambda>p. pool_inv p \<and> quota_inv cfg p"])
      (auto intro: quota_health_vm health_check_vm_inv)
  then show ?thesis by (simp add: health_check_round_def)
qed

lemma quota_expired:
  assumes "pool_inv p" "quota_inv cfg p"
  shows "quota_inv cfg (gc_expired_sessions prov now age p)"
proof -
  have "pool_inv (fold (\<lambda>(i, sid). release prov i sid) xs p) \<and> quota_inv cfg (fold (\<lambda>(i, sid). release prov i sid) xs p)" for xs
    using assms by (intro fold_keeps [of "\<lambda>p. pool_inv p \<and> quota_inv cfg p"])
      (auto intro: quota_release)
  then show ?thesis using assms by (simp add: gc_expired_sessions_def Let_def)
qed

lemma pool_step_quota:
  assumes "pool_step prov cfg p q" "pool_inv p" "quota_inv cfg p"
  shows "quota_inv cfg q"
  using assms
proof (induction rule: pool_step.induct)
  case (step_assign now sid tag user p r q)
  then show ?case using quota_assign_or_provision by blast
qed (simp_all add: quota_release quota_mark quota_replenish replenish_boot_def quota_cleanup
    gc_round_def quota_gc_stale quota_expired quota_health_round)

lemma reachable_quota: "reachable prov cfg p \<Longrightarrow> quota_inv cfg p"
proof (induction rule: reachable.induct)
  case (reach_init now)
  then show ?case using build_no_dynamic [of cfg now] user_le_total [of "build cfg now"]
    by (auto simp: quota_inv_def split: option.splits)
next
  case (reach_step p q)
  then show ?case using pool_step_quota reachable_inv by blast
qed

end
