(* ===== verification/Broker.thy ===== *)
theory Broker
  imports Auth Session Framing PoolReach
begin

text \<open>
  The broker as a whole (\<open>nidan-broker/src/routing/mod.rs\<close> and \<open>api/mod.rs\<close>): its state, the
  handling of one client connection from the limit on sessions to the reply, the tasks in
  the background and the administration interface.  A connection is described by what the
  network and the clocks deliver while it is handled; the libraries that parse and render
  messages are parameters.
\<close>

section \<open>State\<close>

record broker =
  b_config :: broker_config
  b_pool :: pool
  b_sessions :: session_registry
  b_limiter :: rate_limiter

definition broker_new :: "broker_config \<Rightarrow> timestamp \<Rightarrow> (backend_error, broker) result" where
  "broker_new cfg now =
    bind_result (build_provider (provider_backend (provider_section cfg))
        (libvirt_section (provider_section cfg) \<noteq> None) (host_agent_section (provider_section cfg) \<noteq> None))
      (\<lambda>_. Ok \<lparr>b_config = cfg, b_pool = build (pool_section cfg) now, b_sessions = registry_new,
        b_limiter = engine_limiter (auth_section cfg)\<rparr>)"

text \<open>The provider and the libraries.\<close>

record broker_env =
  be_provider :: vm_provider
  be_oidc :: oidc_lib
  be_jwt :: jwt_lib
  be_parse :: "bytes \<Rightarrow> client_session_request option"
  be_render :: "broker_session_response \<Rightarrow> bytes option"

text \<open>
  A connection: the peer, the bytes of its first stream (if it opens one), its certificate,
  whether the reply can be written, the readings of the clocks at authentication,
  assignment, signature and registration, and the random bytes of the session identifier.
\<close>

record incoming =
  in_ip :: ip
  in_stream :: "bytes option"
  in_cert :: "string option"
  in_writable :: bool
  in_instant :: timestamp
  in_auth_at :: timestamp
  in_assign_at :: timestamp
  in_token_at :: timestamp
  in_registered_at :: timestamp
  in_random :: bytes

section \<open>Requests and replies\<close>

datatype request_error = NoStream | RequestCut read_error | RequestUndecodable

definition max_session_request :: nat where
  "max_session_request = 8192"

definition receive_session_request ::
  "broker_env \<Rightarrow> incoming \<Rightarrow> (request_error, client_session_request) result"
where
  "receive_session_request env c =
    (case in_stream c of
      None \<Rightarrow> Err NoStream
    | Some s \<Rightarrow>
        (case read_frame 4 be_nat (\<lambda>n. n \<le> max_session_request) s of
          Inl e \<Rightarrow> Err (RequestCut e)
        | Inr (payload, _) \<Rightarrow> ok_or (be_parse env payload) RequestUndecodable))"

definition default_response :: broker_session_response where
  "default_response = \<lparr>resp_auth_result = 0, resp_session_id = [], resp_vm_id = [], server_address = [],
    session_token = [], resp_server_nonce = [], resp_server_public_key = [], resp_error_message = []\<rparr>"

text \<open>How a connection ends; an answer that cannot be rendered or written is lost.\<close>

datatype client_end =
    MaxSessions
  | BadRequest request_error
  | NotIssued token_error
  | Answered broker_session_response
  | AnswerLost broker_session_response

definition send_session_response :: "broker_env \<Rightarrow> incoming \<Rightarrow> broker_session_response \<Rightarrow> client_end" where
  "send_session_response env c resp =
    (case be_render env resp of
      None \<Rightarrow> AnswerLost resp
    | Some _ \<Rightarrow> if in_writable c then Answered resp else AnswerLost resp)"

section \<open>One client\<close>

definition request_attempt :: "incoming \<Rightarrow> client_session_request \<Rightarrow> attempt" where
  "request_attempt c req = \<lparr>at_instant = in_instant c, at_utc = in_auth_at c,
    at_method = (case auth_method_try_from (req_auth_method req) of Some m \<Rightarrow> m | None \<Rightarrow> MethodUnspecified),
    at_token = auth_token req, at_ip = in_ip c, at_cert = in_cert c\<rparr>"

definition new_session :: "incoming \<Rightarrow> string \<Rightarrow> auth_identity \<Rightarrow> vm_pool_entry \<Rightarrow> broker_session" where
  "new_session c sid ident vm = \<lparr>bs_id = sid, bs_user_id = ai_user_id ident, bs_client_ip = in_ip c,
    bs_vm_id = e_id vm, bs_vm_addr = addr vm, bs_state = Active,
    bs_auth_method = method_string (ai_method ident), started_at = in_registered_at c,
    last_seen = in_registered_at c\<rparr>"

definition success_response ::
  "network_config \<Rightarrow> string \<Rightarrow> vm_pool_entry \<Rightarrow> string \<Rightarrow> broker_session_response"
where
  "success_response net sid vm token = default_response\<lparr>
    resp_auth_result := auth_result_code ResultSuccess, resp_session_id := sid, resp_vm_id := e_id vm,
    server_address := (case proxy_address net of Some a \<Rightarrow> a | None \<Rightarrow> addr vm),
    session_token := string_bytes token\<rparr>"

definition failure_response :: "auth_result \<Rightarrow> string \<Rightarrow> broker_session_response" where
  "failure_response r msg = default_response\<lparr>resp_auth_result := auth_result_code r, resp_error_message := msg\<rparr>"

text \<open>What follows a successful authentication.\<close>

definition open_session ::
  "broker_env \<Rightarrow> incoming \<Rightarrow> client_session_request \<Rightarrow> auth_identity \<Rightarrow> broker \<Rightarrow> client_end \<times> broker"
where
  "open_session env c req ident b =
    (let sid = session_id_new (in_random c);
         tag = (if preferred_vm_tag req = [] then None else Some (preferred_vm_tag req))
     in case assign_or_provision (be_provider env) (pool_section (b_config b)) (in_assign_at c) sid tag
            (ai_user_id ident) (b_pool b) of
          (Inl _, p) \<Rightarrow>
            (send_session_response env c (failure_response ResultFailure ''aucune VM disponible''), b\<lparr>b_pool := p\<rparr>)
        | (Inr vm, p) \<Rightarrow>
            (case issue_session_token (be_jwt env) (auth_section (b_config b)) (in_token_at c) ident sid
                (e_id vm) (e_cid vm) of
              Inl e \<Rightarrow> (NotIssued e, b\<lparr>b_pool := p\<rparr>)
            | Inr token \<Rightarrow>
                (send_session_response env c (success_response (network (b_config b)) sid vm token),
                 b\<lparr>b_pool := p, b_sessions := register (new_session c sid ident vm) (b_sessions b)\<rparr>)))"

definition handle_client :: "broker_env \<Rightarrow> incoming \<Rightarrow> broker \<Rightarrow> client_end \<times> broker" where
  "handle_client env c b =
    (if max_sessions (network (b_config b)) \<le> active_count (b_sessions b) then (MaxSessions, b)
     else (case receive_session_request env c of
         Inl e \<Rightarrow> (BadRequest e, b)
       | Inr req \<Rightarrow>
           (case authenticate (be_oidc env) (auth_section (b_config b)) (request_attempt c req) (b_limiter b) of
             (OutFailure r, rl) \<Rightarrow>
               (send_session_response env c (failure_response ResultFailure (reason_string r)), b\<lparr>b_limiter := rl\<rparr>)
           | (MfaRequired challenge, rl) \<Rightarrow>
               (send_session_response env c (failure_response ResultMfaNeeded challenge), b\<lparr>b_limiter := rl\<rparr>)
           | (OutSuccess ident, rl) \<Rightarrow> open_session env c req ident (b\<lparr>b_limiter := rl\<rparr>))))"

text \<open>The collector that runs every thirty seconds.\<close>

definition gc_sessions_tick :: "broker_env \<Rightarrow> timestamp \<Rightarrow> broker \<Rightarrow> broker" where
  "gc_sessions_tick env now b = b\<lparr>b_pool :=
    gc_expired_sessions (be_provider env) now (session_token_ttl_secs (auth_section (b_config b))) (b_pool b)\<rparr>"

section \<open>Administration\<close>

fun state_debug :: "broker_session_state \<Rightarrow> string" where
  "state_debug Authenticating = ''Authenticating''"
| "state_debug Active = ''Active''"
| "state_debug Closing = ''Closing''"
| "state_debug Closed = ''Closed''"

definition JNat :: "nat \<Rightarrow> json" where
  "JNat n = JInt (int n)"

definition health_handler :: "string \<Rightarrow> broker \<Rightarrow> json" where
  "health_handler version b =
    (let s = status (b_pool b) in
     JObj [(''status'', JStr (if 0 < st_available s then ''healthy'' else ''degraded'')),
       (''version'', JStr version), (''sessions'', JNat (active_count (b_sessions b))),
       (''pool'', JObj [(''total'', JNat (st_total s)), (''available'', JNat (st_available s)),
         (''assigned'', JNat (st_assigned s)), (''unhealthy'', JNat (st_unhealthy s))])])"

definition pool_status_handler :: "(timestamp \<Rightarrow> string) \<Rightarrow> broker \<Rightarrow> json" where
  "pool_status_handler rfc3339 b =
    (let s = status (b_pool b) in
     JObj [(''total'', JNat (st_total s)), (''available'', JNat (st_available s)),
       (''assigned'', JNat (st_assigned s)), (''unhealthy'', JNat (st_unhealthy s)),
       (''vms'', JArr (map (\<lambda>e. JObj [(''id'', JStr (e_id e)), (''addr'', JStr (addr e)),
           (''tags'', JArr (map JStr (e_tags e))), (''state'', JStr (label (e_state e))),
           (''sessions'', JNat (unat (sessions_served e))),
           (''last_health'', case last_health e of None \<Rightarrow> JNull | Some t \<Rightarrow> JStr (rfc3339 t))])
         (entries (b_pool b))))])"

definition sessions_handler :: "(timestamp \<Rightarrow> string) \<Rightarrow> broker \<Rightarrow> json" where
  "sessions_handler rfc3339 b =
    JObj [(''count'', JNat (length (session_all (b_sessions b)))),
      (''sessions'', JArr (map (\<lambda>s. JObj [(''id'', JStr (bs_id s)), (''user_id'', JStr (bs_user_id s)),
          (''client_ip'', JStr (bs_client_ip s)), (''vm_id'', JStr (bs_vm_id s)),
          (''state'', JStr (state_debug (bs_state s))), (''auth_method'', JStr (bs_auth_method s)),
          (''started_at'', JStr (rfc3339 (started_at s)))]) (session_all (b_sessions b))))]"

text \<open>The status code and the body; the reason is only logged.\<close>

definition revoke_session_handler :: "string \<Rightarrow> broker \<Rightarrow> (nat \<times> json) \<times> broker" where
  "revoke_session_handler sid b =
    (case revoke sid (b_sessions b) of
      (True, reg) \<Rightarrow>
        ((200, JObj [(''revoked'', JBool True), (''session_id'', JStr sid)]), b\<lparr>b_sessions := reg\<rparr>)
    | (False, reg) \<Rightarrow>
        ((404, JObj [(''error'', JStr ''session introuvable'')]), b\<lparr>b_sessions := reg\<rparr>))"

text \<open>The values of the gauges of the metrics, in the order in which they are printed.\<close>

definition metrics_handler :: "broker \<Rightarrow> (string \<times> nat) list" where
  "metrics_handler b =
    (let s = status (b_pool b) in
     [(''nidan_pool_total'', st_total s), (''nidan_pool_available'', st_available s),
      (''nidan_sessions_active'', active_count (b_sessions b)), (''nidan_pool_unhealthy'', st_unhealthy s)])"

end
