(* ===== verification/AuthProps.thy ===== *)
theory AuthProps
  imports Auth
begin

text \<open>
  The properties of authentication: the ban after five failures and the bound it puts on
  guesses, the lifetime of session tokens at the broker and at the proxy, and what the
  OpenID Connect and Kerberos branches accept.
\<close>

section \<open>One attempt\<close>

lemma limiter_params_limited [simp]:
  "max_failures (snd (is_rate_limited now i rl)) = max_failures rl"
  "ban_duration (snd (is_rate_limited now i rl)) = ban_duration rl"
  "rl_window (snd (is_rate_limited now i rl)) = rl_window rl"
  by (simp_all add: is_rate_limited_def failure_count_def Let_def split: option.split)

lemma limiter_params_success [simp]:
  "max_failures (record_success i rl) = max_failures rl"
  "ban_duration (record_success i rl) = ban_duration rl"
  "rl_window (record_success i rl) = rl_window rl"
  by (simp_all add: record_success_def)

lemma failures_of_limited:
  "failures_of j (snd (is_rate_limited now i rl))
    = (if i = j then filter (\<lambda>t. now - rl_window rl < t) (failures_of j rl) else failures_of j rl)"
  by (auto simp: failures_of_def is_rate_limited_def failure_count_def prune_def Let_def update_conv'
      split: option.split)

lemma failures_of_record_other:
  "i \<noteq> j \<Longrightarrow> failures_of j (record_failure now i rl) = failures_of j rl"
  by (simp add: failures_of_def record_failure_def failure_count_def Let_def update_conv')

lemma failures_of_success:
  "failures_of j (record_success i rl) = (if i = j then [] else failures_of j rl)"
  by (simp add: failures_of_def record_success_def delete_conv')

lemma authenticate_cases:
  obtains
    (Banned) "is_banned (at_instant a) (at_ip a) rl" "authenticate L cfg a rl = (OutFailure Banned, rl)"
  | (Limited) "\<not> is_banned (at_instant a) (at_ip a) rl" "fst (is_rate_limited (at_instant a) (at_ip a) rl)"
      "authenticate L cfg a rl = (OutFailure RateLimited,
        record_failure (at_instant a) (at_ip a) (snd (is_rate_limited (at_instant a) (at_ip a) rl)))"
  | (Checked) "\<not> is_banned (at_instant a) (at_ip a) rl" "\<not> fst (is_rate_limited (at_instant a) (at_ip a) rl)"
      "authenticate L cfg a rl = (check_credentials L cfg a, case check_credentials L cfg a of
          OutSuccess _ \<Rightarrow> record_success (at_ip a) (snd (is_rate_limited (at_instant a) (at_ip a) rl))
        | OutFailure _ \<Rightarrow> record_failure (at_instant a) (at_ip a) (snd (is_rate_limited (at_instant a) (at_ip a) rl))
        | MfaRequired _ \<Rightarrow> snd (is_rate_limited (at_instant a) (at_ip a) rl))"
proof (cases "is_rate_limited (at_instant a) (at_ip a) rl")
  case (Pair lim rl1)
  show ?thesis
  proof (cases "is_banned (at_instant a) (at_ip a) rl")
    case True
    then show ?thesis using that(1) by (simp add: authenticate_def)
  next
    case False
    have r: "snd (is_rate_limited (at_instant a) (at_ip a) rl) = rl1" using Pair by simp
    show ?thesis using that(2,3) [unfolded r] False Pair
      by (cases lim) (simp_all add: authenticate_def Let_def)
  qed
qed

lemma authenticate_params [simp]:
  "max_failures (snd (authenticate L cfg a rl)) = max_failures rl"
  "ban_duration (snd (authenticate L cfg a rl)) = ban_duration rl"
  "rl_window (snd (authenticate L cfg a rl)) = rl_window rl"
  by (rule authenticate_cases [of a rl L cfg]; simp split: auth_outcome.split)+

lemma no_mfa: "check_credentials L cfg a \<noteq> MfaRequired c"
  by (simp add: check_credentials_def auth_mtls_def auth_kerberos_def auth_oidc_def auth_saml_def Let_def
      split: auth_method.split option.split sum.split)

text \<open>A counted failure is one that is not answered by the ban.\<close>

definition counted_failure :: "auth_outcome \<Rightarrow> bool" where
  "counted_failure out \<longleftrightarrow> (case out of OutFailure r \<Rightarrow> r \<noteq> Banned | _ \<Rightarrow> False)"

lemma credentials_not_banned: "check_credentials L cfg a \<noteq> OutFailure Banned"
  by (simp add: check_credentials_def auth_mtls_def auth_kerberos_def auth_oidc_def auth_saml_def Let_def
      split: auth_method.split option.split sum.split)

lemma filter_twice_snoc:
  "filter P (filter P xs @ [x]) = filter P (xs @ [x])"
  by simp

lemma counted_failure_recorded:
  assumes "counted_failure (fst (authenticate L cfg a rl))"
  shows "failures_of (at_ip a) (snd (authenticate L cfg a rl))
      = filter (\<lambda>t. at_instant a - rl_window rl < t) (failures_of (at_ip a) rl @ [at_instant a])"
  using assms
  by (rule_tac authenticate_cases [of a rl L cfg])
    (auto simp: counted_failure_def failures_of_record failures_of_limited split: auth_outcome.splits)

lemma counted_failure_bans:
  assumes "counted_failure (fst (authenticate L cfg a rl))"
    and "unat (max_failures rl) \<le> length (failures_of (at_ip a) (snd (authenticate L cfg a rl)))"
    and "later < at_instant a + ban_duration rl"
  shows "is_banned later (at_ip a) (snd (authenticate L cfg a rl))"
proof -
  let ?rl1 = "snd (is_rate_limited (at_instant a) (at_ip a) rl)"
  have out: "snd (authenticate L cfg a rl) = record_failure (at_instant a) (at_ip a) ?rl1"
    using assms(1) by (rule_tac authenticate_cases [of a rl L cfg])
      (auto simp: counted_failure_def split: auth_outcome.splits)
  have "failures_of (at_ip a) (record_failure (at_instant a) (at_ip a) ?rl1)
      = filter (\<lambda>t. at_instant a - rl_window ?rl1 < t) (failures_of (at_ip a) ?rl1 @ [at_instant a])"
    by (rule failures_of_record)
  then show ?thesis
    unfolding out using assms(2,3) out by (intro record_failure_bans) simp_all
qed

section \<open>Five failures\<close>

definition demo_auth_config :: auth_config where
  "demo_auth_config = default_auth_config\<lparr>
    enabled_methods := [''oidc'', ''kerberos''],
    kerberos_cfg := Some \<lparr>keytab_path = ''k'', service_principal = ''p'', krb_realm = ''R''\<rparr>,
    oidc_cfg := Some \<lparr>issuer_url = ''sso'', client_id = ''c'', audience = ''nidan'', identity_claim = ''sub''\<rparr>\<rparr>"

definition no_oidc_lib :: oidc_lib where
  "no_oidc_lib = \<lparr>b64_decode = (\<lambda>_. None), parse_claims = (\<lambda>_. None)\<rparr>"

definition guess_at :: "int \<Rightarrow> attempt" where
  "guess_at s = \<lparr>at_instant = secs s, at_utc = secs s, at_method = Oidc, at_token = [1], at_ip = ''10.0.0.9'',
    at_cert = None\<rparr>"

lemma authenticate_all_append:
  "authenticate_all L cfg (as @ bs) rl =
    (case authenticate_all L cfg as rl of (o1, r1) \<Rightarrow>
      (case authenticate_all L cfg bs r1 of (o2, r2) \<Rightarrow> (o1 @ o2, r2)))"
  by (induction as arbitrary: rl) (simp_all split: prod.split)

lemma length_authenticate_all [simp]: "length (fst (authenticate_all L cfg as rl)) = length as"
  by (induction as arbitrary: rl) (simp_all add: prod.case_eq_if)

lemma authenticate_all_params [simp]:
  "max_failures (snd (authenticate_all L cfg as rl)) = max_failures rl"
  "ban_duration (snd (authenticate_all L cfg as rl)) = ban_duration rl"
  "rl_window (snd (authenticate_all L cfg as rl)) = rl_window rl"
proof (induction as arbitrary: rl)
  case (Cons a as)
  {
    case 1 then show ?case using Cons(1) [of "snd (authenticate L cfg a rl)"]
      by (simp add: prod.case_eq_if)
  next
    case 2 then show ?case using Cons(2) [of "snd (authenticate L cfg a rl)"]
      by (simp add: prod.case_eq_if)
  next
    case 3 then show ?case using Cons(3) [of "snd (authenticate L cfg a rl)"]
      by (simp add: prod.case_eq_if)
  }
qed simp_all

lemma window_keeps:
  fixes ts :: "timestamp list"
  assumes "\<forall>t \<in> set ts. t0 \<le> t" "now - w < t0"
  shows "filter (\<lambda>t. now - w < t) ts = ts"
  using assms by (auto simp: filter_id_conv)

lemma failures_accumulate:
  assumes "\<forall>a \<in> set as. at_ip a = i \<and> t0 \<le> at_instant a \<and> at_instant a < t0 + rl_window rl"
    and "list_all counted_failure (fst (authenticate_all L cfg as rl))"
  shows "\<exists>old. failures_of i (snd (authenticate_all L cfg as rl)) = old @ map at_instant as"
  using assms
proof (induction as rule: rev_induct)
  case Nil
  then show ?case by simp
next
  case (snoc a as)
  let ?r = "snd (authenticate_all L cfg as rl)"
  have outs: "fst (authenticate_all L cfg (as @ [a]) rl)
      = fst (authenticate_all L cfg as rl) @ [fst (authenticate L cfg a ?r)]"
    and res: "snd (authenticate_all L cfg (as @ [a]) rl) = snd (authenticate L cfg a ?r)"
    by (simp_all add: authenticate_all_append prod.case_eq_if)
  obtain old where old: "failures_of i ?r = old @ map at_instant as"
    using snoc.IH snoc.prems outs by auto
  have a: "at_ip a = i" using snoc.prems(1) by simp
  have "failures_of i (snd (authenticate L cfg a ?r))
      = filter (\<lambda>t. at_instant a - rl_window rl < t) (failures_of i ?r @ [at_instant a])"
    using counted_failure_recorded [of L cfg a ?r] snoc.prems(2) outs a by simp
  moreover have "filter (\<lambda>t. at_instant a - rl_window rl < t) (map at_instant as @ [at_instant a])
      = map at_instant as @ [at_instant a]"
    using snoc.prems(1) by (intro window_keeps [of _ t0]) auto
  ultimately show ?case unfolding res using old by simp
qed



section \<open>A bound on guesses\<close>

lemma ban_inv_authenticate:
  assumes "ban_inv (at_instant a) rl" "rl_window rl \<le> ban_duration rl" "0 < rl_window rl"
  shows "ban_inv (at_instant a) (snd (authenticate L cfg a rl))"
  by (rule authenticate_cases [of a rl L cfg])
    (use assms in \<open>auto simp: ban_inv_failure ban_inv_limited ban_inv_success split: auth_outcome.split\<close>)

definition failure_times :: "ip \<Rightarrow> attempt list \<Rightarrow> auth_outcome list \<Rightarrow> timestamp list" where
  "failure_times i as outs =
    map (\<lambda>p. at_instant (fst p)) (filter (\<lambda>p. at_ip (fst p) = i \<and> counted_failure (snd p)) (zip as outs))"

definition no_success :: "ip \<Rightarrow> attempt list \<Rightarrow> auth_outcome list \<Rightarrow> bool" where
  "no_success i as outs \<longleftrightarrow>
    list_all (\<lambda>p. at_ip (fst p) = i \<longrightarrow> (case snd p of OutSuccess _ \<Rightarrow> False | _ \<Rightarrow> True)) (zip as outs)"

definition in_window :: "timestamp \<Rightarrow> timestamp list \<Rightarrow> nat" where
  "in_window t ts = length (filter (\<lambda>u. t - secs 300 < u \<and> u \<le> t) ts)"

lemma failure_times_mem: "u \<in> set (failure_times i as outs) \<Longrightarrow> \<exists>a \<in> set as. u = at_instant a"
  by (auto simp: failure_times_def dest: set_zip_leftD)

lemma failure_times_snoc:
  "length as = length outs \<Longrightarrow> failure_times i (as @ [a]) (outs @ [out])
    = failure_times i as outs @ (if at_ip a = i \<and> counted_failure out then [at_instant a] else [])"
  by (simp add: failure_times_def)

lemma no_success_snoc:
  "length as = length outs \<Longrightarrow> no_success i (as @ [a]) (outs @ [out])
    \<longleftrightarrow> no_success i as outs \<and> (at_ip a = i \<longrightarrow> (case out of OutSuccess _ \<Rightarrow> False | _ \<Rightarrow> True))"
  by (simp add: no_success_def)

lemma length_filter_mono: "(\<And>x. P x \<Longrightarrow> Q x) \<Longrightarrow> length (filter P xs) \<le> length (filter Q xs)"
  by (induction xs) auto

text \<open>One attempt changes the recent failures of an address as it changes the history.\<close>

lemma recent_failures_step:
  assumes "at_ip a = i \<longrightarrow> (case fst (authenticate L cfg a rl) of OutSuccess _ \<Rightarrow> False | _ \<Rightarrow> True)"
    and "at_instant a \<le> n" and "0 < rl_window rl"
  shows "filter (\<lambda>u. n - rl_window rl < u) (failures_of i (snd (authenticate L cfg a rl)))
    = filter (\<lambda>u. n - rl_window rl < u) (failures_of i rl)
      @ (if at_ip a = i \<and> counted_failure (fst (authenticate L cfg a rl))
         then filter (\<lambda>u. n - rl_window rl < u) [at_instant a] else [])"
proof -
  have absorb: "filter (\<lambda>u. at_instant a - rl_window rl < u \<and> n - rl_window rl < u) xs
      = filter ((<) (n - rl_window rl)) xs" for xs
    using assms(2) by (intro filter_cong) auto
  show ?thesis
    by (rule authenticate_cases [of a rl L cfg])
      (use assms(1,3) in \<open>auto simp: counted_failure_def failures_of_record failures_of_limited absorb
        failures_of_record_other failures_of_success no_mfa credentials_not_banned
        split: auth_outcome.splits if_splits\<close>)
qed

text \<open>An attempt that is neither banned nor a success had at most four recent failures.\<close>

lemma few_recent_failures:
  assumes "ban_inv (at_instant a) rl" "max_failures rl = 5"
    and "counted_failure (fst (authenticate L cfg a rl))"
  shows "length (filter (\<lambda>u. at_instant a - rl_window rl < u) (failures_of (at_ip a) rl)) \<le> 4"
proof -
  have nb: "\<not> is_banned (at_instant a) (at_ip a) rl"
    using assms(3) by (auto simp: authenticate_def counted_failure_def)
  then have "\<not> fst (is_rate_limited (at_instant a) (at_ip a) rl)"
    using rate_limited_banned [OF assms(1) nb] assms(2) by auto
  then show ?thesis using assms(2)
    by (auto simp: is_rate_limited_def failure_count_def prune_def Let_def failures_of_def
        split: option.splits)
qed

lemma guesses_invariant:
  fixes cfg :: auth_config
  defines "rl0 \<equiv> engine_limiter cfg"
  assumes "sorted (map at_instant as)" "no_success i as (fst (authenticate_all L cfg as rl0))"
  shows "(\<forall>n. (\<forall>a \<in> set as. at_instant a \<le> n) \<longrightarrow> ban_inv n (snd (authenticate_all L cfg as rl0))
      \<and> filter (\<lambda>u. n - secs 300 < u) (failures_of i (snd (authenticate_all L cfg as rl0)))
        = filter (\<lambda>u. n - secs 300 < u) (failure_times i as (fst (authenticate_all L cfg as rl0))))
    \<and> (\<forall>t. in_window t (failure_times i as (fst (authenticate_all L cfg as rl0))) \<le> 5)"
  using assms(2,3)
proof (induction as rule: rev_induct)
  case Nil
  have "ban_inv n rl0" for n
    unfolding rl0_def engine_limiter_def by (rule ban_inv_new) (simp add: security_max_attempts_def)
  then show ?case
    by (simp add: failure_times_def in_window_def failures_of_def rl0_def engine_limiter_def rate_limiter_new_def)
next
  case (snoc a as)
  let ?r = "snd (authenticate_all L cfg as rl0)" and ?o = "fst (authenticate_all L cfg as rl0)"
  let ?out = "fst (authenticate L cfg a ?r)" and ?T = "failure_times i as ?o"
  have par: "max_failures rl0 = 5" "ban_duration rl0 = secs 300" "rl_window rl0 = secs 300" "0 < secs 300"
    by (simp_all add: rl0_def engine_limiter_def rate_limiter_new_def security_max_attempts_def
        security_ban_secs_def secs_def nanos_per_sec_def)
  have outs: "fst (authenticate_all L cfg (as @ [a]) rl0) = ?o @ [?out]"
    and res: "snd (authenticate_all L cfg (as @ [a]) rl0) = snd (authenticate L cfg a ?r)"
    by (simp_all add: authenticate_all_append prod.case_eq_if)
  have srt: "sorted (map at_instant as)" and le: "\<forall>b \<in> set as. at_instant b \<le> at_instant a"
    using snoc.prems(1) by (auto simp: sorted_append)
  have ns: "no_success i as ?o" and this_ns: "at_ip a = i \<longrightarrow> (case ?out of OutSuccess _ \<Rightarrow> False | _ \<Rightarrow> True)"
    using snoc.prems(2) unfolding outs by (simp_all add: no_success_snoc)
  note IH = snoc.IH [OF srt ns]
  have inv: "ban_inv (at_instant a) ?r"
    and hist: "\<And>n. at_instant a \<le> n \<Longrightarrow>
      filter (\<lambda>u. n - secs 300 < u) (failures_of i ?r) = filter (\<lambda>u. n - secs 300 < u) ?T"
    and bound: "\<And>t. in_window t ?T \<le> 5"
  proof -
    show "ban_inv (at_instant a) ?r" "in_window t ?T \<le> 5" for t using IH le by blast+
    fix n assume "at_instant a \<le> n"
    then have "\<forall>b \<in> set as. at_instant b \<le> n" using le by force
    then show "filter (\<lambda>u. n - secs 300 < u) (failures_of i ?r) = filter (\<lambda>u. n - secs 300 < u) ?T"
      using IH by blast
  qed
  have T: "failure_times i (as @ [a]) (?o @ [?out])
      = ?T @ (if at_ip a = i \<and> counted_failure ?out then [at_instant a] else [])"
    by (simp add: failure_times_snoc)
  have now: "ban_inv (at_instant a) (snd (authenticate L cfg a ?r))"
    using inv par by (intro ban_inv_authenticate) simp_all
  have step: "filter (\<lambda>u. n - secs 300 < u) (failures_of i (snd (authenticate L cfg a ?r)))
      = filter (\<lambda>u. n - secs 300 < u) (failure_times i (as @ [a]) (?o @ [?out]))"
    if n: "at_instant a \<le> n" for n
    using recent_failures_step [OF this_ns n] hist [OF n] par unfolding T by simp
  have "in_window t (failure_times i (as @ [a]) (?o @ [?out])) \<le> 5" for t
  proof (cases "at_ip a = i \<and> counted_failure ?out \<and> at_instant a \<le> t")
    case True
    have "length (filter (\<lambda>u. at_instant a - secs 300 < u) ?T) \<le> 4"
      using few_recent_failures [OF inv, of L cfg] True hist [of "at_instant a"] par by simp
    moreover have "length (filter (\<lambda>u. t - secs 300 < u \<and> u \<le> t) ?T)
        \<le> length (filter (\<lambda>u. at_instant a - secs 300 < u) ?T)"
      using True by (intro length_filter_mono) auto
    ultimately show ?thesis using True unfolding T in_window_def by simp
  next
    case False
    then show ?thesis using bound [of t] unfolding T in_window_def by auto
  qed
  then show ?case unfolding outs res using step ban_inv_mono [OF now] by auto
qed



section \<open>Session tokens\<close>

text \<open>
  The checks of the token library: the expiry with the leeway, and the issuer when one is
  asked for.  \<open>token_law\<close> is what the program relies on: a token encoded from claims that
  expire after the epoch decodes, under the same key, to these claims when they pass the
  checks, and to nothing otherwise.
\<close>

definition validation_passes :: "jwt_validation \<Rightarrow> int \<Rightarrow> session_claims \<Rightarrow> bool" where
  "validation_passes v now c \<longleftrightarrow>
    (v_validate_exp v \<longrightarrow> now - v_leeway v \<le> c_exp c)
    \<and> (case v_issuer v of None \<Rightarrow> True | Some i \<Rightarrow> c_iss c = i)"

definition token_law :: "jwt_lib \<Rightarrow> string \<Rightarrow> session_claims \<Rightarrow> bool" where
  "token_law J secret c \<longleftrightarrow> (0 \<le> c_exp c \<longrightarrow>
    (\<forall>t now v. jwt_encode J secret c = Some t \<longrightarrow>
      jwt_decode J now secret v t = (if validation_passes v now c then Some c else None)))"

lemma unix_secs_add: "unix_secs (t + secs s) = unix_secs t + s"
  by (simp add: unix_secs_def secs_def nanos_per_sec_def)

lemma token_lifetime:
  assumes "issue_session_token J cfg t0 ident sid vm cid = Ok tok"
    and "claims = claims_for (engine_jwt cfg) t0 (secs ttl) ident sid vm cid"
    and "ttl = sint (session_token_ttl_secs cfg)"
    and "0 \<le> unix_secs t0 + ttl"
    and "token_law J (jwt_secret (jwt_cfg cfg)) claims" "jwt_secret (jwt_cfg cfg) \<noteq> []"
  shows "validate_session_token J cfg t tok
      = (if unix_secs t \<le> unix_secs t0 + ttl then Ok claims else Err InvalidToken)
    \<and> verify_session_token J t' tok (jwt_secret (jwt_cfg cfg))
      = (if unix_secs t' \<le> unix_secs t0 + ttl + 60 then Ok claims else Err InvalidToken)
    \<and> c_session_id claims = sid \<and> c_vm_id claims = vm \<and> c_cid claims = cid"
proof -
  have E: "je_secret (engine_jwt cfg) = jwt_secret (jwt_cfg cfg)"
    "je_validation (engine_jwt cfg) = \<lparr>v_issuer = Some (jwt_issuer (jwt_cfg cfg)), v_leeway = 0, v_validate_exp = True\<rparr>"
    "je_issuer (engine_jwt cfg) = jwt_issuer (jwt_cfg cfg)" "je_ttl_secs (engine_jwt cfg) = session_token_ttl_secs cfg"
    by (simp_all add: engine_jwt_def jwt_engine_new_def)
  have enc: "jwt_encode J (jwt_secret (jwt_cfg cfg)) claims = Some tok"
    using assms(1) unfolding assms(2,3)
    by (auto simp: issue_session_token_def sign_def duration_seconds_def E ok_or_def split: option.splits if_splits)
  have c: "c_exp claims = unix_secs t0 + ttl" "c_iss claims = jwt_issuer (jwt_cfg cfg)"
    by (simp_all add: assms(2) claims_for_def unix_secs_add E)
  have dec: "jwt_decode J now (jwt_secret (jwt_cfg cfg)) v tok
      = (if validation_passes v now claims then Some claims else None)" for now v
    using assms(4,5) enc c(1) by (simp add: token_law_def)
  have "validate_session_token J cfg t tok
      = (if unix_secs t \<le> unix_secs t0 + ttl then Ok claims else Err InvalidToken)"
    by (simp add: validate_session_token_def verify_def E dec validation_passes_def c)
  moreover have "verify_session_token J t' tok (jwt_secret (jwt_cfg cfg))
      = (if unix_secs t' \<le> unix_secs t0 + ttl + 60 then Ok claims else Err InvalidToken)"
    using assms(6) by (simp add: verify_session_token_def proxy_validation_def dec validation_passes_def c algebra_simps)
  moreover have "c_session_id claims = sid \<and> c_vm_id claims = vm \<and> c_cid claims = cid"
    by (simp add: assms(2) claims_for_def)
  ultimately show ?thesis by blast
qed

text \<open>
  A session token is accepted by the broker up to its time to live, and by the proxy, which
  shares the secret, for one more minute; both recover the session, the VM and its
  identifier from it.
\<close>

theorem session_token_lifetime:
  assumes "issue_session_token J cfg t0 ident sid vm cid = Ok tok"
    and "claims = claims_for (engine_jwt cfg) t0 (secs ttl) ident sid vm cid"
    and "ttl = sint (session_token_ttl_secs cfg)"
    and "0 \<le> unix_secs t0 + ttl"
    and "token_law J (jwt_secret (jwt_cfg cfg)) claims" "jwt_secret (jwt_cfg cfg) \<noteq> []"
  shows "validate_session_token J cfg t tok
      = (if unix_secs t \<le> unix_secs t0 + ttl then Ok claims else Err InvalidToken)
    \<and> verify_session_token J t' tok (jwt_secret (jwt_cfg cfg))
      = (if unix_secs t' \<le> unix_secs t0 + ttl + 60 then Ok claims else Err InvalidToken)
    \<and> c_session_id claims = sid \<and> c_vm_id claims = vm \<and> c_cid claims = cid"
  using token_lifetime [OF assms] .

text \<open>A token library that keeps the claims it signed.\<close>

definition demo_identity :: auth_identity where
  "demo_identity = \<lparr>ai_user_id = ''bob'', ai_display_name = None, ai_groups = [], ai_method = UsedMtls,
    ai_realm = None, ai_authenticated_at = 0, ai_client_ip = ''10.0.0.9''\<rparr>"

definition demo_claims :: session_claims where
  "demo_claims = claims_for (engine_jwt default_auth_config) (secs 1000) (secs 300) demo_identity ''s'' ''vm1'' (Some 10)"

definition demo_jwt :: jwt_lib where
  "demo_jwt = \<lparr>jwt_encode = (\<lambda>k c. if c = demo_claims then Some ''tok'' else None),
    jwt_decode = (\<lambda>now k v t. if t = ''tok'' \<and> validation_passes v now demo_claims then Some demo_claims else None)\<rparr>"

theorem session_token_lifetime_witness:
  "validate_session_token demo_jwt default_auth_config (secs 1301) ''tok'' = Err InvalidToken
    \<and> verify_session_token demo_jwt (secs 1360) ''tok'' (jwt_secret (jwt_cfg default_auth_config)) = Ok demo_claims"
proof -
  have ttl: "(300 :: int) = sint (session_token_ttl_secs default_auth_config)"
    by (simp add: default_auth_config_def)
  have issue: "issue_session_token demo_jwt default_auth_config (secs 1000) demo_identity ''s'' ''vm1'' (Some 10) = Ok ''tok''"
    using ttl by (simp add: issue_session_token_def sign_def duration_seconds_def demo_jwt_def demo_claims_def
        engine_jwt_def jwt_engine_new_def)
  have law: "token_law demo_jwt (jwt_secret (jwt_cfg default_auth_config)) demo_claims"
    by (simp add: token_law_def demo_jwt_def)
  have sec: "jwt_secret (jwt_cfg default_auth_config) \<noteq> []" by (simp add: default_auth_config_def)
  have u: "unix_secs (secs s) = s" for s by (simp add: unix_secs_def secs_def nanos_per_sec_def)
  have "0 \<le> unix_secs (secs 1000) + 300" by (simp add: u)
  from session_token_lifetime [OF issue demo_claims_def ttl this law sec, of "secs 1301" "secs 1360"]
  show ?thesis by (simp add: u)
qed

section \<open>What the branches accept\<close>

text \<open>
  C33. With OpenID Connect enabled, anyone can authenticate as any user: a token of three parts
  whose middle part is the encoding of the identity claim alone is accepted whatever its
  signature part is, with no audience and no expiry.
\<close>

theorem forged_oidc_token_accepted:
  assumes "''oidc'' \<in> set (enabled_methods cfg)" "oidc_cfg cfg = Some oc"
    and "identity_claim oc \<noteq> ''aud''" "identity_claim oc \<noteq> ''exp''"
    and "b64_decode L payload = Some bs" "parse_claims L bs = Some [(identity_claim oc, JStr user)]"
    and "from_utf8 token = Some (hd_part @ ''.'' @ payload @ ''.'' @ signature)"
    and "CHR ''.'' \<notin> set hd_part" "CHR ''.'' \<notin> set payload" "CHR ''.'' \<notin> set signature"
  shows "\<exists>ident. auth_oidc L cfg now token i = OutSuccess ident \<and> ai_user_id ident = user"
proof -
  have parts: "str_split (CHR ''.'') (hd_part @ CHR ''.'' # payload @ CHR ''.'' # signature) = [hd_part, payload, signature]"
    using assms(8-10) by (simp add: str_split_append str_split_clean)
  show ?thesis using assms(1-7)
    by (simp add: auth_oidc_def validate_bearer_token_def parts claim_user_def)
qed

theorem forged_oidc_token_accepted_witness:
  "\<exists>ident. auth_oidc \<lparr>b64_decode = (\<lambda>s. Some (string_bytes s)), parse_claims = (\<lambda>b. Some [(''sub'', JStr (bytes_string b))])\<rparr>
      demo_auth_config 0 (string_bytes ''h.admin.x'') ''10.0.0.9'' = OutSuccess ident \<and> ai_user_id ident = ''admin''"
proof -
  let ?L = "\<lparr>b64_decode = (\<lambda>s. Some (string_bytes s)), parse_claims = (\<lambda>b. Some [(''sub'', JStr (bytes_string b))])\<rparr>"
  let ?oc = "\<lparr>issuer_url = ''sso'', client_id = ''c'', audience = ''nidan'', identity_claim = ''sub''\<rparr>"
  have "from_utf8 (string_bytes ''h.admin.x'') = Some (''h'' @ ''.'' @ ''admin'' @ ''.'' @ ''x'')" by code_simp
  from forged_oidc_token_accepted [where cfg = demo_auth_config and oc = ?oc and L = ?L
      and bs = "string_bytes ''admin''" and user = "''admin''" and now = 0 and i = "''10.0.0.9''",
      OF _ _ _ _ _ _ this]
  show ?thesis by (simp add: demo_auth_config_def)
qed

end
