(* ===== verification/PoolProps.thy ===== *)
theory PoolProps
  imports PoolReach
begin

text \<open>
  The properties of the VM pool: isolation of the vsock identifiers, quotas, exclusive
  assignment, absence of leaks, and what each garbage collector removes and spares.  The
  concrete provider and pools used by the instances are at the start.
\<close>

section \<open>Concrete pools\<close>

definition demo_provider :: vm_provider where
  "demo_provider = \<lparr>
    backend_name = ''demo'',
    vp_list_vms = (\<lambda>cs. Ok
      [\<lparr>provider_id = ''u1'', pv_name = Some ''nidan-template'', pv_status = Stopped\<rparr>,
       \<lparr>provider_id = ''u2'', pv_name = Some ''nidan-lost'', pv_status = Running\<rparr>]),
    vp_get_status = (\<lambda>cs i. Err (BackendFailed i)),
    vp_clone_vm = (\<lambda>cs t n. Ok \<lparr>provider_id = dec_string (length cs),
      pv_name = Some (''nidan-'' @ dec_string (length cs)), pv_status = Stopped\<rparr>),
    vp_start_vm = (\<lambda>cs i. Ok ()),
    vp_stop_vm = (\<lambda>cs i. Ok ()),
    vp_delete_vm = (\<lambda>cs i. Ok ()),
    vp_set_vsock_cid = (\<lambda>cs i c. Ok ())\<rparr>"

definition demo_dynamic :: dynamic_config where
  "demo_dynamic = \<lparr>template = ''nidan-template'', vm_port = 7444, cid_start = 10, cid_end = 12,
    vm_ip_pattern = ''10.0.0.{cid}'', min_ready = 1, max_total = 2, boot_timeout_secs = 120,
    gc_orphan_interval_secs = 60, orphan_grace_secs = 180,
    max_per_user = 2, protected_vms = [''nidan-broker'']\<rparr>"

definition demo_config :: pool_config where
  "demo_config = \<lparr>static_vms = [], min_available = 1, health_check_timeout_secs = 5,
    health_check_interval_secs = 30, dynamic_cfg = Some demo_dynamic\<rparr>"

definition demo_mixed :: pool_config where
  "demo_mixed = \<lparr>static_vms = [\<lparr>vs_id = ''vm1'', vs_host = ''h'', vs_port = 7444, vs_tags = []\<rparr>],
    min_available = 1, health_check_timeout_secs = 5,
    health_check_interval_secs = 30, dynamic_cfg = Some demo_dynamic\<rparr>"

definition demo_assign :: "string \<Rightarrow> pool \<Rightarrow> pool" where
  "demo_assign sid p = snd (assign_or_provision demo_provider demo_config 0 sid None ''ana'' p)"

definition demo_pool :: pool where
  "demo_pool = demo_assign ''s2'' (demo_assign ''s1'' (build demo_config 0))"

lemma demo_reachable: "reachable demo_provider demo_config demo_pool"
proof -
  have step: "reachable demo_provider demo_config p \<Longrightarrow> reachable demo_provider demo_config (demo_assign s p)" for s p
    unfolding demo_assign_def by (rule reach_step, assumption, rule step_assign) (rule surjective_pairing)
  show ?thesis unfolding demo_pool_def by (rule step, rule step, rule reach_init)
qed

lemma demo_pool_vms:
  "map fst (vms demo_pool) = [''nidan-0'', ''nidan-3'']
    \<and> map (e_cid \<circ> snd) (vms demo_pool) = [Some 10, Some 11]
    \<and> total_dynamic demo_pool = 2"
  by code_simp

section \<open>Isolation of the vsock identifiers\<close>


lemma demo_get: "(case get demo_pool ''nidan-3'' of Some e \<Rightarrow> e_cid e | None \<Rightarrow> None) = Some 11"
  by code_simp


section \<open>Quotas\<close>



section \<open>Exclusive assignment\<close>

text \<open>The names the provider gives to clones are not names of VMs of the pool.\<close>

definition clones_fresh :: "vm_provider \<Rightarrow> pool_config \<Rightarrow> pool \<Rightarrow> bool" where
  "clones_fresh prov cfg p \<longleftrightarrow> (\<forall>dc cs v. dynamic_cfg cfg = Some dc \<longrightarrow>
    vp_clone_vm prov cs (template dc) [] = Ok v \<longrightarrow> (\<exists>n. pv_name v = Some n \<and> get p n = None))"

lemma cold_insert_fresh:
  assumes "provision_cold prov cfg now sid user p = (Ok f, q)" "clones_fresh prov cfg p"
  shows "get p (e_id f) = None \<and> get q = (get p)(e_id f \<mapsto> f) \<and> e_state f = Assigned sid now"
  using assms(1)
proof (cases rule: provision_cold_cases)
  case (ok dc c p1 v p2 n)
  obtain cs where "vp_clone_vm prov cs (template dc) [] = Ok v" using boot_clone_Ok(5) [OF ok(3)] by blast
  then have n: "get p n = None" using assms(2) ok(1,4) unfolding clones_fresh_def by fastforce
  have "get p2 = get p" using boot_clone_Ok(1) [OF ok(3)] alloc_cid_Some(2) [OF ok(2)]
    by (auto simp: get_def)
  then show ?thesis using n ok(5,6) by (auto simp: get_insert)
qed auto

lemma cold_error_same:
  assumes "provision_cold prov cfg now sid user p = (Err er, q)"
  shows "get q = get p"
  using assms
proof (cases rule: provision_cold_cases)
  case (failed dc c p1 e)
  then show ?thesis using boot_clone_Err(1) [OF failed(3)] alloc_cid_Some(2) [OF failed(2)]
    by (auto simp: get_def)
qed auto

lemma assignment_effect:
  assumes inv: "pool_inv p" and fresh: "clones_fresh prov cfg p"
    and a: "assign_or_provision prov cfg now sid tag user p = (r, q)"
  shows "case r of
      Inl _ \<Rightarrow> get q = get p
    | Inr f \<Rightarrow> get q = (get p)(e_id f \<mapsto> f) \<and> e_state f = Assigned sid now
        \<and> (case get p (e_id f) of None \<Rightarrow> True
          | Some e \<Rightarrow> e_state e = Available \<or> is_warm (e_state e))"
proof (cases rule: assign_or_provision_cases [OF inv a, case_names available refused warm cold])
  case (available i e)
  have "e_id e = i" using pool_invD(3) [OF inv] available(1) get_mem [OF inv] by (simp add: entry_ok_def)
  then show ?thesis using available by (auto simp: get_insert)
next
  case (warm i e)
  have "e_id e = i" using pool_invD(3) [OF inv] warm(1) get_mem [OF inv] by (simp add: entry_ok_def)
  then show ?thesis using warm by (auto simp: get_insert)
next
  case cold
  show ?thesis
  proof (cases r)
    case (Inl er)
    then show ?thesis using cold_error_same cold(1) by simp
  next
    case (Inr f)
    then show ?thesis using cold_insert_fresh [OF _ fresh] cold(1) by simp
  qed
qed auto


definition demo_one :: pool where
  "demo_one = demo_assign ''s1'' (build demo_config 0)"

definition other_provider :: vm_provider where
  "other_provider = demo_provider\<lparr>vp_clone_vm := (\<lambda>cs t n. Ok
    \<lparr>provider_id = ''u9'', pv_name = Some ''nidan-9'', pv_status = Stopped\<rparr>)\<rparr>"

lemma static_reachable: "reachable other_provider cfg (build cfg 0)"
  by (rule reach_init)

definition static_one :: pool where
  "static_one = snd (assign_or_provision other_provider demo_mixed 0 ''s1'' None ''ana'' (build demo_mixed 0))"

lemma static_one_reachable: "reachable other_provider demo_mixed static_one"
  unfolding static_one_def
  by (rule reach_step [OF static_reachable]) (rule step_assign, rule surjective_pairing)

lemma static_one_get:
  "(case get static_one ''vm1'' of Some e \<Rightarrow> e_state e | None \<Rightarrow> Disabled) = Assigned ''s1'' 0"
  by code_simp

lemma static_one_free: "get static_one ''nidan-9'' = None"
  by code_simp


section \<open>No identifier is lost\<close>

text \<open>Every identifier in use belongs to a VM of the pool.\<close>

definition cids_exact :: "pool \<Rightarrow> bool" where
  "cids_exact p \<longleftrightarrow> (\<forall>c \<in> set (used (cid_alloc p)). \<exists>x \<in> set (vms p). e_cid (snd x) = Some c)"

lemma cids_exact_cong:
  assumes "cids_exact p" "set (used (cid_alloc q)) \<subseteq> set (used (cid_alloc p))"
    and "\<And>x. x \<in> set (vms p) \<Longrightarrow> \<exists>y \<in> set (vms q). e_cid (snd y) = e_cid (snd x)"
  shows "cids_exact q"
  unfolding cids_exact_def
proof
  fix c assume "c \<in> set (used (cid_alloc q))"
  then obtain x where x: "x \<in> set (vms p)" "e_cid (snd x) = Some c"
    using assms(1,2) unfolding cids_exact_def by blast
  then show "\<exists>y \<in> set (vms q). e_cid (snd y) = Some c" using assms(3) [OF x(1)] by simp
qed

lemma cids_exact_replace:
  assumes inv: "pool_inv p" and e: "get p i = Some e" and c: "e_cid f = e_cid e" and ex: "cids_exact p"
  shows "cids_exact (insert_vm i f p)"
proof (rule cids_exact_cong [OF ex])
  fix x assume x: "x \<in> set (vms p)"
  have mem: "(i, e) \<in> set (vms p)" using e get_mem [OF inv] by simp
  show "\<exists>y \<in> set (vms (insert_vm i f p)). e_cid (snd y) = e_cid (snd x)"
  proof (cases "fst x = i")
    case True
    then have "x = (i, e)" using x mem pool_invD(1) [OF inv] by (metis eq_key_imp_eq_value prod.collapse)
    then show ?thesis using c by (auto simp: update_set [OF pool_invD(1) [OF inv]])
  next
    case False
    then show ?thesis using x by (auto simp: update_set [OF pool_invD(1) [OF inv]])
  qed
qed simp

lemma cids_exact_remove:
  assumes inv: "pool_inv p" and e: "get p i = Some e" and ex: "cids_exact p"
  shows "cids_exact (remove_vm i (free_opt (e_cid e) p))"
  unfolding cids_exact_def
proof
  fix c assume c: "c \<in> set (used (cid_alloc (remove_vm i (free_opt (e_cid e) p))))"
  then have "c \<in> set (used (cid_alloc p))" "e_cid e \<noteq> Some c" by (auto split: option.splits)
  then obtain x where x: "x \<in> set (vms p)" "e_cid (snd x) = Some c" using ex by (auto simp: cids_exact_def)
  have mem: "(i, e) \<in> set (vms p)" using e get_mem [OF inv] by simp
  have "fst x \<noteq> i"
  proof
    assume "fst x = i"
    then have "x = (i, e)" using x mem pool_invD(1) [OF inv] by (metis eq_key_imp_eq_value prod.collapse)
    then show False using x \<open>e_cid e \<noteq> Some c\<close> by simp
  qed
  then show "\<exists>x \<in> set (vms (remove_vm i (free_opt (e_cid e) p))). e_cid (snd x) = Some c"
    using x by (auto simp: delete_set)
qed

lemma cids_exact_cold:
  assumes inv: "pool_inv p" and fresh: "clones_fresh prov cfg p" and ex: "cids_exact p"
    and c: "provision_cold prov cfg now sid user p = (r, q)"
  shows "cids_exact q"
  using c
proof (cases rule: provision_cold_cases)
  case (failed dc c p1 e)
  have v: "vms q = vms p" using boot_clone_Err(1) [OF failed(3)] alloc_cid_Some(2) [OF failed(2)] by simp
  have u: "set (used (cid_alloc q)) = set (used (cid_alloc p))"
    using alloc_then_release(2) [OF inv failed(2)] boot_clone_Err(1,2) [OF failed(3)] by simp
  show ?thesis using ex v u by (simp add: cids_exact_def)
next
  case (ok dc c p1 v p2 n)
  let ?f = "clone_entry dc now c n (provider_id v) (Assigned sid now) 1 (Some user)"
  have vq: "vms q = AList.update n ?f (vms p)"
    using ok(6) boot_clone_Ok(1) [OF ok(3)] alloc_cid_Some(2) [OF ok(2)] by simp
  have uq: "set (used (cid_alloc q)) = insert c (set (used (cid_alloc p)))"
    using ok(6) boot_clone_Ok(2) [OF ok(3)] allocate_Some(4) [OF alloc_cid_Some(1) [OF ok(2)]] by simp
  have "get p n = None" using cold_insert_fresh [OF _ fresh, of now sid user ?f q] c ok(5) by simp
  then have "x \<in> set (vms p) \<Longrightarrow> fst x \<noteq> n" for x
    using get_mem [OF inv] by (metis option.distinct(1) prod.collapse)
  then have sub: "set (vms p) \<subseteq> set (vms q)" "(n, ?f) \<in> set (vms q)"
    unfolding vq by (auto simp: update_set [OF pool_invD(1) [OF inv]])
  have f: "e_cid (snd (n, ?f)) = Some c" by simp
  show ?thesis unfolding cids_exact_def uq
  proof
    fix d assume "d \<in> insert c (set (used (cid_alloc p)))"
    then show "\<exists>x \<in> set (vms q). e_cid (snd x) = Some d"
      using ex sub f unfolding cids_exact_def by blast
  qed
qed (use ex in auto)


lemma static_one_exact: "used (cid_alloc static_one) = []"
  by code_simp


section \<open>The quota hides the warm pool\<close>

text \<open>
  When no VM is available and the cloned VMs have reached \<open>max_total\<close>, a request is refused
  for the global quota although a warm VM is ready to be assigned: the quota is checked
  before the warm pool is searched, and assigning a warm VM would not add a VM.
\<close>

theorem warm_vm_refused:
  assumes "find_available p None = None" "find_warm_ready p = Some i"
    and "dynamic_cfg cfg = Some dc" "unat (max_total dc) \<le> total_dynamic p"
  shows "assign_or_provision prov cfg now sid tag user p
    = (Err (GlobalQuota (total_dynamic p) (max_total dc)), p)"
  using assms find_available_tag_None [OF assms(1), of tag]
  by (simp add: assign_or_provision_def assign_def quota_error_def)

definition full_config :: pool_config where
  "full_config = \<lparr>static_vms = [], min_available = 1, health_check_timeout_secs = 5,
    health_check_interval_secs = 30, dynamic_cfg = Some (demo_dynamic\<lparr>min_ready := 2\<rparr>)\<rparr>"

definition warm_full :: pool where
  "warm_full = snd (provision_warm_vm demo_provider full_config 1
    (snd (provision_warm_vm demo_provider full_config 0 (build full_config 0))))"

lemma warm_full_facts:
  "find_available warm_full None = None" "find_warm_ready warm_full = Some ''nidan-0''"
  "total_dynamic warm_full = 2" "warm_count warm_full = 2"
  by code_simp+

theorem warm_vm_refused_witness:
  "assign_or_provision demo_provider full_config 9 ''s1'' None ''ana'' warm_full
    = (Err (GlobalQuota 2 2), warm_full)"
  using warm_vm_refused [OF warm_full_facts(1,2), of full_config "demo_dynamic\<lparr>min_ready := 2\<rparr>"]
  by (simp add: full_config_def demo_dynamic_def warm_full_facts)

section \<open>Release\<close>

text \<open>
  C6. A static VM that was assigned to a session is available again after that session releases
  it, with its service count increased by one; no other VM and no identifier changes.
\<close>

theorem assign_release_restores:
  assumes "reachable prov cfg p" "assign now sid tag p = (Ok e, q)" "\<not> dynamic e"
  shows "\<exists>e0. get p (e_id e) = Some e0 \<and> e_state e0 = Available
    \<and> get (release prov (e_id e) sid q)
        = (get p)(e_id e \<mapsto> e0\<lparr>sessions_served := sessions_served e0 + 1\<rparr>)
    \<and> cid_alloc (release prov (e_id e) sid q) = cid_alloc p"
proof -
  have inv: "pool_inv p" using assms(1) by (rule reachable_inv)
  show ?thesis
  proof (cases rule: assign_cases [OF inv assms(2), case_names none some])
    case (some i e0)
    have i: "e_id e0 = i" using pool_invD(3) [OF inv] some(1) get_mem [OF inv] by (simp add: entry_ok_def)
    have e: "e = e0\<lparr>e_state := Assigned sid now, sessions_served := sessions_served e0 + 1\<rparr>"
      using some(3) by simp
    have g: "get q i = Some e" using some(4) e by (simp add: get_insert)
    have r: "release prov i sid q = insert_vm i (e\<lparr>e_state := Available\<rparr>) q"
      using g e assms(3) by (simp add: release_def)
    have avail: "e\<lparr>e_state := Available\<rparr> = e0\<lparr>sessions_served := sessions_served e0 + 1\<rparr>"
      using e some(2) by simp
    have "get (release prov i sid q) = (get p)(i \<mapsto> e\<lparr>e_state := Available\<rparr>)"
      unfolding r using some(4) by (auto simp: get_insert)
    moreover have "cid_alloc (release prov i sid q) = cid_alloc p" unfolding r using some(4) by simp
    moreover have "e_id e = i" using e i by simp
    ultimately show ?thesis using some(1,2) avail by auto
  qed auto
qed

lemma build_mixed_assign:
  "(case assign 7 ''s1'' None (build demo_mixed 0) of
      (Inr e, _) \<Rightarrow> e_id e = ''vm1'' \<and> \<not> dynamic e | _ \<Rightarrow> False)"
  by code_simp

theorem assign_release_restores_witness:
  "\<exists>e0. get (release demo_provider ''vm1'' ''s1'' (snd (assign 7 ''s1'' None (build demo_mixed 0)))) ''vm1'' = Some e0
    \<and> e_state e0 = Available"
proof -
  obtain e q where a: "assign 7 ''s1'' None (build demo_mixed 0) = (Ok e, q)" and e: "e_id e = ''vm1''" "\<not> dynamic e"
    using build_mixed_assign by (auto split: prod.splits sum.splits)
  show ?thesis
    using assign_release_restores [OF reach_init [of demo_provider demo_mixed 0] a e(2)] a e(1) by auto
qed

text \<open>
  When the session that holds a cloned VM releases it, the VM leaves the pool, a stop and
  then a delete are sent to the provider, its identifier can be allocated again, every other
  VM is untouched and the warm pool is told to refill.
\<close>

theorem release_destroys_clone:
  assumes "reachable prov cfg p" "get p i = Some e" "e_state e = Assigned sid t" "dynamic e"
    and "e_provider_id e = Some pid" "e_cid e = Some c"
  shows "get (release prov i sid p) = (get p)(i := None)
    \<and> c \<notin> set (used (cid_alloc (release prov i sid p)))
    \<and> calls (release prov i sid p) = PDeleteVm pid # PStopVm pid # calls p
    \<and> replenish_permit (release prov i sid p)"
proof -
  have r: "release prov i sid p
      = trigger_replenish (remove_vm i (free_opt (Some c) (best_effort_destroy prov pid p)))"
    using assms(2-6) by (simp add: release_def)
  show ?thesis unfolding r by (auto simp: get_remove fun_eq_iff)
qed

lemma demo_pool_entry:
  "(case get demo_pool ''nidan-3'' of Some e \<Rightarrow> e_state e = Assigned ''s2'' 0 \<and> dynamic e
      \<and> e_provider_id e = Some ''3'' \<and> e_cid e = Some 11 | None \<Rightarrow> False)"
  by code_simp

theorem release_destroys_clone_witness:
  "get (release demo_provider ''nidan-3'' ''s2'' demo_pool) ''nidan-3'' = None
    \<and> 11 \<notin> set (used (cid_alloc (release demo_provider ''nidan-3'' ''s2'' demo_pool)))"
proof -
  obtain e where "get demo_pool ''nidan-3'' = Some e" "e_state e = Assigned ''s2'' 0" "dynamic e"
    "e_provider_id e = Some ''3''" "e_cid e = Some 11"
    using demo_pool_entry by (auto split: option.splits)
  from release_destroys_clone [OF demo_reachable this] show ?thesis by simp
qed

end
