(* ===== verification/BrokerProps.thy ===== *)
theory BrokerProps
  imports Broker AuthProps PoolProps
begin

text \<open>
  The properties of the broker as a whole: what a client that is given a session can rely on,
  what a failed signature leaves behind, and the life of the session registry, in which
  sessions are opened but never closed.
\<close>

section \<open>One connection\<close>

definition registers :: "client_end \<Rightarrow> bool" where
  "registers r = (case r of
      Answered resp \<Rightarrow> resp_auth_result resp = 1 | AnswerLost resp \<Rightarrow> resp_auth_result resp = 1 | _ \<Rightarrow> False)"

lemma send_cases:
  "send_session_response env c resp = Answered resp \<or> send_session_response env c resp = AnswerLost resp"
  by (simp add: send_session_response_def split: option.split)

lemma registers_send [simp]:
  "registers (send_session_response env c resp) \<longleftrightarrow> resp_auth_result resp = 1"
  using send_cases [of env c resp] by (auto simp: registers_def)

lemma registers_simps [simp]:
  "\<not> registers MaxSessions" "\<not> registers (BadRequest e)" "\<not> registers (NotIssued te)"
  by (simp_all add: registers_def)

lemma response_codes [simp]:
  "resp_auth_result (failure_response ResultFailure m) = 2"
  "resp_auth_result (failure_response ResultMfaNeeded m) = 3"
  "resp_auth_result (success_response net sid vm tok) = 1"
  by (simp_all add: failure_response_def success_response_def default_response_def)

lemma handle_client_cases:
  assumes "handle_client env c b = (r, b')"
  obtains
    (full) "max_sessions (network (b_config b)) \<le> active_count (b_sessions b)" "r = MaxSessions" "b' = b"
  | (request) e where "receive_session_request env c = Err e" "r = BadRequest e" "b' = b"
  | (refused) req out rl m code where "receive_session_request env c = Ok req"
      "authenticate (be_oidc env) (auth_section (b_config b)) (request_attempt c req) (b_limiter b) = (out, rl)"
      "\<not> (\<exists>i. out = OutSuccess i)" "r = send_session_response env c (failure_response code m)"
      "code = ResultFailure \<or> code = ResultMfaNeeded" "b' = b\<lparr>b_limiter := rl\<rparr>"
  | (opened) req ident rl where "receive_session_request env c = Ok req"
      "authenticate (be_oidc env) (auth_section (b_config b)) (request_attempt c req) (b_limiter b) = (OutSuccess ident, rl)"
      "active_count (b_sessions b) < max_sessions (network (b_config b))"
      "open_session env c req ident (b\<lparr>b_limiter := rl\<rparr>) = (r, b')"
proof (cases "max_sessions (network (b_config b)) \<le> active_count (b_sessions b)")
  case True
  then have "(MaxSessions, b) = (r, b')" using assms by (simp add: handle_client_def)
  then have "r = MaxSessions" "b' = b" by simp_all
  with True show ?thesis by (rule full)
next
  case False
  show ?thesis
  proof (cases "receive_session_request env c")
    case (Inl e)
    then have "(BadRequest e, b) = (r, b')" using assms False by (simp add: handle_client_def)
    then have "r = BadRequest e" "b' = b" by simp_all
    with Inl show ?thesis by (rule request)
  next
    case (Inr req)
    obtain out rl where a: "authenticate (be_oidc env) (auth_section (b_config b)) (request_attempt c req) (b_limiter b) = (out, rl)"
      by (cases "authenticate (be_oidc env) (auth_section (b_config b)) (request_attempt c req) (b_limiter b)")
    show ?thesis
    proof (cases out)
      case (OutSuccess ident)
      have "open_session env c req ident (b\<lparr>b_limiter := rl\<rparr>) = (r, b')"
        using assms False Inr a OutSuccess by (simp add: handle_client_def)
      then show ?thesis using opened [OF Inr] a OutSuccess False by simp
    next
      case (OutFailure e)
      have "r = send_session_response env c (failure_response ResultFailure (reason_string e))" "b' = b\<lparr>b_limiter := rl\<rparr>"
        using assms False Inr a OutFailure by (simp_all add: handle_client_def)
      then show ?thesis using refused [OF Inr a] OutFailure by simp
    next
      case (MfaRequired ch)
      have "r = send_session_response env c (failure_response ResultMfaNeeded ch)" "b' = b\<lparr>b_limiter := rl\<rparr>"
        using assms False Inr a MfaRequired by (simp_all add: handle_client_def)
      then show ?thesis using refused [OF Inr a] MfaRequired by simp
    qed
  qed
qed

lemma open_session_cases:
  assumes "open_session env c req ident b = (r, b')"
  obtains
    (no_vm) e p where "assign_or_provision (be_provider env) (pool_section (b_config b)) (in_assign_at c)
        (session_id_new (in_random c)) (if preferred_vm_tag req = [] then None else Some (preferred_vm_tag req))
        (ai_user_id ident) (b_pool b) = (Err e, p)"
      "\<not> registers r" "b' = b\<lparr>b_pool := p\<rparr>"
  | (no_token) e vm p where "assign_or_provision (be_provider env) (pool_section (b_config b)) (in_assign_at c)
        (session_id_new (in_random c)) (if preferred_vm_tag req = [] then None else Some (preferred_vm_tag req))
        (ai_user_id ident) (b_pool b) = (Ok vm, p)"
      "issue_session_token (be_jwt env) (auth_section (b_config b)) (in_token_at c) ident
        (session_id_new (in_random c)) (e_id vm) (e_cid vm) = Err e" "r = NotIssued e" "b' = b\<lparr>b_pool := p\<rparr>"
  | (opened) vm p token where "assign_or_provision (be_provider env) (pool_section (b_config b)) (in_assign_at c)
        (session_id_new (in_random c)) (if preferred_vm_tag req = [] then None else Some (preferred_vm_tag req))
        (ai_user_id ident) (b_pool b) = (Ok vm, p)"
      "issue_session_token (be_jwt env) (auth_section (b_config b)) (in_token_at c) ident
        (session_id_new (in_random c)) (e_id vm) (e_cid vm) = Ok token"
      "r = send_session_response env c (success_response (network (b_config b)) (session_id_new (in_random c)) vm token)"
      "b' = b\<lparr>b_pool := p, b_sessions :=
        register (new_session c (session_id_new (in_random c)) ident vm) (b_sessions b)\<rparr>"
  using assms unfolding open_session_def Let_def
  by (auto split: prod.splits sum.splits)

text \<open>The pool of the broker takes only steps of the pool, the configuration never changes.\<close>

lemma handle_client_frame:
  assumes "handle_client env c b = (r, b')"
  shows "b_config b' = b_config b
    \<and> (b_pool b' = b_pool b \<or> pool_step (be_provider env) (pool_section (b_config b)) (b_pool b) (b_pool b'))"
  using assms
proof (cases rule: handle_client_cases)
  case (opened req ident rl)
  from opened(4) show ?thesis
    by (cases rule: open_session_cases) (auto intro: step_assign)
qed auto

lemma handle_client_sessions:
  assumes "handle_client env c b = (r, b')"
  shows "(registers r \<longrightarrow> (\<exists>s. bs_id s = session_id_new (in_random c) \<and> bs_state s = Active
      \<and> b_sessions b' = register s (b_sessions b)))
    \<and> (\<not> registers r \<longrightarrow> b_sessions b' = b_sessions b)"
  using assms
proof (cases rule: handle_client_cases)
  case (opened req ident rl)
  from opened(4) show ?thesis
  proof (cases rule: open_session_cases)
    case (opened vm p token)
    let ?s = "new_session c (session_id_new (in_random c)) ident vm"
    have "bs_id ?s = session_id_new (in_random c)" "bs_state ?s = Active" by (simp_all add: new_session_def)
    then show ?thesis using opened(3,4) by auto
  qed simp_all
qed auto

section \<open>What a session promises\<close>


text \<open>A broker with one static VM, and a client with a certificate.\<close>

definition wit_config :: broker_config where
  "wit_config = default_broker_config\<lparr>pool_section := demo_mixed\<rparr>"

definition wit_broker :: broker where
  "wit_broker = \<lparr>b_config = wit_config, b_pool = build demo_mixed 0, b_sessions = registry_new,
    b_limiter = engine_limiter default_auth_config\<rparr>"

definition wit_request :: client_session_request where
  "wit_request = \<lparr>client_version = ''1'', req_auth_method = 1, auth_token = [], preferred_vm_tag = [],
    session_label = [], req_client_nonce = []\<rparr>"

definition wit_conn :: incoming where
  "wit_conn = \<lparr>in_ip = ''10.0.0.9'', in_stream = Some (write_frame be32 [0]), in_cert = Some ''CN=bob'', in_writable = True,
    in_instant = 0, in_auth_at = secs 1000, in_assign_at = secs 1000, in_token_at = secs 1000,
    in_registered_at = secs 1000, in_random = replicate 16 0\<rparr>"

definition wit_claims :: session_claims where
  "wit_claims = \<lparr>c_sub = ''bob'', c_iss = ''nidan-broker'', c_iat = 1000, c_exp = 1300,
    c_session_id = session_id_new (replicate 16 0), c_vm_id = ''vm1'', c_auth_method = ''mTLS'', c_groups = [],
    c_realm = None, c_cid = None\<rparr>"

definition wit_jwt :: jwt_lib where
  "wit_jwt = \<lparr>jwt_encode = (\<lambda>k c. if c = wit_claims then Some ''tok'' else None),
    jwt_decode = (\<lambda>now k v t. if t = ''tok'' \<and> validation_passes v now wit_claims then Some wit_claims else None)\<rparr>"

definition wit_env :: broker_env where
  "wit_env = \<lparr>be_provider = other_provider, be_oidc = no_oidc_lib, be_jwt = wit_jwt,
    be_parse = (\<lambda>_. Some wit_request), be_render = (\<lambda>_. Some [])\<rparr>"

definition wit_sid :: string where
  "wit_sid = session_id_new (replicate 16 0)"

definition wit_identity :: auth_identity where
  "wit_identity = \<lparr>ai_user_id = ''bob'', ai_display_name = Some ''bob'', ai_groups = [], ai_method = UsedMtls,
    ai_realm = None, ai_authenticated_at = secs 1000, ai_client_ip = ''10.0.0.9''\<rparr>"

definition wit_vm :: vm_pool_entry where
  "wit_vm = \<lparr>e_id = ''vm1'', e_host = ''h'', e_port = 7444, e_tags = [], e_state = Assigned wit_sid (secs 1000),
    added_at = 0, last_health = None, sessions_served = 1, dynamic = False, e_provider_id = None,
    e_cid = None, user_id = None\<rparr>"

lemma wit_receive:
  assumes "be_parse env = (\<lambda>_. Some wit_request)"
  shows "receive_session_request env wit_conn = Ok wit_request"
  using be_frames.read_write [of "[0]" "\<lambda>n. n \<le> max_session_request" "[]"] assms
  by (simp add: receive_session_request_def wit_conn_def max_session_request_def)

lemma wit_cn: "extract_cn_from_dn ''CN=bob'' = Some ''bob''"
proof -
  have "trim ''CN=bob'' = ''CN=bob''" by (rule trim_no_space) (auto simp: is_space_def)
  then show ?thesis by (simp add: extract_cn_from_dn_def starts_with_def)
qed

lemma wit_auth:
  "fst (authenticate L (auth_section wit_config) (request_attempt wit_conn wit_request) (engine_limiter default_auth_config))
    = OutSuccess wit_identity"
  by (simp add: authenticate_def is_banned_def is_rate_limited_def engine_limiter_def rate_limiter_new_def
      request_attempt_def wit_conn_def wit_request_def auth_method_try_from_def check_credentials_def
      auth_mtls_def Let_def wit_config_def default_broker_config_def default_auth_config_def wit_cn wit_identity_def)

lemma wit_assign:
  "fst (assign_or_provision other_provider demo_mixed (secs 1000) wit_sid None ''bob'' (build demo_mixed 0)) = Ok wit_vm"
  by (simp add: assign_or_provision_def assign_def find_available_def build_def demo_mixed_def entries_def
      static_entry_def is_available_def get_def Let_def wit_vm_def)

lemma wit_token:
  "issue_session_token wit_jwt (auth_section wit_config) (secs 1000) wit_identity wit_sid ''vm1'' None = Ok ''tok''"
proof -
  have u: "unix_secs (secs s) = s" "unix_secs (secs 1000 + secs s) = 1000 + s" for s
    by (simp_all add: unix_secs_def secs_def nanos_per_sec_def)
  show ?thesis
    by (simp add: issue_session_token_def sign_def duration_seconds_def engine_jwt_def jwt_engine_new_def
        wit_config_def default_broker_config_def default_auth_config_def wit_jwt_def claims_for_def
        wit_claims_def wit_identity_def wit_sid_def u)
qed

lemma wit_open:
  assumes "be_provider env = other_provider" "b_config b = c" "pool_section c = demo_mixed"
    and "auth_section c = auth_section wit_config" "b_pool b = build demo_mixed 0"
  shows "fst (open_session env wit_conn wit_request wit_identity b)
    = (case issue_session_token (be_jwt env) (auth_section wit_config) (secs 1000) wit_identity wit_sid ''vm1'' None of
        Inl e \<Rightarrow> NotIssued e
      | Inr tok \<Rightarrow> send_session_response env wit_conn (success_response (network c) wit_sid wit_vm tok))"
proof -
  obtain p where p: "assign_or_provision other_provider demo_mixed (secs 1000) wit_sid None ''bob'' (build demo_mixed 0) = (Ok wit_vm, p)"
    using wit_assign by (metis prod.collapse)
  have f: "in_assign_at wit_conn = secs 1000" "in_token_at wit_conn = secs 1000"
    "session_id_new (in_random wit_conn) = wit_sid" "preferred_vm_tag wit_request = []"
    "ai_user_id wit_identity = ''bob''" "e_id wit_vm = ''vm1''" "e_cid wit_vm = None"
    by (simp_all add: wit_conn_def wit_request_def wit_identity_def wit_vm_def wit_sid_def)
  show ?thesis
    by (simp add: open_session_def Let_def f assms p split: sum.split)
qed

lemma wit_handle:
  assumes "be_provider env = other_provider" "be_parse env = (\<lambda>_. Some wit_request)"
    and "b_config b = c" "pool_section c = demo_mixed" "auth_section c = auth_section wit_config"
    and "b_pool b = build demo_mixed 0" "b_limiter b = engine_limiter default_auth_config"
    and "active_count (b_sessions b) < max_sessions (network c)"
  shows "fst (handle_client env wit_conn b)
    = (case issue_session_token (be_jwt env) (auth_section wit_config) (secs 1000) wit_identity wit_sid ''vm1'' None of
        Inl e \<Rightarrow> NotIssued e
      | Inr tok \<Rightarrow> send_session_response env wit_conn (success_response (network c) wit_sid wit_vm tok))"
proof -
  obtain rl where a: "authenticate (be_oidc env) (auth_section wit_config) (request_attempt wit_conn wit_request)
      (engine_limiter default_auth_config) = (OutSuccess wit_identity, rl)"
    using wit_auth by (metis prod.collapse)
  have "handle_client env wit_conn b = open_session env wit_conn wit_request wit_identity (b\<lparr>b_limiter := rl\<rparr>)"
    using assms by (simp add: handle_client_def wit_receive a)
  then show ?thesis using wit_open [of env "b\<lparr>b_limiter := rl\<rparr>" c] assms by simp
qed

lemma wit_fields:
  "be_provider wit_env = other_provider" "be_parse wit_env = (\<lambda>_. Some wit_request)" "be_jwt wit_env = wit_jwt"
  "b_config wit_broker = wit_config" "pool_section wit_config = demo_mixed" "b_pool wit_broker = build demo_mixed 0"
  "b_limiter wit_broker = engine_limiter default_auth_config" "b_sessions wit_broker = []"
  "max_sessions (network wit_config) = 100" "active_count [] = 0"
  by (simp_all add: wit_env_def wit_broker_def wit_config_def default_broker_config_def
      default_network_config_def registry_new_def active_count_def)

lemma wit_registers: "registers (fst (handle_client wit_env wit_conn wit_broker))"
  by (simp add: wit_handle [of _ _ wit_config] wit_fields wit_token)

lemma wit_law: "token_law wit_jwt k cl"
  by (simp add: token_law_def wit_jwt_def)

lemma wit_fresh: "clones_fresh other_provider demo_mixed (build demo_mixed 0)"
proof -
  have "get (build demo_mixed 0) ''nidan-9'' = None" by code_simp
  then show ?thesis by (auto simp: clones_fresh_def other_provider_def)
qed


section \<open>A token that cannot be signed\<close>

text \<open>
  When the token of an authenticated client cannot be signed, the client gets no answer
  and no session is registered, but the VM stays assigned to the session that never was.
\<close>

theorem signing_failure_keeps_vm:
  assumes "handle_client env c b = (NotIssued e, b')"
    and "reachable (be_provider env) (pool_section (b_config b)) (b_pool b)"
    and "clones_fresh (be_provider env) (pool_section (b_config b)) (b_pool b)"
  shows "b_sessions b' = b_sessions b
    \<and> (\<exists>vm. get (b_pool b') (e_id vm) = Some vm
        \<and> e_state vm = Assigned (session_id_new (in_random c)) (in_assign_at c))"
  using assms(1)
proof (cases rule: handle_client_cases)
  case (refused req out rl m code)
  then show ?thesis using send_cases [of env c "failure_response code m"] by auto
next
  case (opened req ident rl)
  from opened(4) show ?thesis
  proof (cases rule: open_session_cases)
    case (no_vm er p)
    from opened(4) no_vm(1) show ?thesis
      using send_cases [of env c "failure_response ResultFailure ''aucune VM disponible''"]
      by (auto simp: open_session_def Let_def)
  next
    case (no_token e' vm p)
    then show ?thesis
      using assignment_effect [OF reachable_inv [OF assms(2)] assms(3), of "in_assign_at c"] by fastforce
  next
    case (opened vm p token)
    then show ?thesis
      using send_cases [of env c "success_response (network (b_config b)) (session_id_new (in_random c)) vm token"]
      by auto
  qed
qed simp_all

definition mute_env :: broker_env where
  "mute_env = wit_env\<lparr>be_jwt := wit_jwt\<lparr>jwt_encode := (\<lambda>_ _. None)\<rparr>\<rparr>"

lemma mute_run: "fst (handle_client mute_env wit_conn wit_broker) = NotIssued SigningFailed"
proof -
  have "be_provider mute_env = other_provider" "be_parse mute_env = (\<lambda>_. Some wit_request)"
    and f: "be_jwt mute_env = wit_jwt\<lparr>jwt_encode := (\<lambda>_ _. None)\<rparr>"
    by (simp_all add: mute_env_def wit_fields)
  moreover have "issue_session_token (wit_jwt\<lparr>jwt_encode := (\<lambda>_ _. None)\<rparr>) (auth_section wit_config)
      (secs 1000) wit_identity wit_sid ''vm1'' None = Err SigningFailed"
    using wit_token by (simp add: issue_session_token_def sign_def split: option.splits)
  ultimately show ?thesis by (simp add: wit_handle [of _ _ wit_config] wit_fields)
qed

theorem signing_failure_keeps_vm_witness:
  "b_sessions (snd (handle_client mute_env wit_conn wit_broker)) = []
    \<and> (\<exists>vm. get (b_pool (snd (handle_client mute_env wit_conn wit_broker))) (e_id vm) = Some vm
        \<and> e_state vm = Assigned (session_id_new (replicate 16 0)) (secs 1000))"
proof -
  have f: "be_provider mute_env = other_provider" "b_config wit_broker = wit_config" "pool_section wit_config = demo_mixed"
    "b_pool wit_broker = build demo_mixed 0" "b_sessions wit_broker = []" "in_assign_at wit_conn = secs 1000"
    "in_random wit_conn = replicate 16 0"
    by (simp_all add: mute_env_def wit_env_def wit_broker_def wit_config_def wit_conn_def
        default_broker_config_def registry_new_def)
  have run: "handle_client mute_env wit_conn wit_broker
      = (NotIssued SigningFailed, snd (handle_client mute_env wit_conn wit_broker))"
    using mute_run by (metis prod.collapse)
  from signing_failure_keeps_vm [OF run, unfolded f, OF reach_init wit_fresh] show ?thesis .
qed

section \<open>The life of the registry\<close>

text \<open>
  The broker serving clients while the background tasks run, with no action of the
  administrator: the list collects the identifiers of the sessions that were opened.
\<close>

inductive serves :: "broker_env \<Rightarrow> broker \<Rightarrow> string list \<Rightarrow> broker \<Rightarrow> bool"
  for env :: broker_env and b0 :: broker
where
  serves_start: "serves env b0 [] b0"
| serves_client: "serves env b0 ids b \<Longrightarrow> handle_client env c b = (r, b') \<Longrightarrow>
    serves env b0 (if registers r then session_id_new (in_random c) # ids else ids) b'"
| serves_tick: "serves env b0 ids b \<Longrightarrow> serves env b0 ids (gc_sessions_tick env now b)"
| serves_pool: "serves env b0 ids b \<Longrightarrow>
    pool_step (be_provider env) (pool_section (b_config b)) (b_pool b) p \<Longrightarrow>
    serves env b0 ids (b\<lparr>b_pool := p\<rparr>)"

lemma serves_frame:
  assumes "serves env b0 ids b" "reachable (be_provider env) (pool_section (b_config b0)) (b_pool b0)"
  shows "b_config b = b_config b0 \<and> reachable (be_provider env) (pool_section (b_config b0)) (b_pool b)"
  using assms
proof (induction rule: serves.induct)
  case serves_start
  then show ?case by simp
next
  case (serves_client ids b c r b')
  then show ?case using handle_client_frame [OF serves_client.hyps(2)] by (auto intro: reach_step)
next
  case (serves_tick ids b now)
  then show ?case by (auto simp: gc_sessions_tick_def intro: reach_step step_expire)
next
  case (serves_pool ids b p)
  then show ?case by (auto intro: reach_step)
qed

lemma serves_keys:
  assumes "serves env b0 ids b"
  shows "fst ` set (b_sessions b) = fst ` set (b_sessions b0) \<union> set ids
    \<and> (registry_ok (b_sessions b0) \<longrightarrow> registry_ok (b_sessions b))"
  using assms
proof (induction rule: serves.induct)
  case (serves_client ids b c r b')
  show ?case
  proof (cases "registers r")
    case True
    then obtain s where s: "bs_id s = session_id_new (in_random c)" "b_sessions b' = register s (b_sessions b)"
      using handle_client_sessions [OF serves_client.hyps(2)] by auto
    then have "registry_ok (b_sessions b) \<Longrightarrow> registry_ok (b_sessions b')" by (simp add: register_ok)
    then show ?thesis using serves_client.IH True s by (auto simp: register_def dom_update)
  next
    case False
    then show ?thesis using serves_client.IH handle_client_sessions [OF serves_client.hyps(2)] by simp
  qed
qed (simp_all add: gc_sessions_tick_def)

lemma serves_counts:
  assumes "serves env b0 ids b" "registry_ok (b_sessions b0)"
    and "distinct ids" "\<forall>i \<in> set ids. session_get (b_sessions b0) i = None"
  shows "active_count (b_sessions b) = active_count (b_sessions b0) + length ids"
  using assms
proof (induction rule: serves.induct)
  case (serves_client ids b c r b')
  show ?case
  proof (cases "registers r")
    case True
    then obtain s where s: "bs_id s = session_id_new (in_random c)" "bs_state s = Active"
        "b_sessions b' = register s (b_sessions b)"
      using handle_client_sessions [OF serves_client.hyps(2)] by auto
    have "session_id_new (in_random c) \<notin> fst ` set (b_sessions b)"
      using serves_keys [OF serves_client.hyps(1)] serves_client.prems True
      by (auto simp: session_get_def map_of_eq_None_iff)
    then have "map_of (b_sessions b) (bs_id s) = None" using s(1) by (simp add: map_of_eq_None_iff)
    from active_register_new [OF this s(2)] show ?thesis using serves_client.IH serves_client.prems s(3) True by simp
  next
    case False
    then show ?thesis using serves_client handle_client_sessions [OF serves_client.hyps(2)] by simp
  qed
qed (simp_all add: gc_sessions_tick_def)

text \<open>
  Sessions are opened and never closed: whatever the clients do and however long the
  broker runs, the number of active sessions is the number of sessions ever opened, and as
  soon as it reaches the limit every further client is refused, with no VM in use even.
\<close>

theorem registry_fills_up:
  assumes "serves env b0 ids b" "registry_ok (b_sessions b0)"
    and "distinct ids" "\<forall>i \<in> set ids. session_get (b_sessions b0) i = None"
    and "reachable (be_provider env) (pool_section (b_config b0)) (b_pool b0)"
  shows "active_count (b_sessions b) = active_count (b_sessions b0) + length ids
    \<and> (max_sessions (network (b_config b0)) \<le> active_count (b_sessions b0) + length ids
        \<longrightarrow> handle_client env c b = (MaxSessions, b))"
  using serves_counts [OF assms(1-4)] serves_frame [OF assms(1,5)] by (simp add: handle_client_def)

definition tiny_broker :: broker where
  "tiny_broker = wit_broker\<lparr>b_config := wit_config\<lparr>network := default_network_config\<lparr>max_sessions := 1\<rparr>\<rparr>\<rparr>"

theorem registry_fills_up_witness:
  "fst (handle_client wit_env wit_conn (gc_sessions_tick wit_env (secs 9000)
      (snd (handle_client wit_env wit_conn tiny_broker)))) = MaxSessions"
proof -
  let ?b = "snd (handle_client wit_env wit_conn tiny_broker)"
  have r: "registers (fst (handle_client wit_env wit_conn tiny_broker))"
    by (simp add: wit_handle [of _ _ "b_config tiny_broker"] tiny_broker_def wit_fields wit_token)
  have "serves wit_env tiny_broker (if registers (fst (handle_client wit_env wit_conn tiny_broker))
      then session_id_new (in_random wit_conn) # [] else []) ?b"
    by (rule serves_client [OF serves_start]) simp
  then have s: "serves wit_env tiny_broker [session_id_new (in_random wit_conn)] (gc_sessions_tick wit_env (secs 9000) ?b)"
    using r by (intro serves_tick) simp
  have f: "b_sessions tiny_broker = []" "b_pool tiny_broker = build demo_mixed 0"
    "pool_section (b_config tiny_broker) = demo_mixed" "max_sessions (network (b_config tiny_broker)) = 1"
    by (simp_all add: tiny_broker_def wit_broker_def wit_config_def registry_new_def)
  have reach: "reachable (be_provider wit_env) demo_mixed (build demo_mixed 0)" by (rule reach_init)
  from registry_fills_up [OF s, unfolded f, OF _ _ _ reach, of wit_conn] show ?thesis
    by (simp add: registry_ok_def session_get_def active_count_def)
qed

end
