(* ===== verification/Clipboard.thy ===== *)
theory Clipboard
  imports Proto
begin

text \<open>
  The clipboard filter (\<open>nidan-common/src/clipboard.rs\<close>).  Regular expressions are compiled
  and matched by a library: compilation is the parameter \<open>compile\<close>, which yields the matcher
  of a pattern or nothing for an invalid one.
\<close>

record clipboard_policy =
  allow_client_to_server :: bool
  allow_server_to_client :: bool
  max_size_bytes :: u32
  allowed_mime_types :: "string list"
  blocked_patterns :: "string list"
  audit_transfers :: bool

text \<open>The values of absent configuration fields, and of \<open>Default\<close> as derived by Rust.\<close>

definition serde_default_policy :: clipboard_policy where
  "serde_default_policy = \<lparr>allow_client_to_server = True, allow_server_to_client = True,
    max_size_bytes = 0, allowed_mime_types = [], blocked_patterns = [], audit_transfers = True\<rparr>"

definition derived_default_policy :: clipboard_policy where
  "derived_default_policy = \<lparr>allow_client_to_server = False, allow_server_to_client = False,
    max_size_bytes = 0, allowed_mime_types = [], blocked_patterns = [], audit_transfers = False\<rparr>"

definition max_clipboard_bytes :: nat where
  "max_clipboard_bytes = 1024 * 1024"

datatype clipboard_direction = ClientToServer | ServerToClient

datatype block_reason =
    DirectionDisabled clipboard_direction
  | TooLarge nat nat
  | MimeNotAllowed string
  | BlockedPattern string
  | InvalidPolicyPattern string

datatype clipboard_decision = Allow | Block block_reason

definition is_allowed :: "clipboard_decision \<Rightarrow> bool" where
  "is_allowed d = (d = Allow)"

text \<open>A compiled pattern keeps its source; an invalid one only its source.\<close>

type_synonym compiled_pattern = "string \<times> (string \<Rightarrow> bool) option"

record clipboard_filter =
  policy :: clipboard_policy
  compiled :: "compiled_pattern list"

definition filter_new :: "(string \<Rightarrow> (string \<Rightarrow> bool) option) \<Rightarrow> clipboard_policy \<Rightarrow> clipboard_filter" where
  "filter_new compile p = \<lparr>policy = p, compiled = map (\<lambda>s. (s, compile s)) (blocked_patterns p)\<rparr>"

definition direction_ok :: "clipboard_policy \<Rightarrow> clipboard_direction \<Rightarrow> bool" where
  "direction_ok p d = (case d of
      ClientToServer \<Rightarrow> allow_client_to_server p | ServerToClient \<Rightarrow> allow_server_to_client p)"

definition effective_max :: "clipboard_policy \<Rightarrow> nat" where
  "effective_max p = (if max_size_bytes p = 0 then max_clipboard_bytes
    else min (unat (max_size_bytes p)) max_clipboard_bytes)"

fun scan_patterns :: "compiled_pattern list \<Rightarrow> string \<Rightarrow> block_reason option" where
  "scan_patterns [] t = None"
| "scan_patterns ((src, None) # ps) t = Some (InvalidPolicyPattern src)"
| "scan_patterns ((src, Some re) # ps) t =
    (if re t then Some (BlockedPattern src) else scan_patterns ps t)"

definition evaluate :: "clipboard_filter \<Rightarrow> clipboard_direction \<Rightarrow> string \<Rightarrow> bytes \<Rightarrow> clipboard_decision" where
  "evaluate f d mime content =
    (if \<not> direction_ok (policy f) d then Block (DirectionDisabled d)
     else if effective_max (policy f) < length content
     then Block (TooLarge (length content) (effective_max (policy f)))
     else if allowed_mime_types (policy f) \<noteq> [] \<and> mime \<notin> set (allowed_mime_types (policy f))
     then Block (MimeNotAllowed mime)
     else (case from_utf8 content of
         None \<Rightarrow> Allow
       | Some t \<Rightarrow> (case scan_patterns (compiled f) t of None \<Rightarrow> Allow | Some r \<Rightarrow> Block r)))"

definition audit_enabled :: "clipboard_filter \<Rightarrow> bool" where
  "audit_enabled f = audit_transfers (policy f)"

definition evaluate_proto :: "clipboard_filter \<Rightarrow> int \<Rightarrow> string \<Rightarrow> bytes \<Rightarrow> clipboard_decision" where
  "evaluate_proto f code mime content =
    (if code = 1 then evaluate f ClientToServer mime content
     else if code = 2 then evaluate f ServerToClient mime content
     else Block (InvalidPolicyPattern (''direction inconnue: '' @ int_string code)))"

section \<open>What the filter lets through\<close>

lemma scan_patterns_None:
  "scan_patterns ps t = None \<longleftrightarrow> (\<forall>(src, m) \<in> set ps. \<exists>re. m = Some re \<and> \<not> re t)"
  by (induction ps t rule: scan_patterns.induct) auto

text \<open>The specification: the conditions a policy puts on a transfer, with no order.\<close>

definition policy_permits ::
  "(string \<Rightarrow> (string \<Rightarrow> bool) option) \<Rightarrow> clipboard_policy \<Rightarrow> clipboard_direction \<Rightarrow> string \<Rightarrow> bytes \<Rightarrow> bool"
where
  "policy_permits compile p d mime content \<longleftrightarrow>
    (case d of ClientToServer \<Rightarrow> allow_client_to_server p | ServerToClient \<Rightarrow> allow_server_to_client p)
    \<and> length content \<le> 1024 * 1024
    \<and> (max_size_bytes p = 0 \<or> length content \<le> unat (max_size_bytes p))
    \<and> (allowed_mime_types p = [] \<or> mime \<in> set (allowed_mime_types p))
    \<and> (utf8_valid content \<longrightarrow> (\<forall>src \<in> set (blocked_patterns p).
        \<exists>re. compile src = Some re \<and> \<not> re (bytes_string content)))"

lemma effective_max_iff:
  "length c \<le> effective_max p \<longleftrightarrow>
    length c \<le> 1024 * 1024 \<and> (max_size_bytes p = 0 \<or> length c \<le> unat (max_size_bytes p))"
  by (auto simp: effective_max_def max_clipboard_bytes_def)

text \<open>
  C30. The filter allows a transfer exactly when the policy permits it: direction enabled, size
  within the policy and the absolute limit, type on the list when there is one, and, for
  text, every blocked pattern valid and not matching.  An invalid pattern blocks all text.
\<close>

theorem filter_implements_policy:
  "evaluate (filter_new compile p) d mime content = Allow \<longleftrightarrow> policy_permits compile p d mime content"
proof -
  have pats: "scan_patterns (map (\<lambda>s. (s, compile s)) (blocked_patterns p)) t = None
      \<longleftrightarrow> (\<forall>src \<in> set (blocked_patterns p). \<exists>re. compile src = Some re \<and> \<not> re t)" for t
    by (auto simp: scan_patterns_None)
  have "evaluate (filter_new compile p) d mime content = Allow \<longleftrightarrow>
      direction_ok p d \<and> length content \<le> effective_max p
      \<and> (allowed_mime_types p = [] \<or> mime \<in> set (allowed_mime_types p))
      \<and> (utf8_valid content \<longrightarrow>
          scan_patterns (map (\<lambda>s. (s, compile s)) (blocked_patterns p)) (bytes_string content) = None)"
    by (simp add: evaluate_def filter_new_def from_utf8_def not_less split: option.split)
  then show ?thesis
    unfolding policy_permits_def pats effective_max_iff direction_ok_def by simp
qed

text \<open>
  A sender chooses the direction that is checked: with the client-to-server direction
  disabled and the other one enabled, content that the filter blocks under code 1 is allowed
  under code 2, for every content the rest of the policy permits.
\<close>

theorem direction_code_bypasses_policy:
  assumes "\<not> allow_client_to_server p" "policy_permits compile p ServerToClient mime content"
  shows "evaluate_proto (filter_new compile p) 1 mime content = Block (DirectionDisabled ClientToServer)
    \<and> evaluate_proto (filter_new compile p) 2 mime content = Allow"
proof -
  have "evaluate (filter_new compile p) ServerToClient mime content = Allow"
    unfolding filter_implements_policy by (rule assms(2))
  then show ?thesis using assms(1)
    by (simp add: evaluate_proto_def evaluate_def filter_new_def direction_ok_def)
qed

theorem direction_code_bypasses_policy_witness:
  "evaluate_proto (filter_new (\<lambda>_. None) (serde_default_policy\<lparr>allow_client_to_server := False\<rparr>)) 2 ''text/plain'' [104, 105] = Allow"
proof -
  have "policy_permits (\<lambda>_. None) (serde_default_policy\<lparr>allow_client_to_server := False\<rparr>) ServerToClient ''text/plain'' [104, 105]"
    by (simp add: policy_permits_def serde_default_policy_def)
  then show ?thesis using direction_code_bypasses_policy
    [of "serde_default_policy\<lparr>allow_client_to_server := False\<rparr>" "\<lambda>_. None" "''text/plain''" "[104, 105]"] by simp
qed

end
