(* ===== verification/ServerConfig.thy ===== *)
theory ServerConfig
  imports BrokerConfig Clipboard
begin

text \<open>
  Shared configuration sections (\<open>nidan-common/src/config.rs\<close>) and the configuration of the
  proxy-encoder (\<open>nidan-proxy-encoder/src/config.rs\<close>), with its validation and the choice of a
  codec by name (\<open>CodecChoice\<close> of \<open>nidan-proxy-encoder/src/encoder/mod.rs\<close>).  Reading TOML is
  not modelled; whether a path exists is the parameter \<open>exists_path\<close>.
\<close>

section \<open>Shared sections\<close>

record quic_config =
  connect_timeout_secs :: u64
  keepalive_interval_secs :: u64
  max_datagram_size :: nat
  recv_buffer_size :: nat

definition default_quic_config :: quic_config where
  "default_quic_config = \<lparr>connect_timeout_secs = 10, keepalive_interval_secs = 5,
    max_datagram_size = 1350, recv_buffer_size = 8 * 1024 * 1024\<rparr>"

record video_config =
  vc_codec :: string
  vc_bitrate_kbps :: u32
  vc_max_fps :: u32
  vc_pixel_format :: string
  hardware_accel :: bool

definition default_video_config :: video_config where
  "default_video_config = \<lparr>vc_codec = ''h264'', vc_bitrate_kbps = 0, vc_max_fps = 30,
    vc_pixel_format = ''yuv420p'', hardware_accel = True\<rparr>"

record audit_config =
  session_recording_dir :: string
  watermarking_enabled :: bool
  prometheus_endpoint :: "string option"
  syslog_remote :: "string option"

section \<open>The proxy-encoder\<close>

record srv_network_config =
  bind_addr :: string
  sn_session_timeout_secs :: u64
  max_connections :: nat

record capture_config =
  cap_backend :: string
  display_number :: u32
  use_xshm :: bool
  use_xdamage :: bool
  capture_queue_depth :: nat
  portal_restore_token :: "string option"

record srv_security_config =
  seccomp_enabled :: bool
  e2e_encryption :: bool
  session_token_file :: "string option"
  srv_jwt_secret :: string
  require_session_token :: bool

record server_config =
  sv_network :: srv_network_config
  sv_capture :: capture_config
  sv_video :: video_config
  sv_tls :: tls_config
  sv_audit :: "audit_config option"
  sv_security :: srv_security_config
  sv_clipboard :: clipboard_policy

definition default_capture_config :: capture_config where
  "default_capture_config = \<lparr>cap_backend = ''x11'', display_number = 100, use_xshm = True,
    use_xdamage = True, capture_queue_depth = 4, portal_restore_token = None\<rparr>"

definition default_srv_security_config :: srv_security_config where
  "default_srv_security_config = \<lparr>seccomp_enabled = True, e2e_encryption = True,
    session_token_file = None, srv_jwt_secret = '''', require_session_token = False\<rparr>"

definition default_srv_network_config :: srv_network_config where
  "default_srv_network_config = \<lparr>bind_addr = ''0.0.0.0:7444'', sn_session_timeout_secs = 3600,
    max_connections = 1\<rparr>"

definition default_server_config :: server_config where
  "default_server_config = \<lparr>sv_network = default_srv_network_config,
    sv_capture = default_capture_config,
    sv_video = default_video_config,
    sv_tls = \<lparr>ca_cert = ''/etc/nidan/certs/ca.crt'', tls_cert = ''/etc/nidan/certs/server.crt'',
      tls_key = ''/etc/nidan/certs/server.key'', allowed_client_domains = []\<rparr>,
    sv_audit = None,
    sv_security = default_srv_security_config,
    sv_clipboard = derived_default_policy\<rparr>"

datatype server_config_error =
    BindAddrEmpty
  | UnknownConfigCodec string
  | PathMissing string

definition server_config_validate ::
  "(string \<Rightarrow> bool) \<Rightarrow> server_config \<Rightarrow> (server_config_error, unit) result"
where
  "server_config_validate exists_path c =
    (if bind_addr (sv_network c) = [] then Err BindAddrEmpty
     else if vc_codec (sv_video c) \<notin> {''h264'', ''h265'', ''hevc'', ''av1''}
     then Err (UnknownConfigCodec (vc_codec (sv_video c)))
     else if \<not> exists_path (ca_cert (sv_tls c)) then Err (PathMissing (ca_cert (sv_tls c)))
     else if \<not> exists_path (tls_cert (sv_tls c)) then Err (PathMissing (tls_cert (sv_tls c)))
     else if \<not> exists_path (tls_key (sv_tls c)) then Err (PathMissing (tls_key (sv_tls c)))
     else Ok ())"

section \<open>Codecs by name\<close>

datatype codec_choice = ChoiceH264 | ChoiceH265 | ChoiceAv1

definition codec_from_str :: "string \<Rightarrow> codec_choice option" where
  "codec_from_str s =
    (let l = to_lowercase s in
     if l = ''h264'' \<or> l = ''avc'' then Some ChoiceH264
     else if l = ''h265'' \<or> l = ''hevc'' then Some ChoiceH265
     else if l = ''av1'' then Some ChoiceAv1
     else None)"

fun codec_to_proto :: "codec_choice \<Rightarrow> int" where
  "codec_to_proto ChoiceH264 = video_codec_code H264"
| "codec_to_proto ChoiceH265 = video_codec_code H265"
| "codec_to_proto ChoiceAv1 = video_codec_code Av1"

text \<open>A validated configuration names a codec, so the session's fallback to H.264 is not taken.\<close>

lemma validated_codec:
  assumes "server_config_validate exists_path c = Ok ()"
  shows "codec_from_str (vc_codec (sv_video c)) \<noteq> None"
proof -
  have "vc_codec (sv_video c) \<in> {''h264'', ''h265'', ''hevc'', ''av1''}"
    using assms by (simp add: server_config_validate_def split: if_splits)
  then show ?thesis
    by (auto simp: codec_from_str_def to_lowercase_def lower_char_def)
qed

end
