(* ===== verification/Capture.thy ===== *)
theory Capture
  imports Prelude
begin

text \<open>
  Screen capture in the proxy-encoder (\<open>nidan-proxy-encoder/src/capture/mod.rs\<close> and
  \<open>x11.rs\<close>): raw frames, the synthetic frames of the stub capturers, what becomes of an image
  read from the X server, and the choice of a capturer by backend name and build features.
\<close>

record damage_rect =
  dr_x :: "16 word"
  dr_y :: "16 word"
  dr_width :: u16
  dr_height :: u16

record raw_frame =
  rf_data :: bytes
  rf_width :: u32
  rf_height :: u32
  rf_stride :: u32
  rf_timestamp_us :: u64
  rf_seq :: u64
  rf_keyframe :: bool
  damage_rects :: "damage_rect list"
  source_cid :: "u32 option"

datatype capture_format = Bgra8888 | Rgba8888 | Rgb888

fun bytes_per_pixel :: "capture_format \<Rightarrow> u32" where
  "bytes_per_pixel Bgra8888 = 4"
| "bytes_per_pixel Rgba8888 = 4"
| "bytes_per_pixel Rgb888 = 3"

fun ffmpeg_name :: "capture_format \<Rightarrow> string" where
  "ffmpeg_name Bgra8888 = ''bgra''"
| "ffmpeg_name Rgba8888 = ''rgba''"
| "ffmpeg_name Rgb888 = ''rgb24''"

record capturer_caps =
  caps_width :: u32
  caps_height :: u32
  supports_xshm :: bool
  supports_xdamage :: bool
  caps_format :: capture_format

definition stub_caps :: capturer_caps where
  "stub_caps = \<lparr>caps_width = 1920, caps_height = 1080, supports_xshm = False,
    supports_xdamage = False, caps_format = Bgra8888\<rparr>"

section \<open>Synthetic frames\<close>

text \<open>Byte \<open>i\<close> of frame \<open>seq\<close>: a gradient that moves with the frame number; alpha is 255.\<close>

definition stub_byte :: "u32 \<Rightarrow> u64 \<Rightarrow> u32 \<Rightarrow> u8" where
  "stub_byte width seq i =
    (let pixel = i div 4; channel = i mod 4; x = pixel mod width; y = pixel div width; s = (ucast seq :: u32) in
     if channel = 0 then ucast ((x + s) mod 256)
     else if channel = 1 then ucast ((y + s div 2) mod 256)
     else if channel = 2 then ucast (s mod 256)
     else 255)"

definition stub_data :: "u32 \<Rightarrow> u32 \<Rightarrow> u64 \<Rightarrow> bytes" where
  "stub_data width height seq =
    map (\<lambda>i. stub_byte width seq (word_of_nat i)) [0 ..< unat (width * height * 4)]"

definition stub_frame :: "u64 \<Rightarrow> u64 \<Rightarrow> raw_frame" where
  "stub_frame now seq =
    \<lparr>rf_data = stub_data 1920 1080 seq, rf_width = 1920, rf_height = 1080, rf_stride = 1920 * 4,
     rf_timestamp_us = now, rf_seq = seq, rf_keyframe = (seq = 0 \<or> seq mod 60 = 0),
     damage_rects = [], source_cid = None\<rparr>"

text \<open>The X11 capturer built without X11 sends the same frames, with one test for a key frame.\<close>

definition x11_stub_frame :: "capturer_caps \<Rightarrow> u64 \<Rightarrow> u64 \<Rightarrow> raw_frame" where
  "x11_stub_frame c now seq =
    \<lparr>rf_data = stub_data (caps_width c) (caps_height c) seq, rf_width = caps_width c,
     rf_height = caps_height c, rf_stride = caps_width c * 4, rf_timestamp_us = now, rf_seq = seq,
     rf_keyframe = (seq mod 60 = 0), damage_rects = [], source_cid = None\<rparr>"

lemma length_stub_data [simp]: "length (stub_data w h seq) = unat (w * h * 4)"
  by (simp add: stub_data_def)

section \<open>Images of the X server\<close>

text \<open>Every fourth byte from the third one on becomes 255.\<close>

fun force_alpha :: "bytes \<Rightarrow> bytes" where
  "force_alpha (b # g # r # a # rest) = b # g # r # 255 # force_alpha rest"
| "force_alpha rest = rest"

lemma length_force_alpha [simp]: "length (force_alpha d) = length d"
  by (induction d rule: force_alpha.induct) simp_all

definition x11_frame :: "capturer_caps \<Rightarrow> u32 \<Rightarrow> u64 \<Rightarrow> u64 \<Rightarrow> bytes \<Rightarrow> raw_frame option" where
  "x11_frame c fps now seq img =
    (let expected = unat (caps_width c * caps_height c) * 4 in
     if length img < expected then None
     else Some \<lparr>rf_data = force_alpha (take expected img), rf_width = caps_width c,
       rf_height = caps_height c, rf_stride = caps_width c * 4, rf_timestamp_us = now, rf_seq = seq,
       rf_keyframe = (seq = 0 \<or> seq mod (max (ucast fps * 2) 1) = 0),
       damage_rects = [], source_cid = None\<rparr>)"

text \<open>
  The loops offer frames to a bounded channel without waiting.  What the channel answers is an
  argument.  The real loop drops a frame that does not fit; the stub loop ends on any refusal.
\<close>

datatype try_send_answer = Sent | ChannelFull | ChannelClosed

fun x11_capture_loop ::
  "capturer_caps \<Rightarrow> u32 \<Rightarrow> u64 \<Rightarrow> (u64 \<times> bytes option \<times> try_send_answer) list \<Rightarrow> raw_frame list"
where
  "x11_capture_loop c fps seq [] = []"
| "x11_capture_loop c fps seq ((now, img, answer) # rest) =
    (case Option.bind img (x11_frame c fps now seq) of
      None \<Rightarrow> x11_capture_loop c fps seq rest
    | Some f \<Rightarrow>
        (case answer of
          Sent \<Rightarrow> f # x11_capture_loop c fps (seq + 1) rest
        | ChannelFull \<Rightarrow> x11_capture_loop c fps (seq + 1) rest
        | ChannelClosed \<Rightarrow> []))"

fun x11_stub_loop :: "capturer_caps \<Rightarrow> u64 \<Rightarrow> (u64 \<times> try_send_answer) list \<Rightarrow> raw_frame list" where
  "x11_stub_loop c seq [] = []"
| "x11_stub_loop c seq ((now, answer) # rest) =
    (if answer = Sent then x11_stub_frame c now seq # x11_stub_loop c (seq + 1) rest else [])"

text \<open>One full channel ends the stub capture for good, where the real one only loses the frame.\<close>

lemma x11_stub_loop_full: "x11_stub_loop c seq ((now, ChannelFull) # rest) = []"
  by simp

lemma x11_frame_size:
  "x11_frame c fps now seq img = Some f \<Longrightarrow> length (rf_data f) = unat (caps_width c * caps_height c) * 4"
  by (auto simp: x11_frame_def Let_def split: if_splits)

lemma x11_capture_frames:
  "f \<in> set (x11_capture_loop c fps seq xs) \<Longrightarrow>
    length (rf_data f) = unat (rf_width f * rf_height f) * 4"
proof (induction c fps seq xs rule: x11_capture_loop.induct)
  case (1 c fps seq)
  then show ?case by simp
next
  case (2 c fps seq now img answer rest)
  show ?case
  proof (cases "Option.bind img (x11_frame c fps now seq)")
    case None
    then show ?thesis using 2 by simp
  next
    case (Some g)
    then obtain im where "x11_frame c fps now seq im = Some g" by (cases img) auto
    then have "length (rf_data g) = unat (rf_width g * rf_height g) * 4"
      using x11_frame_size [of c fps now seq im g] by (auto simp: x11_frame_def Let_def split: if_splits)
    then show ?thesis using 2 Some by (cases answer) auto
  qed
qed

section \<open>The choice of a capturer\<close>

record build_features =
  vsock_source :: bool
  pipewire_capture :: bool
  x11_capture :: bool

datatype capturer_kind = VsockKind u32 | PipeWireKind "string option" | X11Kind u32 bool bool

datatype capture_error = VsockNotCompiled | PipeWireNotCompiled | CapturerFailed

definition default_vsock_port :: u32 where "default_vsock_port = 6100"

text \<open>\<open>env_port\<close> is the parsed value of the environment variable, \<open>starts\<close> whether the chosen
  capturer initialises.\<close>

definition create_capturer ::
  "build_features \<Rightarrow> (capturer_kind \<Rightarrow> bool) \<Rightarrow> u32 option \<Rightarrow> string \<Rightarrow> u32 \<Rightarrow> bool \<Rightarrow> bool \<Rightarrow> string option \<Rightarrow>
    (capture_error, capturer_kind) result"
where
  "create_capturer ft starts env_port backend display xshm xdamage token =
    (let build = (\<lambda>k. if starts k then Ok k else Err CapturerFailed) in
     if backend = ''vsock'' then
       (if vsock_source ft then build (VsockKind (case env_port of None \<Rightarrow> default_vsock_port | Some p \<Rightarrow> p))
        else Err VsockNotCompiled)
     else if backend = ''wayland'' \<or> backend = ''pipewire'' then
       (if pipewire_capture ft then build (PipeWireKind token) else Err PipeWireNotCompiled)
     else build (X11Kind display xshm xdamage))"

definition default_features :: build_features where
  "default_features = \<lparr>vsock_source = True, pipewire_capture = False, x11_capture = False\<rparr>"

end
