(* ===== verification/Crypto.thy ===== *)
theory Crypto
  imports Proto
begin

text \<open>
  Session keys and stream encryption (\<open>nidan-common/src/crypto.rs\<close>).  The primitives are
  libraries: X25519, the extract-and-expand function and the authenticated cipher are
  parameters.  What the program adds is the construction of the nonces from a counter and a
  direction, and the locale \<open>nonce_stream\<close> states what makes such a construction safe.
\<close>

datatype crypto_error =
    BadPublicKey nat
  | KeyTooShort nat
  | ExpandFailed string
  | EncryptFailed
  | CounterSaturated
  | BadNonce nat
  | DecryptFailed

definition shared_secret :: "(bytes \<Rightarrow> bytes \<Rightarrow> bytes) \<Rightarrow> bytes \<Rightarrow> bytes \<Rightarrow> (crypto_error, bytes) result" where
  "shared_secret dh secret peer =
    (if length peer \<noteq> 32 then Err (BadPublicKey (length peer)) else Ok (dh secret peer))"

definition session_key_from_bytes :: "bytes \<Rightarrow> (crypto_error, bytes) result" where
  "session_key_from_bytes b =
    (if length b < session_key_size then Err (KeyTooShort (length b)) else Ok (take session_key_size b))"

record session_keys =
  video_key :: bytes
  audio_key :: bytes
  control_key :: bytes

definition hkdf_info_video :: string where "hkdf_info_video = ''nidan-v1-video-stream''"
definition hkdf_info_audio :: string where "hkdf_info_audio = ''nidan-v1-audio-stream''"
definition hkdf_info_control :: string where "hkdf_info_control = ''nidan-v1-control''"

text \<open>\<open>hkdf salt secret info n\<close> yields \<open>n\<close> bytes or fails.\<close>

definition derive_session_keys ::
  "(bytes \<Rightarrow> bytes \<Rightarrow> string \<Rightarrow> nat \<Rightarrow> bytes option) \<Rightarrow> bytes \<Rightarrow> bytes \<Rightarrow> bytes \<Rightarrow>
    (crypto_error, session_keys) result"
where
  "derive_session_keys hkdf shared client server =
    (let salt = client @ server in
     bind_result (ok_or (hkdf salt shared hkdf_info_video session_key_size) (ExpandFailed ''video'')) (\<lambda>v.
     bind_result (ok_or (hkdf salt shared hkdf_info_audio session_key_size) (ExpandFailed ''audio'')) (\<lambda>a.
     bind_result (ok_or (hkdf salt shared hkdf_info_control session_key_size) (ExpandFailed ''control'')) (\<lambda>c.
       Ok \<lparr>video_key = v, audio_key = a, control_key = c\<rparr>))))"

section \<open>Stream cipher\<close>

text \<open>The authenticated cipher: sealing and opening with a key and a nonce may fail.\<close>

record aead =
  seal :: "bytes \<Rightarrow> bytes \<Rightarrow> bytes \<Rightarrow> bytes option"
  unseal :: "bytes \<Rightarrow> bytes \<Rightarrow> bytes \<Rightarrow> bytes option"

record stream_cipher =
  cipher_key :: bytes
  frame_counter :: u64

definition cipher_new :: "bytes \<Rightarrow> stream_cipher" where
  "cipher_new k = \<lparr>cipher_key = k, frame_counter = 0\<rparr>"

definition duplicate_fresh :: "stream_cipher \<Rightarrow> stream_cipher" where
  "duplicate_fresh c = c\<lparr>frame_counter := 0\<rparr>"

definition nonce_for_counter :: "u64 \<Rightarrow> bytes" where
  "nonce_for_counter c = le_bytes 8 (unat c) @ [0, 0, 0, 0]"

definition nonce_for_counter_dir :: "u64 \<Rightarrow> u8 \<Rightarrow> bytes" where
  "nonce_for_counter_dir c d = le_bytes 8 (unat c) @ [d, 0, 0, 0]"

definition checked_incr :: "u64 \<Rightarrow> u64 option" where
  "checked_incr c = (if c = - 1 then None else Some (c + 1))"

definition encrypt_with ::
  "aead \<Rightarrow> (u64 \<Rightarrow> bytes) \<Rightarrow> bytes \<Rightarrow> stream_cipher \<Rightarrow> (crypto_error, bytes \<times> bytes) result \<times> stream_cipher"
where
  "encrypt_with A mk plain s =
    (let nonce = mk (frame_counter s) in
     case seal A (cipher_key s) nonce plain of
       None \<Rightarrow> (Err EncryptFailed, s)
     | Some ct \<Rightarrow>
         (case checked_incr (frame_counter s) of
           None \<Rightarrow> (Err CounterSaturated, s)
         | Some c \<Rightarrow> (Ok (ct, nonce), s\<lparr>frame_counter := c\<rparr>)))"

definition encrypt :: "aead \<Rightarrow> bytes \<Rightarrow> stream_cipher \<Rightarrow> (crypto_error, bytes \<times> bytes) result \<times> stream_cipher" where
  "encrypt A = encrypt_with A nonce_for_counter"

definition encrypt_dir ::
  "aead \<Rightarrow> u8 \<Rightarrow> bytes \<Rightarrow> stream_cipher \<Rightarrow> (crypto_error, bytes \<times> bytes) result \<times> stream_cipher"
where
  "encrypt_dir A d = encrypt_with A (\<lambda>c. nonce_for_counter_dir c d)"

definition decrypt :: "aead \<Rightarrow> bytes \<Rightarrow> bytes \<Rightarrow> stream_cipher \<Rightarrow> (crypto_error, bytes) result" where
  "decrypt A ct nonce s =
    (if length nonce \<noteq> chacha20_nonce_size then Err (BadNonce (length nonce))
     else ok_or (unseal A (cipher_key s) nonce ct) DecryptFailed)"

section \<open>Nonces\<close>

lemma le_bytes_u64_inj: "le_bytes 8 (unat (a :: u64)) = le_bytes 8 (unat b) \<Longrightarrow> a = b"
proof -
  assume "le_bytes 8 (unat a) = le_bytes 8 (unat b)"
  then have "unat a = unat b"
    using le_bytes_inj [of 8 "unat a" "unat b"] unat_u64 [of a] unat_u64 [of b] by simp
  then show "a = b" by (simp add: word_unat_eq_iff)
qed

lemma nonce_dir_inj:
  "nonce_for_counter_dir a d = nonce_for_counter_dir b e \<longleftrightarrow> a = b \<and> d = e"
proof
  assume "nonce_for_counter_dir a d = nonce_for_counter_dir b e"
  then have "le_bytes 8 (unat a) = le_bytes 8 (unat b)" "d = e"
    by (simp_all add: nonce_for_counter_dir_def)
  then show "a = b \<and> d = e" using le_bytes_u64_inj by blast
qed simp

lemma nonce_plain_dir: "nonce_for_counter a = nonce_for_counter_dir a 0"
  by (simp add: nonce_for_counter_def nonce_for_counter_dir_def)

lemma nonce_length [simp]:
  "length (nonce_for_counter c) = 12" "length (nonce_for_counter_dir c d) = 12"
  by (simp_all add: nonce_for_counter_def nonce_for_counter_dir_def)

text \<open>
  A source of nonces: each successful use returns a nonce and moves a position strictly
  forward, and the nonce determines the position.
\<close>

locale nonce_stream =
  fixes emit :: "'m \<Rightarrow> 's \<Rightarrow> ('e, 'o) result \<times> 's"
    and nonce_of :: "'o \<Rightarrow> 'n"
    and pos :: "'s \<Rightarrow> nat"
    and tag :: "nat \<Rightarrow> 'n"
  assumes emit_ok: "emit m s = (Inr x, s') \<Longrightarrow> nonce_of x = tag (pos s) \<and> pos s' = Suc (pos s)"
    and emit_err: "emit m s = (Inl e, s') \<Longrightarrow> pos s' = pos s"
    and bounded: "emit m s = (Inr x, s') \<Longrightarrow> emit m' t = (Inr y, t') \<Longrightarrow>
      tag (pos s) = tag (pos t) \<Longrightarrow> pos s = pos t"
begin

fun emit_all :: "'m list \<Rightarrow> 's \<Rightarrow> 'o list \<times> 's" where
  "emit_all [] s = ([], s)"
| "emit_all (m # ms) s =
    (case emit m s of
      (Inl _, s') \<Rightarrow> emit_all ms s'
    | (Inr x, s') \<Rightarrow> (let (xs, s'') = emit_all ms s' in (x # xs, s'')))"

lemma emit_all_tags:
  "emit_all ms s = (xs, s') \<Longrightarrow> y \<in> set xs \<Longrightarrow>
    \<exists>m t t'. emit m t = (Inr y, t') \<and> pos s \<le> pos t"
proof (induction ms arbitrary: s xs)
  case Nil
  then show ?case by simp
next
  case (Cons m ms)
  obtain r t where e: "emit m s = (r, t)" by (cases "emit m s")
  show ?case
  proof (cases r)
    case (Inl er)
    then have "emit_all ms t = (xs, s')" using Cons.prems(1) e by simp
    then show ?thesis using Cons.IH [of t xs] Cons.prems(2) emit_err e Inl by metis
  next
    case (Inr x)
    obtain zs u where z: "emit_all ms t = (zs, u)" by (cases "emit_all ms t")
    then have xs: "xs = x # zs" "u = s'" using Cons.prems(1) e Inr by simp_all
    show ?thesis
    proof (cases "y = x")
      case True
      then show ?thesis using e Inr by blast
    next
      case False
      then have "y \<in> set zs" using Cons.prems(2) xs by simp
      then obtain m' v v' where "emit m' v = (Inr y, v')" "pos t \<le> pos v"
        using Cons.IH [of t zs] z xs(2) by metis
      moreover have "pos s \<le> pos t" using emit_ok e Inr by fastforce
      ultimately show ?thesis by (meson order_trans)
    qed
  qed
qed

lemma nonces_distinct: "emit_all ms s = (xs, s') \<Longrightarrow> distinct (map nonce_of xs)"
proof (induction ms arbitrary: s xs s')
  case Nil
  then show ?case by simp
next
  case (Cons m ms)
  obtain r t where e: "emit m s = (r, t)" by (cases "emit m s")
  show ?case
  proof (cases r)
    case (Inl er)
    then show ?thesis using Cons e by simp
  next
    case (Inr x)
    obtain zs u where z: "emit_all ms t = (zs, u)" by (cases "emit_all ms t")
    have xs: "xs = x # zs" using Cons.prems e Inr z by simp
    have fresh: "nonce_of x \<noteq> nonce_of y" if y: "y \<in> set zs" for y
    proof
      assume eq: "nonce_of x = nonce_of y"
      obtain m' v v' where v: "emit m' v = (Inr y, v')" "pos t \<le> pos v"
        using emit_all_tags [OF z y] by blast
      have "tag (pos s) = tag (pos v)" using eq emit_ok [OF v(1)] emit_ok e Inr by fastforce
      then have "pos s = pos v" using bounded v(1) e Inr by blast
      moreover have "pos t = Suc (pos s)" using emit_ok e Inr by blast
      ultimately show False using v(2) by simp
    qed
    moreover have "distinct (map nonce_of zs)" by (rule Cons.IH [OF z])
    ultimately show ?thesis using xs by auto
  qed
qed

end

lemma checked_incr_Some: "checked_incr c = Some d \<Longrightarrow> unat d = Suc (unat c)"
proof -
  assume "checked_incr c = Some d"
  then have "c \<noteq> - 1" "d = c + 1" by (auto simp: checked_incr_def split: if_splits)
  then have "1 + c \<noteq> 0" by (metis add.commute eq_neg_iff_add_eq_0)
  then show "unat d = Suc (unat c)" using unatSuc [of c] \<open>d = c + 1\<close> by (simp add: add.commute)
qed

lemma encrypt_dir_Ok:
  assumes "encrypt_dir A d plain s = (Inr x, s')"
  shows "snd x = nonce_for_counter_dir (frame_counter s) d"
    "unat (frame_counter s') = Suc (unat (frame_counter s))" "cipher_key s' = cipher_key s"
    "seal A (cipher_key s) (snd x) plain = Some (fst x)"
  using assms checked_incr_Some
  by (auto simp: encrypt_dir_def encrypt_with_def Let_def split: option.splits)

lemma encrypt_dir_Err: "encrypt_dir A d plain s = (Inl e, s') \<Longrightarrow> s' = s"
  by (auto simp: encrypt_dir_def encrypt_with_def Let_def split: option.splits)

interpretation dir_nonces: nonce_stream "encrypt_dir A d" snd "\<lambda>s. unat (frame_counter s)"
  "\<lambda>n. nonce_for_counter_dir (word_of_nat n) d" for A :: aead and d :: u8
proof unfold_locales
  fix m s x s' m' t y t'
  assume "nonce_for_counter_dir (word_of_nat (unat (frame_counter (s :: stream_cipher)))) d
    = nonce_for_counter_dir (word_of_nat (unat (frame_counter (t :: stream_cipher)))) d"
  then show "unat (frame_counter s) = unat (frame_counter t)" by (simp add: nonce_dir_inj)
qed (auto dest: encrypt_dir_Ok encrypt_dir_Err)


text \<open>
  What one side encrypts in a direction the other side decrypts, when the cipher opens what
  it sealed; and a saturated counter refuses to encrypt instead of wrapping to a used nonce.
\<close>

theorem encrypt_decrypt:
  assumes "\<And>k n p c. seal A k n p = Some c \<Longrightarrow> unseal A k n c = Some p"
    and "cipher_key receiver = cipher_key sender"
  shows "case encrypt_dir A d plain sender of
      (Inr (ct, nonce), _) \<Rightarrow> decrypt A ct nonce receiver = Ok plain \<and> frame_counter sender \<noteq> - 1
    | (Inl _, s) \<Rightarrow> s = sender"
proof (cases "encrypt_dir A d plain sender")
  case (Pair r s)
  show ?thesis
  proof (cases r)
    case (Inl e)
    then show ?thesis using Pair encrypt_dir_Err by simp
  next
    case (Inr x)
    note ok = encrypt_dir_Ok [OF Pair [unfolded Inr]]
    have "frame_counter sender \<noteq> - 1"
      using Pair Inr by (auto simp: encrypt_dir_def encrypt_with_def Let_def checked_incr_def split: option.splits if_splits)
    moreover have "unseal A (cipher_key receiver) (snd x) (fst x) = Some plain"
      using assms ok(4) by simp
    ultimately show ?thesis using Pair Inr ok(1)
      by (cases x) (simp add: decrypt_def chacha20_nonce_size_def)
  qed
qed

definition xor_cipher :: aead where
  "xor_cipher = \<lparr>seal = (\<lambda>k n p. Some (n @ p)), unseal = (\<lambda>k n c. Some (drop (length n) c))\<rparr>"

theorem encrypt_decrypt_witness:
  "decrypt xor_cipher (fst (projr (fst (encrypt_dir xor_cipher 1 [1, 2, 3] (cipher_new [])))))
      (snd (projr (fst (encrypt_dir xor_cipher 1 [1, 2, 3] (cipher_new []))))) (cipher_new []) = Ok [1, 2, 3]"
proof -
  have law: "seal xor_cipher k n p = Some c \<Longrightarrow> unseal xor_cipher k n c = Some p" for k n p c
    by (auto simp: xor_cipher_def)
  have ok: "is_ok (fst (encrypt_dir xor_cipher 1 [1, 2, 3] (cipher_new [])))"
    by (simp add: encrypt_dir_def encrypt_with_def Let_def xor_cipher_def cipher_new_def checked_incr_def)
  have "cipher_key (cipher_new []) = cipher_key (cipher_new [])" ..
  from encrypt_decrypt [where d = 1 and plain = "[1, 2, 3]", OF law this] ok show ?thesis
    by (auto simp: is_ok_def split: prod.splits sum.splits)
qed

end
