(* ===== verification/Encoder.thy ===== *)
theory Encoder
  imports ServerConfig Capture Crypto
begin

text \<open>
  The encoding pipeline of the proxy-encoder (\<open>nidan-proxy-encoder/src/encoder/\<close>): parameters
  and their validation, the H.264 encoder around the openh264 library, the placeholder encoder
  of the build without it, and the loop that turns raw frames into encoded ones.  The codec
  library is a record of functions on a state of its own; the hash of the placeholder is a
  parameter.  Products of \<open>u32\<close> values wrap, as they do in a release build.
\<close>

section \<open>Parameters\<close>

record encoder_params =
  ep_codec :: codec_choice
  ep_width :: u32
  ep_height :: u32
  ep_fps :: u32
  bitrate_kbps :: u32
  crf :: u32
  h264_profile :: string
  preset :: string
  ep_hardware_accel :: bool
  hw_device :: "string option"
  keyframe_interval_secs :: u32
  threads :: u32

definition for_remote_desktop :: "codec_choice \<Rightarrow> u32 \<Rightarrow> u32 \<Rightarrow> u32 \<Rightarrow> encoder_params" where
  "for_remote_desktop c w h fps =
    \<lparr>ep_codec = c, ep_width = w, ep_height = h, ep_fps = fps, bitrate_kbps = 0, crf = 28,
     h264_profile = ''high'', preset = ''ultrafast'', ep_hardware_accel = True, hw_device = None,
     keyframe_interval_secs = 1, threads = 0\<rparr>"

definition default_encoder_params :: encoder_params where
  "default_encoder_params = for_remote_desktop ChoiceH264 1920 1080 30"

datatype encoder_error =
    BadResolution u32 u32
  | BadFps u32
  | UnknownPreset string
  | BadClampedSize u32 u32
  | LibraryFailed

definition presets :: "string list" where
  "presets = [''ultrafast'', ''superfast'', ''veryfast'', ''faster'', ''fast'', ''medium'', ''slow'',
    ''slower'', ''veryslow'']"

definition params_validate :: "encoder_params \<Rightarrow> (encoder_error, unit) result" where
  "params_validate p =
    (if ep_width p = 0 \<or> ep_height p = 0 then Err (BadResolution (ep_width p) (ep_height p))
     else if ep_fps p = 0 \<or> 120 < ep_fps p then Err (BadFps (ep_fps p))
     else if preset p \<notin> set presets then Err (UnknownPreset (preset p))
     else Ok ())"

fun ffmpeg_codec_name :: "codec_choice \<Rightarrow> string" where
  "ffmpeg_codec_name ChoiceH264 = ''libx264''"
| "ffmpeg_codec_name ChoiceH265 = ''libx265''"
| "ffmpeg_codec_name ChoiceAv1 = ''libaom-av1''"

fun ffmpeg_hw_codec_name :: "codec_choice \<Rightarrow> string option" where
  "ffmpeg_hw_codec_name ChoiceH264 = Some ''h264_vaapi''"
| "ffmpeg_hw_codec_name ChoiceH265 = Some ''hevc_vaapi''"
| "ffmpeg_hw_codec_name ChoiceAv1 = None"

section \<open>The H.264 encoder\<close>

text \<open>The library: creation, forcing the next frame to be intra-coded, encoding an RGB image.\<close>

record 's h264_lib =
  lib_new :: "'s option"
  lib_force_intra :: "'s \<Rightarrow> 's"
  lib_encode :: "u32 \<Rightarrow> u32 \<Rightarrow> bytes \<Rightarrow> 's \<Rightarrow> bytes option \<times> 's"

record 's h264_encoder =
  he_lib :: 's
  he_width :: u32
  he_height :: u32
  he_frame_count :: u64
  he_force_keyframe :: bool
  keyframe_interval :: u64

text \<open>\<open>x & !1\<close>.\<close>

definition clamp_even :: "u32 \<Rightarrow> u32" where
  "clamp_even x = and x (not 1)"

definition h264_new :: "'s h264_lib \<Rightarrow> encoder_params \<Rightarrow> (encoder_error, 's h264_encoder) result" where
  "h264_new L p =
    bind_result (params_validate p) (\<lambda>_.
      let w = clamp_even (ep_width p); h = clamp_even (ep_height p) in
      if w = 0 \<or> h = 0 then Err (BadClampedSize w h)
      else (case lib_new L of
          None \<Rightarrow> Err LibraryFailed
        | Some s \<Rightarrow> Ok \<lparr>he_lib = s, he_width = w, he_height = h, he_frame_count = 0,
            he_force_keyframe = True,
            keyframe_interval = max (ucast (ep_fps p) * ucast (keyframe_interval_secs p)) 1\<rparr>))"

definition request_keyframe :: "'s h264_encoder \<Rightarrow> 's h264_encoder" where
  "request_keyframe e = e\<lparr>he_force_keyframe := True\<rparr>"

definition h264_resolution :: "'s h264_encoder \<Rightarrow> u32 \<times> u32" where
  "h264_resolution e = (he_width e, he_height e)"

text \<open>
  \<open>bgra_to_rgb\<close>: the first loop copies three bytes out of four while at least four remain and
  the target is not full; the second fills up with zeros.
\<close>

fun copy_pixels :: "nat \<Rightarrow> bytes \<Rightarrow> bytes" where
  "copy_pixels (Suc n) (r # g # b # a # rest) = r # g # b # copy_pixels n rest"
| "copy_pixels _ _ = []"

definition bgra_to_rgb :: "bytes \<Rightarrow> u32 \<Rightarrow> u32 \<Rightarrow> bytes" where
  "bgra_to_rgb img w h =
    (let n = unat (w * h); rgb = copy_pixels n img in rgb @ replicate (n * 3 - length rgb) 0)"

definition h264_encode_frame ::
  "'s h264_lib \<Rightarrow> raw_frame \<Rightarrow> 's h264_encoder \<Rightarrow> (encoder_error, bytes) result \<times> 's h264_encoder"
where
  "h264_encode_frame L f e =
    (let e1 = (if he_force_keyframe e \<or> he_frame_count e mod keyframe_interval e = 0
               then e\<lparr>he_lib := lib_force_intra L (he_lib e), he_force_keyframe := False\<rparr> else e);
         (r, s) = lib_encode L (he_width e1) (he_height e1)
           (bgra_to_rgb (rf_data f) (he_width e1) (he_height e1)) (he_lib e1);
         e2 = e1\<lparr>he_lib := s\<rparr>
     in (case r of
          None \<Rightarrow> (Err LibraryFailed, e2)
        | Some d \<Rightarrow> (Ok d, e2\<lparr>he_frame_count := he_frame_count e2 + 1\<rparr>)))"

section \<open>The placeholder encoder\<close>

record ffmpeg_encoder =
  fe_params :: encoder_params
  fe_frame_count :: u64
  fe_force_keyframe :: bool

definition ffmpeg_new :: "encoder_params \<Rightarrow> (encoder_error, ffmpeg_encoder) result" where
  "ffmpeg_new p = bind_result (params_validate p) (\<lambda>_.
    Ok \<lparr>fe_params = p, fe_frame_count = 0, fe_force_keyframe = True\<rparr>)"

definition encode_stub :: "(bytes \<Rightarrow> u64) \<Rightarrow> raw_frame \<Rightarrow> bool \<Rightarrow> bytes" where
  "encode_stub hash f kf =
    [0, 0, 0, 1] @ [if kf then 0x65 else 0x41] @ le_bytes 8 (unat (rf_seq f))
    @ le_bytes 4 (unat (rf_width f)) @ le_bytes 4 (unat (rf_height f))
    @ le_bytes 8 (unat (hash (take 1024 (rf_data f))))
    @ replicate (if kf then 20000 else 2000) 0x42"

text \<open>A remainder by zero panics: no result.\<close>

definition ffmpeg_encode_frame ::
  "(bytes \<Rightarrow> u64) \<Rightarrow> raw_frame \<Rightarrow> ffmpeg_encoder \<Rightarrow> (bytes \<times> ffmpeg_encoder) option"
where
  "ffmpeg_encode_frame hash f e =
    (let period = ucast (ep_fps (fe_params e)) * ucast (keyframe_interval_secs (fe_params e)) in
     if \<not> fe_force_keyframe e \<and> fe_frame_count e \<noteq> 0 \<and> period = 0 then None
     else (let kf = fe_force_keyframe e \<or> fe_frame_count e = 0 \<or> fe_frame_count e mod period = 0 in
       Some (encode_stub hash f kf,
         e\<lparr>fe_force_keyframe := False, fe_frame_count := fe_frame_count e + 1\<rparr>)))"

definition set_bitrate :: "u32 \<Rightarrow> ffmpeg_encoder \<Rightarrow> ffmpeg_encoder" where
  "set_bitrate kbps e = e\<lparr>fe_params := (fe_params e)\<lparr>bitrate_kbps := kbps\<rparr>\<rparr>"

section \<open>The pipeline\<close>

record encoded_frame =
  ef_data :: bytes
  ef_nonce :: bytes
  ef_seq :: u64
  ef_pts_ms :: u32
  ef_codec :: codec_choice
  ef_keyframe :: bool
  ef_width :: u32
  ef_height :: u32
  ef_duration_us :: u32

definition into_proto :: "u32 \<Rightarrow> encoded_frame \<Rightarrow> video_frame" where
  "into_proto monitor f =
    \<lparr>frame_seq = ef_seq f, monitor_index = monitor, vf_codec = codec_to_proto (ef_codec f),
     vf_pixel_format = 1, keyframe = ef_keyframe f, encoded_data = ef_data f, vf_nonce = ef_nonce f,
     vf_width = ef_width f, vf_height = ef_height f, pts_ms = ef_pts_ms f,
     encode_duration_us = ef_duration_us f, damage_hint = [], encrypted = False\<rparr>"

text \<open>\<open>saturating_sub\<close>, then milliseconds cut to 32 bits.\<close>

definition pts_of :: "u64 \<Rightarrow> u64 \<Rightarrow> u32" where
  "pts_of start t = ucast ((if start \<le> t then t - start else 0) div 1000)"

record 's pipeline =
  pl_codec :: codec_choice
  pl_start_us :: u64
  pl_encoder :: "'s h264_encoder"
  pl_cipher :: "stream_cipher option"

definition pipeline_start ::
  "'s h264_lib \<Rightarrow> encoder_params \<Rightarrow> bytes option \<Rightarrow> u64 \<Rightarrow> (encoder_error, 's pipeline) result"
where
  "pipeline_start L p key now =
    bind_result (h264_new L p) (\<lambda>e.
      Ok \<lparr>pl_codec = ep_codec p, pl_start_us = now, pl_encoder = e,
        pl_cipher = map_option cipher_new key\<rparr>)"

text \<open>The payload and nonce of an encoded frame; nothing when encryption fails.\<close>

definition protect ::
  "aead \<Rightarrow> bytes \<Rightarrow> stream_cipher option \<Rightarrow> (bytes \<times> bytes) option \<times> stream_cipher option"
where
  "protect A nal c =
    (case c of
      None \<Rightarrow> (Some (nal, replicate 12 0), None)
    | Some c0 \<Rightarrow> (case encrypt A nal c0 of
        (Inl _, c1) \<Rightarrow> (None, Some c1)
      | (Inr x, c1) \<Rightarrow> (Some x, Some c1)))"

definition pipeline_frame ::
  "'s h264_lib \<Rightarrow> aead \<Rightarrow> u32 \<Rightarrow> raw_frame \<Rightarrow> 's pipeline \<Rightarrow> encoded_frame option \<times> 's pipeline"
where
  "pipeline_frame L A duration f p =
    (let e0 = (if rf_keyframe f then request_keyframe (pl_encoder p) else pl_encoder p);
         (r, e1) = h264_encode_frame L f e0;
         p1 = p\<lparr>pl_encoder := e1\<rparr>
     in (case r of
          Inl _ \<Rightarrow> (None, p1)
        | Inr nal \<Rightarrow>
            if nal = [] then (None, p1)
            else (let (x, c) = protect A nal (pl_cipher p1); p2 = p1\<lparr>pl_cipher := c\<rparr>
              in (map_option (\<lambda>(ct, nonce).
                    \<lparr>ef_data = ct, ef_nonce = nonce, ef_seq = rf_seq f,
                     ef_pts_ms = pts_of (pl_start_us p) (rf_timestamp_us f), ef_codec = pl_codec p,
                     ef_keyframe = rf_keyframe f, ef_width = rf_width f, ef_height = rf_height f,
                     ef_duration_us = duration\<rparr>) x, p2))))"

text \<open>
  The loop, over the frames received until the channel closes or the shut-down is seen.  With
  each frame come the time it took to encode and whether the receiver is still there.
\<close>

fun pipeline_run ::
  "'s h264_lib \<Rightarrow> aead \<Rightarrow> (raw_frame \<times> u32 \<times> bool) list \<Rightarrow> 's pipeline \<Rightarrow> encoded_frame list \<times> 's pipeline"
where
  "pipeline_run L A [] p = ([], p)"
| "pipeline_run L A ((f, duration, receiver) # rest) p =
    (case pipeline_frame L A duration f p of
      (None, p1) \<Rightarrow> pipeline_run L A rest p1
    | (Some e, p1) \<Rightarrow>
        if receiver then (let (es, p2) = pipeline_run L A rest p1 in (e # es, p2))
        else ([], p1))"

end
