(* ===== verification/AgentLink.thy ===== *)
theory AgentLink
  imports Capture Framing
begin

text \<open>
  The channel between the agent in a virtual machine and the proxy-encoder on its host: the
  messages (\<open>nidan-proto/proto/agent.proto\<close>), their framing, the handshake and the session
  loops on both sides (\<open>nidan-agent/src/vsock_link.rs\<close> and \<open>run_session\<close>, \<open>run_inputs_relay\<close> of
  \<open>nidan-proxy-encoder/src/capture/vsock.rs\<close>).  Protobuf is a library: \<open>msg_codec\<close> holds its
  encoder and decoder.  A direction of the connection is the list of bytes written to it.
\<close>

section \<open>Messages\<close>

datatype agent_pixel_format = PfUnspecified | PfRgba8 | PfBgra8 | PfYuv420

fun pixel_code :: "agent_pixel_format \<Rightarrow> int" where
  "pixel_code PfUnspecified = 0"
| "pixel_code PfRgba8 = 1"
| "pixel_code PfBgra8 = 2"
| "pixel_code PfYuv420 = 3"

definition pixel_try_from :: "int \<Rightarrow> agent_pixel_format option" where
  "pixel_try_from v =
    (if v = 0 then Some PfUnspecified else if v = 1 then Some PfRgba8
     else if v = 2 then Some PfBgra8 else if v = 3 then Some PfYuv420 else None)"

datatype agent_stop_reason = StopUnspecified | ClientClose | PortalError | StopInternal | StopShutdown

fun stop_code :: "agent_stop_reason \<Rightarrow> int" where
  "stop_code StopUnspecified = 0"
| "stop_code ClientClose = 1"
| "stop_code PortalError = 2"
| "stop_code StopInternal = 3"
| "stop_code StopShutdown = 4"

record agent_hello =
  agent_version :: string
  supported_formats :: "int list"
  native_width :: u32
  native_height :: u32
  hello_max_fps :: u32

record proxy_hello_ack =
  pa_accepted :: bool
  proxy_version :: string
  pa_error_message :: string

record start_capture =
  target_width :: u32
  target_height :: u32
  sc_target_fps :: u32
  sc_format :: int
  sc_correlation_id :: string

record proto_raw_frame =
  pf_frame_seq :: u64
  pf_timestamp_us :: u64
  pf_width :: u32
  pf_height :: u32
  pf_format :: int
  stride_bytes :: u32
  pixels :: bytes

record agent_stopped =
  stop_reason :: int
  stop_detail :: string
  as_correlation_id :: string

datatype agent_msg =
    MHello agent_hello
  | MHelloAck proxy_hello_ack
  | MStart start_capture
  | MStop string
  | MFrame proto_raw_frame
  | MInputs bytes
  | MStopped agent_stopped

text \<open>An envelope whose \<open>oneof\<close> is empty is \<open>None\<close>.\<close>

type_synonym agent_message = "agent_msg option"

record msg_codec =
  encode_msg :: "agent_message \<Rightarrow> bytes"
  decode_msg :: "bytes \<Rightarrow> agent_message option"

lemma pixel_try_from_code [simp]: "pixel_try_from (pixel_code f) = Some f"
  by (cases f) (simp_all add: pixel_try_from_def)

section \<open>Framing\<close>

definition max_vsock_message :: nat where "max_vsock_message = 32 * 1024 * 1024"

definition send_framed :: "msg_codec \<Rightarrow> agent_message \<Rightarrow> bytes" where
  "send_framed C m = write_frame le32 (encode_msg C m)"

datatype link_error = LinkRead read_error | LinkDecode | Unexpected | RefusedByProxy string

definition recv_framed :: "msg_codec \<Rightarrow> bytes \<Rightarrow> (link_error, agent_message \<times> bytes) result" where
  "recv_framed C s =
    (case read_frame 4 le_nat (\<lambda>n. n \<le> max_vsock_message) s of
      Inl e \<Rightarrow> Err (LinkRead e)
    | Inr (p, r) \<Rightarrow> (case decode_msg C p of None \<Rightarrow> Err LinkDecode | Some m \<Rightarrow> Ok (m, r)))"

text \<open>What the channel relies on: the library decodes what it encoded.\<close>

definition codec_law :: "msg_codec \<Rightarrow> agent_message \<Rightarrow> bool" where
  "codec_law C m \<longleftrightarrow> decode_msg C (encode_msg C m) = Some m \<and> length (encode_msg C m) \<le> max_vsock_message"

lemma recv_send: "codec_law C m \<Longrightarrow> recv_framed C (send_framed C m @ r) = Ok (m, r)"
  using be_frames.len_prefix_axioms
    le_frames.read_write [of "encode_msg C m" "\<lambda>n. n \<le> max_vsock_message" r]
  by (simp add: codec_law_def recv_framed_def send_framed_def max_vsock_message_def)

lemma recv_send_Nil: "codec_law C m \<Longrightarrow> recv_framed C (send_framed C m) = Ok (m, [])"
  using recv_send [of C m "[]"] by simp

lemma recv_framed_shorter: "recv_framed C s = Inr (m, r) \<Longrightarrow> length r < length s"
  using read_frame_consumes(1) [of 4 le_nat "\<lambda>n. n \<le> max_vsock_message" s]
  by (auto simp: recv_framed_def split: sum.splits option.splits)

lemma recv_framed_Nil [simp]: "recv_framed C [] = Err (LinkRead UnexpectedEof)"
  by (simp add: recv_framed_def read_frame_def read_exact_def)

section \<open>Handshake\<close>

record agent_side =
  ag_version :: string
  ag_formats :: "agent_pixel_format list"
  ag_width :: u32
  ag_height :: u32
  ag_max_fps :: u32

definition hello_of :: "agent_side \<Rightarrow> agent_hello" where
  "hello_of a = \<lparr>agent_version = ag_version a, supported_formats = map pixel_code (ag_formats a),
    native_width = ag_width a, native_height = ag_height a, hello_max_fps = ag_max_fps a\<rparr>"

text \<open>The agent after its greeting: the acknowledgement, then the order to start.\<close>

definition connect_and_handshake :: "msg_codec \<Rightarrow> bytes \<Rightarrow> (link_error, start_capture \<times> bytes) result" where
  "connect_and_handshake C s =
    bind_result (recv_framed C s) (\<lambda>(m, r).
      case m of
        Some (MHelloAck ack) \<Rightarrow>
          if \<not> pa_accepted ack then Err (RefusedByProxy (pa_error_message ack))
          else bind_result (recv_framed C r) (\<lambda>(m, r).
            case m of Some (MStart st) \<Rightarrow> Ok (st, r) | _ \<Rightarrow> Err Unexpected)
      | _ \<Rightarrow> Err Unexpected)"

definition default_width :: u32 where "default_width = 1920"
definition default_height :: u32 where "default_height = 1080"

definition hello_width :: "agent_hello \<Rightarrow> u32" where
  "hello_width h = (if 0 < native_width h then native_width h else default_width)"

definition hello_height :: "agent_hello \<Rightarrow> u32" where
  "hello_height h = (if 0 < native_height h then native_height h else default_height)"

definition hello_caps :: "agent_hello \<Rightarrow> capturer_caps" where
  "hello_caps h = \<lparr>caps_width = hello_width h, caps_height = hello_height h, supports_xshm = False,
    supports_xdamage = False, caps_format = Bgra8888\<rparr>"

definition chosen_format :: "agent_hello \<Rightarrow> agent_pixel_format" where
  "chosen_format h = (case supported_formats h of
      [] \<Rightarrow> PfBgra8
    | f # _ \<Rightarrow> (case pixel_try_from f of None \<Rightarrow> PfBgra8 | Some p \<Rightarrow> p))"

definition start_for :: "u32 \<Rightarrow> nat \<Rightarrow> agent_hello \<Rightarrow> start_capture" where
  "start_for fps_limit pid h =
    \<lparr>target_width = hello_width h, target_height = hello_height h,
     sc_target_fps = (if 0 < fps_limit then fps_limit else hello_max_fps h),
     sc_format = pixel_code (chosen_format h),
     sc_correlation_id = ''session-'' @ dec_string pid\<rparr>"

text \<open>The proxy: the bytes it answers, the capabilities it publishes and the rest of the stream.\<close>

definition proxy_handshake ::
  "msg_codec \<Rightarrow> string \<Rightarrow> u32 \<Rightarrow> nat \<Rightarrow> bytes \<Rightarrow> (link_error, bytes \<times> capturer_caps \<times> bytes) result"
where
  "proxy_handshake C version fps_limit pid s =
    bind_result (recv_framed C s) (\<lambda>(m, r).
      case m of
        Some (MHello h) \<Rightarrow>
          Ok (send_framed C (Some (MHelloAck \<lparr>pa_accepted = True, proxy_version = version,
                pa_error_message = ''''\<rparr>))
              @ send_framed C (Some (MStart (start_for fps_limit pid h))),
            hello_caps h, r)
      | _ \<Rightarrow> Err Unexpected)"

section \<open>Frames from the agent to the proxy\<close>

definition proto_frame_of :: "agent_pixel_format \<Rightarrow> raw_frame \<Rightarrow> proto_raw_frame" where
  "proto_frame_of fmt f = \<lparr>pf_frame_seq = rf_seq f, pf_timestamp_us = rf_timestamp_us f,
    pf_width = rf_width f, pf_height = rf_height f, pf_format = pixel_code fmt,
    stride_bytes = rf_stride f, pixels = rf_data f\<rparr>"

definition final_message :: agent_message where
  "final_message = Some (MStopped \<lparr>stop_reason = stop_code StopShutdown,
    stop_detail = ''agent local shutdown'', as_correlation_id = ''''\<rparr>)"

text \<open>What the agent writes for the frames its capturer produced before the session ends.\<close>

definition agent_frames :: "msg_codec \<Rightarrow> agent_pixel_format \<Rightarrow> raw_frame list \<Rightarrow> bytes" where
  "agent_frames C fmt fs =
    concat (map (\<lambda>f. send_framed C (Some (MFrame (proto_frame_of fmt f)))) fs) @ send_framed C final_message"

definition received_frame :: "u32 \<Rightarrow> nat \<Rightarrow> proto_raw_frame \<Rightarrow> raw_frame" where
  "received_frame cid n p =
    \<lparr>rf_data = pixels p, rf_width = pf_width p, rf_height = pf_height p, rf_stride = stride_bytes p,
     rf_timestamp_us = pf_timestamp_us p, rf_seq = pf_frame_seq p, rf_keyframe = (n = 0),
     damage_rects = [], source_cid = Some cid\<rparr>"

text \<open>The receiving loop; \<open>n\<close> counts the frames already passed on.\<close>

function proxy_frames :: "msg_codec \<Rightarrow> u32 \<Rightarrow> nat \<Rightarrow> bytes \<Rightarrow> raw_frame list" where
  "proxy_frames C cid n s =
    (case recv_framed C s of
      Inl _ \<Rightarrow> []
    | Inr (m, r) \<Rightarrow>
        (case m of
          Some (MFrame p) \<Rightarrow> received_frame cid n p # proxy_frames C cid (Suc n) r
        | Some (MStopped _) \<Rightarrow> []
        | _ \<Rightarrow> proxy_frames C cid n r))"
  by pat_completeness auto
termination
  by (relation "measure (\<lambda>(C, cid, n, s). length s)") (auto dest: recv_framed_shorter)

declare proxy_frames.simps [simp del]

section \<open>Inputs from the proxy to the agent\<close>

definition inputs_relay :: "msg_codec \<Rightarrow> bytes list \<Rightarrow> bytes" where
  "inputs_relay C batches = concat (map (\<lambda>b. send_framed C (Some (MInputs b))) batches)"

datatype proxy_command = CmdStart start_capture | CmdStop string | CmdInputs bytes

function agent_commands :: "msg_codec \<Rightarrow> bytes \<Rightarrow> proxy_command list" where
  "agent_commands C s =
    (case recv_framed C s of
      Inl _ \<Rightarrow> []
    | Inr (m, r) \<Rightarrow>
        (case m of
          Some (MStop c) \<Rightarrow> [CmdStop c]
        | Some (MStart st) \<Rightarrow> CmdStart st # agent_commands C r
        | Some (MInputs b) \<Rightarrow> CmdInputs b # agent_commands C r
        | _ \<Rightarrow> agent_commands C r))"
  by pat_completeness auto
termination
  by (relation "measure (\<lambda>(C, s). length s)") (auto dest: recv_framed_shorter)

declare agent_commands.simps [simp del]

section \<open>The two sides together\<close>

lemma proxy_frames_stop:
  "codec_law C (Some (MStopped x)) \<Longrightarrow> proxy_frames C cid n (send_framed C (Some (MStopped x)) @ r) = []"
  by (subst proxy_frames.simps) (simp add: recv_send)

lemma proxy_frames_frame:
  "codec_law C (Some (MFrame p)) \<Longrightarrow>
    proxy_frames C cid n (send_framed C (Some (MFrame p)) @ r)
      = received_frame cid n p # proxy_frames C cid (Suc n) r"
  by (subst proxy_frames.simps) (simp add: recv_send)

lemma agent_commands_inputs:
  "codec_law C (Some (MInputs b)) \<Longrightarrow>
    agent_commands C (send_framed C (Some (MInputs b)) @ r) = CmdInputs b # agent_commands C r"
  by (subst agent_commands.simps) (simp add: recv_send)

lemma agent_commands_Nil [simp]: "agent_commands C [] = []"
  by (subst agent_commands.simps) simp

lemma inputs_delivered:
  assumes "\<And>b. b \<in> set bs \<Longrightarrow> codec_law C (Some (MInputs b))"
  shows "agent_commands C (inputs_relay C bs @ r) = map CmdInputs bs @ agent_commands C r"
  using assms
proof (induction bs)
  case Nil
  then show ?case by (simp add: inputs_relay_def)
next
  case (Cons b bs)
  have "agent_commands C (inputs_relay C (b # bs) @ r)
      = CmdInputs b # agent_commands C (inputs_relay C bs @ r)"
    using agent_commands_inputs Cons.prems by (simp add: inputs_relay_def)
  then show ?case using Cons by simp
qed

lemma frames_delivered:
  assumes "\<And>f. f \<in> set fs \<Longrightarrow> codec_law C (Some (MFrame (proto_frame_of fmt f)))"
    and "codec_law C final_message"
  shows "proxy_frames C cid n (agent_frames C fmt fs)
    = map (\<lambda>(i, f). received_frame cid i (proto_frame_of fmt f)) (enumerate n fs)"
  using assms(1)
proof (induction fs arbitrary: n)
  case Nil
  then show ?case
    using assms(2) proxy_frames_stop [of C _ cid n "[]"]
    by (simp add: agent_frames_def final_message_def)
next
  case (Cons f fs)
  have "proxy_frames C cid n (agent_frames C fmt (f # fs))
      = received_frame cid n (proto_frame_of fmt f) # proxy_frames C cid (Suc n) (agent_frames C fmt fs)"
    using proxy_frames_frame Cons.prems by (simp add: agent_frames_def)
  then show ?case using Cons by simp
qed

end
