(* ===== verification/Vsock.thy ===== *)
theory Vsock
  imports AgentLink
begin

text \<open>
  The vsock service of the proxy-encoder (\<open>nidan-proxy-encoder/src/capture/vsock_service.rs\<close> and
  \<open>VsockCapturer\<close> of \<open>vsock.rs\<close>): the input channels of the virtual machines, keyed by context
  identifier (CID), the distribution of frames to the sessions, the capabilities published by
  the agents and the disconnection tokens.  A channel is an index into the table \<open>chans\<close>; both
  maps hold such indices.  Index 0 is the shared channel, whose receiver nobody reads.
\<close>

definition channel_capacity :: nat where "channel_capacity = 64"

text \<open>\<open>ch_cid\<close> records for which CID a channel was made; the program keeps no such field.\<close>

record chan =
  ch_cid :: "u32 option"
  ch_queue :: "bytes list"
  ch_open :: bool

record vsock_service =
  agent_caps :: "capturer_caps option"
  cid_input_rxs :: "(u32 \<times> nat) list"
  cid_input_txs :: "(u32 \<times> nat) list"
  agent_disconnect_tokens :: "(u32 \<times> nat) list"
  cancelled_tokens :: "nat list"
  next_token :: nat
  chans :: "chan list"

definition service_start :: vsock_service where
  "service_start = \<lparr>agent_caps = None, cid_input_rxs = [], cid_input_txs = [],
    agent_disconnect_tokens = [], cancelled_tokens = [], next_token = 0,
    chans = [\<lparr>ch_cid = None, ch_queue = [], ch_open = True\<rparr>]\<rparr>"

section \<open>Input channels\<close>

definition inputs_tx :: nat where "inputs_tx = 0"

definition new_chan :: "u32 \<Rightarrow> vsock_service \<Rightarrow> nat \<times> vsock_service" where
  "new_chan cid s = (length (chans s),
    s\<lparr>chans := chans s @ [\<lparr>ch_cid = Some cid, ch_queue = [], ch_open = True\<rparr>]\<rparr>)"

text \<open>A receiver is dropped: what was queued is lost, and senders are refused from then on.\<close>

definition drop_receiver :: "nat \<Rightarrow> vsock_service \<Rightarrow> vsock_service" where
  "drop_receiver i s = s\<lparr>chans := (chans s)[i := (chans s ! i)\<lparr>ch_queue := [], ch_open := False\<rparr>]\<rparr>"

text \<open>
  \<open>register_input_for_cid\<close> takes three locks one after the other: a look-up of the senders, the
  insertion of the receiver (which drops a receiver that was there), that of the sender.
\<close>

definition get_input_tx_for_cid :: "u32 \<Rightarrow> vsock_service \<Rightarrow> nat option" where
  "get_input_tx_for_cid cid s = map_of (cid_input_txs s) cid"

definition register_put_rx :: "u32 \<Rightarrow> vsock_service \<Rightarrow> nat \<times> vsock_service" where
  "register_put_rx cid s =
    (let (ch, s1) = new_chan cid s;
         s2 = (case map_of (cid_input_rxs s) cid of None \<Rightarrow> s1 | Some old \<Rightarrow> drop_receiver old s1)
     in (ch, s2\<lparr>cid_input_rxs := AList.update cid ch (cid_input_rxs s2)\<rparr>))"

definition register_put_tx :: "u32 \<Rightarrow> nat \<Rightarrow> vsock_service \<Rightarrow> vsock_service" where
  "register_put_tx cid ch s = s\<lparr>cid_input_txs := AList.update cid ch (cid_input_txs s)\<rparr>"

definition register_input_for_cid :: "u32 \<Rightarrow> vsock_service \<Rightarrow> nat \<times> vsock_service" where
  "register_input_for_cid cid s =
    (case get_input_tx_for_cid cid s of
      Some ch \<Rightarrow> (ch, s)
    | None \<Rightarrow> (let (ch, s1) = register_put_rx cid s in (ch, register_put_tx cid ch s1)))"

text \<open>An agent connects: it takes the waiting receiver of its CID or makes a channel.\<close>

definition accept_agent :: "u32 \<Rightarrow> vsock_service \<Rightarrow> nat \<times> vsock_service" where
  "accept_agent cid s =
    (case map_of (cid_input_rxs s) cid of
      Some ch \<Rightarrow> (ch, s\<lparr>cid_input_rxs := AList.delete cid (cid_input_rxs s)\<rparr>)
    | None \<Rightarrow> (let (ch, s1) = new_chan cid s
        in (ch, s1\<lparr>cid_input_txs := AList.update cid ch (cid_input_txs s1)\<rparr>)))"

text \<open>The channel of a session's injector.\<close>

definition injector_chan :: "u32 option \<Rightarrow> vsock_service \<Rightarrow> nat" where
  "injector_chan cid s =
    (case Option.bind cid (\<lambda>c. get_input_tx_for_cid c s) of None \<Rightarrow> inputs_tx | Some ch \<Rightarrow> ch)"

definition try_send :: "nat \<Rightarrow> bytes \<Rightarrow> vsock_service \<Rightarrow> try_send_answer \<times> vsock_service" where
  "try_send i b s =
    (let c = chans s ! i in
     if \<not> ch_open c then (ChannelClosed, s)
     else if channel_capacity \<le> length (ch_queue c) then (ChannelFull, s)
     else (Sent, s\<lparr>chans := (chans s)[i := c\<lparr>ch_queue := ch_queue c @ [b]\<rparr>]\<rparr>))"

text \<open>One turn of the relay of an agent session.\<close>

definition relay_next :: "nat \<Rightarrow> vsock_service \<Rightarrow> (bytes \<times> vsock_service) option" where
  "relay_next i s =
    (case ch_queue (chans s ! i) of
      [] \<Rightarrow> None
    | b # q \<Rightarrow> Some (b, s\<lparr>chans := (chans s)[i := (chans s ! i)\<lparr>ch_queue := q\<rparr>]\<rparr>))"

section \<open>Disconnection and capabilities\<close>

definition subscribe_agent_disconnect :: "u32 \<Rightarrow> vsock_service \<Rightarrow> nat \<times> vsock_service" where
  "subscribe_agent_disconnect cid s = (next_token s,
    s\<lparr>next_token := Suc (next_token s),
      agent_disconnect_tokens := AList.update cid (next_token s) (agent_disconnect_tokens s)\<rparr>)"

definition notify_agent_disconnect :: "u32 \<Rightarrow> vsock_service \<Rightarrow> vsock_service" where
  "notify_agent_disconnect cid s =
    (case map_of (agent_disconnect_tokens s) cid of
      None \<Rightarrow> s
    | Some t \<Rightarrow> s\<lparr>agent_disconnect_tokens := AList.delete cid (agent_disconnect_tokens s),
        cancelled_tokens := t # cancelled_tokens s\<rparr>)"

definition agent_session_end :: "u32 \<Rightarrow> nat \<Rightarrow> vsock_service \<Rightarrow> vsock_service" where
  "agent_session_end cid ch s = notify_agent_disconnect cid (drop_receiver ch s)"

definition publish_caps :: "capturer_caps \<Rightarrow> vsock_service \<Rightarrow> vsock_service" where
  "publish_caps c s = s\<lparr>agent_caps := Some c\<rparr>"

definition current_capabilities :: "vsock_service \<Rightarrow> capturer_caps option" where
  "current_capabilities s = agent_caps s"

definition default_agent_wait_secs :: nat where "default_agent_wait_secs = 120"

datatype wait_error = NoAgentConnected nat

text \<open>
  A session waits for the capabilities.  \<open>woken\<close> is what it reads at the first notification
  sent after it has started to listen and before the time-out.  A publication that falls
  between its look at the state and its listening wakes nobody.
\<close>

definition wait_for_agent_capabilities ::
  "nat \<Rightarrow> vsock_service \<Rightarrow> capturer_caps option \<Rightarrow> (wait_error, capturer_caps) result"
where
  "wait_for_agent_capabilities max_wait s woken =
    (case agent_caps s of
      Some c \<Rightarrow> Ok c
    | None \<Rightarrow> ok_or woken (NoAgentConnected max_wait))"

section \<open>Distribution of frames\<close>

datatype broadcast_event = BFrame raw_frame | BLagged nat | BClosed

text \<open>What a session is handed of the events its subscription yields until it ends.\<close>

fun subscribe_frames_as_mpsc :: "u32 option \<Rightarrow> broadcast_event list \<Rightarrow> raw_frame list" where
  "subscribe_frames_as_mpsc flt [] = []"
| "subscribe_frames_as_mpsc flt (BFrame f # es) =
    (case flt of
      None \<Rightarrow> f # subscribe_frames_as_mpsc flt es
    | Some c \<Rightarrow>
        if source_cid f \<noteq> Some c then subscribe_frames_as_mpsc flt es
        else f # subscribe_frames_as_mpsc flt es)"
| "subscribe_frames_as_mpsc flt (BLagged n # es) = subscribe_frames_as_mpsc flt es"
| "subscribe_frames_as_mpsc flt (BClosed # es) = []"

lemma subscribed_source:
  "f \<in> set (subscribe_frames_as_mpsc (Some c) es) \<Longrightarrow> source_cid f = Some c"
  by (induction "Some c" es rule: subscribe_frames_as_mpsc.induct) (auto split: if_splits)

text \<open>Without a CID a session is handed the frames of every machine.\<close>

lemma unfiltered_frames: "subscribe_frames_as_mpsc None (map BFrame fs) = fs"
  by (induction fs) auto

lemma filtered_frames:
  "subscribe_frames_as_mpsc (Some c) (map BFrame fs) = filter (\<lambda>f. source_cid f = Some c) fs"
  by (induction fs) auto

section \<open>The service and its users\<close>

text \<open>
  The state of the whole: the service, the registrations under way (the CID and the channel
  once it is made), the injectors of the sessions, the connected agents, and the history of
  accepted and relayed batches.
\<close>

record vsys =
  svc :: vsock_service
  regs :: "(u32 \<times> nat option) list"
  injectors :: "(u32 option \<times> nat) list"
  agents :: "(u32 \<times> nat) list"
  sent_log :: "(nat \<times> u32 option \<times> bytes) list"
  relay_log :: "(nat \<times> u32 \<times> bytes) list"

definition vsys_init :: vsys where
  "vsys_init = \<lparr>svc = service_start, regs = [], injectors = [], agents = [], sent_log = [], relay_log = []\<rparr>"

inductive vstep :: "vsys \<Rightarrow> vsys \<Rightarrow> bool" where
  look: "get_input_tx_for_cid cid (svc s) = None \<Longrightarrow> vstep s (s\<lparr>regs := (cid, None) # regs s\<rparr>)"
| put_rx: "(cid, None) \<in> set (regs s) \<Longrightarrow> register_put_rx cid (svc s) = (ch, v) \<Longrightarrow>
    vstep s (s\<lparr>svc := v, regs := (cid, Some ch) # remove1 (cid, None) (regs s)\<rparr>)"
| put_tx: "(cid, Some ch) \<in> set (regs s) \<Longrightarrow>
    vstep s (s\<lparr>svc := register_put_tx cid ch (svc s), regs := remove1 (cid, Some ch) (regs s)\<rparr>)"
| inject: "vstep s (s\<lparr>injectors := (c, injector_chan c (svc s)) # injectors s\<rparr>)"
| send: "(c, ch) \<in> set (injectors s) \<Longrightarrow> try_send ch b (svc s) = (Sent, v) \<Longrightarrow>
    vstep s (s\<lparr>svc := v, sent_log := sent_log s @ [(ch, c, b)]\<rparr>)"
| connect: "accept_agent cid (svc s) = (ch, v) \<Longrightarrow>
    vstep s (s\<lparr>svc := v, agents := (cid, ch) # agents s\<rparr>)"
| relay: "(cid, ch) \<in> set (agents s) \<Longrightarrow> relay_next ch (svc s) = Some (b, v) \<Longrightarrow>
    vstep s (s\<lparr>svc := v, relay_log := relay_log s @ [(ch, cid, b)]\<rparr>)"
| leave: "(cid, ch) \<in> set (agents s) \<Longrightarrow>
    vstep s (s\<lparr>svc := agent_session_end cid ch (svc s), agents := remove1 (cid, ch) (agents s)\<rparr>)"
| watch: "vstep s (s\<lparr>svc := snd (subscribe_agent_disconnect cid (svc s))\<rparr>)"
| greet: "vstep s (s\<lparr>svc := publish_caps c (svc s)\<rparr>)"

inductive_cases vstepE: "vstep s t"

section \<open>The abstract service\<close>

text \<open>
  Mailboxes with an owner.  A post goes to a box of its own CID or to one without owner; only
  the owner takes from a box, in order; a box that is shut loses its contents and takes no more.
\<close>

record mailbox =
  mb_owner :: "u32 option"
  mb_queue :: "bytes list"
  mb_open :: bool

record mailboxes =
  boxes :: "mailbox list"
  posted :: "(nat \<times> u32 option \<times> bytes) list"
  taken :: "(nat \<times> u32 \<times> bytes) list"

inductive mstep :: "mailboxes \<Rightarrow> mailboxes \<Rightarrow> bool" where
  m_new: "mstep m (m\<lparr>boxes := boxes m @ [\<lparr>mb_owner = w, mb_queue = [], mb_open = True\<rparr>]\<rparr>)"
| m_post: "i < length (boxes m) \<Longrightarrow> mb_open (boxes m ! i) \<Longrightarrow>
    mb_owner (boxes m ! i) = None \<or> mb_owner (boxes m ! i) = c \<Longrightarrow>
    mstep m (m\<lparr>boxes := (boxes m)[i := (boxes m ! i)\<lparr>mb_queue := mb_queue (boxes m ! i) @ [b]\<rparr>],
      posted := posted m @ [(i, c, b)]\<rparr>)"
| m_take: "i < length (boxes m) \<Longrightarrow> mb_owner (boxes m ! i) = Some cid \<Longrightarrow>
    mb_queue (boxes m ! i) = b # q \<Longrightarrow>
    mstep m (m\<lparr>boxes := (boxes m)[i := (boxes m ! i)\<lparr>mb_queue := q\<rparr>], taken := taken m @ [(i, cid, b)]\<rparr>)"
| m_shut: "i < length (boxes m) \<Longrightarrow>
    mstep m (m\<lparr>boxes := (boxes m)[i := (boxes m ! i)\<lparr>mb_queue := [], mb_open := False\<rparr>]\<rparr>)"

definition box_of :: "chan \<Rightarrow> mailbox" where
  "box_of c = \<lparr>mb_owner = ch_cid c, mb_queue = ch_queue c, mb_open = ch_open c\<rparr>"

definition mail_of :: "vsys \<Rightarrow> mailboxes" where
  "mail_of s = \<lparr>boxes = map box_of (chans (svc s)), posted = sent_log s, taken = relay_log s\<rparr>"

end
