(* ===== verification/ProxyStream.thy ===== *)
theory ProxyStream
  imports Encoder Vsock Auth
begin

text \<open>
  One client connection in the proxy-encoder (\<open>nidan-proxy-encoder/src/stream/mod.rs\<close>): the
  handshake with the check of the session token, the choice of dimensions and the key
  exchange; the control channel that carries inputs and clipboard; the video stream; and the
  destruction of a dynamic machine at the end.  JSON, X25519, key expansion and the token
  library are parameters, gathered in \<open>proxy_libs\<close>.
\<close>

section \<open>Text from untrusted bytes\<close>

text \<open>
  \<open>String::from_utf8_lossy\<close>: each maximal prefix of an ill-formed sequence becomes the
  replacement character.
\<close>

definition replacement :: bytes where "replacement = [0xEF, 0xBF, 0xBD]"

definition second_of_three :: "u8 \<Rightarrow> u8 \<Rightarrow> bool" where
  "second_of_three a b \<longleftrightarrow> cont_byte b \<and> (a = 0xE0 \<longrightarrow> 0xA0 \<le> b) \<and> (a = 0xED \<longrightarrow> b < 0xA0)"

definition second_of_four :: "u8 \<Rightarrow> u8 \<Rightarrow> bool" where
  "second_of_four a b \<longleftrightarrow> cont_byte b \<and> (a = 0xF0 \<longrightarrow> 0x90 \<le> b) \<and> (a = 0xF4 \<longrightarrow> b < 0x90)"

fun utf8_lossy :: "bytes \<Rightarrow> bytes" where
  "utf8_lossy [] = []"
| "utf8_lossy (a # r) =
    (if a < 0x80 then a # utf8_lossy r
     else if a < 0xC2 then replacement @ utf8_lossy r
     else if a < 0xE0 then
       (case r of
          b # r1 \<Rightarrow> if cont_byte b then a # b # utf8_lossy r1 else replacement @ utf8_lossy r
        | [] \<Rightarrow> replacement)
     else if a < 0xF0 then
       (case r of
          b # r1 \<Rightarrow>
            if \<not> second_of_three a b then replacement @ utf8_lossy r
            else (case r1 of
                c # r2 \<Rightarrow> if cont_byte c then a # b # c # utf8_lossy r2 else replacement @ utf8_lossy r1
              | [] \<Rightarrow> replacement)
        | [] \<Rightarrow> replacement)
     else if a < 0xF5 then
       (case r of
          b # r1 \<Rightarrow>
            if \<not> second_of_four a b then replacement @ utf8_lossy r
            else (case r1 of
                c # r2 \<Rightarrow>
                  if \<not> cont_byte c then replacement @ utf8_lossy r1
                  else (case r2 of
                      d # r3 \<Rightarrow> if cont_byte d then a # b # c # d # utf8_lossy r3 else replacement @ utf8_lossy r2
                    | [] \<Rightarrow> replacement)
              | [] \<Rightarrow> replacement)
        | [] \<Rightarrow> replacement)
     else replacement @ utf8_lossy r)"

definition from_utf8_lossy :: "bytes \<Rightarrow> string" where
  "from_utf8_lossy b = bytes_string (utf8_lossy b)"

declare utf8_lossy.simps [simp del] utf8_valid.simps [simp del]

lemma utf8_lossy_valid: "utf8_valid b \<Longrightarrow> utf8_lossy b = b"
proof (induction "length b" arbitrary: b rule: less_induct)
  case less
  show ?case
  proof (cases b)
    case Nil
    then show ?thesis by (simp add: utf8_lossy.simps)
  next
    case (Cons a r)
    note v = less.prems [unfolded Cons utf8_valid.simps] and l = utf8_lossy.simps(2) [of a r]
    have IH: "utf8_valid t \<Longrightarrow> length t \<le> length r \<Longrightarrow> utf8_lossy t = t" for t
      using less.hyps Cons by simp
    consider "a < 0x80" | "\<not> a < 0x80" "\<not> a < 0xC2" "a < 0xE0" | "\<not> a < 0x80" "\<not> a < 0xC2" "\<not> a < 0xE0" "a < 0xF0"
      | "\<not> a < 0x80" "\<not> a < 0xC2" "\<not> a < 0xE0" "\<not> a < 0xF0" "a < 0xF5"
      using v by (cases "a < 0x80"; cases "a < 0xC2"; cases "a < 0xE0"; cases "a < 0xF0"; cases "a < 0xF5"; simp)
    then show ?thesis
    proof cases
      case 1
      then show ?thesis using v l IH [of r] Cons by simp
    next
      case 2
      then obtain c t where "r = c # t" "cont_byte c" "utf8_valid t" using v by (auto split: list.splits)
      then show ?thesis using 2 l IH [of t] Cons by simp
    next
      case 3
      then obtain c d t where "r = c # d # t" "second_of_three a c" "cont_byte d" "utf8_valid t"
        using v by (auto simp: second_of_three_def split: list.splits)
      then show ?thesis using 3 l IH [of t] Cons by simp
    next
      case 4
      then obtain c d e t where "r = c # d # e # t" "second_of_four a c" "cont_byte d" "cont_byte e" "utf8_valid t"
        using v by (auto simp: second_of_four_def split: list.splits)
      then show ?thesis using 4 l IH [of t] Cons by simp
    qed
  qed
qed

lemma from_utf8_lossy_valid: "utf8_valid b \<Longrightarrow> from_utf8_lossy b = bytes_string b"
  by (simp add: from_utf8_lossy_def utf8_lossy_valid)

section \<open>Handshake\<close>

record proxy_libs =
  pl_jwt :: jwt_lib
  pl_parse_hs :: "bytes \<Rightarrow> client_server_handshake option"
  pl_render_ack :: "server_handshake_ack \<Rightarrow> bytes option"
  pl_dh :: "bytes \<Rightarrow> bytes \<Rightarrow> bytes"
  pl_hkdf :: "bytes \<Rightarrow> bytes \<Rightarrow> string \<Rightarrow> nat \<Rightarrow> bytes option"

text \<open>
  What a connection delivers while it is accepted: the bytes of its first stream, the clock, the
  capabilities of a capturer made for it, those read at a notification, the fresh key pair
  and nonce, and whether the acknowledgement can be written.
\<close>

record proxy_conn =
  pc_stream :: bytes
  pc_now :: timestamp
  pc_local_caps :: "capturer_caps option"
  pc_woken :: "capturer_caps option"
  pc_secret :: bytes
  pc_public :: bytes
  pc_nonce :: bytes
  pc_writable :: bool

datatype connect_error =
    HandshakeCut read_error
  | HandshakeUndecodable
  | TokenRefused
  | AgentAbsent wait_error
  | KeysNotDerived crypto_error
  | AckNotSent

definition max_handshake :: nat where "max_handshake = 4096"

definition receive_handshake :: "proxy_libs \<Rightarrow> bytes \<Rightarrow> (connect_error, client_server_handshake) result" where
  "receive_handshake L s =
    (case read_frame 4 be_nat (\<lambda>n. n \<le> max_handshake) s of
      Inl e \<Rightarrow> Err (HandshakeCut e)
    | Inr (buf, _) \<Rightarrow> ok_or (pl_parse_hs L buf) HandshakeUndecodable)"

definition default_ack :: server_handshake_ack where
  "default_ack = \<lparr>accepted = False, selected_codec = 0, selected_format = 0, ack_state = 0, stream_id = 0,
    ack_width = 0, ack_height = 0, server_public_key = [], server_nonce = [], e2e_enabled = False,
    ack_error_message = ''''\<rparr>"

definition token_nack :: server_handshake_ack where
  "token_nack = default_ack\<lparr>accepted := False, ack_error_message := ''jeton de session invalide ou absent''\<rparr>"

text \<open>The bytes written for an acknowledgement, or nothing.\<close>

definition send_ack :: "proxy_libs \<Rightarrow> proxy_conn \<Rightarrow> server_handshake_ack \<Rightarrow> bytes option" where
  "send_ack L c ack =
    (case pl_render_ack L ack of
      None \<Rightarrow> None
    | Some data \<Rightarrow> if pc_writable c then Some (write_frame be32 data) else None)"

text \<open>The CID and the machine of the session, from its token when one is required.\<close>

definition check_token ::
  "proxy_libs \<Rightarrow> server_config \<Rightarrow> timestamp \<Rightarrow> client_server_handshake \<Rightarrow>
    (token_error, u32 option \<times> string option) result"
where
  "check_token L cfg now hs =
    (if require_session_token (sv_security cfg)
     then bind_result (verify_session_token (pl_jwt L) now (from_utf8_lossy (hs_session_token hs)) (srv_jwt_secret (sv_security cfg)))
       (\<lambda>claims. Ok (c_cid claims, Some (c_vm_id claims)))
     else Ok (None, None))"

text \<open>The dimensions announced, and what the vsock service has become.\<close>

definition session_dims ::
  "server_config \<Rightarrow> u32 option \<Rightarrow> proxy_conn \<Rightarrow> vsock_service option \<Rightarrow>
    (connect_error, u32 \<times> u32) result \<times> vsock_service option"
where
  "session_dims cfg cid c service =
    (let local = (case pc_local_caps c of None \<Rightarrow> (1280, 720) | Some k \<Rightarrow> (caps_width k, caps_height k)) in
     if cap_backend (sv_capture cfg) = ''vsock'' then
       (case service of
          None \<Rightarrow> (Ok local, None)
        | Some v \<Rightarrow>
            (let v1 = (case cid of None \<Rightarrow> v | Some k \<Rightarrow> snd (register_input_for_cid k v)) in
             case wait_for_agent_capabilities default_agent_wait_secs v1 (pc_woken c) of
               Inl e \<Rightarrow> (Err (AgentAbsent e), Some v1)
             | Inr k \<Rightarrow> (Ok (caps_width k, caps_height k), Some v1)))
     else (Ok local, service))"

text \<open>Public key and nonce to announce, cipher of the video stream, cipher of the control channel.\<close>

type_synonym session_ciphers = "bytes \<times> bytes \<times> stream_cipher option \<times> stream_cipher option"

definition no_ciphers :: session_ciphers where
  "no_ciphers = ([], [], None, None)"

definition server_keys ::
  "proxy_libs \<Rightarrow> server_config \<Rightarrow> client_server_handshake \<Rightarrow> proxy_conn \<Rightarrow> (connect_error, session_ciphers) result"
where
  "server_keys L cfg hs c =
    (if e2e_encryption (sv_security cfg) \<and> client_public_key hs \<noteq> [] then
       (case shared_secret (pl_dh L) (pc_secret c) (client_public_key hs) of
          Inl _ \<Rightarrow> Ok no_ciphers
        | Inr secret \<Rightarrow>
            (case derive_session_keys (pl_hkdf L) secret (client_nonce hs) (pc_nonce c) of
               Inl e \<Rightarrow> Err (KeysNotDerived e)
             | Inr ks \<Rightarrow> Ok (pc_public c, pc_nonce c,
                 Some (cipher_new (video_key ks)), Some (cipher_new (control_key ks)))))
     else Ok no_ciphers)"

definition session_ack :: "client_server_handshake \<Rightarrow> u32 \<times> u32 \<Rightarrow> session_ciphers \<Rightarrow> server_handshake_ack" where
  "session_ack hs dims keys =
    (case keys of (public, nonce, video, _) \<Rightarrow>
      default_ack\<lparr>accepted := True, selected_codec := preferred_codec hs, selected_format := 1,
        ack_state := session_state_code StateActive, stream_id := 1, ack_width := fst dims,
        ack_height := snd dims, server_public_key := public, server_nonce := nonce,
        e2e_enabled := (video \<noteq> None)\<rparr>)"

text \<open>A session that starts: its token's CID and machine, its ciphers, the acknowledgement.\<close>

record proxy_session =
  ps_cid :: "u32 option"
  ps_vm_id :: "string option"
  ps_video_cipher :: "stream_cipher option"
  ps_control_cipher :: "stream_cipher option"
  ps_ack :: server_handshake_ack

definition open_proxy_session ::
  "proxy_libs \<Rightarrow> server_config \<Rightarrow> proxy_conn \<Rightarrow> client_server_handshake \<Rightarrow> u32 option \<times> string option \<Rightarrow>
    vsock_service option \<Rightarrow> (connect_error, proxy_session) result \<times> bytes \<times> vsock_service option"
where
  "open_proxy_session L cfg c hs ident service =
    (case session_dims cfg (fst ident) c service of
      (Inl e, v) \<Rightarrow> (Err e, [], v)
    | (Inr dims, v) \<Rightarrow>
        (case server_keys L cfg hs c of
          Inl e \<Rightarrow> (Err e, [], v)
        | Inr keys \<Rightarrow>
            (case send_ack L c (session_ack hs dims keys) of
              None \<Rightarrow> (Err AckNotSent, [], v)
            | Some out \<Rightarrow>
                (Ok \<lparr>ps_cid = fst ident, ps_vm_id = snd ident, ps_video_cipher = fst (snd (snd keys)),
                   ps_control_cipher = snd (snd (snd keys)), ps_ack = session_ack hs dims keys\<rparr>, out, v))))"

text \<open>The result, the bytes written to the client, and the vsock service.\<close>

definition handle_proxy_connection ::
  "proxy_libs \<Rightarrow> server_config \<Rightarrow> proxy_conn \<Rightarrow> vsock_service option \<Rightarrow>
    (connect_error, proxy_session) result \<times> bytes \<times> vsock_service option"
where
  "handle_proxy_connection L cfg c service =
    (case receive_handshake L (pc_stream c) of
      Inl e \<Rightarrow> (Err e, [], service)
    | Inr hs \<Rightarrow>
        (case check_token L cfg (pc_now c) hs of
          Inl _ \<Rightarrow> (Err TokenRefused, case send_ack L c token_nack of None \<Rightarrow> [] | Some out \<Rightarrow> out, service)
        | Inr ident \<Rightarrow> open_proxy_session L cfg c hs ident service))"

section \<open>The control channel\<close>

record control_env =
  ce_aead :: aead
  ce_cipher :: "stream_cipher option"
  ce_filter :: clipboard_filter
  ce_batch :: "bytes \<Rightarrow> input_batch option"
  ce_clip :: "bytes \<Rightarrow> clipboard_transfer_request option"

datatype control_event = EvInputs input_batch | EvClipboard bytes | EvRefused block_reason

definition max_control_frame :: nat where "max_control_frame = 65536"

text \<open>The payload of a frame that starts with the type and the flag.\<close>

definition control_payload :: "control_env \<Rightarrow> bytes \<Rightarrow> bytes option" where
  "control_payload E buf =
    (if buf ! 1 = 1 then
       (if length buf < 2 + 12 then None
        else (case ce_cipher E of
            None \<Rightarrow> None
          | Some c \<Rightarrow> (case decrypt (ce_aead E) (drop 14 buf) (take 12 (drop 2 buf)) c of
              Inl _ \<Rightarrow> None | Inr p \<Rightarrow> Some p)))
     else Some (drop 2 buf))"

definition control_dispatch :: "control_env \<Rightarrow> u8 \<Rightarrow> bytes \<Rightarrow> control_event list" where
  "control_dispatch E ty payload =
    (if ty = ctrl_msg_input then
       (case ce_batch E payload of None \<Rightarrow> [] | Some batch \<Rightarrow> [EvInputs batch])
     else if ty = ctrl_msg_clipboard then
       (case ce_clip E payload of
          None \<Rightarrow> []
        | Some req \<Rightarrow>
            (case evaluate_proto (ce_filter E) (clip_direction req) (clip_mime_to_str (clip_mime_type req)) (clip_content req) of
               Allow \<Rightarrow> [EvClipboard (clip_content req)]
             | Block r \<Rightarrow> [EvRefused r]))
     else [])"

definition control_frame :: "control_env \<Rightarrow> bytes \<Rightarrow> control_event list" where
  "control_frame E buf =
    (if length buf < 2 then []
     else (case control_payload E buf of None \<Rightarrow> [] | Some p \<Rightarrow> control_dispatch E (buf ! 0) p))"

text \<open>The loop, on everything the client writes before the stream ends or the session stops.\<close>

function control_loop :: "control_env \<Rightarrow> bytes \<Rightarrow> control_event list" where
  "control_loop E s =
    (case read_exact 4 s of
      Inl _ \<Rightarrow> []
    | Inr (l, r) \<Rightarrow>
        (let len = be_nat l in
         if len = 0 \<or> max_control_frame < len then control_loop E r
         else (case read_exact len r of
             Inl _ \<Rightarrow> []
           | Inr (buf, r') \<Rightarrow> control_frame E buf @ control_loop E r')))"
  by pat_completeness auto
termination
  by (relation "measure (\<lambda>(E, s). length s)") (auto simp: read_exact_def split: if_splits)

declare control_loop.simps [simp del]

section \<open>Injection\<close>

text \<open>
  The injector that XTEST stands behind only counts and keeps the clipboard in the default
  build; with the vsock backend the batches go, as JSON, to the channel of the machine.
\<close>

datatype injector =
    Xtest (xt_injected: u64) (xt_clipboard: bytes)
  | VsockRelay (vr_chan: nat) (vr_count: u64)

definition make_injector :: "string \<Rightarrow> u32 option \<Rightarrow> vsock_service option \<Rightarrow> injector option" where
  "make_injector backend cid service =
    (if backend = ''vsock'' then map_option (\<lambda>v. VsockRelay (injector_chan cid v) 0) service
     else Some (Xtest 0 []))"

definition injected_count :: "injector \<Rightarrow> u64" where
  "injected_count i = (case i of Xtest n _ \<Rightarrow> n | VsockRelay _ n \<Rightarrow> n)"

fun inject_batch ::
  "(input_batch \<Rightarrow> bytes option) \<Rightarrow> input_batch \<Rightarrow> injector \<Rightarrow> vsock_service option \<Rightarrow> injector \<times> vsock_service option"
where
  "inject_batch render batch (Xtest n clip) v = (Xtest (n + word_of_nat (length batch)) clip, v)"
| "inject_batch render batch (VsockRelay ch n) v =
    (case (render batch, v) of
      (Some b, Some s) \<Rightarrow>
        (case try_send ch b s of
          (Sent, s') \<Rightarrow> (VsockRelay ch (n + word_of_nat (length batch)), Some s')
        | (_, s') \<Rightarrow> (VsockRelay ch n, Some s'))
    | _ \<Rightarrow> (VsockRelay ch n, v))"

fun set_clipboard :: "bytes \<Rightarrow> injector \<Rightarrow> injector" where
  "set_clipboard content (Xtest n clip) = Xtest n content"
| "set_clipboard content (VsockRelay ch n) = VsockRelay ch n"

fun apply_events ::
  "(input_batch \<Rightarrow> bytes option) \<Rightarrow> control_event list \<Rightarrow> injector \<Rightarrow> vsock_service option \<Rightarrow> injector \<times> vsock_service option"
where
  "apply_events render [] i v = (i, v)"
| "apply_events render (EvInputs b # es) i v =
    (let (i', v') = inject_batch render b i v in apply_events render es i' v')"
| "apply_events render (EvClipboard c # es) i v = apply_events render es (set_clipboard c i) v"
| "apply_events render (EvRefused r # es) i v = apply_events render es i v"

section \<open>Clipboard to the client\<close>

text \<open>The bytes written, and the cipher of that direction.\<close>

definition send_clipboard_to_client ::
  "aead \<Rightarrow> (clipboard_transfer_request \<Rightarrow> bytes option) \<Rightarrow> clipboard_filter \<Rightarrow> string \<Rightarrow> bytes \<Rightarrow>
    stream_cipher option \<Rightarrow> bytes \<times> stream_cipher option"
where
  "send_clipboard_to_client A render flt sid content cipher =
    (case evaluate_proto flt clip_dir_server_to_client (clip_mime_to_str 0) content of
      Block _ \<Rightarrow> ([], cipher)
    | Allow \<Rightarrow>
        (case render \<lparr>clip_session_id = sid, clip_direction = clip_dir_server_to_client, clip_mime_type = 0,
            clip_content = content, content_hash = 0, size_bytes = word_of_nat (length content)\<rparr> of
          None \<Rightarrow> ([], cipher)
        | Some json \<Rightarrow>
            (case cipher of
              None \<Rightarrow> (write_frame be32 ([ctrl_msg_clipboard, 0] @ json), None)
            | Some c \<Rightarrow>
                (case encrypt_dir A 1 json c of
                  (Inl _, c') \<Rightarrow> ([], Some c')
                | (Inr (ct, nonce), c') \<Rightarrow>
                    (write_frame be32 ([ctrl_msg_clipboard, 1] @ nonce @ ct), Some c')))))"

section \<open>The video stream\<close>

text \<open>An encoded frame as it is sent; nothing when its encryption fails.\<close>

definition outgoing_frame ::
  "aead \<Rightarrow> encoded_frame \<Rightarrow> stream_cipher option \<Rightarrow> video_frame option \<times> stream_cipher option"
where
  "outgoing_frame A f cipher =
    (let p = into_proto 0 f in
     case cipher of
       None \<Rightarrow> (Some p, None)
     | Some c \<Rightarrow>
         (case encrypt A (encoded_data p) c of
           (Inl _, c') \<Rightarrow> (None, Some c')
         | (Inr (ct, nonce), c') \<Rightarrow>
             (Some (p\<lparr>encoded_data := ct, vf_nonce := nonce, encrypted := True\<rparr>), Some c')))"

text \<open>What wakes the loop: the end of the server, of the client, of the agent, of the encoder, or a
  frame, with whether it can be written.\<close>

datatype video_event = GlobalShutdown | ClientClosed | AgentGone | EncoderEnded | FrameReady encoded_frame bool

datatype video_end = EndedBy video_event | NotRendered | WriteFailed | StillRunning

record video_state =
  vs_cipher :: "stream_cipher option"
  frames_total :: u64
  frames_encrypted :: u64

text \<open>The bytes written, how the loop ended, and its state.\<close>

fun video_loop ::
  "aead \<Rightarrow> (video_frame \<Rightarrow> bytes option) \<Rightarrow> video_event list \<Rightarrow> video_state \<Rightarrow> bytes \<times> video_end \<times> video_state"
where
  "video_loop A render [] st = ([], StillRunning, st)"
| "video_loop A render (FrameReady f writable # es) st =
    (case outgoing_frame A f (vs_cipher st) of
      (None, c) \<Rightarrow> video_loop A render es (st\<lparr>vs_cipher := c\<rparr>)
    | (Some p, c) \<Rightarrow>
        (case render p of
          None \<Rightarrow> ([], NotRendered, st\<lparr>vs_cipher := c\<rparr>)
        | Some data \<Rightarrow>
            if \<not> writable then ([], WriteFailed, st\<lparr>vs_cipher := c\<rparr>)
            else (let (out, r, st') = video_loop A render es
                    \<lparr>vs_cipher = c, frames_total = frames_total st + 1,
                     frames_encrypted = frames_encrypted st + (if encrypted p then 1 else 0)\<rparr>
                  in (write_frame be32 data @ out, r, st'))))"
| "video_loop A render (e # es) st = ([], EndedBy e, st)"

section \<open>The end of a session\<close>

definition needs_cleanup :: "string option \<Rightarrow> bool" where
  "needs_cleanup vm = (case vm of None \<Rightarrow> False | Some v \<Rightarrow> starts_with v ''nidan-'' \<and> v \<noteq> ''nidan-template'')"

text \<open>How an exchange with the host agent goes: no connection, an exchange cut short (or an answer
  that is too long or unreadable), or an answer.\<close>

datatype cleanup_exchange = NotConnected | CutShort | AgentAnswer agent_response

fun cleanup_requests :: "(agent_request \<Rightarrow> cleanup_exchange) \<Rightarrow> agent_request list \<Rightarrow> (agent_request \<times> bool) list" where
  "cleanup_requests exchange [] = []"
| "cleanup_requests exchange (q # qs) =
    (case exchange q of
      NotConnected \<Rightarrow> []
    | CutShort \<Rightarrow> (q, False) # cleanup_requests exchange qs
    | AgentAnswer r \<Rightarrow> (q, success r) # cleanup_requests exchange qs)"

text \<open>The requests that reached the host agent, each with its success.\<close>

definition cleanup_dynamic_vm :: "(agent_request \<Rightarrow> cleanup_exchange) \<Rightarrow> string \<Rightarrow> (agent_request \<times> bool) list" where
  "cleanup_dynamic_vm exchange vm = cleanup_requests exchange [StopVm vm, DeleteVm vm]"

definition finish_session :: "(agent_request \<Rightarrow> cleanup_exchange) \<Rightarrow> string option \<Rightarrow> (agent_request \<times> bool) list" where
  "finish_session exchange vm =
    (case vm of None \<Rightarrow> [] | Some v \<Rightarrow> if needs_cleanup vm then cleanup_dynamic_vm exchange v else [])"

end
