(* ===== verification/ProxyRun.thy ===== *)
theory ProxyRun
  imports ProxyStream
begin

text \<open>
  The whole session of the proxy-encoder (\<open>nidan-proxy-encoder/src/stream/mod.rs\<close>,
  \<open>run_session\<close>): the source of its frames, the parameters of the encoder, the video stream,
  the watch on the agent, and what is done at the end.  What the surroundings supply, from the
  capabilities to the events that end the loop, is a record.
\<close>

section \<open>The source of the frames\<close>

datatype run_error =
    ServiceNotStarted
  | AgentMissing wait_error
  | CapturerFailure capture_error
  | StreamNotOpened
  | FrameNotRendered

datatype frame_source = LocalSource capturer_kind | VsockSource "u32 option"

text \<open>
  The features compiled in; which capturers initialise, and their capabilities; the port of the
  environment; the capabilities read at a notification; the frames the local capturer delivers
  and the events of the broadcast; the clock at the start of the encoder and how long each
  frame takes it; whether the stream opens; whether each frame sent is written; what then ends
  the loop; and how the host agent answers.
\<close>

record run_env =
  re_features :: build_features
  re_starts :: "capturer_kind \<Rightarrow> bool"
  re_caps :: "capturer_kind \<Rightarrow> capturer_caps"
  re_env_port :: "u32 option"
  re_woken :: "capturer_caps option"
  re_local :: "raw_frame list"
  re_broadcast :: "broadcast_event list"
  re_now :: u64
  re_duration :: "nat \<Rightarrow> u32"
  re_opens :: bool
  re_writes :: "bool list"
  re_stop :: "video_event list"
  re_exchange :: "agent_request \<Rightarrow> cleanup_exchange"

definition vsock_session :: "build_features \<Rightarrow> server_config \<Rightarrow> bool" where
  "vsock_session ft cfg \<longleftrightarrow> vsock_source ft \<and> cap_backend (sv_capture cfg) = ''vsock''"

definition session_source ::
  "run_env \<Rightarrow> server_config \<Rightarrow> u32 \<Rightarrow> vsock_service option \<Rightarrow> u32 option \<Rightarrow>
    (run_error, capturer_caps \<times> frame_source) result"
where
  "session_source E cfg display service cid =
    (let cap = sv_capture cfg in
     if vsock_session (re_features E) cfg then
       (case service of
         None \<Rightarrow> Err ServiceNotStarted
       | Some v \<Rightarrow>
           (case wait_for_agent_capabilities default_agent_wait_secs v (re_woken E) of
             Inl e \<Rightarrow> Err (AgentMissing e)
           | Inr caps \<Rightarrow> Ok (caps, VsockSource cid)))
     else
       (case create_capturer (re_features E) (re_starts E) (re_env_port E) (cap_backend cap) display
               (use_xshm cap) (use_xdamage cap) (portal_restore_token cap) of
         Inl e \<Rightarrow> Err (CapturerFailure e)
       | Inr k \<Rightarrow> Ok (re_caps E k, LocalSource k)))"

fun source_frames :: "run_env \<Rightarrow> frame_source \<Rightarrow> raw_frame list" where
  "source_frames E (LocalSource k) = re_local E"
| "source_frames E (VsockSource cid) = subscribe_frames_as_mpsc cid (re_broadcast E)"

section \<open>Encoding\<close>

definition session_codec :: "server_config \<Rightarrow> codec_choice" where
  "session_codec cfg = (case codec_from_str (vc_codec (sv_video cfg)) of None \<Rightarrow> ChoiceH264 | Some c \<Rightarrow> c)"

definition session_params :: "server_config \<Rightarrow> capturer_caps \<Rightarrow> encoder_params" where
  "session_params cfg caps =
    for_remote_desktop (session_codec cfg) (caps_width caps) (caps_height caps) (vc_max_fps (sv_video cfg))"

definition timed :: "(nat \<Rightarrow> u32) \<Rightarrow> raw_frame list \<Rightarrow> (raw_frame \<times> u32 \<times> bool) list" where
  "timed d fs = map (\<lambda>(i, f). (f, d i, True)) (zip [0..<length fs] fs)"

text \<open>The frames the encoder delivers; nothing, and the end of its channel, when it does not start.\<close>

definition session_encoded ::
  "'s h264_lib \<Rightarrow> aead \<Rightarrow> run_env \<Rightarrow> server_config \<Rightarrow> capturer_caps \<Rightarrow> frame_source \<Rightarrow> encoded_frame list option"
where
  "session_encoded L A E cfg caps src =
    (case pipeline_start L (session_params cfg caps) None (re_now E) of
      Inl _ \<Rightarrow> None
    | Inr p \<Rightarrow> Some (fst (pipeline_run L A (timed (re_duration E) (source_frames E src)) p)))"

section \<open>The watch on the agent\<close>

definition agent_watch ::
  "build_features \<Rightarrow> server_config \<Rightarrow> u32 option \<Rightarrow> vsock_service option \<Rightarrow> nat option \<times> vsock_service option"
where
  "agent_watch ft cfg cid service =
    (case (cid, service) of
      (Some c, Some v) \<Rightarrow>
        if vsock_session ft cfg then (let (t, v') = subscribe_agent_disconnect c v in (Some t, Some v'))
        else (None, service)
    | _ \<Rightarrow> (None, service))"

text \<open>The frames in order, then what ends the loop; the end of an agent nobody watches is not heard.\<close>

fun heard :: "nat option \<Rightarrow> video_event \<Rightarrow> bool" where
  "heard watch AgentGone \<longleftrightarrow> watch \<noteq> None"
| "heard watch (FrameReady f writable) \<longleftrightarrow> False"
| "heard watch e \<longleftrightarrow> True"

definition session_events ::
  "run_env \<Rightarrow> nat option \<Rightarrow> encoded_frame list option \<Rightarrow> video_event list"
where
  "session_events E watch encoded =
    map2 FrameReady (case encoded of None \<Rightarrow> [] | Some es \<Rightarrow> es) (re_writes E)
    @ filter (heard watch) (re_stop E)
    @ (if encoded = None then [EncoderEnded] else [])"

section \<open>The session\<close>

datatype run_result = RunFailed run_error | RunOngoing | RunEnded

record run_outcome =
  ro_result :: run_result
  ro_bytes :: bytes
  ro_video :: video_state
  ro_cleanup :: "(agent_request \<times> bool) list"
  ro_service :: "vsock_service option"

definition first_state :: "stream_cipher option \<Rightarrow> video_state" where
  "first_state c = \<lparr>vs_cipher = c, frames_total = 0, frames_encrypted = 0\<rparr>"

definition run_failed :: "run_error \<Rightarrow> stream_cipher option \<Rightarrow> vsock_service option \<Rightarrow> run_outcome" where
  "run_failed e c service = \<lparr>ro_result = RunFailed e, ro_bytes = [], ro_video = first_state c, ro_cleanup = [],
    ro_service = service\<rparr>"

text \<open>A frame that cannot be rendered leaves the function at once; every other end of the loop goes on to the clean-up.\<close>

definition close_session ::
  "run_env \<Rightarrow> proxy_session \<Rightarrow> vsock_service option \<Rightarrow> bytes \<times> video_end \<times> video_state \<Rightarrow> run_outcome"
where
  "close_session E s service sent =
    (let (out, r, st) = sent in
     \<lparr>ro_result = (case r of NotRendered \<Rightarrow> RunFailed FrameNotRendered | StillRunning \<Rightarrow> RunOngoing | _ \<Rightarrow> RunEnded),
       ro_bytes = out, ro_video = st,
       ro_cleanup = (if r = NotRendered \<or> r = StillRunning \<or> \<not> vsock_source (re_features E) then []
         else finish_session (re_exchange E) (ps_vm_id s)),
       ro_service = service\<rparr>)"

definition run_proxy_session ::
  "'s h264_lib \<Rightarrow> aead \<Rightarrow> (video_frame \<Rightarrow> bytes option) \<Rightarrow> run_env \<Rightarrow> server_config \<Rightarrow> u32 \<Rightarrow> vsock_service option \<Rightarrow>
    proxy_session \<Rightarrow> run_outcome"
where
  "run_proxy_session L A render E cfg display service s =
    (case session_source E cfg display service (ps_cid s) of
      Inl e \<Rightarrow> run_failed e (ps_video_cipher s) service
    | Inr (caps, src) \<Rightarrow>
        if \<not> re_opens E then run_failed StreamNotOpened (ps_video_cipher s) service
        else (let (watch, service') = agent_watch (re_features E) cfg (ps_cid s) service in
          close_session E s service'
            (video_loop A render (session_events E watch (session_encoded L A E cfg caps src))
              (first_state (ps_video_cipher s)))))"

text \<open>A connection from its first byte to its end: nothing was started when it is not admitted.\<close>

definition run_connection ::
  "proxy_libs \<Rightarrow> 's h264_lib \<Rightarrow> aead \<Rightarrow> (video_frame \<Rightarrow> bytes option) \<Rightarrow> run_env \<Rightarrow> server_config \<Rightarrow> u32 \<Rightarrow> proxy_conn \<Rightarrow>
    vsock_service option \<Rightarrow> bytes \<times> (connect_error, run_outcome) result"
where
  "run_connection P L A render E cfg display c service =
    (case handle_proxy_connection P cfg c service of
      (Inl e, out, _) \<Rightarrow> (out, Err e)
    | (Inr s, out, service') \<Rightarrow> (out, Ok (run_proxy_session L A render E cfg display service' s)))"

end
