(* ===== verification/ClientConfig.thy ===== *)
theory ClientConfig
  imports BrokerConfig Clipboard
begin

text \<open>
  The configuration of the client (\<open>nidan-client/src/config.rs\<close>), its default, and the changes
  made by the command line (\<open>nidan-client/src/main.rs\<close>).
\<close>

record cl_network_config =
  broker_addr :: string
  cl_connect_timeout_secs :: u64
  auto_reconnect :: bool
  reconnect_delay_secs :: u64
  direct_server :: "string option"
  cl_preferred_vm_tag :: string

record cl_video_config =
  cv_preferred_codec :: string
  cv_max_fps :: u32
  cv_bitrate_kbps :: u32
  hardware_decode :: bool
  decode_buffer_size :: nat

record display_config =
  fullscreen :: bool
  seamless :: bool
  force_width :: "u32 option"
  force_height :: "u32 option"
  scaling :: string
  window_title :: string

record input_config =
  capture_system_shortcuts :: bool
  mouse_sensitivity :: f32
  touch_enabled :: bool
  escape_combo :: string

record cl_security_config =
  verify_server_cert :: bool
  cl_e2e_encryption :: bool
  cl_auth_method :: string

record client_config =
  cc_network :: cl_network_config
  cc_video :: cl_video_config
  cc_display :: display_config
  cc_input :: input_config
  cc_clipboard :: clipboard_policy
  cc_tls :: tls_config
  cc_security :: cl_security_config

definition default_title :: string where
  "default_title = ''NIDAN '' @ [CHR 0xE2, CHR 0x80, CHR 0x94] @ '' Bureau distant s'' @ e_acute
    @ ''curis'' @ e_acute"

definition default_cl_network :: cl_network_config where
  "default_cl_network = \<lparr>broker_addr = ''localhost:7443'', cl_connect_timeout_secs = 10,
    auto_reconnect = True, reconnect_delay_secs = 3, direct_server = None, cl_preferred_vm_tag = ''''\<rparr>"

definition default_cl_video :: cl_video_config where
  "default_cl_video = \<lparr>cv_preferred_codec = ''h264'', cv_max_fps = 30, cv_bitrate_kbps = 0,
    hardware_decode = True, decode_buffer_size = 4\<rparr>"

definition default_display :: display_config where
  "default_display = \<lparr>fullscreen = False, seamless = False, force_width = None, force_height = None,
    scaling = ''fit'', window_title = default_title\<rparr>"

definition default_input :: input_config where
  "default_input = \<lparr>capture_system_shortcuts = False, mouse_sensitivity = F32 1, touch_enabled = False,
    escape_combo = ''Ctrl+Alt+F''\<rparr>"

definition default_cl_security :: cl_security_config where
  "default_cl_security = \<lparr>verify_server_cert = True, cl_e2e_encryption = True, cl_auth_method = ''mtls''\<rparr>"

definition default_client_config :: client_config where
  "default_client_config = \<lparr>cc_network = default_cl_network, cc_video = default_cl_video,
    cc_display = default_display, cc_input = default_input, cc_clipboard = derived_default_policy,
    cc_tls = \<lparr>ca_cert = ''/etc/nidan/certs/ca.crt'', tls_cert = ''/etc/nidan/certs/client.crt'',
      tls_key = ''/etc/nidan/certs/client.key'', allowed_client_domains = []\<rparr>,
    cc_security = default_cl_security\<rparr>"

record client_args =
  arg_broker :: "string option"
  arg_fullscreen :: bool
  arg_direct :: "string option"

text \<open>The configuration of a run: the file when it can be read, then the command line.\<close>

definition effective_client_config :: "client_config option \<Rightarrow> client_args \<Rightarrow> client_config" where
  "effective_client_config loaded a =
    (let c0 = (case loaded of None \<Rightarrow> default_client_config | Some c \<Rightarrow> c);
         c1 = (case arg_broker a of None \<Rightarrow> c0 | Some b \<Rightarrow> c0\<lparr>cc_network := (cc_network c0)\<lparr>broker_addr := b\<rparr>\<rparr>);
         c2 = (if arg_fullscreen a then c1\<lparr>cc_display := (cc_display c1)\<lparr>fullscreen := True\<rparr>\<rparr> else c1)
     in (case arg_direct a of
          None \<Rightarrow> c2
        | Some d \<Rightarrow> c2\<lparr>cc_network := (cc_network c2)\<lparr>direct_server := Some d\<rparr>\<rparr>))"

end
