(* ===== verification/ClientInput.thy ===== *)
theory ClientInput
  imports Proto
begin

text \<open>
  Keyboard and mouse events of the client (\<open>nidan-client/src/input/mod.rs\<close>): their translation
  into protocol events and the task that groups them into batches, keeping only the latest
  motion of the mouse and sending keys at once.
\<close>

section \<open>Events\<close>

datatype client_event =
    KeyDown u32 u32 bool bool bool bool bool
  | KeyUp u32 u32
  | MouseMove f32 f32 u32
  | MouseDown u32 f32 f32
  | MouseUp u32 f32 f32
  | MouseScroll f32 f32
  | ClipboardChanged bytes string

definition default_key :: key_event where
  "default_key = \<lparr>keycode = 0, scancode = 0, shift = False, ctrl = False, alt = False, meta = False,
    repeat = False\<rparr>"

definition default_mouse :: mouse_event where
  "default_mouse = \<lparr>button = 0, mouse_x = F32 0, mouse_y = F32 0, scroll_dx = F32 0, scroll_dy = F32 0,
    monitor_idx = 0\<rparr>"

text \<open>The code and the payload of an event; the clipboard has none.\<close>

fun event_payload :: "client_event \<Rightarrow> (int \<times> input_payload) option" where
  "event_payload (KeyDown k sc sh ct al me re) =
    Some (1, KeyPayload \<lparr>keycode = k, scancode = sc, shift = sh, ctrl = ct, alt = al, meta = me, repeat = re\<rparr>)"
| "event_payload (KeyUp k sc) = Some (2, KeyPayload (default_key\<lparr>keycode := k, scancode := sc\<rparr>))"
| "event_payload (MouseMove x y m) =
    Some (3, MousePayload (default_mouse\<lparr>mouse_x := x, mouse_y := y, monitor_idx := m\<rparr>))"
| "event_payload (MouseDown b x y) =
    Some (4, MousePayload (default_mouse\<lparr>button := sint b, mouse_x := x, mouse_y := y\<rparr>))"
| "event_payload (MouseUp b x y) =
    Some (5, MousePayload (default_mouse\<lparr>button := sint b, mouse_x := x, mouse_y := y\<rparr>))"
| "event_payload (MouseScroll dx dy) =
    Some (6, MousePayload (default_mouse\<lparr>scroll_dx := dx, scroll_dy := dy\<rparr>))"
| "event_payload (ClipboardChanged c m) = None"

definition to_proto :: "u64 \<Rightarrow> u32 \<Rightarrow> client_event \<Rightarrow> input_event option" where
  "to_proto n millis ev =
    (case event_payload ev of
      None \<Rightarrow> None
    | Some (ty, p) \<Rightarrow> Some \<lparr>ie_seq = n, ie_type = ty, timestamp_ms = millis, ie_event = Some p\<rparr>)"

section \<open>Batches\<close>

record input_sender =
  is_seq :: u64
  is_pending :: "input_event list"
  last_mouse_move :: "input_event option"

definition input_sender_new :: input_sender where
  "input_sender_new = \<lparr>is_seq = 0, is_pending = [], last_mouse_move = None\<rparr>"

definition batch_interval_ms :: nat where "batch_interval_ms = 8"

text \<open>An event arrives, with the milliseconds of the clock, or the period of the batches elapses.\<close>

datatype sender_input = Arrives client_event u32 | Tick

fun is_key :: "client_event \<Rightarrow> bool" where
  "is_key (KeyDown _ _ _ _ _ _ _) = True"
| "is_key (KeyUp _ _) = True"
| "is_key _ = False"

fun is_move :: "client_event \<Rightarrow> bool" where
  "is_move (MouseMove _ _ _) = True"
| "is_move _ = False"

text \<open>The waiting motion goes last; an empty batch is not sent.\<close>

definition flush :: "input_sender \<Rightarrow> input_batch option \<times> input_sender" where
  "flush s =
    (let p = is_pending s @ (case last_mouse_move s of None \<Rightarrow> [] | Some m \<Rightarrow> [m]) in
     (if p = [] then None else Some p, s\<lparr>is_pending := [], last_mouse_move := None\<rparr>))"

fun sender_step :: "sender_input \<Rightarrow> input_sender \<Rightarrow> input_batch option \<times> input_sender" where
  "sender_step Tick s = flush s"
| "sender_step (Arrives ev millis) s =
    (if is_move ev
     then (None, s\<lparr>last_mouse_move := to_proto (is_seq s) millis ev, is_seq := is_seq s + 1\<rparr>)
     else (case to_proto (is_seq s) millis ev of
         None \<Rightarrow> (None, s)
       | Some p \<Rightarrow>
           (let s1 = s\<lparr>is_pending := is_pending s @ [p], is_seq := is_seq s + 1\<rparr> in
            if is_key ev then flush s1 else (None, s1))))"

text \<open>The batches sent while the receiver of the batches lives.\<close>

fun sender_run :: "sender_input list \<Rightarrow> input_sender \<Rightarrow> input_batch list \<times> input_sender" where
  "sender_run [] s = ([], s)"
| "sender_run (i # is) s =
    (let (b, s1) = sender_step i s; (bs, s2) = sender_run is s1 in
     ((case b of None \<Rightarrow> [] | Some x \<Rightarrow> [x]) @ bs, s2))"

section \<open>Keys, buttons and the wheel\<close>

text \<open>What is neither a motion nor a clipboard change, numbered as the task numbers it.\<close>

fun discrete_events :: "sender_input list \<Rightarrow> u64 \<Rightarrow> input_event list" where
  "discrete_events [] n = []"
| "discrete_events (Tick # is) n = discrete_events is n"
| "discrete_events (Arrives ev millis # is) n =
    (if is_move ev then discrete_events is (n + 1)
     else (case to_proto n millis ev of
         None \<Rightarrow> discrete_events is n
       | Some p \<Rightarrow> p # discrete_events is (n + 1)))"

definition is_motion :: "input_event \<Rightarrow> bool" where
  "is_motion e \<longleftrightarrow> ie_type e = 3"

lemma to_proto_motion: "to_proto n millis ev = Some p \<Longrightarrow> is_motion p \<longleftrightarrow> is_move ev"
  by (cases ev) (auto simp: to_proto_def is_motion_def)

lemma to_proto_move: "is_move ev \<Longrightarrow> \<exists>p. to_proto n millis ev = Some p \<and> is_motion p"
  by (cases ev) (auto simp: to_proto_def is_motion_def)

definition only_motion :: "input_sender \<Rightarrow> bool" where
  "only_motion s \<longleftrightarrow> (\<forall>m. last_mouse_move s = Some m \<longrightarrow> is_motion m)"

lemma flush_discrete:
  assumes "only_motion s" "flush s = (b, s')"
  shows "filter (\<lambda>e. \<not> is_motion e) (case b of None \<Rightarrow> [] | Some x \<Rightarrow> x) = filter (\<lambda>e. \<not> is_motion e) (is_pending s)"
    "is_pending s' = []" "only_motion s'" "is_seq s' = is_seq s"
  using assms by (auto simp: flush_def Let_def only_motion_def split: option.splits if_splits)

lemma step_discrete:
  assumes "only_motion s" "sender_step i s = (b, s')"
  shows "filter (\<lambda>e. \<not> is_motion e) (case b of None \<Rightarrow> [] | Some x \<Rightarrow> x) @ filter (\<lambda>e. \<not> is_motion e) (is_pending s')
      @ discrete_events is (is_seq s')
    = filter (\<lambda>e. \<not> is_motion e) (is_pending s) @ discrete_events (i # is) (is_seq s)
    \<and> only_motion s'"
proof (cases i)
  case Tick
  then show ?thesis using flush_discrete [of s b s'] assms by simp
next
  case (Arrives ev millis)
  show ?thesis
  proof (cases "is_move ev")
    case True
    then show ?thesis using assms Arrives to_proto_motion [of "is_seq s" millis ev]
      by (auto simp: only_motion_def)
  next
    case False
    show ?thesis
    proof (cases "to_proto (is_seq s) millis ev")
      case None
      then show ?thesis using assms Arrives False by auto
    next
      case (Some p)
      let ?s = "s\<lparr>is_pending := is_pending s @ [p], is_seq := is_seq s + 1\<rparr>"
      have p: "\<not> is_motion p" using to_proto_motion [OF Some] False by simp
      have o: "only_motion ?s" using assms(1) by (simp add: only_motion_def)
      show ?thesis
      proof (cases "is_key ev")
        case True
        then have "flush ?s = (b, s')" using assms(2) Arrives False Some by (simp add: Let_def)
        note f = flush_discrete [OF o this]
        have "discrete_events (i # is) (is_seq s) = p # discrete_events is (is_seq s + 1)"
          using Arrives False Some by simp
        then show ?thesis using f(2,3,4) p unfolding f(1) by simp
      next
        case k: False
        then have "b = None" "s' = ?s" using assms(2) Arrives False Some by auto
        then show ?thesis using Arrives False Some p o by simp
      qed
    qed
  qed
qed

text \<open>
  No key, button or wheel event is lost, repeated or reordered: without the motions, the
  batches sent and what still waits are exactly those events, numbered in order.
\<close>

lemma discrete_events_kept:
  assumes "only_motion s" "sender_run is s = (bs, s')"
  shows "filter (\<lambda>e. \<not> is_motion e) (concat bs @ is_pending s')
    = filter (\<lambda>e. \<not> is_motion e) (is_pending s) @ discrete_events is (is_seq s)"
  using assms
proof (induction "is" arbitrary: s bs)
  case Nil
  then show ?case by simp
next
  case (Cons i "is")
  obtain b s1 where st: "sender_step i s = (b, s1)" by (cases "sender_step i s")
  obtain cs s2 where r: "sender_run is s1 = (cs, s2)" by (cases "sender_run is s1")
  have bs: "bs = (case b of None \<Rightarrow> [] | Some x \<Rightarrow> [x]) @ cs" "s2 = s'"
    using Cons.prems(2) st r by auto
  note d = step_discrete [OF Cons.prems(1) st, of "is"]
  have "filter (\<lambda>e. \<not> is_motion e) (concat cs @ is_pending s')
      = filter (\<lambda>e. \<not> is_motion e) (is_pending s1) @ discrete_events is (is_seq s1)"
    using Cons.IH [of s1 cs] d r bs(2) by simp
  then show ?case using d bs(1) by (simp split: option.splits)
qed

lemma sender_run_append:
  "sender_run (is @ js) s
    = (fst (sender_run is s) @ fst (sender_run js (snd (sender_run is s))), snd (sender_run js (snd (sender_run is s))))"
  by (induction "is" arbitrary: s) (simp_all split: prod.splits)

lemma nothing_waits_after_tick: "is_pending (snd (sender_run (is @ [Tick]) s)) = []"
  by (simp add: sender_run_append flush_def Let_def)

lemma discrete_events_snoc [simp]: "discrete_events (is @ [Tick]) n = discrete_events is n"
  by (induction "is" n rule: discrete_events.induct) (auto split: option.split)

text \<open>The payload of an event agrees with its code.\<close>

definition well_typed :: "input_event \<Rightarrow> bool" where
  "well_typed e \<longleftrightarrow>
    (case ie_event e of
      Some (KeyPayload _) \<Rightarrow> ie_type e = 1 \<or> ie_type e = 2
    | Some (MousePayload _) \<Rightarrow> ie_type e = 3 \<or> ie_type e = 4 \<or> ie_type e = 5 \<or> ie_type e = 6
    | None \<Rightarrow> False)"

definition sender_typed :: "input_sender \<Rightarrow> bool" where
  "sender_typed s \<longleftrightarrow> list_all well_typed (is_pending s) \<and> pred_option well_typed (last_mouse_move s)"

lemma to_proto_typed: "to_proto n millis ev = Some p \<Longrightarrow> well_typed p"
  by (cases ev) (auto simp: to_proto_def well_typed_def)

lemma flush_typed:
  "sender_typed s \<Longrightarrow> pred_option (list_all well_typed) (fst (flush s)) \<and> sender_typed (snd (flush s))"
  by (auto simp: flush_def Let_def sender_typed_def split: option.splits)

lemma step_typed:
  assumes "sender_typed s"
  shows "pred_option (list_all well_typed) (fst (sender_step i s)) \<and> sender_typed (snd (sender_step i s))"
proof (cases i)
  case Tick
  then show ?thesis using flush_typed [OF assms] by simp
next
  case (Arrives ev millis)
  show ?thesis
  proof (cases "to_proto (is_seq s) millis ev")
    case None
    then show ?thesis using Arrives assms by (auto simp: sender_typed_def)
  next
    case (Some p)
    note t = to_proto_typed [OF Some]
    have "sender_typed (s\<lparr>is_pending := is_pending s @ [p], is_seq := is_seq s + 1\<rparr>)"
      using assms t by (simp add: sender_typed_def)
    from flush_typed [OF this] show ?thesis
      using Arrives assms Some t by (auto simp: sender_typed_def Let_def)
  qed
qed

lemma run_typed: "sender_typed s \<Longrightarrow> list_all (list_all well_typed) (fst (sender_run is s))"
proof (induction "is" arbitrary: s)
  case Nil
  then show ?case by simp
next
  case (Cons i "is")
  then have "list_all (list_all well_typed) (fst (sender_run is (snd (sender_step i s))))"
    using step_typed by blast
  then show ?case using step_typed [OF Cons.prems, of i] by (auto split: prod.splits option.splits)
qed

text \<open>Between two batches only the latest motion is kept.\<close>

lemma motions_coalesce:
  "sender_run [Arrives (MouseMove x y m) t, Arrives (MouseMove x' y' m') t'] s
    = ([], s\<lparr>last_mouse_move := to_proto (is_seq s + 1) t' (MouseMove x' y' m'), is_seq := is_seq s + 2\<rparr>)"
  by (simp add: Let_def)

end
