(* ===== verification/ClientStream.thy ===== *)
theory ClientStream
  imports ClientConfig ClientInput Crypto
begin

text \<open>
  The client's connections (\<open>nidan-client/src/stream/mod.rs\<close>): the request to the broker, the
  handshake with the proxy-encoder, the frames read from the video and control streams, those
  written on the control stream, and the loop that reconnects.  JSON, X25519 and key
  expansion are parameters, gathered in \<open>client_libs\<close>.
\<close>

section \<open>Broker\<close>

record client_libs =
  cl_render_hs :: "client_server_handshake \<Rightarrow> bytes option"
  cl_parse_ack :: "bytes \<Rightarrow> server_handshake_ack option"
  cl_render_req :: "client_session_request \<Rightarrow> bytes option"
  cl_parse_resp :: "bytes \<Rightarrow> broker_session_response option"
  cl_dh :: "bytes \<Rightarrow> bytes \<Rightarrow> bytes"
  cl_hkdf :: "bytes \<Rightarrow> bytes \<Rightarrow> string \<Rightarrow> nat \<Rightarrow> bytes option"

datatype client_error =
    NotRendered
  | ReplyCut read_error
  | ReplyUndecodable
  | EmptyServerAddress
  | MfaNeeded string
  | BrokerExpired string
  | BrokerRefused string
  | ClientKeys crypto_error

definition broker_request :: "string \<Rightarrow> client_config \<Rightarrow> client_session_request" where
  "broker_request version cfg = \<lparr>client_version = version, req_auth_method = 1, auth_token = [],
    preferred_vm_tag = cl_preferred_vm_tag (cc_network cfg),
    session_label = window_title (cc_display cfg), req_client_nonce = []\<rparr>"

definition max_broker_reply :: nat where "max_broker_reply = 8192"

definition broker_reply :: "broker_session_response \<Rightarrow> (client_error, string \<times> bytes) result" where
  "broker_reply r =
    (if resp_auth_result r = auth_result_code ResultSuccess then
       (if server_address r = [] then Err EmptyServerAddress else Ok (server_address r, session_token r))
     else if resp_auth_result r = auth_result_code ResultMfaNeeded then Err (MfaNeeded (resp_error_message r))
     else if resp_auth_result r = auth_result_code ResultExpired then Err (BrokerExpired (resp_error_message r))
     else Err (BrokerRefused (resp_error_message r)))"

text \<open>The bytes written to the broker, and what its reply gives: the server's address and the token.\<close>

definition connect_via_broker ::
  "client_libs \<Rightarrow> string \<Rightarrow> client_config \<Rightarrow> bytes \<Rightarrow> bytes \<times> (client_error, string \<times> bytes) result"
where
  "connect_via_broker L version cfg reply =
    (case cl_render_req L (broker_request version cfg) of
      None \<Rightarrow> ([], Err NotRendered)
    | Some json \<Rightarrow>
        (write_frame be32 json,
         case read_frame 4 be_nat (\<lambda>n. n \<le> max_broker_reply) reply of
           Inl e \<Rightarrow> Err (ReplyCut e)
         | Inr (buf, _) \<Rightarrow> bind_result (ok_or (cl_parse_resp L buf) ReplyUndecodable) broker_reply))"

text \<open>The server to contact and the token to show it: none with a direct connection.\<close>

definition find_server ::
  "client_libs \<Rightarrow> string \<Rightarrow> client_config \<Rightarrow> bytes \<Rightarrow> (client_error, string \<times> bytes) result"
where
  "find_server L version cfg reply =
    (case direct_server (cc_network cfg) of
      Some d \<Rightarrow> Ok (d, [])
    | None \<Rightarrow> snd (connect_via_broker L version cfg reply))"

section \<open>Handshake with the proxy\<close>

text \<open>The fresh session identifier, key pair and nonce of a handshake.\<close>

record client_secrets =
  cs_session_id :: string
  cs_secret :: bytes
  cs_public :: bytes
  cs_nonce :: bytes

definition client_handshake :: "client_config \<Rightarrow> client_secrets \<Rightarrow> bytes \<Rightarrow> client_server_handshake" where
  "client_handshake cfg s token =
    \<lparr>hs_session_id = cs_session_id s, hs_session_token = token, preferred_codec = 1, preferred_format = 1,
     target_fps = cv_max_fps (cc_video cfg), target_bitrate_kbps = cv_bitrate_kbps (cc_video cfg),
     audio_enabled = False, seamless_mode = seamless (cc_display cfg),
     client_public_key = (if cl_e2e_encryption (cc_security cfg) then cs_public s else []),
     client_nonce = (if cl_e2e_encryption (cc_security cfg) then cs_nonce s else [])\<rparr>"

definition max_ack :: nat where "max_ack = 4096"

text \<open>The ciphers of the video stream and of the control channel.\<close>

definition client_keys ::
  "client_libs \<Rightarrow> client_secrets \<Rightarrow> server_handshake_ack \<Rightarrow>
    (client_error, stream_cipher option \<times> stream_cipher option) result"
where
  "client_keys L s ack =
    (if e2e_enabled ack \<and> server_public_key ack \<noteq> [] then
       (case shared_secret (cl_dh L) (cs_secret s) (server_public_key ack) of
          Inl e \<Rightarrow> Err (ClientKeys e)
        | Inr secret \<Rightarrow>
            (case derive_session_keys (cl_hkdf L) secret (cs_nonce s) (server_nonce ack) of
               Inl e \<Rightarrow> Err (ClientKeys e)
             | Inr ks \<Rightarrow> Ok (Some (cipher_new (video_key ks)), Some (cipher_new (control_key ks)))))
     else Ok (None, None))"

text \<open>The bytes written, then the acknowledgement and the ciphers.\<close>

definition do_handshake ::
  "client_libs \<Rightarrow> client_config \<Rightarrow> client_secrets \<Rightarrow> bytes \<Rightarrow> bytes \<Rightarrow>
    bytes \<times> (client_error, server_handshake_ack \<times> stream_cipher option \<times> stream_cipher option) result"
where
  "do_handshake L cfg s token reply =
    (case cl_render_hs L (client_handshake cfg s token) of
      None \<Rightarrow> ([], Err NotRendered)
    | Some json \<Rightarrow>
        (write_frame be32 json,
         case read_frame 4 be_nat (\<lambda>n. n \<le> max_ack) reply of
           Inl e \<Rightarrow> Err (ReplyCut e)
         | Inr (buf, _) \<Rightarrow>
             bind_result (ok_or (cl_parse_ack L buf) ReplyUndecodable) (\<lambda>ack.
               bind_result (client_keys L s ack) (\<lambda>(v, c). Ok (ack, v, c)))))"

definition session_size :: "client_config \<Rightarrow> server_handshake_ack \<Rightarrow> u32 \<times> u32" where
  "session_size cfg ack =
    (case force_width (cc_display cfg) of Some w \<Rightarrow> w | None \<Rightarrow> if 0 < ack_width ack then ack_width ack else 1280,
     case force_height (cc_display cfg) of Some h \<Rightarrow> h | None \<Rightarrow> if 0 < ack_height ack then ack_height ack else 720)"

section \<open>Control stream, to the proxy\<close>

definition open_frame :: bytes where
  "open_frame = write_frame be32 [ctrl_msg_open, 0]"

definition frame_control_message ::
  "aead \<Rightarrow> u8 \<Rightarrow> bytes \<Rightarrow> stream_cipher option \<Rightarrow> (crypto_error, bytes) result \<times> stream_cipher option"
where
  "frame_control_message A ty payload cipher =
    (case cipher of
      Some c \<Rightarrow>
        (case encrypt A payload c of
          (Inl e, c') \<Rightarrow> (Err e, Some c')
        | (Inr (ct, nonce), c') \<Rightarrow> (Ok ([ty, 1] @ nonce @ ct), Some c'))
    | None \<Rightarrow> (Ok ([ty, 0] @ payload), None))"

text \<open>What a session sends: batches of inputs and clipboard contents; nothing is written for a
  message that cannot be rendered or encrypted.\<close>

datatype client_msg = MsgInputs input_batch | MsgClipboard int bytes

record client_render =
  cr_batch :: "input_batch \<Rightarrow> bytes option"
  cr_clip :: "clipboard_transfer_request \<Rightarrow> bytes option"

definition clipboard_request :: "string \<Rightarrow> int \<Rightarrow> bytes \<Rightarrow> clipboard_transfer_request" where
  "clipboard_request sid mime content = \<lparr>clip_session_id = sid, clip_direction = clip_dir_client_to_server,
    clip_mime_type = mime, clip_content = content, content_hash = 0, size_bytes = word_of_nat (length content)\<rparr>"

fun message_body :: "client_render \<Rightarrow> string \<Rightarrow> client_msg \<Rightarrow> u8 \<times> bytes option" where
  "message_body R sid (MsgInputs b) = (ctrl_msg_input, cr_batch R b)"
| "message_body R sid (MsgClipboard mime content) = (ctrl_msg_clipboard, cr_clip R (clipboard_request sid mime content))"

definition send_message ::
  "aead \<Rightarrow> client_render \<Rightarrow> string \<Rightarrow> client_msg \<Rightarrow> stream_cipher option \<Rightarrow> bytes \<times> stream_cipher option"
where
  "send_message A R sid m cipher =
    (case message_body R sid m of
      (_, None) \<Rightarrow> ([], cipher)
    | (ty, Some payload) \<Rightarrow>
        (case frame_control_message A ty payload cipher of
          (Inl _, c) \<Rightarrow> ([], c)
        | (Inr framed, c) \<Rightarrow> (write_frame be32 framed, c)))"

fun send_messages ::
  "aead \<Rightarrow> client_render \<Rightarrow> string \<Rightarrow> client_msg list \<Rightarrow> stream_cipher option \<Rightarrow> bytes \<times> stream_cipher option"
where
  "send_messages A R sid [] c = ([], c)"
| "send_messages A R sid (m # ms) c =
    (let (out, c1) = send_message A R sid m c; (rest, c2) = send_messages A R sid ms c1 in (out @ rest, c2))"

section \<open>Video stream\<close>

definition read_video_frame ::
  "(bytes \<Rightarrow> video_frame option) \<Rightarrow> bytes \<Rightarrow> (client_error, video_frame \<times> bytes) result"
where
  "read_video_frame parse s =
    (case read_frame 4 be_nat (\<lambda>n. n \<le> max_video_frame_bytes) s of
      Inl e \<Rightarrow> Err (ReplyCut e)
    | Inr (buf, r) \<Rightarrow> bind_result (ok_or (parse buf) ReplyUndecodable) (\<lambda>f. Ok (f, r)))"

text \<open>A frame as it is given to the decoder; an encrypted one that cannot be opened is dropped.\<close>

definition open_video_frame :: "aead \<Rightarrow> stream_cipher option \<Rightarrow> video_frame \<Rightarrow> video_frame option" where
  "open_video_frame A cipher f =
    (if encrypted f then
       (case cipher of
          None \<Rightarrow> None
        | Some c \<Rightarrow>
            (case decrypt A (encoded_data f) (vf_nonce f) c of
              Inl _ \<Rightarrow> None
            | Inr p \<Rightarrow> Some (f\<lparr>encoded_data := p, encrypted := False\<rparr>)))
     else Some f)"

lemma read_video_frame_shorter: "read_video_frame parse s = Inr (f, r) \<Longrightarrow> length r < length s"
  using read_frame_consumes(1) by (fastforce simp: read_video_frame_def ok_or_def split: sum.splits option.splits)

text \<open>The frames the decoder gets before the stream ends or a frame cannot be read.\<close>

function video_frames :: "aead \<Rightarrow> (bytes \<Rightarrow> video_frame option) \<Rightarrow> stream_cipher option \<Rightarrow> bytes \<Rightarrow> video_frame list" where
  "video_frames A parse cipher s =
    (case read_video_frame parse s of
      Inl _ \<Rightarrow> []
    | Inr (f, r) \<Rightarrow>
        (case open_video_frame A cipher f of None \<Rightarrow> [] | Some g \<Rightarrow> [g]) @ video_frames A parse cipher r)"
  by pat_completeness auto
termination
  by (relation "measure (\<lambda>(A, parse, cipher, s). length s)") (auto dest: read_video_frame_shorter)

declare video_frames.simps [simp del]

section \<open>Control stream, from the proxy\<close>

definition max_control_reply :: nat where "max_control_reply = 1100000"

text \<open>A frame, or \<open>None\<close> for a length that is not accepted; then only the length is consumed.\<close>

definition read_control_frame :: "bytes \<Rightarrow> (read_error, (u8 \<times> u8 \<times> bytes) option \<times> bytes) result" where
  "read_control_frame s =
    bind_result (read_exact 4 s) (\<lambda>(l, r).
      let len = be_nat l in
      if len < 2 \<or> max_control_reply < len then Ok (None, r)
      else bind_result (read_exact len r) (\<lambda>(buf, r'). Ok (Some (buf ! 0, buf ! 1, drop 2 buf), r')))"

text \<open>The content for the local clipboard that a frame brings, if any.\<close>

definition received_clipboard ::
  "aead \<Rightarrow> (bytes \<Rightarrow> clipboard_transfer_request option) \<Rightarrow> stream_cipher option \<Rightarrow> u8 \<times> u8 \<times> bytes \<Rightarrow> bytes option"
where
  "received_clipboard A parse cipher fr =
    (case fr of (ty, flag, raw) \<Rightarrow>
      let payload =
        (if flag = 1 then
           (if length raw < 12 then None
            else (case cipher of
                None \<Rightarrow> None
              | Some c \<Rightarrow> (case decrypt A (drop 12 raw) (take 12 raw) c of Inl _ \<Rightarrow> None | Inr p \<Rightarrow> Some p)))
         else Some raw)
      in (case payload of
           None \<Rightarrow> None
         | Some p \<Rightarrow> if ty = ctrl_msg_clipboard then map_option clip_content (parse p) else None))"

section \<open>Reconnection\<close>

text \<open>
  The outcomes of successive sessions, each with whether a stop was asked for before it and by
  its end.  The run yields how many sessions were started and the error it ends with.
\<close>

fun client_run ::
  "bool \<Rightarrow> (bool \<times> ('e, 'a) result \<times> bool) list \<Rightarrow> nat \<times> 'e option"
where
  "client_run auto [] = (0, None)"
| "client_run auto ((before, outcome, after) # rest) =
    (if before then (0, None)
     else (case outcome of
         Inr _ \<Rightarrow> (1, None)
       | Inl e \<Rightarrow>
           if after then (1, None)
           else if \<not> auto then (1, Some e)
           else (let (n, r) = client_run auto rest in (Suc n, r))))"

lemma client_run_no_reconnect:
  "fst (client_run False xs) \<le> 1"
  by (cases xs) (auto split: sum.splits)

end
