(* ===== verification/Channel.thy ===== *)
theory Channel
  imports ProxyStream ClientStream
begin

text \<open>
  Delivery over one direction of a connection.  The locale \<open>delivery\<close> states what a writer that
  turns messages into bytes and a loop that reads them promise each other, and proves once
  that whole sequences arrive; it is interpreted on the control channel (client to proxy) and
  on the video stream (proxy to client).
\<close>

section \<open>The interface\<close>

text \<open>
  \<open>good n s\<close> says that the writer in state \<open>s\<close> can still write \<open>n\<close> messages, \<open>out m\<close> what the reader
  makes of the message \<open>m\<close>.
\<close>

locale delivery =
  fixes send :: "'m \<Rightarrow> 's \<Rightarrow> bytes \<times> 's"
    and send_all :: "'m list \<Rightarrow> 's \<Rightarrow> bytes"
    and recv :: "bytes \<Rightarrow> 'o list"
    and good :: "nat \<Rightarrow> 's \<Rightarrow> bool"
    and carried :: "'m \<Rightarrow> bool"
    and out :: "'m \<Rightarrow> 'o list"
  assumes all_Nil: "send_all [] s = []"
    and all_Cons: "good (Suc n) s \<Longrightarrow> carried m \<Longrightarrow>
      send_all (m # ms) s = fst (send m s) @ send_all ms (snd (send m s))"
    and still_good: "good (Suc n) s \<Longrightarrow> carried m \<Longrightarrow> good n (snd (send m s))"
    and step: "good (Suc n) s \<Longrightarrow> carried m \<Longrightarrow> recv (fst (send m s) @ r) = out m @ recv r"
begin

lemma delivered:
  "good (length ms) s \<Longrightarrow> list_all carried ms \<Longrightarrow>
    recv (send_all ms s @ r) = concat (map out ms) @ recv r"
proof (induction ms arbitrary: s)
  case Nil
  then show ?case by (simp add: all_Nil)
next
  case (Cons m ms)
  then have g: "good (Suc (length ms)) s" and c: "carried m" "list_all carried ms" by simp_all
  show ?case
    using Cons.IH [OF still_good [OF g c(1)] c(2)] by (simp add: all_Cons [OF g c(1)] step [OF g c(1)])
qed

end

section \<open>Encryption\<close>

text \<open>What the authenticated cipher promises for a plain text: it seals it, opens what it sealed, and
  adds a tag of sixteen bytes.\<close>

definition aead_law :: "aead \<Rightarrow> bytes \<Rightarrow> bool" where
  "aead_law A p \<longleftrightarrow>
    (\<forall>k n. \<exists>c. seal A k n p = Some c \<and> unseal A k n c = Some p \<and> length c = length p + 16)"

text \<open>The counter of a cipher leaves room for \<open>n\<close> messages.\<close>

definition room :: "nat \<Rightarrow> stream_cipher option \<Rightarrow> bool" where
  "room n c = (case c of None \<Rightarrow> True | Some k \<Rightarrow> unat (frame_counter k) + n < 2 ^ 64)"

definition same_key :: "stream_cipher option \<Rightarrow> stream_cipher option \<Rightarrow> bool" where
  "same_key a b \<longleftrightarrow> map_option cipher_key a = map_option cipher_key b"

lemma checked_incr_below: "unat c + 1 < 2 ^ 64 \<Longrightarrow> checked_incr c = Some (c + 1) \<and> unat (c + 1) = unat c + 1"
proof -
  assume "unat c + 1 < 2 ^ 64"
  then have "c \<noteq> - 1" by (auto simp: unat_word_ariths(1) [symmetric] unsigned_minus_1_eq_mask mask_eq_exp_minus_1)
  then have "checked_incr c = Some (c + 1)" by (simp add: checked_incr_def)
  then show ?thesis using checked_incr_Some by fastforce
qed

lemma encrypt_lawful:
  assumes "aead_law A p" "unat (frame_counter c) + Suc n < 2 ^ 64"
  obtains ct nonce c' where "encrypt A p c = (Inr (ct, nonce), c')" "length nonce = 12"
    "length ct = length p + 16" "cipher_key c' = cipher_key c"
    "unat (frame_counter c') + n < 2 ^ 64"
    "\<And>r. cipher_key r = cipher_key c \<Longrightarrow> decrypt A ct nonce r = Ok p"
proof -
  obtain ct where ct: "seal A (cipher_key c) (nonce_for_counter (frame_counter c)) p = Some ct"
    "unseal A (cipher_key c) (nonce_for_counter (frame_counter c)) ct = Some p" "length ct = length p + 16"
    using assms(1) by (auto simp: aead_law_def)
  have inc: "checked_incr (frame_counter c) = Some (frame_counter c + 1)"
    "unat (frame_counter c + 1) = unat (frame_counter c) + 1"
    using checked_incr_below [of "frame_counter c"] assms(2) by simp_all
  show ?thesis
  proof (rule that)
    show "encrypt A p c = (Inr (ct, nonce_for_counter (frame_counter c)), c\<lparr>frame_counter := frame_counter c + 1\<rparr>)"
      by (simp add: encrypt_def encrypt_with_def Let_def ct(1) inc(1))
    show "unat (frame_counter (c\<lparr>frame_counter := frame_counter c + 1\<rparr>)) + n < 2 ^ 64"
      using assms(2) inc(2) by simp
    show "decrypt A ct (nonce_for_counter (frame_counter c)) r = Ok p" if "cipher_key r = cipher_key c" for r
      using that ct(2) by (simp add: decrypt_def chacha20_nonce_size_def)
  qed (simp_all add: ct(3))
qed

section \<open>The control channel\<close>

lemma control_loop_Nil [simp]: "control_loop E [] = []"
  by (subst control_loop.simps) (simp add: read_exact_def)

lemma control_loop_frame:
  assumes "p \<noteq> []" "length p \<le> max_control_frame"
  shows "control_loop E (write_frame be32 p @ r) = control_frame E p @ control_loop E r"
  using assms by (subst control_loop.simps) (simp add: write_frame_def max_control_frame_def)

lemma control_loop_skips:
  assumes "max_control_frame < length p" "length p < 2 ^ 32"
  shows "control_loop E (write_frame be32 p @ r) = control_loop E (p @ r)"
  using assms by (subst control_loop.simps) (simp add: write_frame_def)

lemma control_frame_clear: "control_frame E ([ty, 0] @ p) = control_dispatch E ty p"
  by (simp add: control_frame_def control_payload_def)

lemma control_frame_sealed:
  assumes "length nonce = 12" "ce_cipher E = Some c" "decrypt (ce_aead E) ct nonce c = Ok p"
  shows "control_frame E ([ty, 1] @ nonce @ ct) = control_dispatch E ty p"
  using assms by (simp add: control_frame_def control_payload_def)

text \<open>What a message of the client must satisfy to arrive: it can be rendered and read back, its
  frame is not too long, and the cipher keeps its promise for it.\<close>

definition carried_msg :: "control_env \<Rightarrow> client_render \<Rightarrow> string \<Rightarrow> client_msg \<Rightarrow> bool" where
  "carried_msg E R sid m =
    (case message_body R sid m of
      (_, None) \<Rightarrow> False
    | (_, Some p) \<Rightarrow> aead_law (ce_aead E) p \<and> length p + 30 \<le> max_control_frame \<and>
        (case m of
          MsgInputs b \<Rightarrow> ce_batch E p = Some b
        | MsgClipboard mime content \<Rightarrow> ce_clip E p = Some (clipboard_request sid mime content)))"

definition delivered_msg :: "control_env \<Rightarrow> client_msg \<Rightarrow> control_event list" where
  "delivered_msg E m =
    (case m of
      MsgInputs b \<Rightarrow> [EvInputs b]
    | MsgClipboard mime content \<Rightarrow>
        (case evaluate_proto (ce_filter E) 1 (clip_mime_to_str mime) content of
          Allow \<Rightarrow> [EvClipboard content] | Block r \<Rightarrow> [EvRefused r]))"

lemma dispatch_carried:
  assumes "carried_msg E R sid m" "message_body R sid m = (ty, Some p)"
  shows "control_dispatch E ty p = delivered_msg E m"
  using assms
  by (cases m) (auto simp: carried_msg_def control_dispatch_def delivered_msg_def ctrl_msg_input_def
      ctrl_msg_clipboard_def clipboard_request_def clip_dir_client_to_server_def split: clipboard_decision.split)

text \<open>The states of the writer from which \<open>n\<close> messages pass.\<close>

definition control_good :: "control_env \<Rightarrow> nat \<Rightarrow> stream_cipher option \<Rightarrow> bool" where
  "control_good E n c \<longleftrightarrow> room n c \<and> same_key (ce_cipher E) c"

lemma send_message_carried:
  assumes "control_good E (Suc n) c" "carried_msg E R sid m"
  shows "control_good E n (snd (send_message (ce_aead E) R sid m c))
    \<and> control_loop E (fst (send_message (ce_aead E) R sid m c) @ r) = delivered_msg E m @ control_loop E r"
proof -
  obtain ty p where b: "message_body R sid m = (ty, Some p)" "aead_law (ce_aead E) p"
    "length p + 30 \<le> max_control_frame"
    using assms(2) by (auto simp: carried_msg_def split: prod.splits option.splits)
  note d = dispatch_carried [OF assms(2) b(1)]
  show ?thesis
  proof (cases c)
    case None
    have "control_loop E (write_frame be32 ([ty, 0] @ p) @ r) = delivered_msg E m @ control_loop E r"
      using b(3) control_loop_frame [of "[ty, 0] @ p" E r] control_frame_clear [of E ty p] d by simp
    then show ?thesis using None assms(1) b(1)
      by (simp add: send_message_def frame_control_message_def control_good_def room_def)
  next
    case (Some k)
    then have "unat (frame_counter k) + Suc n < 2 ^ 64" using assms(1) by (simp add: control_good_def room_def)
    then obtain ct nonce k' where e: "encrypt (ce_aead E) p k = (Inr (ct, nonce), k')" "length nonce = 12"
      "length ct = length p + 16" "cipher_key k' = cipher_key k" "unat (frame_counter k') + n < 2 ^ 64"
      "\<And>x. cipher_key x = cipher_key k \<Longrightarrow> decrypt (ce_aead E) ct nonce x = Ok p"
      using encrypt_lawful [OF b(2)] by metis
    obtain x where x: "ce_cipher E = Some x" "cipher_key x = cipher_key k"
      using assms(1) Some by (auto simp: control_good_def same_key_def)
    have "control_loop E (write_frame be32 ([ty, 1] @ nonce @ ct) @ r) = delivered_msg E m @ control_loop E r"
      using b(3) e(2,3) control_loop_frame [of "[ty, 1] @ nonce @ ct" E r]
        control_frame_sealed [OF e(2) x(1) e(6) [OF x(2)], of ty] d by simp
    then show ?thesis using Some b(1) e(1,4,5) x
      by (simp add: send_message_def frame_control_message_def control_good_def room_def same_key_def)
  qed
qed

interpretation control_channel: delivery "send_message (ce_aead E) R sid"
  "\<lambda>ms c. fst (send_messages (ce_aead E) R sid ms c)" "control_loop E" "control_good E"
  "carried_msg E R sid" "delivered_msg E" for E R sid
proof unfold_locales
  fix ms m n c r
  show "fst (send_messages (ce_aead E) R sid (m # ms) c)
      = fst (send_message (ce_aead E) R sid m c)
        @ fst (send_messages (ce_aead E) R sid ms (snd (send_message (ce_aead E) R sid m c)))"
    by (simp split: prod.splits)
qed (simp_all add: send_message_carried)

lemma control_loop_open [simp]: "control_loop E (open_frame @ r) = control_loop E r"
  using control_loop_frame [of "[ctrl_msg_open, 0]" E r] control_frame_clear [of E ctrl_msg_open "[]"]
  by (simp add: open_frame_def max_control_frame_def control_dispatch_def ctrl_msg_open_def
      ctrl_msg_input_def ctrl_msg_clipboard_def)

section \<open>The video stream\<close>

text \<open>A frame without its nonce, which the cipher fills in on its way.\<close>

definition plain_frame :: "video_frame \<Rightarrow> video_frame" where
  "plain_frame g = g\<lparr>vf_nonce := []\<rparr>"

record video_path =
  vp_aead :: aead
  vp_render :: "video_frame \<Rightarrow> bytes option"
  vp_parse :: "bytes \<Rightarrow> video_frame option"
  vp_receiver :: "stream_cipher option"

text \<open>A frame can be rendered within the limit and read back.\<close>

definition frame_codec :: "video_path \<Rightarrow> video_frame \<Rightarrow> bool" where
  "frame_codec P g \<longleftrightarrow> (\<exists>b. vp_render P g = Some b \<and> length b \<le> max_video_frame_bytes \<and> vp_parse P b = Some g)"

text \<open>So can the frame in clear and with any payload and nonce encryption may give it.\<close>

definition carried_frame :: "video_path \<Rightarrow> encoded_frame \<Rightarrow> bool" where
  "carried_frame P f \<longleftrightarrow> aead_law (vp_aead P) (ef_data f) \<and> frame_codec P (into_proto 0 f) \<and>
    (\<forall>ct n. length ct = length (ef_data f) + 16 \<and> length n = 12 \<longrightarrow>
      frame_codec P ((into_proto 0 f)\<lparr>encoded_data := ct, vf_nonce := n, encrypted := True\<rparr>))"

definition video_good :: "video_path \<Rightarrow> nat \<Rightarrow> video_state \<Rightarrow> bool" where
  "video_good P n st \<longleftrightarrow> room n (vs_cipher st) \<and> same_key (vp_receiver P) (vs_cipher st)"

definition send_frame :: "video_path \<Rightarrow> encoded_frame \<Rightarrow> video_state \<Rightarrow> bytes \<times> video_state" where
  "send_frame P f st = (let (out, _, st') = video_loop (vp_aead P) (vp_render P) [FrameReady f True] st in (out, st'))"

definition send_frames :: "video_path \<Rightarrow> encoded_frame list \<Rightarrow> video_state \<Rightarrow> bytes" where
  "send_frames P fs st = fst (video_loop (vp_aead P) (vp_render P) (map (\<lambda>f. FrameReady f True) fs) st)"

definition shown_frames :: "video_path \<Rightarrow> bytes \<Rightarrow> video_frame list" where
  "shown_frames P s = map plain_frame (video_frames (vp_aead P) (vp_parse P) (vp_receiver P) s)"

lemma video_frames_Nil [simp]: "video_frames A parse c [] = []"
  by (subst video_frames.simps) (simp add: read_video_frame_def read_frame_def read_exact_def)

lemma video_frames_frame:
  assumes "length b \<le> max_video_frame_bytes" "parse b = Some f"
  shows "video_frames A parse c (write_frame be32 b @ r)
    = (case open_video_frame A c f of None \<Rightarrow> [] | Some g \<Rightarrow> [g]) @ video_frames A parse c r"
  using assms be_frames.read_write [of b "\<lambda>n. n \<le> max_video_frame_bytes" r]
  by (subst video_frames.simps)
    (simp add: read_video_frame_def max_video_frame_bytes_def)

lemma video_step:
  assumes "video_good P (Suc n) st" "carried_frame P f"
  shows "\<exists>p c b. outgoing_frame (vp_aead P) f (vs_cipher st) = (Some p, c) \<and> vp_render P p = Some b
    \<and> room n c \<and> same_key (vp_receiver P) c
    \<and> (\<forall>r. shown_frames P (write_frame be32 b @ r) = plain_frame (into_proto 0 f) # shown_frames P r)"
proof (cases "vs_cipher st")
  case None
  obtain b where b: "vp_render P (into_proto 0 f) = Some b" "length b \<le> max_video_frame_bytes"
      "vp_parse P b = Some (into_proto 0 f)"
    using assms(2) by (auto simp: carried_frame_def frame_codec_def)
  show ?thesis
    using None assms(1) b video_frames_frame [OF b(2), of "vp_parse P", OF b(3)]
    by (simp add: outgoing_frame_def video_good_def room_def shown_frames_def open_video_frame_def into_proto_def)
next
  case (Some k)
  have law: "aead_law (vp_aead P) (ef_data f)" using assms(2) by (simp add: carried_frame_def)
  have "unat (frame_counter k) + Suc n < 2 ^ 64" using assms(1) Some by (simp add: video_good_def room_def)
  then obtain ct nonce k' where e: "encrypt (vp_aead P) (ef_data f) k = (Inr (ct, nonce), k')" "length nonce = 12"
    "length ct = length (ef_data f) + 16" "cipher_key k' = cipher_key k" "unat (frame_counter k') + n < 2 ^ 64"
    "\<And>x. cipher_key x = cipher_key k \<Longrightarrow> decrypt (vp_aead P) ct nonce x = Ok (ef_data f)"
    using encrypt_lawful [OF law] by metis
  obtain x where x: "vp_receiver P = Some x" "cipher_key x = cipher_key k"
    using assms(1) Some by (auto simp: video_good_def same_key_def)
  let ?p = "(into_proto 0 f)\<lparr>encoded_data := ct, vf_nonce := nonce, encrypted := True\<rparr>"
  obtain b where b: "vp_render P ?p = Some b" "length b \<le> max_video_frame_bytes" "vp_parse P b = Some ?p"
    using assms(2) e(2,3) unfolding carried_frame_def frame_codec_def by fastforce
  have "outgoing_frame (vp_aead P) f (vs_cipher st) = (Some ?p, Some k')"
    using Some e(1) by (simp add: outgoing_frame_def Let_def into_proto_def)
  moreover have "shown_frames P (write_frame be32 b @ r) = plain_frame (into_proto 0 f) # shown_frames P r" for r
    using video_frames_frame [OF b(2), of "vp_parse P", OF b(3)] x e(6) [OF x(2)]
    by (simp add: shown_frames_def open_video_frame_def plain_frame_def into_proto_def)
  ultimately show ?thesis using b(1) e(4,5) x by (auto simp: room_def same_key_def)
qed

interpretation video_stream: delivery "send_frame P" "send_frames P" "shown_frames P" "video_good P"
  "carried_frame P" "\<lambda>f. [plain_frame (into_proto 0 f)]" for P
proof unfold_locales
  fix s :: video_state
  show "send_frames P [] s = []" by (simp add: send_frames_def)
next
  fix n s m ms assume "video_good P (Suc n) s" "carried_frame P m"
  from video_step [OF this] show "send_frames P (m # ms) s = fst (send_frame P m s) @ send_frames P ms (snd (send_frame P m s))"
    by (auto simp: send_frames_def send_frame_def Let_def split: prod.splits)
next
  fix n s m assume "video_good P (Suc n) s" "carried_frame P m"
  from video_step [OF this] show "video_good P n (snd (send_frame P m s))"
    by (auto simp: send_frame_def video_good_def split: prod.splits)
next
  fix n s m r assume "video_good P (Suc n) s" "carried_frame P m"
  from video_step [OF this]
  show "shown_frames P (fst (send_frame P m s) @ r) = [plain_frame (into_proto 0 m)] @ shown_frames P r"
    by (auto simp: send_frame_def split: prod.splits)
qed

end
