(* ===== verification/SessionProps.thy ===== *)
theory SessionProps
  imports Channel AuthProps
begin

text \<open>
  Properties of whole sessions of the proxy-encoder: who is admitted, the agreement of the two
  sides on their keys, the delivery of the video stream, and what is destroyed at the end.
\<close>

section \<open>A concrete session\<close>

text \<open>A client and a proxy that share a token library, a key exchange that adds the keys byte by byte,
  and codecs that know the messages of one handshake.\<close>

definition demo_secrets :: client_secrets where
  "demo_secrets = \<lparr>cs_session_id = ''s'', cs_secret = replicate 32 3, cs_public = replicate 32 3,
    cs_nonce = replicate 32 1\<rparr>"

definition demo_hs :: client_server_handshake where
  "demo_hs = client_handshake default_client_config demo_secrets (string_bytes ''tok'')"

definition demo_server :: server_config where
  "demo_server = default_server_config\<lparr>sv_security := default_srv_security_config\<lparr>require_session_token := True,
    srv_jwt_secret := jwt_secret (jwt_cfg default_auth_config)\<rparr>\<rparr>"

definition demo_conn :: "timestamp \<Rightarrow> proxy_conn" where
  "demo_conn now = \<lparr>pc_stream = write_frame be32 [1], pc_now = now, pc_local_caps = None, pc_woken = None,
    pc_secret = replicate 32 5, pc_public = replicate 32 5, pc_nonce = replicate 32 2, pc_writable = True\<rparr>"

definition demo_cipher :: stream_cipher where
  "demo_cipher = cipher_new (replicate 32 8)"

definition demo_keys :: session_ciphers where
  "demo_keys = (replicate 32 5, replicate 32 2, Some demo_cipher, Some demo_cipher)"

definition demo_ack :: server_handshake_ack where
  "demo_ack = session_ack demo_hs (1280, 720) demo_keys"

definition demo_proxy :: proxy_libs where
  "demo_proxy = \<lparr>pl_jwt = demo_jwt, pl_parse_hs = (\<lambda>b. if b = [1] then Some demo_hs else None),
    pl_render_ack = (\<lambda>a. Some (if accepted a then [1] else [0])), pl_dh = map2 (+),
    pl_hkdf = (\<lambda>salt secret info n. Some (take n secret))\<rparr>"

definition demo_client :: client_libs where
  "demo_client = \<lparr>cl_render_hs = (\<lambda>h. if h = demo_hs then Some [1] else None),
    cl_parse_ack = (\<lambda>d. if d = [1] then Some demo_ack else None), cl_render_req = (\<lambda>_. None),
    cl_parse_resp = (\<lambda>_. None), cl_dh = map2 (+), cl_hkdf = (\<lambda>salt secret info n. Some (take n secret))\<rparr>"

lemma demo_server_simps [simp]:
  "require_session_token (sv_security demo_server)" "e2e_encryption (sv_security demo_server)"
  "srv_jwt_secret (sv_security demo_server) = jwt_secret (jwt_cfg default_auth_config)"
  "cap_backend (sv_capture demo_server) = ''x11''"
  by (simp_all add: demo_server_def default_server_config_def default_srv_security_config_def default_capture_config_def)

lemma demo_receive: "receive_handshake demo_proxy (pc_stream (demo_conn now)) = Inr demo_hs"
  using be_frames.read_write [of "[1]" "\<lambda>n. n \<le> max_handshake" "[]"]
  by (simp add: receive_handshake_def demo_conn_def demo_proxy_def max_handshake_def)

lemma demo_token: "from_utf8_lossy (hs_session_token demo_hs) = ''tok''"
proof -
  have "hs_session_token demo_hs = string_bytes ''tok''" by (simp add: demo_hs_def client_handshake_def)
  then show ?thesis by code_simp
qed

lemma demo_secret: "jwt_secret (jwt_cfg default_auth_config) \<noteq> []"
  by (simp add: default_auth_config_def)

lemma demo_verify: "verify_session_token demo_jwt now ''tok'' (jwt_secret (jwt_cfg default_auth_config))
    = (if unix_secs now \<le> 1360 then Ok demo_claims else Err InvalidToken)"
proof -
  have "c_exp demo_claims = 1300" "c_iss demo_claims = jwt_issuer (jwt_cfg default_auth_config)"
    by (simp_all add: demo_claims_def claims_for_def unix_secs_def secs_def nanos_per_sec_def engine_jwt_def jwt_engine_new_def)
  then show ?thesis using demo_secret
    by (simp add: verify_session_token_def demo_jwt_def validation_passes_def proxy_validation_def)
qed

lemma demo_open:
  "open_proxy_session demo_proxy demo_server (demo_conn now) demo_hs ident None
    = (Ok \<lparr>ps_cid = fst ident, ps_vm_id = snd ident, ps_video_cipher = Some demo_cipher,
        ps_control_cipher = Some demo_cipher, ps_ack = demo_ack\<rparr>, write_frame be32 [1], None)"
proof -
  have pk: "client_public_key demo_hs = replicate 32 3"
    by (simp add: demo_hs_def client_handshake_def demo_secrets_def default_client_config_def default_cl_security_def)
  have dh: "map2 (+) (replicate 32 5) (replicate 32 3) = (replicate 32 8 :: bytes)" by code_simp
  have "server_keys demo_proxy demo_server demo_hs (demo_conn now) = Ok demo_keys"
    using pk dh by (simp add: server_keys_def shared_secret_def derive_session_keys_def demo_proxy_def demo_conn_def
        session_key_size_def demo_keys_def demo_cipher_def)
  moreover have "send_ack demo_proxy (demo_conn now) demo_ack = Some (write_frame be32 [1])"
    by (simp add: send_ack_def demo_proxy_def demo_conn_def demo_ack_def session_ack_def demo_keys_def)
  moreover have "session_dims demo_server (fst ident) (demo_conn now) None = (Ok (1280, 720), None)"
    by (simp add: session_dims_def demo_conn_def)
  ultimately show ?thesis by (simp add: open_proxy_session_def demo_ack_def demo_keys_def)
qed

lemma demo_handle:
  "handle_proxy_connection demo_proxy demo_server (demo_conn (secs 1100)) None
    = (Ok \<lparr>ps_cid = Some 10, ps_vm_id = Some ''vm1'', ps_video_cipher = Some demo_cipher,
        ps_control_cipher = Some demo_cipher, ps_ack = demo_ack\<rparr>, write_frame be32 [1], None)"
proof -
  have "check_token demo_proxy demo_server (pc_now (demo_conn (secs 1100))) demo_hs = Ok (Some 10, Some ''vm1'')"
    using demo_verify [of "secs 1100"]
    by (simp add: check_token_def demo_token demo_proxy_def demo_conn_def unix_secs_def secs_def nanos_per_sec_def
        demo_claims_def claims_for_def)
  then show ?thesis by (simp add: handle_proxy_connection_def demo_receive demo_open)
qed

section \<open>Admission\<close>

lemma open_session_ident:
  "open_proxy_session L cfg c hs ident service = (Inr sess, out, v) \<Longrightarrow>
    ps_cid sess = fst ident \<and> ps_vm_id sess = snd ident"
  by (auto simp: open_proxy_session_def split: prod.splits sum.splits option.splits)

lemma handle_proxy_connection_Ok:
  assumes "handle_proxy_connection L cfg c service = (Inr sess, out, v)"
  obtains hs ident where "receive_handshake L (pc_stream c) = Inr hs"
    "check_token L cfg (pc_now c) hs = Inr ident"
    "open_proxy_session L cfg c hs ident service = (Inr sess, out, v)"
  using assms by (auto simp: handle_proxy_connection_def split: sum.splits)

text \<open>
  C24. When session tokens are required, a session starts only with a token the shared secret
  verifies at that moment, and it is bound to the machine and the CID of the token.
\<close>

theorem session_needs_token:
  assumes "require_session_token (sv_security cfg)"
    and "handle_proxy_connection L cfg c service = (Inr sess, out, v)"
  shows "\<exists>hs claims. receive_handshake L (pc_stream c) = Ok hs
    \<and> verify_session_token (pl_jwt L) (pc_now c) (from_utf8_lossy (hs_session_token hs))
        (srv_jwt_secret (sv_security cfg)) = Ok claims
    \<and> ps_cid sess = c_cid claims \<and> ps_vm_id sess = Some (c_vm_id claims)"
proof -
  obtain hs ident where h: "receive_handshake L (pc_stream c) = Inr hs"
    "check_token L cfg (pc_now c) hs = Inr ident"
    "open_proxy_session L cfg c hs ident service = (Inr sess, out, v)"
    using handle_proxy_connection_Ok [OF assms(2)] by blast
  obtain claims where "verify_session_token (pl_jwt L) (pc_now c) (from_utf8_lossy (hs_session_token hs))
        (srv_jwt_secret (sv_security cfg)) = Inr claims" "ident = (c_cid claims, Some (c_vm_id claims))"
    using h(2) assms(1) by (auto simp: check_token_def bind_result_def split: sum.splits)
  then show ?thesis using h(1) open_session_ident [OF h(3)] by auto
qed

theorem session_needs_token_witness:
  "\<exists>hs claims. receive_handshake demo_proxy (write_frame be32 [1]) = Ok hs
    \<and> verify_session_token demo_jwt (secs 1100) (from_utf8_lossy (hs_session_token hs))
        (jwt_secret (jwt_cfg default_auth_config)) = Ok claims \<and> Some ''vm1'' = Some (c_vm_id claims)"
  using session_needs_token [OF _ demo_handle] by (auto simp: demo_conn_def demo_proxy_def)

text \<open>
  A refused token leaves no trace: the client is sent the refusal and nothing else, and the
  vsock service is unchanged.
\<close>

theorem refused_token_no_effect:
  assumes "require_session_token (sv_security cfg)" "receive_handshake L (pc_stream c) = Inr hs"
    and "verify_session_token (pl_jwt L) (pc_now c) (from_utf8_lossy (hs_session_token hs))
        (srv_jwt_secret (sv_security cfg)) = Inl e"
  shows "handle_proxy_connection L cfg c service
    = (Err TokenRefused, case send_ack L c token_nack of None \<Rightarrow> [] | Some out \<Rightarrow> out, service)"
  using assms by (simp add: handle_proxy_connection_def check_token_def)

theorem refused_token_no_effect_witness:
  "handle_proxy_connection demo_proxy demo_server (demo_conn (secs 1361)) (Some service_start)
    = (Err TokenRefused, write_frame be32 [0], Some service_start)"
proof -
  have "unix_secs (secs 1361) = 1361" by (simp add: unix_secs_def secs_def nanos_per_sec_def)
  then have "verify_session_token demo_jwt (secs 1361) ''tok'' (jwt_secret (jwt_cfg default_auth_config)) = Inl InvalidToken"
    using demo_verify [of "secs 1361"] by simp
  then show ?thesis
    using refused_token_no_effect [OF _ demo_receive [of "secs 1361"], of demo_server InvalidToken "Some service_start"]
    by (simp add: demo_token demo_conn_def demo_proxy_def send_ack_def token_nack_def default_ack_def)
qed

text \<open>The token of the demonstration: issued at second 1000 for 300 seconds.\<close>

lemma demo_issued:
  "(300 :: int) = sint (session_token_ttl_secs default_auth_config)"
  "issue_session_token demo_jwt default_auth_config (secs 1000) demo_identity ''s'' ''vm1'' (Some 10) = Ok ''tok''"
  "token_law demo_jwt (jwt_secret (jwt_cfg default_auth_config)) demo_claims"
  "pl_jwt demo_proxy = demo_jwt"
  "0 \<le> unix_secs (secs 1000) + 300"
proof -
  show ttl: "(300 :: int) = sint (session_token_ttl_secs default_auth_config)" by (simp add: default_auth_config_def)
  show "issue_session_token demo_jwt default_auth_config (secs 1000) demo_identity ''s'' ''vm1'' (Some 10) = Ok ''tok''"
    using ttl by (simp add: issue_session_token_def sign_def duration_seconds_def demo_jwt_def demo_claims_def
        engine_jwt_def jwt_engine_new_def)
qed (simp_all add: token_law_def demo_jwt_def demo_proxy_def unix_secs_def secs_def nanos_per_sec_def)



section \<open>Keys\<close>

lemma receive_handshake_frame:
  "length json \<le> 4096 \<Longrightarrow> receive_handshake L (write_frame be32 json @ r) = ok_or (pl_parse_hs L json) HandshakeUndecodable"
  using be_frames.read_write [of json "\<lambda>n. n \<le> max_handshake" r]
  by (simp add: receive_handshake_def max_handshake_def)

lemma do_handshake_reply:
  assumes "cl_render_hs L (client_handshake cfg s token) = Some json" "length d \<le> 4096" "cl_parse_ack L d = Some ack"
  shows "snd (do_handshake L cfg s token (write_frame be32 d @ r))
    = bind_result (client_keys L s ack) (\<lambda>(v, c). Ok (ack, v, c))"
  using assms be_frames.read_write [of d "\<lambda>n. n \<le> max_ack" r]
  by (simp add: do_handshake_def max_ack_def)

lemma open_session_keys:
  assumes "open_proxy_session L cfg c hs ident service = (Inr sess, out, v)"
  obtains dims keys where "server_keys L cfg hs c = Inr keys" "ps_ack sess = session_ack hs dims keys"
    "ps_video_cipher sess = fst (snd (snd keys))" "ps_control_cipher sess = snd (snd (snd keys))"
    "send_ack L c (session_ack hs dims keys) = Some out"
  using assms by (auto simp: open_proxy_session_def split: prod.splits sum.splits option.splits)

text \<open>What the two sides rely on: one key-expansion function, and a key exchange that commutes.\<close>

definition same_crypto :: "client_libs \<Rightarrow> client_secrets \<Rightarrow> proxy_libs \<Rightarrow> proxy_conn \<Rightarrow> bool" where
  "same_crypto CL s PL c \<longleftrightarrow> cl_hkdf CL = pl_hkdf PL
    \<and> length (cs_public s) = 32 \<and> length (pc_public c) = 32
    \<and> cl_dh CL (cs_secret s) (pc_public c) = pl_dh PL (pc_secret c) (cs_public s)"

lemma client_keys_agree:
  assumes "same_crypto CL s PL c" "server_keys PL cfg (client_handshake ccfg s token) c = Inr keys"
  shows "client_keys CL s (session_ack (client_handshake ccfg s token) dims keys) = Ok (snd (snd keys))"
proof (cases "e2e_encryption (sv_security cfg) \<and> cl_e2e_encryption (cc_security ccfg)")
  case True
  then have "client_public_key (client_handshake ccfg s token) = cs_public s"
    "client_nonce (client_handshake ccfg s token) = cs_nonce s" "cs_public s \<noteq> []" "pc_public c \<noteq> []"
    using assms(1) by (auto simp: client_handshake_def same_crypto_def)
  then show ?thesis using True assms
    by (auto simp: server_keys_def client_keys_def session_ack_def default_ack_def shared_secret_def same_crypto_def
        split: sum.splits)
next
  case False
  then have "keys = no_ciphers"
    using assms(2) by (auto simp: server_keys_def client_handshake_def split: if_splits)
  then show ?thesis by (simp add: client_keys_def session_ack_def default_ack_def no_ciphers_def)
qed

text \<open>
  C22. When the proxy accepts the session of a client, the client reads its acknowledgement and
  both hold the same ciphers for the video stream and for the control channel: none when
  one of them has not enabled end-to-end encryption, and fresh ones with equal keys otherwise.
\<close>

theorem session_keys_agree:
  assumes "cl_render_hs CL (client_handshake ccfg s token) = Some json" "length json \<le> 4096"
    and "pl_parse_hs PL json = Some (client_handshake ccfg s token)"
    and "pc_stream c = fst (do_handshake CL ccfg s token reply) @ r"
    and "handle_proxy_connection PL cfg c service = (Inr sess, out, v)"
    and "\<And>d. pl_render_ack PL (ps_ack sess) = Some d \<Longrightarrow> length d \<le> 4096 \<and> cl_parse_ack CL d = Some (ps_ack sess)"
    and "same_crypto CL s PL c"
  shows "snd (do_handshake CL ccfg s token (out @ r'))
      = Ok (ps_ack sess, ps_video_cipher sess, ps_control_cipher sess)
    \<and> accepted (ps_ack sess)
    \<and> (ps_video_cipher sess \<noteq> None \<longleftrightarrow> e2e_encryption (sv_security cfg) \<and> cl_e2e_encryption (cc_security ccfg))
    \<and> (ps_control_cipher sess \<noteq> None \<longleftrightarrow> e2e_encryption (sv_security cfg) \<and> cl_e2e_encryption (cc_security ccfg))"
proof -
  let ?hs = "client_handshake ccfg s token"
  have stream: "pc_stream c = write_frame be32 json @ r" using assms(1,4) by (simp add: do_handshake_def)
  obtain ident where h: "open_proxy_session PL cfg c ?hs ident service = (Inr sess, out, v)"
    using handle_proxy_connection_Ok [OF assms(5)] receive_handshake_frame [OF assms(2), of PL r] assms(3) stream
    by (metis Inr_inject ok_or_simps(2))
  obtain dims keys where k: "server_keys PL cfg ?hs c = Inr keys" "ps_ack sess = session_ack ?hs dims keys"
    "ps_video_cipher sess = fst (snd (snd keys))" "ps_control_cipher sess = snd (snd (snd keys))"
    "send_ack PL c (session_ack ?hs dims keys) = Some out"
    using open_session_keys [OF h] by blast
  obtain d where d: "pl_render_ack PL (ps_ack sess) = Some d" "out = write_frame be32 d"
    using k(5) unfolding k(2) [symmetric] by (auto simp: send_ack_def split: option.splits if_splits)
  have "client_keys CL s (ps_ack sess) = Ok (snd (snd keys))"
    unfolding k(2) by (rule client_keys_agree [OF assms(7) k(1)])
  then have "snd (do_handshake CL ccfg s token (out @ r'))
      = Ok (ps_ack sess, ps_video_cipher sess, ps_control_cipher sess)"
    using do_handshake_reply [OF assms(1), of d "ps_ack sess" r'] assms(6) [OF d(1)] d(2) k(3,4)
    by (simp add: case_prod_unfold)
  moreover have "accepted (ps_ack sess)" unfolding k(2) by (simp add: session_ack_def case_prod_unfold)
  moreover have "ps_video_cipher sess \<noteq> None \<longleftrightarrow> e2e_encryption (sv_security cfg) \<and> cl_e2e_encryption (cc_security ccfg)"
    "ps_control_cipher sess \<noteq> None \<longleftrightarrow> e2e_encryption (sv_security cfg) \<and> cl_e2e_encryption (cc_security ccfg)"
    using k(1) assms(7) unfolding k(3,4)
    by (auto simp: server_keys_def client_handshake_def no_ciphers_def shared_secret_def same_crypto_def split: if_splits sum.splits)
  ultimately show ?thesis by blast
qed

theorem session_keys_agree_witness:
  "snd (do_handshake demo_client default_client_config demo_secrets (string_bytes ''tok'') (write_frame be32 [1]))
    = Ok (demo_ack, Some demo_cipher, Some demo_cipher)"
proof -
  have r: "cl_render_hs demo_client (client_handshake default_client_config demo_secrets (string_bytes ''tok'')) = Some [1]"
    by (simp add: demo_client_def demo_hs_def)
  have p: "pl_parse_hs demo_proxy [1] = Some (client_handshake default_client_config demo_secrets (string_bytes ''tok''))"
    by (simp add: demo_proxy_def demo_hs_def)
  have st: "pc_stream (demo_conn (secs 1100))
      = fst (do_handshake demo_client default_client_config demo_secrets (string_bytes ''tok'') []) @ []"
    by (simp add: do_handshake_def r demo_conn_def)
  have ack: "length d \<le> 4096 \<and> cl_parse_ack demo_client d = Some demo_ack"
    if "pl_render_ack demo_proxy demo_ack = Some d" for d
    using that by (auto simp: demo_proxy_def demo_client_def demo_ack_def session_ack_def demo_keys_def)
  have c: "same_crypto demo_client demo_secrets demo_proxy (demo_conn (secs 1100))"
    by (simp add: same_crypto_def demo_client_def demo_secrets_def demo_proxy_def demo_conn_def zip_replicate add.commute)
  have l: "length [1 :: u8] \<le> 4096" by simp
  from session_keys_agree [OF r l p st demo_handle _ c, of "[]"] ack show ?thesis by simp
qed

section \<open>The video stream\<close>

text \<open>
  Every encoded frame reaches the decoder of the client, once and in order, with its payload
  as it was encoded, whether the stream is encrypted or not.
\<close>

theorem video_stream_delivers:
  assumes "video_good P (length fs) st" "list_all (carried_frame P) fs"
  shows "map plain_frame (video_frames (vp_aead P) (vp_parse P) (vp_receiver P)
      (fst (video_loop (vp_aead P) (vp_render P) (map (\<lambda>f. FrameReady f True) fs) st)))
    = map (\<lambda>f. plain_frame (into_proto 0 f)) fs"
proof -
  have "concat (map (\<lambda>f. [plain_frame (into_proto 0 f)]) fs) = map (\<lambda>f. plain_frame (into_proto 0 f)) fs"
    by (induction fs) simp_all
  then show ?thesis
    using video_stream.delivered [OF assms, of "[]"] by (simp add: shown_frames_def send_frames_def)
qed

definition demo_frame :: encoded_frame where
  "demo_frame = \<lparr>ef_data = [9], ef_nonce = replicate 12 0, ef_seq = 4, ef_pts_ms = 33, ef_codec = ChoiceH264,
    ef_keyframe = True, ef_width = 2, ef_height = 2, ef_duration_us = 100\<rparr>"

text \<open>A rendering of that frame that keeps the payload and the nonce.\<close>

definition demo_path :: video_path where
  "demo_path = \<lparr>vp_aead = \<lparr>seal = (\<lambda>k n p. Some (replicate 16 0 @ p)), unseal = (\<lambda>k n c. Some (drop 16 c))\<rparr>,
    vp_render = (\<lambda>g. Some (if encrypted g then 1 # vf_nonce g @ encoded_data g else [0])),
    vp_parse = (\<lambda>b. if hd b = 1
      then Some ((into_proto 0 demo_frame)\<lparr>encoded_data := drop 13 b, vf_nonce := take 12 (tl b), encrypted := True\<rparr>)
      else Some (into_proto 0 demo_frame)),
    vp_receiver = Some demo_cipher\<rparr>"

lemma demo_video_good:
  "video_good demo_path (length [demo_frame]) \<lparr>vs_cipher = Some demo_cipher, frames_total = 0, frames_encrypted = 0\<rparr>"
  by (simp add: video_good_def room_def same_key_def demo_path_def demo_cipher_def cipher_new_def)

lemma demo_frame_carried: "list_all (carried_frame demo_path) [demo_frame]"
proof -
  have "frame_codec demo_path (into_proto 0 demo_frame)"
    by (simp add: frame_codec_def demo_path_def into_proto_def max_video_frame_bytes_def)
  moreover have "frame_codec demo_path ((into_proto 0 demo_frame)\<lparr>encoded_data := ct, vf_nonce := n, encrypted := True\<rparr>)"
    if "length ct = 17" "length n = 12" for ct n
    using that by (simp add: frame_codec_def demo_path_def max_video_frame_bytes_def)
  moreover have "aead_law (vp_aead demo_path) [9]" by (simp add: aead_law_def demo_path_def)
  ultimately show ?thesis by (simp add: carried_frame_def demo_frame_def)
qed

theorem video_stream_delivers_witness:
  "map plain_frame (video_frames (vp_aead demo_path) (vp_parse demo_path) (Some demo_cipher)
      (fst (video_loop (vp_aead demo_path) (vp_render demo_path) [FrameReady demo_frame True]
        \<lparr>vs_cipher = Some demo_cipher, frames_total = 0, frames_encrypted = 0\<rparr>)))
    = [plain_frame (into_proto 0 demo_frame)]"
  using video_stream_delivers [OF demo_video_good demo_frame_carried] by (simp add: demo_path_def)

section \<open>The end of a session\<close>

lemma cleanup_requests_subset: "set (map fst (cleanup_requests exchange qs)) \<subseteq> set qs"
  by (induction qs) (auto split: cleanup_exchange.split)

text \<open>
  At the end of a session the host agent is asked to stop and delete at most the machine of the
  session's token, and nothing unless its name starts with \<open>nidan-\<close> and is not the template.
\<close>

theorem only_own_machine_destroyed:
  "set (map fst (finish_session exchange vm))
    \<subseteq> (case vm of None \<Rightarrow> {}
      | Some v \<Rightarrow> if starts_with v ''nidan-'' \<and> v \<noteq> ''nidan-template'' then {StopVm v, DeleteVm v} else {})"
proof (cases vm)
  case None
  then show ?thesis by (simp add: finish_session_def)
next
  case (Some v)
  then show ?thesis using cleanup_requests_subset [of exchange "[StopVm v, DeleteVm v]"]
    by (auto simp: finish_session_def needs_cleanup_def cleanup_dynamic_vm_def)
qed

end
