(* ===== verification/ProxyRunProps.thy ===== *)
theory ProxyRunProps
  imports ProxyRun SessionProps "HOL-Library.Sublist"
begin

text \<open>
  What holds of a whole session: the client is shown the screen of its own machine and no
  other, and the machine of a session is destroyed exactly when its loop has ended.
\<close>

section \<open>The video loop on a run of frames\<close>

lemma video_run:
  assumes "video_good P (length fs) st" and "list_all (carried_frame P) fs"
  shows "\<exists>st'. video_loop (vp_aead P) (vp_render P) (map (\<lambda>f. FrameReady f True) fs @ es) st =
    (send_frames P fs st @ fst (video_loop (vp_aead P) (vp_render P) es st'),
     snd (video_loop (vp_aead P) (vp_render P) es st'))"
  using assms
proof (induction fs arbitrary: st)
  case Nil
  then show ?case by (auto simp: send_frames_def)
next
  case (Cons f fs)
  have g: "video_good P (Suc (length fs)) st" and c: "carried_frame P f" using Cons.prems by simp_all
  obtain p k b where o: "outgoing_frame (vp_aead P) f (vs_cipher st) = (Some p, k)" and b: "vp_render P p = Some b"
    using video_step [OF g c] by blast
  let ?st = "\<lparr>vs_cipher = k, frames_total = frames_total st + 1,
    frames_encrypted = frames_encrypted st + (if encrypted p then 1 else 0)\<rparr>"
  have "video_good P (length fs) ?st"
    using video_stream.still_good [OF g c] o b by (simp add: send_frame_def)
  from Cons.IH [OF this] Cons.prems(2) obtain st'
    where "video_loop (vp_aead P) (vp_render P) (map (\<lambda>f. FrameReady f True) fs @ es) ?st =
      (send_frames P fs ?st @ fst (video_loop (vp_aead P) (vp_render P) es st'),
       snd (video_loop (vp_aead P) (vp_render P) es st'))" by auto
  moreover have "send_frames P (f # fs) st = write_frame be32 b @ send_frames P fs ?st"
    using video_stream.all_Cons [OF g c, of fs] o b by (simp add: send_frame_def)
  ultimately show ?case using o b by (auto split: prod.split)
qed

lemma stop_writes_nothing: "\<forall>f w. FrameReady f w \<notin> set es \<Longrightarrow> fst (video_loop A render es st) = []"
  by (cases es; cases "hd es") auto

lemma map2_ready: "map2 FrameReady es (replicate n True) = map (\<lambda>f. FrameReady f True) (take n es)"
proof (induction es arbitrary: n)
  case (Cons e es)
  then show ?case by (cases n) simp_all
qed simp

section \<open>The encoder keeps the numbers\<close>

lemma pipeline_frame_seq: "fst (pipeline_frame L A d f p) = Some e \<Longrightarrow> ef_seq e = rf_seq f"
  by (auto simp: pipeline_frame_def Let_def split: prod.splits sum.splits if_splits)

lemma pipeline_seqs: "subseq (map ef_seq (fst (pipeline_run L A fs p))) (map (\<lambda>(f, _). rf_seq f) fs)"
proof (induction L A fs p rule: pipeline_run.induct)
  case (2 L A f d r rest p)
  then show ?case
    using pipeline_frame_seq [of L A d f p]
    by (cases "pipeline_frame L A d f p") (auto split: option.splits prod.splits)
qed simp

lemma timed_seqs: "map (\<lambda>(f, _). rf_seq f) (timed d fs) = map rf_seq fs"
  by (rule nth_equalityI) (simp_all add: timed_def)

lemma own_frames:
  "subscribe_frames_as_mpsc (Some c) es = filter (\<lambda>f. source_cid f = Some c) (subscribe_frames_as_mpsc None es)"
  by (induction "None :: u32 option" es rule: subscribe_frames_as_mpsc.induct) auto

section \<open>Whose screen is shown\<close>

lemma unheard_frames: "FrameReady f w \<notin> set (filter (heard watch) es @ (if b then [EncoderEnded] else []))"
  by auto

lemma run_bytes:
  assumes "vsock_session (re_features E) cfg" and "wait_for_agent_capabilities default_agent_wait_secs v (re_woken E) = Ok caps"
    and "re_opens E" and "re_writes E = replicate n True"
    and "session_encoded L (vp_aead P) E cfg caps (VsockSource (ps_cid s)) = Some es"
    and "video_good P (length (take n es)) (first_state (ps_video_cipher s))" and "list_all (carried_frame P) (take n es)"
  shows "ro_bytes (run_proxy_session L (vp_aead P) (vp_render P) E cfg display (Some v) s)
    = send_frames P (take n es) (first_state (ps_video_cipher s))"
proof -
  let ?rest = "\<lambda>watch. filter (heard watch) (re_stop E) @ (if Some es = None then [EncoderEnded] else [])"
  have ev: "session_events E watch (Some es) = map (\<lambda>f. FrameReady f True) (take n es) @ ?rest watch" for watch
    by (simp add: session_events_def assms(4) map2_ready)
  have "fst (video_loop (vp_aead P) (vp_render P) (session_events E watch (Some es)) (first_state (ps_video_cipher s)))
      = send_frames P (take n es) (first_state (ps_video_cipher s))" for watch
    using video_run [OF assms(6,7), of "?rest watch"] stop_writes_nothing [of "?rest watch" "vp_aead P" "vp_render P"]
      unheard_frames [of _ _ watch "re_stop E" "Some es = None"]
    unfolding ev by (metis append_Nil2 fst_conv)
  then show ?thesis
    using assms(1,2,3,5)
    by (simp add: run_proxy_session_def session_source_def close_session_def split: prod.split) (metis fst_conv)
qed

text \<open>
  C16. What the client is shown is what the encoder made of the frames of the machine of the session
\<close>

theorem session_shows_own_screen:
  assumes "vsock_session (re_features E) cfg" and "ps_cid s = Some c"
    and "wait_for_agent_capabilities default_agent_wait_secs v (re_woken E) = Ok caps"
    and "re_opens E" and "re_writes E = replicate n True"
    and "session_encoded L (vp_aead P) E cfg caps (VsockSource (Some c)) = Some es"
    and "video_good P (length (take n es)) (first_state (ps_video_cipher s))" and "list_all (carried_frame P) (take n es)"
  shows "\<exists>pics. map plain_frame (video_frames (vp_aead P) (vp_parse P) (vp_receiver P)
        (ro_bytes (run_proxy_session L (vp_aead P) (vp_render P) E cfg display (Some v) s))) = pics \<and>
      pics = map (\<lambda>f. plain_frame (into_proto 0 f)) (take n es) \<and>
      subseq (map frame_seq pics)
        (map rf_seq (filter (\<lambda>f. source_cid f = Some c) (subscribe_frames_as_mpsc None (re_broadcast E))))"
proof -
  have e: "session_encoded L (vp_aead P) E cfg caps (VsockSource (ps_cid s)) = Some es" using assms(2,6) by simp
  have "concat (map (\<lambda>f. [plain_frame (into_proto 0 f)]) fs) = map (\<lambda>f. plain_frame (into_proto 0 f)) fs" for fs
    by (induction fs) simp_all
  then have "shown_frames P (send_frames P (take n es) (first_state (ps_video_cipher s)))
      = map (\<lambda>f. plain_frame (into_proto 0 f)) (take n es)"
    using video_stream.delivered [OF assms(7,8), of "[]"] by (simp add: shown_frames_def)
  moreover have "subseq (map ef_seq es) (map rf_seq (subscribe_frames_as_mpsc (Some c) (re_broadcast E)))"
    using assms(6) pipeline_seqs [of L "vp_aead P" "timed (re_duration E) (subscribe_frames_as_mpsc (Some c) (re_broadcast E))"]
    by (auto simp: session_encoded_def timed_seqs split: sum.splits)
  then have "subseq (map ef_seq (take n es)) (map rf_seq (subscribe_frames_as_mpsc (Some c) (re_broadcast E)))"
    by (metis prefix_imp_subseq subseq_order.order_trans take_is_prefix take_map)
  ultimately show ?thesis
    unfolding run_bytes [OF assms(1,3-5) e assms(7,8)]
    by (simp add: shown_frames_def own_frames plain_frame_def into_proto_def comp_def)
qed

text \<open>Two machines, of CIDs 3 and 7, send frames; the session is that of machine 7.\<close>

definition demo_raw :: "u32 \<Rightarrow> u64 \<Rightarrow> raw_frame" where
  "demo_raw cid n = \<lparr>rf_data = replicate 16 0, rf_width = 2, rf_height = 2, rf_stride = 8, rf_timestamp_us = 33000,
    rf_seq = n, rf_keyframe = True, damage_rects = [], source_cid = Some cid\<rparr>"

definition demo_caps :: capturer_caps where
  "demo_caps = stub_caps\<lparr>caps_width := 2, caps_height := 2\<rparr>"

definition demo_run :: run_env where
  "demo_run = \<lparr>re_features = default_features, re_starts = (\<lambda>_. False), re_caps = (\<lambda>_. demo_caps), re_env_port = None,
    re_woken = Some demo_caps, re_local = [], re_broadcast = [BFrame (demo_raw 3 1), BFrame (demo_raw 7 4), BLagged 2],
    re_now = 0, re_duration = (\<lambda>_. 100), re_opens = True, re_writes = [True], re_stop = [ClientClosed],
    re_exchange = (\<lambda>_. NotConnected)\<rparr>"

definition demo_vsock_config :: server_config where
  "demo_vsock_config = default_server_config\<lparr>sv_capture := default_capture_config\<lparr>cap_backend := ''vsock''\<rparr>\<rparr>"

definition demo_session :: "u32 \<Rightarrow> proxy_session" where
  "demo_session cid = \<lparr>ps_cid = Some cid, ps_vm_id = Some ''nidan-7'', ps_video_cipher = Some demo_cipher,
    ps_control_cipher = Some demo_cipher, ps_ack = demo_ack\<rparr>"

definition demo_h264 :: "unit h264_lib" where
  "demo_h264 = \<lparr>lib_new = Some (), lib_force_intra = (\<lambda>u. u), lib_encode = (\<lambda>_ _ _ u. (Some [9], u))\<rparr>"

lemma demo_encoded:
  "session_encoded demo_h264 (vp_aead demo_path) demo_run demo_vsock_config demo_caps (VsockSource (Some 7)) = Some [demo_frame]"
  by code_simp

theorem session_shows_own_screen_witness:
  "\<exists>pics. map plain_frame (video_frames (vp_aead demo_path) (vp_parse demo_path) (Some demo_cipher)
        (ro_bytes (run_proxy_session demo_h264 (vp_aead demo_path) (vp_render demo_path) demo_run demo_vsock_config 0
          (Some service_start) (demo_session 7)))) = pics \<and>
      pics = [plain_frame (into_proto 0 demo_frame)] \<and> subseq (map frame_seq pics) [4]"
proof -
  have v: "vsock_session (re_features demo_run) demo_vsock_config"
    by (simp add: vsock_session_def demo_run_def default_features_def demo_vsock_config_def)
  have w: "wait_for_agent_capabilities default_agent_wait_secs service_start (re_woken demo_run) = Ok demo_caps"
    by (simp add: wait_for_agent_capabilities_def service_start_def demo_run_def)
  have g: "video_good demo_path (length (take 1 [demo_frame])) (first_state (ps_video_cipher (demo_session 7)))"
    using demo_video_good by (simp add: first_state_def demo_session_def)
  have c: "list_all (carried_frame demo_path) (take 1 [demo_frame])" using demo_frame_carried by simp
  have i: "ps_cid (demo_session 7) = Some 7" "re_opens demo_run" "re_writes demo_run = replicate 1 True"
    by (simp_all add: demo_session_def demo_run_def)
  from session_shows_own_screen [OF v i(1) w i(2,3) demo_encoded g c, of 0] show ?thesis
    by (simp add: demo_run_def demo_raw_def) (simp add: demo_path_def)
qed

section \<open>What becomes of the machine\<close>

lemma cleanup_reaches: "(\<And>q. exchange q \<noteq> NotConnected) \<Longrightarrow> map fst (cleanup_requests exchange qs) = qs"
proof (induction qs)
  case (Cons q qs)
  then show ?case by (cases "exchange q") auto
qed simp

lemma close_session_cleanup:
  assumes "ps_vm_id s = Some vm" and "needs_cleanup (Some vm)" and "vsock_source (re_features E)"
    and "\<And>q. re_exchange E q \<noteq> NotConnected"
  shows "map fst (ro_cleanup (close_session E s service sent))
    = (if ro_result (close_session E s service sent) = RunEnded then [StopVm vm, DeleteVm vm] else [])"
proof (cases sent)
  case (fields out r st)
  then show ?thesis
    using assms(1-3) cleanup_reaches [of "re_exchange E" "[StopVm vm, DeleteVm vm]", OF assms(4)]
    by (cases r) (simp_all add: close_session_def finish_session_def cleanup_dynamic_vm_def)
qed

text \<open>
  C27. A session whose loop ends has its machine stopped and deleted
\<close>

theorem session_end_cleans_up:
  assumes "ps_vm_id s = Some vm" and "needs_cleanup (Some vm)" and "vsock_source (re_features E)"
    and "\<And>q. re_exchange E q \<noteq> NotConnected"
  shows "map fst (ro_cleanup (run_proxy_session L A render E cfg display service s))
    = (if ro_result (run_proxy_session L A render E cfg display service s) = RunEnded then [StopVm vm, DeleteVm vm] else [])"
proof -
  have "ro_cleanup (close_session E s v sent) = []" if "ro_result (close_session E s v sent) \<noteq> RunEnded" for v sent
    using close_session_cleanup [OF assms, of v sent] that by simp
  then show ?thesis
    by (simp add: run_proxy_session_def run_failed_def close_session_cleanup [OF assms] split: sum.split prod.split)
qed

theorem session_end_cleans_up_witness:
  "map fst (ro_cleanup (run_proxy_session demo_h264 (vp_aead demo_path) (vp_render demo_path)
      (demo_run\<lparr>re_exchange := \<lambda>_. CutShort, re_writes := []\<rparr>) demo_vsock_config 0 (Some service_start) (demo_session 7)))
    = [StopVm ''nidan-7'', DeleteVm ''nidan-7'']"
proof -
  let ?E = "demo_run\<lparr>re_exchange := \<lambda>_. CutShort, re_writes := []\<rparr>"
  have e: "ro_result (run_proxy_session demo_h264 (vp_aead demo_path) (vp_render demo_path) ?E demo_vsock_config 0
      (Some service_start) (demo_session 7)) = RunEnded"
    by (simp add: run_proxy_session_def session_source_def vsock_session_def demo_run_def default_features_def
        demo_vsock_config_def service_start_def wait_for_agent_capabilities_def agent_watch_def demo_session_def
        session_events_def close_session_def subscribe_agent_disconnect_def)
  have h: "ps_vm_id (demo_session 7) = Some ''nidan-7''" "needs_cleanup (Some ''nidan-7'')" "vsock_source (re_features ?E)"
    by (simp_all add: demo_session_def demo_run_def default_features_def needs_cleanup_def starts_with_def)
  from session_end_cleans_up [OF h, of demo_h264 "vp_aead demo_path" "vp_render demo_path" demo_vsock_config 0
      "Some service_start"] e
  show ?thesis by (simp add: demo_run_def)
qed

text \<open>When no agent has greeted in time the session fails with nothing sent, and nobody is asked to destroy its machine.\<close>

lemma agentless_session_keeps_machine:
  assumes "vsock_session (re_features E) cfg" and "agent_caps v = None" and "re_woken E = None"
  shows "ro_result (run_proxy_session L A render E cfg display (Some v) s) = RunFailed (AgentMissing (NoAgentConnected 120))"
    and "ro_bytes (run_proxy_session L A render E cfg display (Some v) s) = []"
    and "ro_cleanup (run_proxy_session L A render E cfg display (Some v) s) = []"
  using assms
  by (simp_all add: run_proxy_session_def session_source_def wait_for_agent_capabilities_def run_failed_def
      default_agent_wait_secs_def)

text \<open>An admitted connection runs the session of its token: its CID and its machine.\<close>

lemma served_session:
  assumes "handle_proxy_connection P cfg c service = (Ok s, out, service')"
  shows "run_connection P L A render E cfg display c service = (out, Ok (run_proxy_session L A render E cfg display service' s))"
  using assms by (simp add: run_connection_def)

end
