(* ===== verification/EndToEnd.thy ===== *)
theory EndToEnd
  imports BrokerProps ProxyRunProps
begin

text \<open>
  The broker and the proxy-encoder together: from the request of a client to the last byte of its
  session, the frames of other machines make no difference to the client, and no other machine is
  destroyed.  (The size announced is another matter: it is that of the agent that greeted last.)
\<close>

section \<open>What the broker hands out\<close>

lemma opened_token:
  assumes "handle_client env c b = (r, b')" and "registers r"
    and inv: "reachable (be_provider env) (pool_section (b_config b)) (b_pool b)"
    and fresh: "clones_fresh (be_provider env) (pool_section (b_config b)) (b_pool b)"
  obtains ident vm token where
    "r = send_session_response env c (success_response (network (b_config b)) (session_id_new (in_random c)) vm token)"
    "issue_session_token (be_jwt env) (auth_section (b_config b)) (in_token_at c) ident
      (session_id_new (in_random c)) (e_id vm) (e_cid vm) = Ok token"
    "get (b_pool b') (e_id vm) = Some vm"
    "e_state vm = Assigned (session_id_new (in_random c)) (in_assign_at c)"
  using assms(1)
proof (cases rule: handle_client_cases)
  case (opened req ident rl)
  from opened(4) show ?thesis
  proof (cases rule: open_session_cases)
    case (opened vm p token)
    have "get p (e_id vm) = Some vm \<and> e_state vm = Assigned (session_id_new (in_random c)) (in_assign_at c)"
      using assignment_effect [OF reachable_inv [OF inv]] fresh opened(1) by fastforce
    then show ?thesis using that [OF _ opened(2) [simplified]] opened(3,4) by simp
  qed (use assms(2) in simp_all)
qed (use assms(2) in auto)

lemma client_keeps_pool:
  assumes "handle_client env c b = (r, b')"
    and "reachable (be_provider env) (pool_section (b_config b)) (b_pool b)"
  shows "pool_inv (b_pool b')"
proof -
  have "reachable (be_provider env) (pool_section (b_config b)) (b_pool b')"
    using handle_client_frame [OF assms(1)] assms(2) by (auto intro: reach_step)
  then show ?thesis by (rule reachable_inv)
qed

lemma cid_owner:
  assumes "pool_inv p" and "get p i = Some e" "get p j = Some f" and "e_cid e = Some k" "e_cid f = Some k"
  shows "f = e"
proof -
  have m: "(i, e) \<in> set (vms p)" "(j, f) \<in> set (vms p)" using assms(2,3) get_mem [OF assms(1)] by simp_all
  have "i = j" using bspec [OF bspec [OF pool_invD(4) [OF assms(1), unfolded cids_apart_def] m(1)] m(2)] assms(4,5) by simp
  then show ?thesis using assms(2,3) by simp
qed

section \<open>What the proxy does with it\<close>

text \<open>The same surroundings, in which no machine but that of \<open>k\<close> has sent a frame.\<close>

definition frames_of_only :: "u32 \<Rightarrow> run_env \<Rightarrow> run_env" where
  "frames_of_only k E = E\<lparr>re_broadcast :=
    filter (\<lambda>e. case e of BFrame f \<Rightarrow> source_cid f = Some k | _ \<Rightarrow> True) (re_broadcast E)\<rparr>"

lemma subscribed_only:
  "subscribe_frames_as_mpsc (Some k) (filter (\<lambda>e. case e of BFrame f \<Rightarrow> source_cid f = Some k | _ \<Rightarrow> True) es) =
    subscribe_frames_as_mpsc (Some k) es"
  by (induction "Some k" es rule: subscribe_frames_as_mpsc.induct) simp_all

lemma only_fields:
  "re_features (frames_of_only k E) = re_features E" "re_starts (frames_of_only k E) = re_starts E"
  "re_caps (frames_of_only k E) = re_caps E" "re_env_port (frames_of_only k E) = re_env_port E"
  "re_woken (frames_of_only k E) = re_woken E" "re_local (frames_of_only k E) = re_local E"
  "re_now (frames_of_only k E) = re_now E" "re_duration (frames_of_only k E) = re_duration E"
  "re_opens (frames_of_only k E) = re_opens E" "re_writes (frames_of_only k E) = re_writes E"
  "re_stop (frames_of_only k E) = re_stop E" "re_exchange (frames_of_only k E) = re_exchange E"
  by (simp_all add: frames_of_only_def)

lemma run_only:
  assumes "ps_cid s = Some k" and "vsock_session (re_features E) cfg"
  shows "run_proxy_session L A render (frames_of_only k E) cfg display v s = run_proxy_session L A render E cfg display v s"
proof -
  note f = only_fields
  have src: "session_source (frames_of_only k E) cfg display v (Some k) = session_source E cfg display v (Some k)"
    unfolding session_source_def f ..
  have vs: "src = VsockSource (Some k)" if "session_source E cfg display v (Some k) = Inr (caps, src)" for caps src
    using that assms(2) by (auto simp: session_source_def split: option.splits sum.splits)
  have "source_frames (frames_of_only k E) (VsockSource (Some k)) = source_frames E (VsockSource (Some k))"
    by (simp add: frames_of_only_def subscribed_only)
  then have enc: "session_encoded L A (frames_of_only k E) cfg caps (VsockSource (Some k)) =
      session_encoded L A E cfg caps (VsockSource (Some k))" for caps
    unfolding session_encoded_def f by (simp only:)
  have ev: "session_events (frames_of_only k E) w x = session_events E w x" for w x
    unfolding session_events_def f ..
  have close: "close_session (frames_of_only k E) s w x = close_session E s w x" for w x
    unfolding close_session_def f ..
  show ?thesis
  proof (cases "session_source E cfg display v (Some k)")
    case (Inr x)
    obtain caps where "x = (caps, VsockSource (Some k))" using vs Inr by (cases x) auto
    then show ?thesis using Inr unfolding run_proxy_session_def assms(1) src f by (simp add: enc ev close)
  qed (simp add: run_proxy_session_def assms(1) src)
qed

section \<open>Both\<close>

lemma admitted_cid:
  assumes "receive_handshake P (pc_stream pc) = Inr hs" and "require_session_token (sv_security cfg)"
    and "\<And>t. verify_session_token (pl_jwt P) t (from_utf8_lossy (hs_session_token hs)) (srv_jwt_secret (sv_security cfg)) =
      (if good t then Ok cl else Err InvalidToken)"
    and "handle_proxy_connection P cfg pc service = (Inr s, out, service')"
  shows "ps_cid s = c_cid cl \<and> ps_vm_id s = Some (c_vm_id cl)"
proof -
  obtain hs' ident where h: "receive_handshake P (pc_stream pc) = Inr hs'" "check_token P cfg (pc_now pc) hs' = Inr ident"
    "open_proxy_session P cfg pc hs' ident service = (Inr s, out, service')"
    using handle_proxy_connection_Ok [OF assms(4)] by blast
  have "hs' = hs" using h(1) assms(1) by simp
  then have "ident = (c_cid cl, Some (c_vm_id cl))"
    using h(2) assms(2,3) by (auto simp: check_token_def bind_result_def split: if_splits)
  then show ?thesis using open_session_ident [OF h(3)] by simp
qed

lemma cleanup_own:
  "ps_vm_id s = Some vm \<Longrightarrow>
    set (map fst (ro_cleanup (run_proxy_session L A render E cfg display v s))) \<subseteq> {StopVm vm, DeleteVm vm}"
  using only_own_machine_destroyed [of "re_exchange E" "Some vm"]
  by (auto simp: run_proxy_session_def run_failed_def close_session_def split: sum.splits prod.splits if_splits)


section \<open>One run\<close>

text \<open>A broker that clones its machines, and a proxy that two machines send frames to.\<close>

definition e2e_config :: broker_config where
  "e2e_config = default_broker_config\<lparr>pool_section := demo_config\<rparr>"

definition e2e_broker :: broker where
  "e2e_broker = \<lparr>b_config = e2e_config, b_pool = build demo_config 0, b_sessions = registry_new,
    b_limiter = engine_limiter default_auth_config\<rparr>"

definition e2e_claims :: session_claims where
  "e2e_claims = claims_for (engine_jwt default_auth_config) (secs 1000) (secs 300) wit_identity wit_sid ''nidan-0'' (Some 10)"

definition e2e_jwt :: jwt_lib where
  "e2e_jwt = \<lparr>jwt_encode = (\<lambda>k c. if c = e2e_claims then Some ''tok'' else None),
    jwt_decode = (\<lambda>now k v t. if t = ''tok'' \<and> validation_passes v now e2e_claims then Some e2e_claims else None)\<rparr>"

definition e2e_env :: broker_env where
  "e2e_env = wit_env\<lparr>be_provider := demo_provider, be_jwt := e2e_jwt\<rparr>"

definition e2e_proxy :: proxy_libs where
  "e2e_proxy = demo_proxy\<lparr>pl_jwt := e2e_jwt\<rparr>"

definition e2e_server :: server_config where
  "e2e_server = demo_server\<lparr>sv_capture := default_capture_config\<lparr>cap_backend := ''vsock''\<rparr>\<rparr>"

definition e2e_run :: run_env where
  "e2e_run = demo_run\<lparr>re_broadcast := [BFrame (demo_raw 3 1), BFrame (demo_raw 10 4)]\<rparr>"

lemma e2e_fields:
  "be_provider e2e_env = demo_provider" "be_jwt e2e_env = e2e_jwt" "be_parse e2e_env = (\<lambda>_. Some wit_request)"
  "be_render e2e_env = (\<lambda>_. Some [])" "b_config e2e_broker = e2e_config" "pool_section e2e_config = demo_config"
  "b_pool e2e_broker = build demo_config 0" "auth_section e2e_config = default_auth_config"
  "b_limiter e2e_broker = engine_limiter default_auth_config" "b_sessions e2e_broker = []"
  "network e2e_config = network wit_config"
  by (simp_all add: e2e_env_def wit_env_def e2e_broker_def e2e_config_def wit_config_def default_broker_config_def registry_new_def)

lemma e2e_assigned:
  "(case assign_or_provision demo_provider demo_config (secs 1000) sid None ''bob'' (build demo_config 0) of
      (Inr vm, p) \<Rightarrow> e_id vm = ''nidan-0'' \<and> e_cid vm = Some 10 | _ \<Rightarrow> False)"
  by code_simp

lemma e2e_assign:
  obtains vm p where "assign_or_provision demo_provider demo_config (secs 1000) wit_sid None ''bob'' (build demo_config 0) = (Ok vm, p)"
    "e_id vm = ''nidan-0''" "e_cid vm = Some 10"
  using e2e_assigned [of wit_sid]
  by (cases "assign_or_provision demo_provider demo_config (secs 1000) wit_sid None ''bob'' (build demo_config 0)";
      cases "fst (assign_or_provision demo_provider demo_config (secs 1000) wit_sid None ''bob'' (build demo_config 0))") simp_all

lemma e2e_token:
  "issue_session_token e2e_jwt default_auth_config (secs 1000) wit_identity wit_sid ''nidan-0'' (Some 10) = Ok ''tok''"
  by (simp add: issue_session_token_def sign_def duration_seconds_def e2e_jwt_def e2e_claims_def
      engine_jwt_def jwt_engine_new_def default_auth_config_def)

lemma e2e_fresh: "clones_fresh demo_provider demo_config (build demo_config 0)"
  by (simp add: clones_fresh_def demo_provider_def build_def get_def demo_config_def)

lemma e2e_handle:
  obtains vm b' where "handle_client e2e_env wit_conn e2e_broker =
      (send_session_response e2e_env wit_conn (success_response (network wit_config) wit_sid vm ''tok''), b')"
    "e_id vm = ''nidan-0''" "e_cid vm = Some 10" "get (b_pool b') ''nidan-0'' = Some vm"
proof -
  have s: "auth_section wit_config = default_auth_config" by (simp add: wit_config_def default_broker_config_def)
  have prod_first: thesis if "fst x = y" "\<And>rl. x = (y, rl) \<Longrightarrow> thesis" for x :: "auth_outcome \<times> rate_limiter" and y thesis
    using that by (cases x) simp
  obtain rl where a: "authenticate (be_oidc e2e_env) default_auth_config (request_attempt wit_conn wit_request)
      (engine_limiter default_auth_config) = (OutSuccess wit_identity, rl)"
    using wit_auth [of "be_oidc e2e_env"] unfolding s by (rule prod_first)
  obtain vm p where v: "assign_or_provision demo_provider demo_config (secs 1000) wit_sid None ''bob'' (build demo_config 0) = (Ok vm, p)"
    "e_id vm = ''nidan-0''" "e_cid vm = Some 10" by (rule e2e_assign)
  have f: "in_assign_at wit_conn = secs 1000" "in_token_at wit_conn = secs 1000"
    "session_id_new (in_random wit_conn) = wit_sid" "preferred_vm_tag wit_request = []" "ai_user_id wit_identity = ''bob''"
    by (simp_all add: wit_conn_def wit_request_def wit_identity_def wit_sid_def)
  have "active_count (b_sessions e2e_broker) < max_sessions (network wit_config)" using wit_fields by (simp add: e2e_fields)
  then have "handle_client e2e_env wit_conn e2e_broker = open_session e2e_env wit_conn wit_request wit_identity (e2e_broker\<lparr>b_limiter := rl\<rparr>)"
    using wit_receive [OF e2e_fields(3)] a by (simp add: handle_client_def e2e_fields)
  also have "\<dots> = (send_session_response e2e_env wit_conn (success_response (network wit_config) wit_sid vm ''tok''),
      snd (open_session e2e_env wit_conn wit_request wit_identity (e2e_broker\<lparr>b_limiter := rl\<rparr>)))"
    by (simp add: open_session_def Let_def f e2e_fields v e2e_token)
  finally have r: "handle_client e2e_env wit_conn e2e_broker =
      (send_session_response e2e_env wit_conn (success_response (network wit_config) wit_sid vm ''tok''),
       snd (open_session e2e_env wit_conn wit_request wit_identity (e2e_broker\<lparr>b_limiter := rl\<rparr>)))" .
  have "b_pool (snd (open_session e2e_env wit_conn wit_request wit_identity (e2e_broker\<lparr>b_limiter := rl\<rparr>))) = p"
    by (simp add: open_session_def Let_def f e2e_fields v e2e_token)
  moreover have "get p ''nidan-0'' = Some vm"
    using assignment_effect [OF build_inv e2e_fresh v(1)] v(2) by simp
  ultimately show ?thesis using that [OF r v(2,3)] by simp
qed

lemma string_bytes_same: "string_bytes s = string_bytes t \<Longrightarrow> s = t"
proof -
  have "unat (word_of_nat (of_char c) :: u8) = of_char c" for c by (simp add: unat_of_nat take_bit_eq_mod)
  then have "inj (\<lambda>c. word_of_nat (of_char c) :: u8)" by (metis injI of_char_eq_iff)
  then show "string_bytes s = string_bytes t \<Longrightarrow> s = t" unfolding string_bytes_def by (simp add: inj_map_eq_map)
qed

lemma answers_alike:
  "send_session_response env c (success_response net sid vm tok) = send_session_response env c (success_response net sid vm' tok') \<Longrightarrow>
    e_id vm' = e_id vm \<and> tok' = tok"
  by (auto simp: send_session_response_def success_response_def default_response_def split: option.splits if_splits
      dest: string_bytes_same)


end
