(* ===== verification/Errors.thy ===== *)
theory Errors
  imports Proto
begin

text \<open>
  The errors the crates share (\<open>nidan-common/src/error.rs\<close>), with their text and the context that can be
  put around them.  A network error is any value \<open>'io\<close>.
\<close>

datatype 'io nidan_error =
    NetworkError 'io
  | AuthError string
  | SessionNotFound string
  | SessionClosed string
  | CryptoError string
  | ProtoValidation validation_error
  | CodecError string
  | ClipboardDenied string
  | NoVmAvailableError
  | ConfigError string
  | AuditError string
  | WithContext string "'io nidan_error"

fun nidan_error_text :: "('io \<Rightarrow> string) \<Rightarrow> (validation_error \<Rightarrow> string) \<Rightarrow> 'io nidan_error \<Rightarrow> string" where
  "nidan_error_text io v (NetworkError e) = ''erreur r'' @ e_acute @ ''seau: '' @ io e"
| "nidan_error_text io v (AuthError r) = ''authentification '' @ e_acute @ ''chou'' @ e_acute @ ''e: '' @ r"
| "nidan_error_text io v (SessionNotFound s) = ''session introuvable: '' @ s"
| "nidan_error_text io v (SessionClosed s) = ''session d'' @ e_acute @ ''j'' @ [CHR 0xC3, CHR 0xA0] @ '' ferm'' @ e_acute @ ''e: '' @ s"
| "nidan_error_text io v (CryptoError s) = ''erreur cryptographique: '' @ s"
| "nidan_error_text io v (ProtoValidation e) = ''erreur de validation proto: '' @ v e"
| "nidan_error_text io v (CodecError s) = ''erreur codec vid'' @ e_acute @ ''o: '' @ s"
| "nidan_error_text io v (ClipboardDenied r) = ''clipboard refus'' @ e_acute @ '': '' @ r"
| "nidan_error_text io v NoVmAvailableError = ''aucune VM disponible dans le pool''"
| "nidan_error_text io v (ConfigError s) = ''erreur de configuration: '' @ s"
| "nidan_error_text io v (AuditError s) = ''erreur d'' @ [CHR 0x27] @ ''audit: '' @ s"
| "nidan_error_text io v (WithContext c e) = c @ '': '' @ nidan_error_text io v e"

definition nidan_context :: "string \<Rightarrow> ('io nidan_error, 'a) result \<Rightarrow> ('io nidan_error, 'a) result" where
  "nidan_context c r = (case r of Inl e \<Rightarrow> Err (WithContext c e) | Inr x \<Rightarrow> Ok x)"

text \<open>Contexts are read from the outside in, and the error they surround stays last.\<close>

lemma contexts_text:
  "foldr nidan_context cs (Err e) = Err e' \<Longrightarrow>
    nidan_error_text io v e' = concat (map (\<lambda>c. c @ '': '') cs) @ nidan_error_text io v e"
proof (induction cs arbitrary: e')
  case (Cons c cs)
  then show ?case by (auto simp: nidan_context_def split: sum.splits)
qed simp

lemma context_keeps_value: "foldr nidan_context cs (Ok x) = Ok x"
  by (induction cs) (simp_all add: nidan_context_def)

end
