(* ===== verification/Decoder.thy ===== *)
theory Decoder
  imports Crypto Capture
begin

text \<open>
  The decoding pipeline of the client (\<open>nidan-client/src/decoder/\<close>): the H.264 decoder around the
  openh264 library, the placeholder of the build without it, and the loop that turns video
  frames into pictures.  The build picks one of the two decoders: the loop is defined over a
  record of their operations.  A panic is \<open>None\<close>.
\<close>

section \<open>Codecs and pictures\<close>

datatype decoder_codec = DecH264 | DecH265 | DecAv1

definition codec_from_proto :: "int \<Rightarrow> decoder_codec" where
  "codec_from_proto c = (if c = 1 then DecH264 else if c = 2 then DecH265 else if c = 3 then DecAv1 else DecH264)"

fun decoder_ffmpeg_name :: "decoder_codec \<Rightarrow> string" where
  "decoder_ffmpeg_name DecH264 = ''h264''"
| "decoder_ffmpeg_name DecH265 = ''hevc''"
| "decoder_ffmpeg_name DecAv1 = ''av1''"

fun decoder_hw_name :: "decoder_codec \<Rightarrow> string option" where
  "decoder_hw_name DecH264 = Some ''h264_vaapi''"
| "decoder_hw_name DecH265 = Some ''hevc_vaapi''"
| "decoder_hw_name DecAv1 = None"

record decoded_frame =
  df_data :: bytes
  df_width :: u32
  df_height :: u32
  df_seq :: u64
  df_pts_ms :: u32
  df_monitor_index :: u32
  decode_duration_us :: u32

datatype decode_error = UnsupportedCodec decoder_codec | DecoderLibraryFailed

text \<open>The operations of a decoder.  Decoding yields an error, nothing yet, or a picture.\<close>

record 'd decoder_ops =
  dec_new :: "decoder_codec \<Rightarrow> bool \<Rightarrow> (decode_error, 'd) result"
  dec_stub :: "u32 \<Rightarrow> u32 \<Rightarrow> 'd option"
  dec_packet :: "bytes \<Rightarrow> bool \<Rightarrow> 'd \<Rightarrow> ((decode_error, bytes option) result \<times> 'd) option"
  dec_request_idr :: "'d \<Rightarrow> 'd"

section \<open>The H.264 decoder\<close>

text \<open>The library: creation, and decoding a packet into a picture with its size and RGBA bytes.\<close>

record 's dec_lib =
  dl_new :: "'s option"
  dl_decode :: "bytes \<Rightarrow> 's \<Rightarrow> (nat \<times> nat \<times> bytes) option option \<times> 's"

record 's openh264_decoder =
  od_lib :: 's
  od_width :: u32
  od_height :: u32
  od_frames_decoded :: u64
  od_is_stub :: bool

definition openh264_new ::
  "'s dec_lib \<Rightarrow> decoder_codec \<Rightarrow> bool \<Rightarrow> (decode_error, 's openh264_decoder) result"
where
  "openh264_new L codec hardware =
    (if codec \<noteq> DecH264 then Err (UnsupportedCodec codec)
     else (case dl_new L of
         None \<Rightarrow> Err DecoderLibraryFailed
       | Some s \<Rightarrow> Ok \<lparr>od_lib = s, od_width = 0, od_height = 0, od_frames_decoded = 0, od_is_stub = False\<rparr>))"

definition openh264_stub :: "'s dec_lib \<Rightarrow> u32 \<Rightarrow> u32 \<Rightarrow> 's openh264_decoder option" where
  "openh264_stub L w h =
    map_option (\<lambda>s. \<lparr>od_lib = s, od_width = w, od_height = h, od_frames_decoded = 0, od_is_stub = True\<rparr>) (dl_new L)"

text \<open>Red and blue exchanged in every pixel, the last one included when only its alpha is missing.\<close>

fun swap_rb :: "bytes \<Rightarrow> bytes" where
  "swap_rb (r # g # b # a # rest) = b # g # r # a # swap_rb rest"
| "swap_rb [r, g, b] = [b, g, r]"
| "swap_rb rest = rest"

definition gray_frame :: "u32 \<Rightarrow> u32 \<Rightarrow> bytes" where
  "gray_frame w h = concat (replicate (unat (max w 1 * max h 1 * 4) div 4) [64, 64, 64, 255])"

definition openh264_packet ::
  "'s dec_lib \<Rightarrow> bytes \<Rightarrow> bool \<Rightarrow> 's openh264_decoder \<Rightarrow>
    ((decode_error, bytes option) result \<times> 's openh264_decoder) option"
where
  "openh264_packet L nal kf d =
    Some (if od_is_stub d
     then (Ok (Some (gray_frame (od_width d) (od_height d))), d\<lparr>od_frames_decoded := od_frames_decoded d + 1\<rparr>)
     else (case dl_decode L nal (od_lib d) of
         (None, s) \<Rightarrow> (Err DecoderLibraryFailed, d\<lparr>od_lib := s\<rparr>)
       | (Some None, s) \<Rightarrow> (Ok None, d\<lparr>od_lib := s\<rparr>)
       | (Some (Some (w, h, rgba)), s) \<Rightarrow>
           (Ok (Some (swap_rb rgba)),
            d\<lparr>od_lib := s, od_width := word_of_nat w, od_height := word_of_nat h,
              od_frames_decoded := od_frames_decoded d + 1\<rparr>)))"

definition openh264_request_idr :: "'s openh264_decoder \<Rightarrow> 's openh264_decoder" where
  "openh264_request_idr d = d"

definition openh264_ops :: "'s dec_lib \<Rightarrow> 's openh264_decoder decoder_ops" where
  "openh264_ops L = \<lparr>dec_new = openh264_new L, dec_stub = openh264_stub L,
    dec_packet = openh264_packet L, dec_request_idr = openh264_request_idr\<rparr>"

section \<open>The placeholder decoder\<close>

record ffmpeg_decoder =
  fd_codec :: decoder_codec
  fd_width :: u32
  fd_height :: u32
  fd_hardware :: bool
  fd_frame_count :: u64
  need_idr :: bool

definition ffmpeg_decoder_new :: "decoder_codec \<Rightarrow> bool \<Rightarrow> (decode_error, ffmpeg_decoder) result" where
  "ffmpeg_decoder_new codec hardware = Ok \<lparr>fd_codec = codec, fd_width = 1920, fd_height = 1080,
    fd_hardware = hardware, fd_frame_count = 0, need_idr = False\<rparr>"

definition ffmpeg_decoder_stub :: "u32 \<Rightarrow> u32 \<Rightarrow> ffmpeg_decoder option" where
  "ffmpeg_decoder_stub w h = Some \<lparr>fd_codec = DecH264, fd_width = w, fd_height = h,
    fd_hardware = False, fd_frame_count = 0, need_idr = False\<rparr>"

definition ffmpeg_request_idr :: "ffmpeg_decoder \<Rightarrow> ffmpeg_decoder" where
  "ffmpeg_request_idr d = d\<lparr>need_idr := True\<rparr>"

text \<open>Four assignments from an index on; out of range they panic.\<close>

definition put_pixel :: "nat \<Rightarrow> bytes \<Rightarrow> bytes option \<Rightarrow> bytes option" where
  "put_pixel i px img =
    Option.bind img (\<lambda>b. if i + length px \<le> length b then Some (take i b @ px @ drop (i + length px) b) else None)"

definition decode_stub :: "u32 \<Rightarrow> u32 \<Rightarrow> u64 \<Rightarrow> bytes option" where
  "decode_stub w h n =
    (let c = (ucast n :: u32);
         blank = Some (replicate (unat (w * h * 4)) 0);
         shaded = fold (\<lambda>y. fold (\<lambda>x. put_pixel (unat ((word_of_nat y * w + word_of_nat x) * 4))
           [ucast ((word_of_nat x + c * 2) mod 256), ucast ((word_of_nat y + c) mod 256), ucast (c mod 256), 255])
           [0..<unat w]) [0..<unat h] blank
     in fold (\<lambda>x. put_pixel (x * 4) [255, 255, 255, 255]) [0..<min (unat w) 400] shaded)"

definition ffmpeg_packet ::
  "bytes \<Rightarrow> bool \<Rightarrow> ffmpeg_decoder \<Rightarrow> ((decode_error, bytes option) result \<times> ffmpeg_decoder) option"
where
  "ffmpeg_packet nal kf d =
    (if need_idr d \<and> \<not> kf then Some (Ok None, d)
     else (let d1 = (if kf then d\<lparr>need_idr := False\<rparr> else d) in
       map_option (\<lambda>px. (Ok (Some px), d1\<lparr>fd_frame_count := fd_frame_count d1 + 1\<rparr>))
         (decode_stub (fd_width d1) (fd_height d1) (fd_frame_count d1))))"

definition ffmpeg_ops :: "ffmpeg_decoder decoder_ops" where
  "ffmpeg_ops = \<lparr>dec_new = ffmpeg_decoder_new, dec_stub = ffmpeg_decoder_stub, dec_packet = ffmpeg_packet,
    dec_request_idr = ffmpeg_request_idr\<rparr>"

section \<open>The pipeline\<close>

record 'd decoder_state =
  ds_cipher :: "stream_cipher option"
  ds_hardware :: bool
  ds_decoder :: "'d option"
  frames_decoded :: u64
  ds_frames_dropped :: u64

definition decoder_pipeline_new :: "bool \<Rightarrow> stream_cipher option \<Rightarrow> 'd decoder_state" where
  "decoder_pipeline_new hw cipher = \<lparr>ds_cipher = cipher, ds_hardware = hw, ds_decoder = None,
    frames_decoded = 0, ds_frames_dropped = 0\<rparr>"

definition frame_payload :: "aead \<Rightarrow> stream_cipher option \<Rightarrow> video_frame \<Rightarrow> bytes option" where
  "frame_payload A cipher f =
    (case cipher of
      None \<Rightarrow> Some (encoded_data f)
    | Some c \<Rightarrow> (case decrypt A (encoded_data f) (vf_nonce f) c of Inl _ \<Rightarrow> None | Inr p \<Rightarrow> Some p))"

text \<open>The decoder of the session: the one there is, a new one, or a stub.\<close>

definition ensure_decoder :: "'d decoder_ops \<Rightarrow> bool \<Rightarrow> video_frame \<Rightarrow> 'd option \<Rightarrow> 'd option" where
  "ensure_decoder D hw f d =
    (case d of
      Some x \<Rightarrow> Some x
    | None \<Rightarrow> (case dec_new D (codec_from_proto (vf_codec f)) hw of
        Inr x \<Rightarrow> Some x | Inl _ \<Rightarrow> dec_stub D (vf_width f) (vf_height f)))"

definition picture_of :: "video_frame \<Rightarrow> bytes \<Rightarrow> u32 \<Rightarrow> decoded_frame" where
  "picture_of f px duration = \<lparr>df_data = px, df_width = vf_width f, df_height = vf_height f,
    df_seq = frame_seq f, df_pts_ms = pts_ms f, df_monitor_index = monitor_index f,
    decode_duration_us = duration\<rparr>"

text \<open>One frame: the picture it gives, if any, and the state.\<close>

definition decode_frame ::
  "'d decoder_ops \<Rightarrow> aead \<Rightarrow> video_frame \<Rightarrow> u32 \<Rightarrow> 'd decoder_state \<Rightarrow>
    (decoded_frame option \<times> 'd decoder_state) option"
where
  "decode_frame D A f duration s =
    (case frame_payload A (ds_cipher s) f of
      None \<Rightarrow> Some (None, s\<lparr>ds_frames_dropped := ds_frames_dropped s + 1\<rparr>)
    | Some nal \<Rightarrow>
        Option.bind (ensure_decoder D (ds_hardware s) f (ds_decoder s)) (\<lambda>d.
        Option.bind (dec_packet D nal (keyframe f) d) (\<lambda>(r, d1).
          Some (case r of
            Inl _ \<Rightarrow> (None, s\<lparr>ds_decoder := Some (dec_request_idr D d1), ds_frames_dropped := ds_frames_dropped s + 1\<rparr>)
          | Inr None \<Rightarrow> (None, s\<lparr>ds_decoder := Some d1\<rparr>)
          | Inr (Some px) \<Rightarrow> (Some (picture_of f px duration), s\<lparr>ds_decoder := Some d1\<rparr>)))))"

text \<open>
  The loop, over the frames received until the channel closes or the shut-down is seen, each with
  the time its decoding took and the answer of the channel to the renderer.
\<close>

fun decode_run ::
  "'d decoder_ops \<Rightarrow> aead \<Rightarrow> (video_frame \<times> u32 \<times> try_send_answer) list \<Rightarrow> 'd decoder_state \<Rightarrow>
    (decoded_frame list \<times> 'd decoder_state) option"
where
  "decode_run D A [] s = Some ([], s)"
| "decode_run D A ((f, duration, answer) # rest) s =
    Option.bind (decode_frame D A f duration s) (\<lambda>(p, s1).
      case p of
        None \<Rightarrow> decode_run D A rest s1
      | Some x \<Rightarrow>
          (case answer of
            ChannelClosed \<Rightarrow> Some ([], s1)
          | ChannelFull \<Rightarrow>
              decode_run D A rest (s1\<lparr>ds_frames_dropped := ds_frames_dropped s1 + 1, frames_decoded := frames_decoded s1 + 1\<rparr>)
          | Sent \<Rightarrow>
              map_option (\<lambda>(ps, s2). (x # ps, s2)) (decode_run D A rest (s1\<lparr>frames_decoded := frames_decoded s1 + 1\<rparr>))))"

end
