(* ===== verification/Renderer.thy ===== *)
theory Renderer
  imports ClientInput ClientConfig Decoder
begin

text \<open>
  The window of the client (\<open>nidan-client/src/renderer/mod.rs\<close> and \<open>sdl.rs\<close>): where the picture goes
  in the window, which input events come out of the events of SDL, and how a picture is copied
  into the texture.  SDL and single-precision arithmetic are parameters; 32-bit signed
  integers are words read with \<open>sint\<close>.
\<close>

type_synonym i32 = "32 word"

section \<open>Where the picture goes\<close>

datatype scaling_mode = Fit | Stretch | OneToOne

definition scaling_from_str :: "string \<Rightarrow> scaling_mode" where
  "scaling_from_str s = (if s = ''stretch'' then Stretch else if s = ''1:1'' then OneToOne else Fit)"

record render_rect =
  rect_x :: i32
  rect_y :: i32
  rect_w :: u32
  rect_h :: u32

text \<open>Quotients of two integers, the smaller of two, a product cut to an integer, and the quotient that
  is sent.\<close>

record 'f fit_ops =
  fo_ratio :: "u32 \<Rightarrow> u32 \<Rightarrow> 'f"
  fo_min :: "'f \<Rightarrow> 'f \<Rightarrow> 'f"
  fo_scale :: "u32 \<Rightarrow> 'f \<Rightarrow> u32"
  fo_norm :: "i32 \<Rightarrow> u32 \<Rightarrow> f32"

text \<open>Signed division by two rounds towards zero.\<close>

definition half :: "i32 \<Rightarrow> i32" where
  "half a = (if sint a < 0 then - word_of_int (- sint a div 2) else word_of_int (sint a div 2))"

definition rect_compute ::
  "'f fit_ops \<Rightarrow> u32 \<Rightarrow> u32 \<Rightarrow> u32 \<Rightarrow> u32 \<Rightarrow> scaling_mode \<Rightarrow> render_rect"
where
  "rect_compute F src_w src_h dst_w dst_h mode =
    (case mode of
      Stretch \<Rightarrow> \<lparr>rect_x = 0, rect_y = 0, rect_w = dst_w, rect_h = dst_h\<rparr>
    | OneToOne \<Rightarrow> \<lparr>rect_x = half (dst_w - src_w), rect_y = half (dst_h - src_h), rect_w = src_w, rect_h = src_h\<rparr>
    | Fit \<Rightarrow>
        (let ratio = fo_min F (fo_ratio F dst_w src_w) (fo_ratio F dst_h src_h);
             w = fo_scale F src_w ratio; h = fo_scale F src_h ratio
         in \<lparr>rect_x = (dst_w - w) div 2, rect_y = (dst_h - h) div 2, rect_w = w, rect_h = h\<rparr>))"

definition window_to_normalized :: "'f fit_ops \<Rightarrow> render_rect \<Rightarrow> i32 \<Rightarrow> i32 \<Rightarrow> (f32 \<times> f32) option" where
  "window_to_normalized F r wx wy =
    (let rx = wx - rect_x r; ry = wy - rect_y r in
     if sint rx < 0 \<or> sint ry < 0 \<or> sint (rect_w r) \<le> sint rx \<or> sint (rect_h r) \<le> sint ry then None
     else Some (fo_norm F rx (rect_w r), fo_norm F ry (rect_h r)))"

section \<open>Events\<close>

record keymod =
  km_lshift :: bool
  km_rshift :: bool
  km_lctrl :: bool
  km_rctrl :: bool
  km_lalt :: bool
  km_ralt :: bool
  km_lgui :: bool
  km_rgui :: bool

datatype sdl_event =
    SdlQuit
  | SdlResized i32 i32
  | SdlKeyDown "u32 option" "u32 option" keymod bool
  | SdlKeyUp "u32 option" "u32 option"
  | SdlMotion i32 i32
  | SdlButtonDown u32 i32 i32
  | SdlButtonUp u32 i32 i32
  | SdlWheel f32 f32
  | SdlOther

text \<open>SDL's code of the key F.\<close>

definition keycode_f :: u32 where "keycode_f = 102"

definition is_escape :: "sdl_event \<Rightarrow> bool" where
  "is_escape e = (case e of
      SdlQuit \<Rightarrow> True
    | SdlKeyDown kc sc m rep \<Rightarrow> kc = Some keycode_f \<and> km_lctrl m \<and> km_lalt m
    | _ \<Rightarrow> False)"

record window_state =
  win_w :: u32
  win_h :: u32
  stream_w :: u32
  stream_h :: u32
  ws_rect :: render_rect
  ws_scaling :: scaling_mode

definition window_start :: "'f fit_ops \<Rightarrow> display_config \<Rightarrow> u32 \<Rightarrow> u32 \<Rightarrow> (u32 \<times> u32) option \<Rightarrow> window_state" where
  "window_start F cfg w h output =
    (let (rw, rh) = (case output of None \<Rightarrow> (w, h) | Some s \<Rightarrow> s); mode = scaling_from_str (scaling cfg) in
     \<lparr>win_w = rw, win_h = rh, stream_w = w, stream_h = h, ws_rect = rect_compute F w h rw rh mode,
      ws_scaling = mode\<rparr>)"

definition place :: "'f fit_ops \<Rightarrow> window_state \<Rightarrow> window_state" where
  "place F s = s\<lparr>ws_rect := rect_compute F (stream_w s) (stream_h s) (win_w s) (win_h s) (ws_scaling s)\<rparr>"

definition pointer_event :: "'f fit_ops \<Rightarrow> window_state \<Rightarrow> i32 \<Rightarrow> i32 \<Rightarrow> (f32 \<Rightarrow> f32 \<Rightarrow> client_event) \<Rightarrow> client_event list" where
  "pointer_event F s x y mk =
    (case window_to_normalized F (ws_rect s) x y of None \<Rightarrow> [] | Some (nx, ny) \<Rightarrow> [mk nx ny])"

text \<open>The inputs of an event that does not end the loop.\<close>

definition event_inputs :: "'f fit_ops \<Rightarrow> window_state \<Rightarrow> sdl_event \<Rightarrow> client_event list" where
  "event_inputs F s e =
    (case e of
      SdlKeyDown (Some kc) (Some sc) m rep \<Rightarrow>
        [KeyDown kc sc (km_lshift m \<or> km_rshift m) (km_lctrl m \<or> km_rctrl m) (km_lalt m \<or> km_ralt m)
          (km_lgui m \<or> km_rgui m) rep]
    | SdlKeyUp (Some kc) (Some sc) \<Rightarrow> [KeyUp kc sc]
    | SdlMotion x y \<Rightarrow> pointer_event F s x y (\<lambda>nx ny. MouseMove nx ny 0)
    | SdlButtonDown b x y \<Rightarrow> pointer_event F s x y (MouseDown b)
    | SdlButtonUp b x y \<Rightarrow> pointer_event F s x y (MouseUp b)
    | SdlWheel dx dy \<Rightarrow> [MouseScroll dx dy]
    | _ \<Rightarrow> [])"

definition window_event :: "'f fit_ops \<Rightarrow> sdl_event \<Rightarrow> window_state \<Rightarrow> window_state" where
  "window_event F e s = (case e of SdlResized w h \<Rightarrow> place F (s\<lparr>win_w := w, win_h := h\<rparr>) | _ \<Rightarrow> s)"

text \<open>
  The events of the loop until it ends, each with whether the channel of the inputs has room.  The
  result: the inputs sent, whether the loop ended, and the state.
\<close>

fun event_loop ::
  "'f fit_ops \<Rightarrow> (sdl_event \<times> bool) list \<Rightarrow> window_state \<Rightarrow> client_event list \<times> bool \<times> window_state"
where
  "event_loop F [] s = ([], False, s)"
| "event_loop F ((e, room) # es) s =
    (if is_escape e then ([], True, s)
     else (let (ins, fin, s') = event_loop F es (window_event F e s)
           in ((if room then event_inputs F s e else []) @ ins, fin, s')))"

section \<open>Pictures\<close>

text \<open>The texture is a buffer of rows of \<open>pitch\<close> bytes; a row that does not fit either side is skipped.\<close>

definition copy_row :: "bytes \<Rightarrow> nat \<Rightarrow> nat \<Rightarrow> nat \<Rightarrow> bytes \<Rightarrow> bytes" where
  "copy_row src row pitch y buf =
    (if y * row + row \<le> length src \<and> y * pitch + row \<le> length buf
     then take (y * pitch) buf @ take row (drop (y * row) src) @ drop (y * pitch + row) buf
     else buf)"

definition blit :: "bytes \<Rightarrow> nat \<Rightarrow> nat \<Rightarrow> nat \<Rightarrow> bytes \<Rightarrow> bytes" where
  "blit src w h pitch buf = fold (copy_row src (w * 4) pitch) [0..<h] buf"

text \<open>A picture of another size has the texture made anew and the rectangle computed again.\<close>

definition show_frame ::
  "'f fit_ops \<Rightarrow> decoded_frame \<Rightarrow> (u32 \<Rightarrow> u32 \<Rightarrow> nat \<times> bytes) \<Rightarrow> nat \<times> bytes \<Rightarrow> window_state \<Rightarrow>
    (nat \<times> bytes) \<times> window_state"
where
  "show_frame F f fresh tex s =
    (let changed = (df_width f \<noteq> stream_w s \<or> df_height f \<noteq> stream_h s);
         tex1 = (if changed then fresh (df_width f) (df_height f) else tex);
         s1 = (if changed then place F (s\<lparr>stream_w := df_width f, stream_h := df_height f\<rparr>) else s)
     in ((fst tex1, blit (df_data f) (unat (df_width f)) (unat (df_height f)) (fst tex1) (snd tex1)), s1))"

text \<open>Only the latest of the waiting pictures is shown.\<close>

definition latest_frame :: "decoded_frame list \<Rightarrow> decoded_frame option" where
  "latest_frame fs = (if fs = [] then None else Some (last fs))"

end
