(* ===== verification/RenderLoop.thy ===== *)
theory RenderLoop
  imports Renderer
begin

text \<open>
  The main loop of the client's window (\<open>run_sdl2_real\<close> of \<open>nidan-client/src/renderer/sdl.rs\<close>), turn by
  turn: the events, the pictures that wait, what is shown and the metrics; the loop of the build
  without SDL (\<open>run_sdl2_stub\<close>) and the metrics themselves (\<open>renderer/mod.rs\<close>).
\<close>

datatype connection_status = Connecting | Connected | Reconnecting | Disconnected

fun status_label :: "connection_status \<Rightarrow> string" where
  "status_label Connecting = ''Connexion...''"
| "status_label Connected = ''Connect'' @ [CHR 0xC3, CHR 0xA9]"
| "status_label Reconnecting = ''Reconnexion...''"
| "status_label Disconnected = ''D'' @ [CHR 0xC3, CHR 0xA9] @ ''connect'' @ [CHR 0xC3, CHR 0xA9]"

record render_metrics =
  rm_fps :: f32
  rm_frames_rendered :: u64
  rm_frames_dropped :: u64
  rm_decode_latency_us :: u32
  rm_last_frame_size :: u32
  rm_status :: connection_status

text \<open>The rate is a count divided by a time, here in microseconds, in single precision; \<open>R\<close> is this quotient.\<close>

definition default_render_metrics :: render_metrics where
  "default_render_metrics = \<lparr>rm_fps = F32 0, rm_frames_rendered = 0, rm_frames_dropped = 0,
    rm_decode_latency_us = 0, rm_last_frame_size = 0, rm_status = Connecting\<rparr>"

section \<open>The loop\<close>

text \<open>
  One turn: the events with whether their inputs find room, the pictures that wait, whether the
  channel of the pictures is found closed behind them, whether SDL accepts what it is asked for, and the
  time on the timer of the frame rate when it is looked at.
\<close>

record render_turn =
  rt_events :: "(sdl_event \<times> bool) list"
  rt_frames :: "decoded_frame list"
  rt_closed :: bool
  rt_accepted :: bool
  rt_timer_us :: nat

record render_state =
  rs_window :: window_state
  rs_texture :: "nat \<times> bytes"
  rs_metrics :: render_metrics
  rs_counter :: u64

text \<open>What the loop has done: the inputs it has sent, the pictures shown, the metrics published, and how it ended.\<close>

datatype render_end = StillOpen | Left | RendererFailed

record render_log =
  lg_inputs :: "client_event list"
  lg_shown :: "decoded_frame list"
  lg_published :: "render_metrics list"
  lg_end :: render_end

definition render_start ::
  "'f fit_ops \<Rightarrow> display_config \<Rightarrow> u32 \<Rightarrow> u32 \<Rightarrow> (u32 \<times> u32) option \<Rightarrow> (u32 \<Rightarrow> u32 \<Rightarrow> nat \<times> bytes) \<Rightarrow> render_state"
where
  "render_start F cfg w h output fresh =
    \<lparr>rs_window = window_start F cfg w h output, rs_texture = fresh w h, rs_metrics = default_render_metrics,
     rs_counter = 0\<rparr>"

text \<open>The metrics after a picture: what is published, and the state.\<close>

definition count_frame :: "(u64 \<Rightarrow> nat \<Rightarrow> f32) \<Rightarrow> nat \<Rightarrow> decoded_frame \<Rightarrow> render_state \<Rightarrow> render_metrics list \<times> render_state" where
  "count_frame R timer f s =
    (let n = rs_counter s + 1;
         m = (rs_metrics s)\<lparr>rm_frames_rendered := rm_frames_rendered (rs_metrics s) + 1,
           rm_decode_latency_us := decode_duration_us f\<rparr>
     in if 1000000 \<le> timer then
          (let m1 = m\<lparr>rm_fps := R n timer, rm_status := Connected\<rparr>
           in ([m1], s\<lparr>rs_metrics := m1, rs_counter := 0\<rparr>))
        else ([], s\<lparr>rs_metrics := m, rs_counter := n\<rparr>))"

definition render_one ::
  "'f fit_ops \<Rightarrow> (u64 \<Rightarrow> nat \<Rightarrow> f32) \<Rightarrow> (u32 \<Rightarrow> u32 \<Rightarrow> nat \<times> bytes) \<Rightarrow> render_turn \<Rightarrow> render_state \<Rightarrow> render_log \<times> render_state"
where
  "render_one F R fresh t s =
    (let (ins, fin, win) = event_loop F (rt_events t) (rs_window s); s1 = s\<lparr>rs_window := win\<rparr>;
         done = (\<lambda>how. \<lparr>lg_inputs = ins, lg_shown = [], lg_published = [], lg_end = how\<rparr>)
     in if fin \<or> rt_closed t then (done Left, s1)
        else (case latest_frame (rt_frames t) of
          None \<Rightarrow> (done StillOpen, s1)
        | Some f \<Rightarrow>
            if \<not> rt_accepted t then (done RendererFailed, s1)
            else
              (let (tex, win1) = show_frame F f fresh (rs_texture s1) win;
                   (pub, s2) = count_frame R (rt_timer_us t) f (s1\<lparr>rs_window := win1, rs_texture := tex\<rparr>)
               in (\<lparr>lg_inputs = ins, lg_shown = [f], lg_published = pub, lg_end = StillOpen\<rparr>, s2))))"

fun render_run ::
  "'f fit_ops \<Rightarrow> (u64 \<Rightarrow> nat \<Rightarrow> f32) \<Rightarrow> (u32 \<Rightarrow> u32 \<Rightarrow> nat \<times> bytes) \<Rightarrow> render_turn list \<Rightarrow> render_state \<Rightarrow> render_log \<times> render_state"
where
  "render_run F R fresh [] s = (\<lparr>lg_inputs = [], lg_shown = [], lg_published = [], lg_end = StillOpen\<rparr>, s)"
| "render_run F R fresh (t # ts) s =
    (let (l, s1) = render_one F R fresh t s in
     if lg_end l \<noteq> StillOpen then (l, s1)
     else (let (l2, s2) = render_run F R fresh ts s1
           in (\<lparr>lg_inputs = lg_inputs l @ lg_inputs l2, lg_shown = lg_shown l @ lg_shown l2,
                lg_published = lg_published l @ lg_published l2, lg_end = lg_end l2\<rparr>, s2)))"

section \<open>Without SDL\<close>

text \<open>A picture, a wait of a tenth of a second in vain, or the end of the channel.\<close>

datatype stub_wait = GotFrame decoded_frame | WaitedInVain | ChannelGone

fun stub_render_loop :: "u64 \<Rightarrow> stub_wait list \<Rightarrow> render_metrics list" where
  "stub_render_loop count [] = []"
| "stub_render_loop count (GotFrame f # es) =
    (if (count + 1) mod 60 = 0
     then [(default_render_metrics)\<lparr>rm_fps := F32 30, rm_frames_rendered := count + 1, rm_status := Connected\<rparr>]
     else []) @ stub_render_loop (count + 1) es"
| "stub_render_loop count (WaitedInVain # es) = stub_render_loop count es"
| "stub_render_loop count (ChannelGone # es) = []"

section \<open>What is shown\<close>

definition placed :: "'f fit_ops \<Rightarrow> window_state \<Rightarrow> bool" where
  "placed F s \<longleftrightarrow> ws_rect s = rect_compute F (stream_w s) (stream_h s) (win_w s) (win_h s) (ws_scaling s)"

lemma event_loop_placed:
  "placed F s \<Longrightarrow> placed F (snd (snd (event_loop F es s))) \<and> stream_w (snd (snd (event_loop F es s))) = stream_w s
    \<and> stream_h (snd (snd (event_loop F es s))) = stream_h s"
proof (induction es arbitrary: s)
  case (Cons x es)
  obtain e room where x: "x = (e, room)" by (cases x)
  have "placed F (window_event F e s) \<and> stream_w (window_event F e s) = stream_w s \<and> stream_h (window_event F e s) = stream_h s"
    using Cons.prems by (simp add: window_event_def placed_def place_def split: sdl_event.split)
  then show ?case using Cons.IH [of "window_event F e s"] Cons.prems
    by (simp add: x case_prod_unfold Let_def)
qed simp

text \<open>What one turn keeps and changes.\<close>

definition window_follows :: "'f fit_ops \<Rightarrow> render_state \<Rightarrow> decoded_frame list \<Rightarrow> render_state \<Rightarrow> bool" where
  "window_follows F s0 shown s \<longleftrightarrow> placed F (rs_window s)
    \<and> (stream_w (rs_window s), stream_h (rs_window s)) =
        (if shown = [] then (stream_w (rs_window s0), stream_h (rs_window s0)) else (df_width (last shown), df_height (last shown)))
    \<and> rm_frames_rendered (rs_metrics s) = rm_frames_rendered (rs_metrics s0) + word_of_nat (length shown)
    \<and> rm_frames_dropped (rs_metrics s) = rm_frames_dropped (rs_metrics s0)"

lemma window_follows_trans:
  "window_follows F s0 xs s1 \<Longrightarrow> window_follows F s1 ys s2 \<Longrightarrow> window_follows F s0 (xs @ ys) s2"
  by (auto simp: window_follows_def split: if_splits)

lemma count_frame_follows:
  "placed F (rs_window s) \<Longrightarrow> count_frame R timer f s = (pub, s1) \<Longrightarrow>
    rs_window s1 = rs_window s \<and> rs_texture s1 = rs_texture s
    \<and> rm_frames_rendered (rs_metrics s1) = rm_frames_rendered (rs_metrics s) + 1
    \<and> rm_frames_dropped (rs_metrics s1) = rm_frames_dropped (rs_metrics s)"
  by (auto simp: count_frame_def Let_def split: if_splits)

lemma show_frame_placed:
  "placed F w \<Longrightarrow> show_frame F f fresh tex w = (tex1, w1) \<Longrightarrow>
    placed F w1 \<and> stream_w w1 = df_width f \<and> stream_h w1 = df_height f"
  by (auto simp: show_frame_def Let_def placed_def place_def split: if_splits)

lemma render_one_follows:
  assumes "placed F (rs_window s)" and "render_one F R fresh t s = (l, s1)"
  shows "window_follows F s (lg_shown l) s1 \<and>
    lg_shown l = (if lg_end l = StillOpen \<and> rt_frames t \<noteq> [] then [last (rt_frames t)] else [])"
proof -
  obtain ins fin win where e: "event_loop F (rt_events t) (rs_window s) = (ins, fin, win)"
    by (cases "event_loop F (rt_events t) (rs_window s)")
  have win: "placed F win" "stream_w win = stream_w (rs_window s)" "stream_h win = stream_h (rs_window s)"
    using event_loop_placed [OF assms(1), of "rt_events t"] by (simp_all add: e)
  show ?thesis
  proof (cases "fin \<or> rt_closed t \<or> rt_frames t = [] \<or> \<not> rt_accepted t")
    case True
    then show ?thesis using assms(2) win
      by (auto simp: render_one_def e Let_def latest_frame_def window_follows_def split: if_splits)
  next
    case False
    define f where "f = last (rt_frames t)"
    obtain tex w1 where sf: "show_frame F f fresh (rs_texture s) win = (tex, w1)"
      by (cases "show_frame F f fresh (rs_texture s) win")
    obtain pub s2 where c: "count_frame R (rt_timer_us t) f (s\<lparr>rs_window := w1, rs_texture := tex\<rparr>) = (pub, s2)"
      by (cases "count_frame R (rt_timer_us t) f (s\<lparr>rs_window := w1, rs_texture := tex\<rparr>)")
    have r: "l = \<lparr>lg_inputs = ins, lg_shown = [f], lg_published = pub, lg_end = StillOpen\<rparr>" "s1 = s2"
      using assms(2) False by (auto simp: render_one_def e Let_def latest_frame_def f_def [symmetric] sf c)
    have "placed F (rs_window (s\<lparr>rs_window := w1, rs_texture := tex\<rparr>))"
      using show_frame_placed [OF win(1) sf] by simp
    from count_frame_follows [OF this c] show ?thesis
      using show_frame_placed [OF win(1) sf] False by (simp add: r window_follows_def f_def)
  qed
qed

lemma render_run_follows:
  assumes "placed F (rs_window s)" and "render_run F R fresh ts s = (l, s1)"
  shows "window_follows F s (lg_shown l) s1 \<and> (\<exists>k \<le> length ts. (lg_end l = StillOpen \<longrightarrow> k = length ts) \<and>
    lg_shown l = map last (filter (\<lambda>fs. fs \<noteq> []) (map rt_frames (take k ts))))"
  using assms
proof (induction ts arbitrary: s l)
  case Nil
  then show ?case by (auto simp: window_follows_def)
next
  case (Cons t ts)
  obtain l1 s2 where o: "render_one F R fresh t s = (l1, s2)" by (cases "render_one F R fresh t s")
  note one = render_one_follows [OF Cons.prems(1) o]
  show ?case
  proof (cases "lg_end l1 = StillOpen")
    case False
    then have r: "l = l1" "s1 = s2" using Cons.prems(2) by (auto simp: o)
    then show ?thesis using one False by (auto intro!: exI [of _ 0])
  next
    case True
    obtain l2 where r: "render_run F R fresh ts s2 = (l2, s1)"
      "lg_shown l = lg_shown l1 @ lg_shown l2" "lg_end l = lg_end l2"
      using Cons.prems(2) True by (cases "render_run F R fresh ts s2") (auto simp: o Let_def)
    have "placed F (rs_window s2)" using one by (simp add: window_follows_def)
    from Cons.IH [OF this r(1)] obtain k where k: "k \<le> length ts" "lg_end l2 = StillOpen \<longrightarrow> k = length ts"
      "lg_shown l2 = map last (filter (\<lambda>fs. fs \<noteq> []) (map rt_frames (take k ts)))"
      and f: "window_follows F s2 (lg_shown l2) s1" by blast
    have "window_follows F s (lg_shown l) s1" unfolding r(2) using window_follows_trans one f by blast
    moreover have "lg_shown l = map last (filter (\<lambda>fs. fs \<noteq> []) (map rt_frames (take (Suc k) (t # ts))))"
      using one True k(3) by (simp add: r(2))
    ultimately show ?thesis using k(1,2) by (intro conjI exI [of _ "Suc k"]) (simp_all add: r(3))
  qed
qed

text \<open>
  C36. The window shows, of the pictures that wait at each turn, the last one, in the order they came, until
  it is left; whatever is resized, the picture is where its own size and the window's put it; the
  count of shown pictures is right, and that of dropped ones stays zero however many are passed over.
\<close>

theorem window_shows_latest:
  assumes "render_run F R fresh ts (render_start F cfg w h output fresh) = (l, s)"
  shows "(\<exists>k \<le> length ts. (lg_end l = StillOpen \<longrightarrow> k = length ts) \<and>
      lg_shown l = map last (filter (\<lambda>fs. fs \<noteq> []) (map rt_frames (take k ts))))
    \<and> ws_rect (rs_window s) = rect_compute F (stream_w (rs_window s)) (stream_h (rs_window s))
        (win_w (rs_window s)) (win_h (rs_window s)) (ws_scaling (rs_window s))
    \<and> (stream_w (rs_window s), stream_h (rs_window s)) =
        (if lg_shown l = [] then (w, h) else (df_width (last (lg_shown l)), df_height (last (lg_shown l))))
    \<and> rm_frames_rendered (rs_metrics s) = word_of_nat (length (lg_shown l)) \<and> rm_frames_dropped (rs_metrics s) = 0"
proof -
  let ?s = "render_start F cfg w h output fresh"
  have s: "placed F (rs_window ?s)" "stream_w (rs_window ?s) = w" "stream_h (rs_window ?s) = h"
    "rm_frames_rendered (rs_metrics ?s) = 0" "rm_frames_dropped (rs_metrics ?s) = 0"
    by (auto simp: render_start_def window_start_def placed_def default_render_metrics_def Let_def case_prod_unfold)
  show ?thesis using render_run_follows [OF s(1) assms] by (simp add: window_follows_def s placed_def)
qed

definition demo_fit :: "nat fit_ops" where
  "demo_fit = \<lparr>fo_ratio = (\<lambda>a b. unat (a div b)), fo_min = min, fo_scale = (\<lambda>n r. n * word_of_nat r), fo_norm = (\<lambda>a b. F32 0)\<rparr>"

definition demo_picture :: "u64 \<Rightarrow> decoded_frame" where
  "demo_picture n = \<lparr>df_data = [1, 2, 3, 255], df_width = 1, df_height = 1, df_seq = n, df_pts_ms = 0,
    df_monitor_index = 0, decode_duration_us = 900\<rparr>"

definition demo_render_turn :: "decoded_frame list \<Rightarrow> render_turn" where
  "demo_render_turn fs = \<lparr>rt_events = [(SdlResized 4 2, True)], rt_frames = fs, rt_closed = False, rt_accepted = True,
    rt_timer_us = 500000\<rparr>"

lemma demo_turn_stays: "lg_end (fst (render_one F R fresh (demo_render_turn fs) x)) = StillOpen"
  by (simp add: render_one_def demo_render_turn_def is_escape_def Let_def latest_frame_def case_prod_unfold)

lemma demo_run_stays: "lg_end (fst (render_run F R fresh (map demo_render_turn fss) s)) = StillOpen"
proof (induction fss arbitrary: s)
  case (Cons fs fss)
  show ?case unfolding list.map render_run.simps case_prod_unfold Let_def demo_turn_stays using Cons by simp
qed simp

text \<open>Three pictures in two turns: the first is passed over and not counted as dropped.\<close>

theorem window_shows_latest_witness:
  "\<exists>l s. render_run demo_fit (\<lambda>n t. F32 1) (\<lambda>w h. (4, replicate 4 0))
      [demo_render_turn [demo_picture 1, demo_picture 2], demo_render_turn [demo_picture 3]]
      (render_start demo_fit (cc_display default_client_config) 2 2 None (\<lambda>w h. (4, replicate 4 0))) = (l, s)
    \<and> lg_shown l = [demo_picture 2, demo_picture 3] \<and> rm_frames_rendered (rs_metrics s) = 2
    \<and> rm_frames_dropped (rs_metrics s) = 0"
proof -
  let ?ts = "[demo_render_turn [demo_picture 1, demo_picture 2], demo_render_turn [demo_picture 3]]"
  let ?s = "render_start demo_fit (cc_display default_client_config) 2 2 None (\<lambda>w h. (4, replicate 4 0))"
  obtain l s where r: "render_run demo_fit (\<lambda>n t. F32 1) (\<lambda>w h. (4, replicate 4 0)) ?ts ?s = (l, s)"
    by (cases "render_run demo_fit (\<lambda>n t. F32 1) (\<lambda>w h. (4, replicate 4 0)) ?ts ?s")
  have e: "lg_end l = StillOpen"
    using demo_run_stays [of demo_fit "\<lambda>n t. F32 1" "\<lambda>w h. (4, replicate 4 0)" "[[demo_picture 1, demo_picture 2], [demo_picture 3]]" ?s]
    unfolding list.map r by simp
  have "lg_shown l = [demo_picture 2, demo_picture 3]"
    using window_shows_latest [OF r] e by (auto simp: demo_render_turn_def)
  then show ?thesis using r window_shows_latest [OF r] by auto
qed

end
