(* ===== verification/Injection.thy ===== *)
theory Injection
  imports Proto
begin

text \<open>
  The injection of inputs: the portal of the desktop in the agent
  (\<open>nidan-agent/src/remote_desktop.rs\<close>, \<open>portal_session.rs\<close>) and the XTEST extension of the X
  server (\<open>nidan-agent/src/input.rs\<close>).  What is sent to the portal or to the server is a list
  of actions.  Products of single-precision numbers are a parameter: \<open>scale x w\<close> is the number
  \<open>x\<close> times the width or height \<open>w\<close>, \<open>to_i16\<close> its conversion to 16 bits, and \<open>positive\<close> the test for
  a number greater than zero.
\<close>

section \<open>Key codes\<close>

text \<open>From the scan codes of SDL to the key codes of Linux; whatever is absent is not injected.\<close>

definition evdev_table :: "(u32 \<times> int) list" where
  "evdev_table = [
  (4, 30), (5, 48), (6, 46), (7, 32), (8, 18), (9, 33), (10, 34), (11, 35), (12, 23), (13, 36),
   (14, 37), (15, 38), (16, 50), (17, 49), (18, 24), (19, 25), (20, 16), (21, 19), (22, 31),
   (23, 20), (24, 22), (25, 47), (26, 17), (27, 45), (28, 21), (29, 44), (30, 2), (31, 3),
   (32, 4), (33, 5), (34, 6), (35, 7), (36, 8), (37, 9), (38, 10), (39, 11), (40, 28), (41, 1),
   (42, 14), (43, 15), (44, 57), (45, 12), (46, 13), (47, 26), (48, 27), (49, 43), (51, 39),
   (52, 40), (53, 41), (54, 51), (55, 52), (56, 53), (57, 58), (58, 59), (59, 60), (60, 61),
   (61, 62), (62, 63), (63, 64), (64, 65), (65, 66), (66, 67), (67, 68), (68, 87), (69, 88),
   (73, 110), (74, 102), (75, 104), (76, 111), (77, 107), (78, 109), (79, 106), (80, 105),
   (81, 108), (82, 103), (224, 29), (225, 42), (226, 56), (227, 125), (228, 97), (229, 54),
   (230, 100), (231, 126)]"

definition sdl_scancode_to_evdev :: "u32 \<Rightarrow> int option" where
  "sdl_scancode_to_evdev sc = map_of evdev_table sc"

text \<open>Keys of the system: power, sleep, wake-up, suspend, system request, restart and the like.\<close>

definition system_keys :: "int list" where
  "system_keys = [99, 116, 142, 143, 205, 408]"

lemma evdev_table_ok:
  "list_all (\<lambda>(sc, k). 1 \<le> k \<and> k \<le> 126 \<and> k \<notin> set system_keys) evdev_table"
  "distinct (map snd evdev_table)" "distinct (map fst evdev_table)"
  by (simp_all add: evdev_table_def system_keys_def)

lemma evdev_cases:
  assumes "sdl_scancode_to_evdev sc = Some k"
  shows "1 \<le> k \<and> k \<le> 126 \<and> k \<notin> set system_keys"
  using assms evdev_table_ok(1) unfolding sdl_scancode_to_evdev_def
  by (auto dest!: map_of_SomeD simp: list_all_iff)

lemma evdev_inj:
  assumes "sdl_scancode_to_evdev a = Some k" "sdl_scancode_to_evdev b = Some k"
  shows "a = b"
proof -
  have "(a, k) \<in> set evdev_table" "(b, k) \<in> set evdev_table"
    using assms by (auto simp: sdl_scancode_to_evdev_def dest: map_of_SomeD)
  then show ?thesis using evdev_table_ok(2) by (fastforce simp: distinct_map inj_on_def)
qed

section \<open>The portal\<close>

datatype 'n portal_action =
    KeyboardKeycode int bool
  | PointerMotionAbsolute u32 'n 'n
  | PointerButton int bool
  | PointerAxisDiscrete int

record 'n float_ops =
  scale :: "f32 \<Rightarrow> u32 \<Rightarrow> 'n"
  positive :: "f32 \<Rightarrow> bool"

definition evdev_button :: "int \<Rightarrow> int" where
  "evdev_button b = (if b = 1 then 0x110 else if b = 2 then 0x112 else if b = 3 then 0x111 else 0x110)"

definition apply_event :: "'n float_ops \<Rightarrow> u32 \<Rightarrow> u32 \<Rightarrow> u32 \<Rightarrow> input_event \<Rightarrow> 'n portal_action list" where
  "apply_event F node w h e =
    (case ie_event e of
      Some (KeyPayload k) \<Rightarrow>
        (case sdl_scancode_to_evdev (scancode k) of
          Some code \<Rightarrow> [KeyboardKeycode code (ie_type e = 1)]
        | None \<Rightarrow> [])
    | Some (MousePayload m) \<Rightarrow>
        (if ie_type e = 3 then [PointerMotionAbsolute node (scale F (mouse_x m) w) (scale F (mouse_y m) h)]
         else if ie_type e = 4 \<or> ie_type e = 5 then [PointerButton (evdev_button (button m)) (ie_type e = 4)]
         else if ie_type e = 6 then [PointerAxisDiscrete (if positive F (scroll_dy m) then - 1 else 1)]
         else [])
    | None \<Rightarrow> [])"

text \<open>The loop of the portal thread: every event of every batch, an injection that fails being
  only logged.\<close>

definition apply_batches :: "'n float_ops \<Rightarrow> u32 \<Rightarrow> u32 \<Rightarrow> u32 \<Rightarrow> input_batch list \<Rightarrow> 'n portal_action list" where
  "apply_batches F node w h batches = concat (map (apply_event F node w h) (concat batches))"

text \<open>The injector is a counter and the sending end of the thread's channel.\<close>

record portal_injector =
  pi_width :: u32
  pi_height :: u32
  pi_injected :: u64
  pi_sent :: "input_batch list"

definition from_shared_channel :: "u32 \<Rightarrow> u32 \<Rightarrow> portal_injector" where
  "from_shared_channel w h = \<lparr>pi_width = w, pi_height = h, pi_injected = 0, pi_sent = []\<rparr>"

text \<open>Whether the thread is alive decides the result; the count grows either way.\<close>

definition portal_inject_batch :: "bool \<Rightarrow> input_batch \<Rightarrow> portal_injector \<Rightarrow> bool \<times> portal_injector" where
  "portal_inject_batch alive batch i =
    (let i1 = i\<lparr>pi_injected := pi_injected i + word_of_nat (length batch)\<rparr> in
     if alive then (True, i1\<lparr>pi_sent := pi_sent i1 @ [batch]\<rparr>) else (False, i1))"

text \<open>The token that spares the authorisation dialogue: the trimmed text of a file, if any.\<close>

definition token_file :: "string option \<Rightarrow> string" where
  "token_file home = (case home of None \<Rightarrow> ''/tmp'' | Some h \<Rightarrow> h) @ ''/.local/state/nidan-agent/remotedesktop.token''"

definition read_token :: "string option \<Rightarrow> string option" where
  "read_token contents =
    (case contents of None \<Rightarrow> None | Some c \<Rightarrow> if trim c = [] then None else Some (trim c))"

section \<open>The X server\<close>

datatype 'i x_action = KeyPress u8 | KeyRelease u8 | Motion 'i 'i | ButtonPress u8 | ButtonRelease u8

definition clamp_button :: "int \<Rightarrow> u8" where
  "clamp_button b = (let u = (word_of_int b :: u8) in if u < 1 then 1 else if 5 < u then 5 else u)"

definition xtest_event :: "('n \<Rightarrow> 'i) \<Rightarrow> 'n float_ops \<Rightarrow> u32 \<Rightarrow> u32 \<Rightarrow> input_event \<Rightarrow> 'i x_action list" where
  "xtest_event to_i16 F w h e =
    (case ie_event e of
      Some (KeyPayload k) \<Rightarrow>
        [if ie_type e = 1 then KeyPress (ucast (keycode k) + 8) else KeyRelease (ucast (keycode k) + 8)]
    | Some (MousePayload m) \<Rightarrow>
        (if ie_type e = 3 then [Motion (to_i16 (scale F (mouse_x m) w)) (to_i16 (scale F (mouse_y m) h))]
         else if ie_type e = 4 then [ButtonPress (clamp_button (button m))]
         else if ie_type e = 5 then [ButtonRelease (clamp_button (button m))]
         else if ie_type e = 6 then
           (let b = if positive F (scroll_dy m) then 4 else 5 in [ButtonPress b, ButtonRelease b])
         else [])
    | None \<Rightarrow> [])"

section \<open>What can be injected\<close>

fun action_safe :: "'n portal_action \<Rightarrow> bool" where
  "action_safe (KeyboardKeycode k _) = (1 \<le> k \<and> k \<le> 126 \<and> k \<notin> set system_keys)"
| "action_safe (PointerButton b _) = (b \<in> {0x110, 0x111, 0x112})"
| "action_safe _ = True"

lemma apply_event_safe: "list_all action_safe (apply_event F node w h e)"
  by (auto simp: apply_event_def evdev_button_def dest!: evdev_cases split: option.split input_payload.split)

text \<open>
  C37. Whatever batches a client sends, the agent presses only ordinary keys and the three mouse
  buttons: no key that would power off, suspend or restart the machine.
\<close>

theorem only_ordinary_keys: "list_all action_safe (apply_batches F node w h batches)"
  using apply_event_safe [of F node w h] by (auto simp: apply_batches_def list_all_iff)

end
