(* ===== verification/Agent.thy ===== *)
theory Agent
  imports AgentLink Injection
begin

text \<open>
  The agent in a virtual machine (\<open>nidan-agent/src/config.rs\<close> and \<open>main.rs\<close>): configuration, the
  formats it announces, the waiting times between two attempts to reach the proxy, and what
  becomes of the commands of a session.
\<close>

section \<open>Configuration\<close>

record agent_vsock_config =
  host_cid :: u32
  av_port :: u32

record agent_capture_config =
  ac_backend :: string
  ac_max_fps :: u32

record agent_input_config =
  ai_backend :: string

record agent_config =
  ag_vsock :: agent_vsock_config
  ag_capture :: agent_capture_config
  ag_input :: agent_input_config

definition default_agent_vsock :: agent_vsock_config where
  "default_agent_vsock = \<lparr>host_cid = 2, av_port = 6100\<rparr>"

definition default_capture_fps :: u32 where "default_capture_fps = 30"

text \<open>A section without the field, and no section at all.\<close>

definition serde_default_input :: agent_input_config where
  "serde_default_input = \<lparr>ai_backend = ''remotedesktop''\<rparr>"

definition derived_default_input :: agent_input_config where
  "derived_default_input = \<lparr>ai_backend = ''''\<rparr>"

text \<open>Parsed values: an absent section or field is \<open>None\<close>.\<close>

definition resolve_input :: "string option option \<Rightarrow> agent_input_config" where
  "resolve_input sec =
    (case sec of
      None \<Rightarrow> derived_default_input
    | Some None \<Rightarrow> serde_default_input
    | Some (Some b) \<Rightarrow> \<lparr>ai_backend = b\<rparr>)"

section \<open>Start\<close>

definition announced_formats :: "capture_format \<Rightarrow> agent_pixel_format list" where
  "announced_formats f = (if f = Bgra8888 then [PfBgra8, PfRgba8] else [PfRgba8, PfBgra8])"

definition agent_side_of :: "string \<Rightarrow> agent_config \<Rightarrow> capturer_caps \<Rightarrow> agent_side" where
  "agent_side_of version cfg caps = \<lparr>ag_version = version, ag_formats = announced_formats (caps_format caps),
    ag_width = caps_width caps, ag_height = caps_height caps, ag_max_fps = ac_max_fps (ag_capture cfg)\<rparr>"

definition first_delay :: nat where "first_delay = 2"
definition max_delay :: nat where "max_delay = 30"

text \<open>The delays, in seconds, before each new attempt until one succeeds.\<close>

fun retry_delays :: "bool list \<Rightarrow> nat \<Rightarrow> nat list" where
  "retry_delays [] d = []"
| "retry_delays (ok # rest) d = (if ok then [] else d # retry_delays rest (min (d * 2) max_delay))"

definition negotiated_format :: "start_capture \<Rightarrow> agent_pixel_format" where
  "negotiated_format st = (case pixel_try_from (sc_format st) of None \<Rightarrow> PfBgra8 | Some f \<Rightarrow> f)"

definition capture_fps :: "agent_config \<Rightarrow> start_capture \<Rightarrow> u32" where
  "capture_fps cfg st = (if 0 < sc_target_fps st then sc_target_fps st else ac_max_fps (ag_capture cfg))"

section \<open>Injection\<close>

text \<open>There is an injector only with the portal backend and a shared portal session.\<close>

definition agent_injector :: "agent_config \<Rightarrow> (u32 \<times> u32) option \<Rightarrow> portal_injector option" where
  "agent_injector cfg shared =
    (if ai_backend (ag_input cfg) = ''remotedesktop''
     then map_option (\<lambda>(w, h). from_shared_channel w h) shared else None)"

text \<open>
  The commands of a session: the injector after them and whether the agent was told to stop.
  The portal thread stays alive.
\<close>

fun run_commands ::
  "(bytes \<Rightarrow> input_batch option) \<Rightarrow> proxy_command list \<Rightarrow> portal_injector option \<Rightarrow> portal_injector option \<times> bool"
where
  "run_commands parse [] i = (i, False)"
| "run_commands parse (CmdStop c # cs) i = (i, True)"
| "run_commands parse (CmdStart st # cs) i = run_commands parse cs i"
| "run_commands parse (CmdInputs b # cs) i =
    (case i of
      None \<Rightarrow> run_commands parse cs None
    | Some j \<Rightarrow>
        (case parse b of
          None \<Rightarrow> run_commands parse cs (Some j)
        | Some batch \<Rightarrow> run_commands parse cs (Some (snd (portal_inject_batch True batch j)))))"

section \<open>Properties\<close>

lemma delays_bounded: "d \<in> set (retry_delays oks d0) \<Longrightarrow> d0 \<le> max_delay \<Longrightarrow> d \<le> max_delay"
  by (induction oks arbitrary: d0) (auto simp: max_delay_def split: if_splits)

lemma announced_known: "f \<in> set (announced_formats c) \<Longrightarrow> pixel_try_from (pixel_code f) = Some f"
  by simp

lemma run_commands_inputs:
  assumes "\<And>b. b \<in> set bs \<Longrightarrow> parse b \<noteq> None"
  shows "run_commands parse (map CmdInputs bs) (Some i)
    = (Some (i\<lparr>pi_injected := pi_injected i + word_of_nat (length (concat (map (the \<circ> parse) bs))),
         pi_sent := pi_sent i @ map (the \<circ> parse) bs\<rparr>), False)"
  using assms
proof (induction bs arbitrary: i)
  case Nil
  then show ?case by simp
next
  case (Cons b bs)
  obtain x where "parse b = Some x" using Cons.prems [of b] by auto
  then show ?case using Cons by (simp add: portal_inject_batch_def Let_def algebra_simps)
qed

text \<open>Without an injector every batch is dropped.\<close>

lemma run_commands_none: "run_commands parse (map CmdInputs bs) None = (None, False)"
  by (induction bs) auto

end
