(* ===== verification/Portal.thy ===== *)
theory Portal
  imports Agent
begin

text \<open>
  The desktop portal of the agent (\<open>nidan-agent/src/portal_session.rs\<close>, \<open>remote_desktop.rs\<close> and
  \<open>capture/pipewire.rs\<close>): the calls that open a session, in their order, the token that spares
  the dialogue, and the thread that injects the inputs.  The portal decides from the calls made
  before, newest first, whether a call succeeds and what it returns.
\<close>

section \<open>The interface\<close>

record portal_stream =
  st_node :: u32
  st_fd :: nat
  st_width :: u32
  st_height :: u32

datatype persist_mode = DoNotPersist | ExplicitlyRevoked

datatype portal_call =
    NewRemoteDesktop
  | NewScreenCast
  | CreateSession
  | SelectDevices "string option" persist_mode
  | SelectSources "string option" persist_mode
  | StartSession
  | OpenPipeWireRemote

text \<open>The streams with their sizes, where given, and the token to keep.\<close>

record portal_reply =
  pr_streams :: "(u32 \<times> (32 word \<times> 32 word) option) list option"
  pr_token :: "string option"

record portal =
  po_ok :: "portal_call list \<Rightarrow> portal_call \<Rightarrow> bool"
  po_reply :: "portal_call list \<Rightarrow> portal_reply option"
  po_fd :: "portal_call list \<Rightarrow> nat"

datatype portal_error = CallFailed portal_call | NoReply | NoStream

type_synonym 'a po = "portal_call list \<Rightarrow> (portal_error, 'a) result \<times> portal_call list"

definition po_return :: "'a \<Rightarrow> 'a po" where
  "po_return a = (\<lambda>h. (Ok a, h))"

definition po_bind :: "'a po \<Rightarrow> ('a \<Rightarrow> 'b po) \<Rightarrow> 'b po" where
  "po_bind m f = (\<lambda>h. case m h of (Inl e, h') \<Rightarrow> (Err e, h') | (Inr a, h') \<Rightarrow> f a h')"

definition po_call :: "portal \<Rightarrow> portal_call \<Rightarrow> unit po" where
  "po_call P c = (\<lambda>h. (if po_ok P h c then Ok () else Err (CallFailed c), c # h))"

fun po_calls :: "portal \<Rightarrow> portal_call list \<Rightarrow> unit po" where
  "po_calls P [] = po_return ()"
| "po_calls P (c # cs) = po_bind (po_call P c) (\<lambda>_. po_calls P cs)"

definition po_read_reply :: "portal \<Rightarrow> portal_reply po" where
  "po_read_reply P = (\<lambda>h. (ok_or (po_reply P h) NoReply, h))"

definition first_stream :: "portal_reply \<Rightarrow> (u32 \<times> (32 word \<times> 32 word) option) option" where
  "first_stream r = (case pr_streams r of None \<Rightarrow> None | Some [] \<Rightarrow> None | Some (s # _) \<Rightarrow> Some s)"

text \<open>Sizes are cast from signed to unsigned; a stream without one counts as full HD.\<close>

definition stream_size :: "(32 word \<times> 32 word) option \<Rightarrow> u32 \<times> u32" where
  "stream_size s = (case s of None \<Rightarrow> (1920, 1080) | Some (w, h) \<Rightarrow> (w, h))"

section \<open>The session shared by capture and injection\<close>

definition shared_calls :: "string option \<Rightarrow> portal_call list" where
  "shared_calls saved = [NewRemoteDesktop, NewScreenCast, CreateSession, SelectDevices saved ExplicitlyRevoked,
    SelectSources None DoNotPersist, StartSession]"

text \<open>The first stream of a reply, opened.\<close>

definition open_stream :: "portal \<Rightarrow> portal_reply \<Rightarrow> portal_stream po" where
  "open_stream P r =
    (case first_stream r of
      None \<Rightarrow> (\<lambda>h. (Err NoStream, h))
    | Some (node, dims) \<Rightarrow>
        po_bind (po_call P OpenPipeWireRemote) (\<lambda>_ h.
          (Ok \<lparr>st_node = node, st_fd = po_fd P h, st_width = fst (stream_size dims), st_height = snd (stream_size dims)\<rparr>, h)))"

definition negotiate_shared :: "portal \<Rightarrow> string option \<Rightarrow> (portal_stream \<times> string option) po" where
  "negotiate_shared P saved =
    po_bind (po_calls P (shared_calls saved)) (\<lambda>_.
    po_bind (po_read_reply P) (\<lambda>r.
    po_bind (open_stream P r) (\<lambda>s. po_return (s, pr_token r))))"

text \<open>The thread: what it reports to its creator, and the injections for the batches it is sent.\<close>

definition portal_thread ::
  "'n float_ops \<Rightarrow> portal \<Rightarrow> string option \<Rightarrow> input_batch list \<Rightarrow> portal_call list \<Rightarrow>
    (portal_error, portal_stream \<times> string option) result \<times> 'n portal_action list \<times> portal_call list"
where
  "portal_thread F P saved batches h =
    (case negotiate_shared P saved h of
      (Inl e, h') \<Rightarrow> (Err e, [], h')
    | (Inr (s, tok), h') \<Rightarrow> (Ok (s, tok), apply_batches F (st_node s) (st_width s) (st_height s) batches, h'))"

section \<open>The token\<close>

type_synonym files = "string \<rightharpoonup> string"

definition load_token :: "string option \<Rightarrow> files \<Rightarrow> string option" where
  "load_token home fs = read_token (fs (token_file home))"

definition save_token :: "bool \<Rightarrow> string option \<Rightarrow> string \<Rightarrow> files \<Rightarrow> files" where
  "save_token writable home tok fs = (if writable then fs(token_file home \<mapsto> tok) else fs)"

definition wayland_backend :: "string \<Rightarrow> bool" where
  "wayland_backend b \<longleftrightarrow> b = ''wayland'' \<or> b = ''pipewire''"

text \<open>The start of the agent: the capabilities of the capturer and the stream it shares with the injector.\<close>

definition stream_caps :: "portal_stream \<Rightarrow> capturer_caps" where
  "stream_caps s = \<lparr>caps_width = st_width s, caps_height = st_height s, supports_xshm = False, supports_xdamage = False,
    caps_format = Bgra8888\<rparr>"

definition open_capture ::
  "portal \<Rightarrow> bool \<Rightarrow> string option \<Rightarrow> files \<Rightarrow> portal_call list \<Rightarrow>
    (portal_error, portal_stream) result \<times> files \<times> portal_call list"
where
  "open_capture P writable home fs h =
    (case negotiate_shared P (load_token home fs) h of
      (Inl e, h') \<Rightarrow> (Err e, fs, h')
    | (Inr (s, tok), h') \<Rightarrow>
        (Ok s, case tok of None \<Rightarrow> fs | Some t \<Rightarrow> save_token writable home t fs, h'))"

section \<open>The separate sessions\<close>

text \<open>
  Without the shared session the capturer and the injector each open their own; each reads and
  writes its token itself.  The injector does not insist on a stream.
\<close>

definition screencast_token_file :: "string option \<Rightarrow> string" where
  "screencast_token_file home =
    (case home of None \<Rightarrow> ''/tmp'' | Some h \<Rightarrow> h) @ ''/.local/state/nidan-agent/screencast.token''"

definition saved_or_read :: "string option \<Rightarrow> string \<Rightarrow> files \<Rightarrow> string option" where
  "saved_or_read given path fs = (case given of Some t \<Rightarrow> Some t | None \<Rightarrow> read_token (fs path))"

definition write_token :: "bool \<Rightarrow> string \<Rightarrow> string option \<Rightarrow> files \<Rightarrow> files" where
  "write_token writable path tok fs =
    (case tok of None \<Rightarrow> fs | Some t \<Rightarrow> if writable then fs(path \<mapsto> t) else fs)"

definition screencast_calls :: "string option \<Rightarrow> portal_call list" where
  "screencast_calls saved = [NewScreenCast, CreateSession, SelectSources saved ExplicitlyRevoked, StartSession]"

definition negotiate_screencast ::
  "portal \<Rightarrow> bool \<Rightarrow> string option \<Rightarrow> string option \<Rightarrow> files \<Rightarrow> portal_call list \<Rightarrow>
    (portal_error, portal_stream) result \<times> files \<times> portal_call list"
where
  "negotiate_screencast P writable home given fs h =
    (let path = screencast_token_file home in
     case po_bind (po_calls P (screencast_calls (saved_or_read given path fs))) (\<lambda>_. po_read_reply P) h of
       (Inl e, h1) \<Rightarrow> (Err e, fs, h1)
     | (Inr r, h1) \<Rightarrow>
         (let (res, h2) = open_stream P r h1 in (res, write_token writable path (pr_token r) fs, h2)))"

definition reply_node :: "portal_reply \<Rightarrow> u32" where
  "reply_node r = (case first_stream r of None \<Rightarrow> 0 | Some (n, _) \<Rightarrow> n)"

definition own_portal_thread ::
  "'n float_ops \<Rightarrow> portal \<Rightarrow> bool \<Rightarrow> string option \<Rightarrow> string option \<Rightarrow> u32 \<Rightarrow> u32 \<Rightarrow> input_batch list \<Rightarrow> files \<Rightarrow>
    portal_call list \<Rightarrow> (portal_error, u32) result \<times> 'n portal_action list \<times> files \<times> portal_call list"
where
  "own_portal_thread F P writable home given w ht batches fs h =
    (let path = token_file home in
     case po_bind (po_calls P (shared_calls (saved_or_read given path fs))) (\<lambda>_. po_read_reply P) h of
       (Inl e, h1) \<Rightarrow> (Err e, [], fs, h1)
     | (Inr r, h1) \<Rightarrow>
         (Ok (reply_node r), apply_batches F (reply_node r) w ht batches, write_token writable path (pr_token r) fs, h1))"

section \<open>The portal of the proxy-encoder\<close>

text \<open>Its copies keep no token: the screen is asked for with the one of the configuration, the devices with none.\<close>

definition proxy_negotiate_portal :: "portal \<Rightarrow> string option \<Rightarrow> portal_stream po" where
  "proxy_negotiate_portal P given =
    po_bind (po_calls P (screencast_calls given)) (\<lambda>_. po_bind (po_read_reply P) (open_stream P))"

definition proxy_device_calls :: "portal_call list" where
  "proxy_device_calls = [NewRemoteDesktop, NewScreenCast, CreateSession, SelectDevices None DoNotPersist,
    SelectSources None DoNotPersist, StartSession]"

definition proxy_portal_thread ::
  "'n float_ops \<Rightarrow> portal \<Rightarrow> u32 \<Rightarrow> u32 \<Rightarrow> input_batch list \<Rightarrow> portal_call list \<Rightarrow>
    (portal_error, u32) result \<times> 'n portal_action list \<times> portal_call list"
where
  "proxy_portal_thread F P w ht batches h =
    (case po_bind (po_calls P proxy_device_calls) (\<lambda>_. po_read_reply P) h of
      (Inl e, h1) \<Rightarrow> (Err e, [], h1)
    | (Inr r, h1) \<Rightarrow> (Ok (reply_node r), apply_batches F (reply_node r) w ht batches, h1))"

text \<open>
  An injector with a session of its own waits for what its thread reports; the batches it is then
  given go to the thread.
\<close>

definition own_injector_new ::
  "portal \<Rightarrow> bool \<Rightarrow> string option \<Rightarrow> string option \<Rightarrow> u32 \<Rightarrow> u32 \<Rightarrow> files \<Rightarrow> portal_call list \<Rightarrow>
    (portal_error, portal_injector) result \<times> files \<times> portal_call list"
where
  "own_injector_new P writable home given w ht fs h =
    (let path = token_file home in
     case po_bind (po_calls P (shared_calls (saved_or_read given path fs))) (\<lambda>_. po_read_reply P) h of
       (Inl e, h1) \<Rightarrow> (Err e, fs, h1)
     | (Inr r, h1) \<Rightarrow> (Ok (from_shared_channel w ht), write_token writable path (pr_token r) fs, h1))"

definition proxy_injector_new ::
  "portal \<Rightarrow> u32 \<Rightarrow> u32 \<Rightarrow> portal_call list \<Rightarrow> (portal_error, portal_injector) result \<times> portal_call list"
where
  "proxy_injector_new P w ht h =
    (case po_bind (po_calls P proxy_device_calls) (\<lambda>_. po_read_reply P) h of
      (Inl e, h1) \<Rightarrow> (Err e, h1)
    | (Inr r, h1) \<Rightarrow> (Ok (from_shared_channel w ht), h1))"

definition proxy_inject_batch :: "bool \<Rightarrow> input_batch \<Rightarrow> portal_injector \<Rightarrow> bool \<times> portal_injector" where
  "proxy_inject_batch alive batch i = portal_inject_batch alive batch i"

text \<open>The proxy's copy of the translation is the agent's.\<close>

definition proxy_apply_event :: "'n float_ops \<Rightarrow> u32 \<Rightarrow> u32 \<Rightarrow> u32 \<Rightarrow> input_event \<Rightarrow> 'n portal_action list" where
  "proxy_apply_event F node w h e = apply_event F node w h e"

lemma proxy_thread_actions:
  "proxy_portal_thread F P w ht batches h = (Ok node, acts, h') \<Longrightarrow>
    acts = concat (map (proxy_apply_event F node w ht) (concat batches))"
  by (auto simp: proxy_portal_thread_def apply_batches_def proxy_apply_event_def [abs_def] split: prod.splits sum.splits)

section \<open>The capturer\<close>

record pw_capturer =
  pwc_caps :: capturer_caps
  pwc_node :: u32
  pwc_fd :: "nat option"

definition pw_capturer_of :: "portal_stream \<Rightarrow> pw_capturer" where
  "pw_capturer_of s = \<lparr>pwc_caps = stream_caps s, pwc_node = st_node s, pwc_fd = Some (st_fd s)\<rparr>"

text \<open>A start takes the descriptor; a second one finds none.\<close>

definition pw_start :: "pw_capturer \<Rightarrow> nat option \<times> pw_capturer" where
  "pw_start c = (pwc_fd c, c\<lparr>pwc_fd := None\<rparr>)"

end
