(* ===== verification/PipeWire.thy ===== *)
theory PipeWire
  imports Capture
begin

text \<open>
  The PipeWire capturer (\<open>capture/pipewire.rs\<close> of the agent and of the proxy-encoder): what the
  callback makes of each buffer of the stream, and the main loop, which the shut-down ends
  through a timer.
\<close>

text \<open>A buffer comes with the clock when it is handled and what the channel answers to a frame.
  It may hold no data, or data that is not mapped.\<close>

datatype buffer_data = NoDatas | Unmapped u32 | Mapped u32 bytes

record pw_buffer =
  pb_now :: u64
  pb_data :: buffer_data
  pb_answer :: try_send_answer

record pw_state =
  pw_last :: u64
  pw_seq :: u64

definition pw_init :: pw_state where
  "pw_init = \<lparr>pw_last = 0, pw_seq = 0\<rparr>"

text \<open>Microseconds between two frames; none without a limit.\<close>

definition min_interval_us :: "u32 \<Rightarrow> u64" where
  "min_interval_us fps = (if 0 < fps then 1000000 div ucast fps else 0)"

definition sat_diff :: "u64 \<Rightarrow> u64 \<Rightarrow> u64" where
  "sat_diff a b = (if b \<le> a then a - b else 0)"

definition pw_stride :: "u32 \<Rightarrow> u32 \<Rightarrow> nat \<Rightarrow> u32" where
  "pw_stride w h n =
    (let s = (if 0 < h then word_of_nat n div h else w * 4) in if 0 < s then s else w * 4)"

definition pw_frame :: "u32 \<Rightarrow> u32 \<Rightarrow> u64 \<Rightarrow> u64 \<Rightarrow> bytes \<Rightarrow> raw_frame" where
  "pw_frame w h now seq pixels =
    \<lparr>rf_data = pixels, rf_width = w, rf_height = h, rf_stride = pw_stride w h (length pixels), rf_timestamp_us = now,
     rf_seq = seq, rf_keyframe = True, damage_rects = [], source_cid = None\<rparr>"

definition pw_process :: "u32 \<Rightarrow> u32 \<Rightarrow> u32 \<Rightarrow> pw_buffer \<Rightarrow> pw_state \<Rightarrow> raw_frame option \<times> pw_state" where
  "pw_process w h fps b st =
    (case pb_data b of
      Mapped chunk mem \<Rightarrow>
        (if 0 < min_interval_us fps \<and> sat_diff (pb_now b) (pw_last st) < min_interval_us fps then (None, st)
         else (Some (pw_frame w h (pb_now b) (pw_seq st) (take (min (unat chunk) (length mem)) mem)),
           \<lparr>pw_last = pb_now b, pw_seq = pw_seq st + 1\<rparr>))
    | _ \<Rightarrow> (None, st))"

text \<open>The main loop: a buffer, or a tick of the timer with whether the shut-down was asked for.  An
  unarmed timer does not tick.  The frames made come with the answer of the channel (a frame that does not
  fit is lost); the result also says whether the loop has returned.\<close>

datatype pw_event = PwBuffer pw_buffer | PwTick bool

fun pw_loop ::
  "bool \<Rightarrow> u32 \<Rightarrow> u32 \<Rightarrow> u32 \<Rightarrow> pw_event list \<Rightarrow> pw_state \<Rightarrow> (raw_frame \<times> try_send_answer) list \<times> bool"
where
  "pw_loop armed w h fps [] st = ([], False)"
| "pw_loop armed w h fps (PwTick stop # es) st =
    (if armed \<and> stop then ([], True) else pw_loop armed w h fps es st)"
| "pw_loop armed w h fps (PwBuffer b # es) st =
    (let (r, st') = pw_process w h fps b st; (fs, ended) = pw_loop armed w h fps es st'
     in ((case r of None \<Rightarrow> fs | Some f \<Rightarrow> (f, pb_answer b) # fs), ended))"

definition delivered_frames :: "(raw_frame \<times> try_send_answer) list \<Rightarrow> raw_frame list" where
  "delivered_frames fs = map fst (filter (\<lambda>(_, a). a = Sent) fs)"

definition agent_pw_loop :: "u32 \<Rightarrow> u32 \<Rightarrow> u32 \<Rightarrow> pw_event list \<Rightarrow> (raw_frame \<times> try_send_answer) list \<times> bool" where
  "agent_pw_loop w h fps es = pw_loop True w h fps es pw_init"

definition proxy_pw_loop :: "u32 \<Rightarrow> u32 \<Rightarrow> u32 \<Rightarrow> pw_event list \<Rightarrow> (raw_frame \<times> try_send_answer) list \<times> bool" where
  "proxy_pw_loop w h fps es = pw_loop False w h fps es pw_init"

end
