(* ===== verification/LocalCapture.thy ===== *)
theory LocalCapture
  imports Portal PipeWire
begin

text \<open>
  The capturers that read a screen of their own: \<open>X11Capturer\<close> (\<open>capture/x11.rs\<close>, the same in the
  agent and in the proxy-encoder) with its construction, its pace and its end, \<open>StubCapturer\<close>
  (\<open>capture/mod.rs\<close>), and the choice the agent makes (\<open>nidan-agent/src/capture/mod.rs\<close>, \<open>main.rs\<close>).
  The X server is a record of what it answers.
\<close>

section \<open>The X11 capturer\<close>

record x_display =
  xs_root :: "u32 \<Rightarrow> (u16 \<times> u16) option"
  xs_shm :: bool
  xs_damage :: bool
  xs_geometry :: bool

record x11_capturer =
  xc_caps :: capturer_caps
  xc_display :: u32
  xc_shm :: bool
  xc_damage :: bool

definition x11_new_real :: "x_display \<Rightarrow> u32 \<Rightarrow> bool \<Rightarrow> bool \<Rightarrow> x11_capturer option" where
  "x11_new_real X display shm dam =
    (case xs_root X display of
      None \<Rightarrow> None
    | Some (w, h) \<Rightarrow>
        if \<not> xs_geometry X then None
        else Some \<lparr>xc_caps = \<lparr>caps_width = ucast w, caps_height = ucast h, supports_xshm = shm \<and> xs_shm X,
              supports_xdamage = dam \<and> xs_damage X, caps_format = Bgra8888\<rparr>,
            xc_display = display, xc_shm = shm \<and> xs_shm X, xc_damage = dam \<and> xs_damage X\<rparr>)"

definition x11_new :: "build_features \<Rightarrow> x_display \<Rightarrow> u32 \<Rightarrow> bool \<Rightarrow> bool \<Rightarrow> x11_capturer option" where
  "x11_new ft X display shm dam =
    (if x11_capture ft then x11_new_real X display shm dam
     else Some \<lparr>xc_caps = \<lparr>caps_width = 1920, caps_height = 1080, supports_xshm = False, supports_xdamage = False,
         caps_format = Bgra8888\<rparr>, xc_display = display, xc_shm = False, xc_damage = False\<rparr>)"

text \<open>
  One turn of a loop: whether the shut-down was asked for; the time since the last frame, in
  microseconds, when the loop looks at it; how much longer than asked it sleeps; the time stamp, the
  image the X server returns, and what the channel answers.
\<close>

record capture_turn =
  ct_cancelled :: bool
  ct_elapsed :: nat
  ct_late :: nat
  ct_stamp :: u64
  ct_image :: "bytes option"
  ct_answer :: try_send_answer

definition frame_duration_us :: "u32 \<Rightarrow> nat" where
  "frame_duration_us fps = 1000000 div max (unat fps) 1"

text \<open>The frames made, each with the moment its image was read.\<close>

fun x11_loop_real ::
  "capturer_caps \<Rightarrow> u32 \<Rightarrow> nat \<Rightarrow> u64 \<Rightarrow> capture_turn list \<Rightarrow> (nat \<times> raw_frame \<times> try_send_answer) list"
where
  "x11_loop_real c fps last_frame seq [] = []"
| "x11_loop_real c fps last_frame seq (t # ts) =
    (if ct_cancelled t then []
     else
       let woken = last_frame + max (ct_elapsed t) (frame_duration_us fps) + ct_late t in
       case Option.bind (ct_image t) (x11_frame c fps (ct_stamp t) seq) of
         None \<Rightarrow> x11_loop_real c fps woken seq ts
       | Some f \<Rightarrow> (woken, f, ct_answer t) #
           (if ct_answer t = ChannelClosed then [] else x11_loop_real c fps woken (seq + 1) ts))"

definition stub_interval_us :: "u32 \<Rightarrow> nat" where
  "stub_interval_us fps = 1000 * (1000 div max (unat fps) 1)"

fun x11_loop_stub ::
  "capturer_caps \<Rightarrow> u32 \<Rightarrow> nat \<Rightarrow> u64 \<Rightarrow> capture_turn list \<Rightarrow> (nat \<times> raw_frame \<times> try_send_answer) list"
where
  "x11_loop_stub c fps now seq [] = []"
| "x11_loop_stub c fps now seq (t # ts) =
    (if ct_cancelled t then []
     else
       let woken = now + ct_elapsed t + stub_interval_us fps + ct_late t in
       (woken, x11_stub_frame c (ct_stamp t) seq, ct_answer t) #
         (if ct_answer t = Sent then x11_loop_stub c fps woken (seq + 1) ts else []))"

text \<open>The real loop connects a second time, in its own thread; without a connection it ends with an error.\<close>

definition x11_start ::
  "build_features \<Rightarrow> x_display \<Rightarrow> x11_capturer \<Rightarrow> u32 \<Rightarrow> capture_turn list \<Rightarrow> (nat \<times> raw_frame \<times> try_send_answer) list option"
where
  "x11_start ft X k fps ts =
    (if x11_capture ft then
       (if xs_root X (xc_display k) = None then None else Some (x11_loop_real (xc_caps k) fps 0 0 ts))
     else Some (x11_loop_stub (xc_caps k) fps 0 0 ts))"

definition sent_frames :: "(nat \<times> raw_frame \<times> try_send_answer) list \<Rightarrow> raw_frame list" where
  "sent_frames fs = map (\<lambda>(t, f, a). f) (filter (\<lambda>(t, f, a). a = Sent) fs)"

section \<open>The stub capturer\<close>

text \<open>It waits until a frame is taken, so a frame is only refused when the channel is closed.\<close>

datatype stub_event = StubCancelled | StubTick u64 bool

fun stub_capturer_loop :: "u64 \<Rightarrow> stub_event list \<Rightarrow> raw_frame list" where
  "stub_capturer_loop seq [] = []"
| "stub_capturer_loop seq (StubCancelled # es) = []"
| "stub_capturer_loop seq (StubTick now taken # es) =
    (if taken then stub_frame now seq # stub_capturer_loop (seq + 1) es else [])"

section \<open>The screen of an agent\<close>

text \<open>The features of the agent; it declares none for X11.\<close>

record agent_features =
  af_pipewire :: bool
  af_remotedesktop :: bool

definition agent_build :: "agent_features \<Rightarrow> build_features" where
  "agent_build ft = \<lparr>vsock_source = False, pipewire_capture = af_pipewire ft, x11_capture = False\<rparr>"

datatype agent_screen = PortalScreen pw_capturer | XScreen x11_capturer

datatype screen_error = PortalNotCompiled | PortalFailed portal_error | XServerFailed

definition agent_create_capturer ::
  "agent_features \<Rightarrow> x_display \<Rightarrow> portal \<Rightarrow> bool \<Rightarrow> string option \<Rightarrow> string \<Rightarrow> u32 \<Rightarrow> bool \<Rightarrow> bool \<Rightarrow> string option \<Rightarrow>
    files \<Rightarrow> portal_call list \<Rightarrow> (screen_error, agent_screen) result \<times> files \<times> portal_call list"
where
  "agent_create_capturer ft X P writable home backend display shm dam given fs h =
    (if wayland_backend backend then
       (if af_pipewire ft then
          (case negotiate_screencast P writable home given fs h of
            (Inl e, fs', h') \<Rightarrow> (Err (PortalFailed e), fs', h')
          | (Inr s, fs', h') \<Rightarrow> (Ok (PortalScreen (pw_capturer_of s)), fs', h'))
        else (Err PortalNotCompiled, fs, h))
     else
       (case x11_new (agent_build ft) X display shm dam of
         None \<Rightarrow> (Err XServerFailed, fs, h)
       | Some k \<Rightarrow> (Ok (XScreen k), fs, h)))"

text \<open>The start of the agent: with both features the portal session is shared with the injector.\<close>

definition agent_open_screen ::
  "agent_features \<Rightarrow> x_display \<Rightarrow> portal \<Rightarrow> bool \<Rightarrow> string option \<Rightarrow> agent_config \<Rightarrow> files \<Rightarrow> portal_call list \<Rightarrow>
    (screen_error, agent_screen \<times> (u32 \<times> u32) option) result \<times> files \<times> portal_call list"
where
  "agent_open_screen ft X P writable home cfg fs h =
    (let backend = ac_backend (ag_capture cfg) in
     if af_pipewire ft \<and> af_remotedesktop ft \<and> wayland_backend backend then
       (case open_capture P writable home fs h of
         (Inl e, fs', h') \<Rightarrow> (Err (PortalFailed e), fs', h')
       | (Inr s, fs', h') \<Rightarrow> (Ok (PortalScreen (pw_capturer_of s), Some (st_width s, st_height s)), fs', h'))
     else
       (let (r, fs', h') = agent_create_capturer ft X P writable home backend 0 False False None fs h
        in (bind_result r (\<lambda>s. Ok (s, None)), fs', h')))"

definition screen_caps :: "agent_screen \<Rightarrow> capturer_caps" where
  "screen_caps s = (case s of PortalScreen k \<Rightarrow> pwc_caps k | XScreen k \<Rightarrow> xc_caps k)"

text \<open>The frames of a session, given what happens to the stream of the portal and to the loop.\<close>

definition agent_capture ::
  "agent_features \<Rightarrow> x_display \<Rightarrow> agent_screen \<Rightarrow> u32 \<Rightarrow> pw_event list \<Rightarrow> capture_turn list \<Rightarrow> raw_frame list"
where
  "agent_capture ft X s fps pws ts =
    (case s of
      PortalScreen k \<Rightarrow>
        (case fst (pw_start k) of
          None \<Rightarrow> []
        | Some fd \<Rightarrow> delivered_frames (fst (agent_pw_loop (caps_width (pwc_caps k)) (caps_height (pwc_caps k)) fps pws)))
    | XScreen k \<Rightarrow> (case x11_start (agent_build ft) X k fps ts of None \<Rightarrow> [] | Some fs \<Rightarrow> sent_frames fs))"

text \<open>What the agent writes to the proxy, given what the proxy writes to it.\<close>

definition agent_writes ::
  "msg_codec \<Rightarrow> string \<Rightarrow> agent_config \<Rightarrow> agent_features \<Rightarrow> x_display \<Rightarrow> agent_screen \<Rightarrow> pw_event list \<Rightarrow>
    capture_turn list \<Rightarrow> bytes \<Rightarrow> bytes"
where
  "agent_writes C version cfg ft X s pws ts input =
    send_framed C (Some (MHello (hello_of (agent_side_of version cfg (screen_caps s))))) @
    (case connect_and_handshake C input of
      Inl e \<Rightarrow> []
    | Inr (st, r) \<Rightarrow> agent_frames C (negotiated_format st) (agent_capture ft X s (capture_fps cfg st) pws ts))"

end
