(* ===== verification/VsockProps.thy ===== *)
theory VsockProps
  imports Vsock "HOL-Library.Sublist"
begin

text \<open>
  The vsock service refines a system of mailboxes, in which batches of inputs reach only the
  machine they were sent to, in order; frames are filtered by machine; and two orders of events
  in which a session's inputs are lost.
\<close>

section \<open>Ownership of channels\<close>

definition owned :: "u32 \<Rightarrow> nat \<Rightarrow> vsock_service \<Rightarrow> bool" where
  "owned cid i v \<longleftrightarrow> i < length (chans v) \<and> ch_cid (chans v ! i) = Some cid"

definition usable :: "u32 option \<Rightarrow> nat \<Rightarrow> vsock_service \<Rightarrow> bool" where
  "usable c i v \<longleftrightarrow> i < length (chans v) \<and> (ch_cid (chans v ! i) = None \<or> ch_cid (chans v ! i) = c)"

definition extends :: "vsock_service \<Rightarrow> vsock_service \<Rightarrow> bool" where
  "extends v w \<longleftrightarrow> length (chans v) \<le> length (chans w)
    \<and> (\<forall>i < length (chans v). ch_cid (chans w ! i) = ch_cid (chans v ! i))"

lemma extends_same: "chans w = chans v \<Longrightarrow> extends v w"
  by (simp add: extends_def)

lemma extends_trans: "extends u v \<Longrightarrow> extends v w \<Longrightarrow> extends u w"
  by (fastforce simp: extends_def)

lemma extends_owned: "extends v w \<Longrightarrow> owned c i v \<Longrightarrow> owned c i w"
  by (fastforce simp: extends_def owned_def)

lemma extends_usable: "extends v w \<Longrightarrow> usable c i v \<Longrightarrow> usable c i w"
  by (fastforce simp: extends_def usable_def)

lemma extends_update:
  "chans w = (chans v)[i := x] \<Longrightarrow> ch_cid x = ch_cid (chans v ! i) \<Longrightarrow> extends v w"
  by (cases "i < length (chans v)") (auto simp: extends_def nth_list_update)

lemma chans_new [simp]: "chans (snd (new_chan cid v)) = chans v @ [\<lparr>ch_cid = Some cid, ch_queue = [], ch_open = True\<rparr>]"
  "fst (new_chan cid v) = length (chans v)"
  by (simp_all add: new_chan_def)

lemma extends_append: "chans w = chans v @ xs \<Longrightarrow> extends v w"
  by (simp add: extends_def nth_append)

lemma extends_drop: "extends v (drop_receiver i v)"
  by (rule extends_update [where i = i and x = "(chans v ! i)\<lparr>ch_queue := [], ch_open := False\<rparr>"])
    (simp_all add: drop_receiver_def)

lemma chans_notify [simp]: "chans (notify_agent_disconnect cid v) = chans v"
  by (simp add: notify_agent_disconnect_def split: option.splits)

lemma maps_notify [simp]:
  "cid_input_txs (notify_agent_disconnect cid v) = cid_input_txs v"
  "cid_input_rxs (notify_agent_disconnect cid v) = cid_input_rxs v"
  by (simp_all add: notify_agent_disconnect_def split: option.splits)

lemma maps_drop [simp]:
  "cid_input_txs (drop_receiver i v) = cid_input_txs v"
  "cid_input_rxs (drop_receiver i v) = cid_input_rxs v"
  by (simp_all add: drop_receiver_def)

lemma set_update_sub: "set (AList.update k v m) \<subseteq> insert (k, v) (set m)"
  by (induction m) auto

text \<open>Every channel held under a CID was made for it.\<close>

definition maps_ok :: "vsock_service \<Rightarrow> bool" where
  "maps_ok v \<longleftrightarrow> (\<forall>(c, i) \<in> set (cid_input_rxs v) \<union> set (cid_input_txs v). owned c i v)"

definition vinv :: "vsys \<Rightarrow> bool" where
  "vinv s \<longleftrightarrow> maps_ok (svc s) \<and> (\<forall>c. usable c 0 (svc s))
    \<and> (\<forall>c i. (c, Some i) \<in> set (regs s) \<longrightarrow> owned c i (svc s))
    \<and> (\<forall>(c, i) \<in> set (injectors s). usable c i (svc s))
    \<and> (\<forall>(c, i) \<in> set (agents s). owned c i (svc s))"

lemma vinv_service:
  assumes "vinv s" "extends (svc s) v" "maps_ok v"
  shows "vinv (s\<lparr>svc := v\<rparr>)"
  using assms extends_owned [OF assms(2)] extends_usable [OF assms(2)]
  unfolding vinv_def by fastforce

lemma maps_ok_same:
  assumes "maps_ok v" "extends v w" "set (cid_input_rxs w) \<subseteq> set (cid_input_rxs v)"
    "set (cid_input_txs w) \<subseteq> set (cid_input_txs v)"
  shows "maps_ok w"
  using assms extends_owned [OF assms(2)] unfolding maps_ok_def by fastforce

lemma vinv_weaken:
  assumes "vinv s" "set (regs t) \<subseteq> set (regs s)" "set (injectors t) \<subseteq> set (injectors s)"
    "set (agents t) \<subseteq> set (agents s)" "svc t = svc s"
  shows "vinv t"
  using assms unfolding vinv_def by (auto simp: subset_iff)

subsection \<open>What each operation does to the channels\<close>

lemma put_rx_spec:
  assumes "register_put_rx cid v = (ch, w)" "maps_ok v"
  shows "extends v w \<and> maps_ok w \<and> owned cid ch w"
proof -
  obtain v1 where v1: "new_chan cid v = (ch, v1)" using assms(1)
    by (auto simp: register_put_rx_def Let_def split: prod.splits)
  have ch: "ch = length (chans v)" and c1: "chans v1 = chans v @ [\<lparr>ch_cid = Some cid, ch_queue = [], ch_open = True\<rparr>]"
    and m1: "cid_input_txs v1 = cid_input_txs v" "cid_input_rxs v1 = cid_input_rxs v"
    using v1 by (auto simp: new_chan_def)
  define v2 where "v2 = (case map_of (cid_input_rxs v) cid of None \<Rightarrow> v1 | Some old \<Rightarrow> drop_receiver old v1)"
  have w: "w = v2\<lparr>cid_input_rxs := AList.update cid ch (cid_input_rxs v2)\<rparr>"
    using assms(1) v1 by (auto simp: register_put_rx_def v2_def Let_def)
  have e1: "extends v v1" using c1 by (rule extends_append)
  have e2: "extends v1 v2" using extends_drop extends_same by (auto simp: v2_def split: option.splits)
  have e: "extends v w" "extends v1 w"
    using extends_trans [OF e1 e2] e2 by (auto simp: w extends_def)
  have o1: "owned cid ch v1" by (simp add: owned_def ch c1)
  have m2: "cid_input_txs v2 = cid_input_txs v" "cid_input_rxs v2 = cid_input_rxs v"
    by (auto simp: v2_def m1 split: option.splits)
  have "maps_ok w" unfolding maps_ok_def
  proof (rule ballI)
    fix p assume p: "p \<in> set (cid_input_rxs w) \<union> set (cid_input_txs w)"
    show "case p of (c, i) \<Rightarrow> owned c i w"
    proof (cases "p = (cid, ch)")
      case True
      then show ?thesis using extends_owned [OF e(2) o1] by simp
    next
      case False
      then have "p \<in> set (cid_input_rxs v) \<union> set (cid_input_txs v)"
        using p set_update_sub [of cid ch "cid_input_rxs v"] by (auto simp: w m2)
      then show ?thesis using assms(2) extends_owned [OF e(1)] unfolding maps_ok_def by blast
    qed
  qed
  then show ?thesis using e extends_owned [OF e(2) o1] by blast
qed

lemma put_tx_spec:
  assumes "maps_ok v" "owned cid ch v"
  shows "extends v (register_put_tx cid ch v) \<and> maps_ok (register_put_tx cid ch v)"
proof -
  have e: "extends v (register_put_tx cid ch v)" by (rule extends_same) (simp add: register_put_tx_def)
  have "(c, i) \<in> set (cid_input_rxs (register_put_tx cid ch v)) \<union> set (cid_input_txs (register_put_tx cid ch v)) \<Longrightarrow>
      (c, i) = (cid, ch) \<or> (c, i) \<in> set (cid_input_rxs v) \<union> set (cid_input_txs v)" for c i
    using set_update_sub [of cid ch "cid_input_txs v"] by (auto simp: register_put_tx_def)
  then show ?thesis
    using assms e extends_owned [OF e] unfolding maps_ok_def by fastforce
qed

lemma accept_spec:
  assumes "accept_agent cid v = (ch, w)" "maps_ok v"
  shows "extends v w \<and> maps_ok w \<and> owned cid ch w"
proof (cases "map_of (cid_input_rxs v) cid")
  case (Some i)
  then have w: "w = v\<lparr>cid_input_rxs := AList.delete cid (cid_input_rxs v)\<rparr>" "ch = i"
    using assms(1) by (auto simp: accept_agent_def)
  have e: "extends v w" by (rule extends_same) (simp add: w)
  have "maps_ok w" by (rule maps_ok_same [OF assms(2) e]) (auto simp: w delete_set)
  moreover have "owned cid i v" using assms(2) map_of_SomeD [OF Some] unfolding maps_ok_def by blast
  ultimately show ?thesis using e extends_owned w(2) by blast
next
  case None
  obtain v1 where v1: "new_chan cid v = (ch, v1)" and w: "w = register_put_tx cid ch v1"
    using assms(1) None by (auto simp: accept_agent_def register_put_tx_def split: prod.splits)
  have c1: "chans v1 = chans v @ [\<lparr>ch_cid = Some cid, ch_queue = [], ch_open = True\<rparr>]" "ch = length (chans v)"
    and m1: "cid_input_txs v1 = cid_input_txs v" "cid_input_rxs v1 = cid_input_rxs v"
    using v1 by (auto simp: new_chan_def)
  have e1: "extends v v1" using c1(1) by (rule extends_append)
  have o1: "owned cid ch v1" by (simp add: owned_def c1)
  have "maps_ok v1" by (rule maps_ok_same [OF assms(2) e1]) (simp_all add: m1)
  then show ?thesis
    using put_tx_spec [OF _ o1] extends_trans [OF e1] extends_owned [OF _ o1] w by blast
qed

lemma send_spec:
  assumes "try_send i b v = (Sent, w)"
  shows "extends v w" "cid_input_rxs w = cid_input_rxs v" "cid_input_txs w = cid_input_txs v"
    "ch_open (chans v ! i)" "chans w = (chans v)[i := (chans v ! i)\<lparr>ch_queue := ch_queue (chans v ! i) @ [b]\<rparr>]"
proof -
  show c: "chans w = (chans v)[i := (chans v ! i)\<lparr>ch_queue := ch_queue (chans v ! i) @ [b]\<rparr>]"
    using assms by (auto simp: try_send_def Let_def split: if_splits)
  show "extends v w" by (rule extends_update [OF c]) simp
qed (use assms in \<open>auto simp: try_send_def Let_def split: if_splits\<close>)

lemma relay_spec:
  assumes "relay_next i v = Some (b, w)"
  obtains q where "ch_queue (chans v ! i) = b # q" "chans w = (chans v)[i := (chans v ! i)\<lparr>ch_queue := q\<rparr>]"
    "extends v w" "cid_input_rxs w = cid_input_rxs v" "cid_input_txs w = cid_input_txs v"
proof -
  obtain q where q: "ch_queue (chans v ! i) = b # q"
    and w: "w = v\<lparr>chans := (chans v)[i := (chans v ! i)\<lparr>ch_queue := q\<rparr>]\<rparr>"
    using assms by (auto simp: relay_next_def split: list.splits)
  have "extends v w"
    by (rule extends_update [where i = i and x = "(chans v ! i)\<lparr>ch_queue := q\<rparr>"]) (simp_all add: w)
  then show thesis using that q w by simp
qed

lemma injector_usable:
  assumes "maps_ok v" "\<forall>c. usable c 0 v"
  shows "usable c (injector_chan c v) v"
proof (cases "Option.bind c (\<lambda>k. get_input_tx_for_cid k v)")
  case None
  then show ?thesis using assms(2) by (simp add: injector_chan_def inputs_tx_def)
next
  case (Some i)
  then obtain k where k: "c = Some k" "map_of (cid_input_txs v) k = Some i"
    by (cases c) (auto simp: get_input_tx_for_cid_def)
  then have "(k, i) \<in> set (cid_input_txs v)" by (simp add: map_of_SomeD)
  then have "owned k i v" using assms(1) unfolding maps_ok_def by fastforce
  then show ?thesis using k Some by (simp add: injector_chan_def owned_def usable_def)
qed

lemma vinv_init: "vinv vsys_init"
  by (simp add: vinv_def vsys_init_def service_start_def maps_ok_def usable_def)

lemma vinvD:
  assumes "vinv s"
  shows "maps_ok (svc s)" "usable c 0 (svc s)"
    "(k, Some i) \<in> set (regs s) \<Longrightarrow> owned k i (svc s)"
    "(c, i) \<in> set (injectors s) \<Longrightarrow> usable c i (svc s)"
    "(k, i) \<in> set (agents s) \<Longrightarrow> owned k i (svc s)"
  using assms unfolding vinv_def by auto

lemma vinv_step: "vstep s t \<Longrightarrow> vinv s \<Longrightarrow> vinv t"
proof (induction rule: vstep.induct)
  case (look cid s)
  then show ?case unfolding vinv_def by auto
next
  case (put_rx cid s ch v)
  note sp = put_rx_spec [OF put_rx(2) vinvD(1) [OF put_rx(3)]]
  have v: "vinv (s\<lparr>svc := v\<rparr>)" using vinv_service [OF put_rx(3)] sp by blast
  have "(c, Some i) \<in> set ((cid, Some ch) # remove1 (cid, None) (regs s)) \<Longrightarrow> owned c i v" for c i
    using sp vinvD(3) [OF v, of c i] notin_set_remove1 by (fastforce dest: notin_set_remove1)
  then show ?case using v unfolding vinv_def by simp
next
  case (put_tx cid ch s)
  have "vinv (s\<lparr>svc := register_put_tx cid ch (svc s)\<rparr>)"
    using vinv_service [OF put_tx(2)] put_tx_spec [OF vinvD(1) [OF put_tx(2)] vinvD(3) [OF put_tx(2) put_tx(1)]]
    by blast
  then show ?case by (rule vinv_weaken) (simp_all add: set_remove1_subset)
next
  case (inject s c)
  then show ?case using injector_usable [OF vinvD(1)] unfolding vinv_def by auto
next
  case (send c ch s b v)
  have "vinv (s\<lparr>svc := v\<rparr>)"
    using vinv_service [OF send(3) send_spec(1) [OF send(2)]]
      maps_ok_same [OF vinvD(1) [OF send(3)] send_spec(1) [OF send(2)]] send_spec(2,3) [OF send(2)] by simp
  then show ?case by (rule vinv_weaken) auto
next
  case (connect cid s ch v)
  note sp = accept_spec [OF connect(1) vinvD(1) [OF connect(2)]]
  have v: "vinv (s\<lparr>svc := v\<rparr>)" using vinv_service [OF connect(2)] sp by blast
  then show ?case using sp unfolding vinv_def by auto
next
  case (relay cid ch s b v)
  obtain q where q: "extends (svc s) v" "cid_input_rxs v = cid_input_rxs (svc s)"
      "cid_input_txs v = cid_input_txs (svc s)"
    using relay_spec [OF relay(2)] by metis
  have "vinv (s\<lparr>svc := v\<rparr>)"
    using vinv_service [OF relay(3) q(1)] maps_ok_same [OF vinvD(1) [OF relay(3)] q(1)] q by simp
  then show ?case by (rule vinv_weaken) auto
next
  case (leave cid ch s)
  have e: "extends (svc s) (agent_session_end cid ch (svc s))"
    using extends_drop [of "svc s" ch] by (simp add: agent_session_end_def extends_def)
  have "maps_ok (agent_session_end cid ch (svc s))"
    by (rule maps_ok_same [OF vinvD(1) [OF leave(2)] e]) (simp_all add: agent_session_end_def)
  then have "vinv (s\<lparr>svc := agent_session_end cid ch (svc s)\<rparr>)" using vinv_service [OF leave(2) e] by blast
  then show ?case by (rule vinv_weaken) (simp_all add: set_remove1_subset)
next
  case (watch s cid)
  let ?v = "snd (subscribe_agent_disconnect cid (svc s))"
  have e: "extends (svc s) ?v" by (rule extends_same) (simp add: subscribe_agent_disconnect_def)
  show ?case using vinv_service [OF watch e]
      maps_ok_same [OF vinvD(1) [OF watch] e] by (simp add: subscribe_agent_disconnect_def)
next
  case (greet s c)
  have e: "extends (svc s) (publish_caps c (svc s))" by (rule extends_same) (simp add: publish_caps_def)
  show ?case using vinv_service [OF greet e]
      maps_ok_same [OF vinvD(1) [OF greet] e] by (simp add: publish_caps_def)
qed

lemma vinv_reachable: "vstep\<^sup>*\<^sup>* vsys_init s \<Longrightarrow> vinv s"
  by (induction rule: rtranclp_induct) (auto intro: vinv_init vinv_step)

section \<open>Refinement\<close>

lemma mail_svc [simp]:
  "boxes (mail_of s) = map box_of (chans (svc s))" "posted (mail_of s) = sent_log s" "taken (mail_of s) = relay_log s"
  by (simp_all add: mail_of_def)

lemma mail_of_same:
  "chans (svc t) = chans (svc s) \<Longrightarrow> sent_log t = sent_log s \<Longrightarrow> relay_log t = relay_log s \<Longrightarrow> mail_of t = mail_of s"
  by (simp add: mail_of_def)

lemma mstep_drop:
  assumes "chans (svc t) = chans (drop_receiver i (svc s))" "sent_log t = sent_log s" "relay_log t = relay_log s"
    and "i < length (chans (svc s))"
  shows "mstep (mail_of s) (mail_of t)"
proof -
  have "mail_of t = (mail_of s)\<lparr>boxes := (boxes (mail_of s))[i := (boxes (mail_of s) ! i)\<lparr>mb_queue := [], mb_open := False\<rparr>]\<rparr>"
    using assms by (simp add: mail_of_def drop_receiver_def map_update box_of_def)
  then show ?thesis using m_shut [of i "mail_of s"] assms(4) by simp
qed

lemma mstep_new:
  assumes "chans (svc t) = chans (svc s) @ [\<lparr>ch_cid = w, ch_queue = [], ch_open = True\<rparr>]"
    "sent_log t = sent_log s" "relay_log t = relay_log s"
  shows "mstep (mail_of s) (mail_of t)"
proof -
  have "mail_of t = (mail_of s)\<lparr>boxes := boxes (mail_of s) @ [\<lparr>mb_owner = w, mb_queue = [], mb_open = True\<rparr>]\<rparr>"
    using assms by (simp add: mail_of_def box_of_def)
  then show ?thesis using m_new [of "mail_of s" w] by simp
qed

lemma refine_step:
  assumes "vstep s t" "vinv s"
  shows "mstep\<^sup>*\<^sup>* (mail_of s) (mail_of t)"
  using assms
proof (induction rule: vstep.induct)
  case (put_rx cid s ch v)
  obtain v1 where v1: "new_chan cid (svc s) = (ch, v1)" using put_rx(2)
    by (auto simp: register_put_rx_def Let_def split: prod.splits)
  have c1: "chans v1 = chans (svc s) @ [\<lparr>ch_cid = Some cid, ch_queue = [], ch_open = True\<rparr>]"
    using v1 by (auto simp: new_chan_def)
  have step1: "mstep (mail_of s) (mail_of (s\<lparr>svc := v1\<rparr>))" using mstep_new c1 by simp
  show ?case
  proof (cases "map_of (cid_input_rxs (svc s)) cid")
    case None
    then have "chans v = chans v1" using put_rx(2) v1 by (auto simp: register_put_rx_def Let_def)
    then have "mail_of (s\<lparr>svc := v, regs := (cid, Some ch) # remove1 (cid, None) (regs s)\<rparr>) = mail_of (s\<lparr>svc := v1\<rparr>)"
      by (intro mail_of_same) simp_all
    then show ?thesis using step1 by simp
  next
    case (Some old)
    then have c2: "chans v = chans (drop_receiver old v1)"
      using put_rx(2) v1 by (auto simp: register_put_rx_def Let_def)
    have "(cid, old) \<in> set (cid_input_rxs (svc s))" using Some by (simp add: map_of_SomeD)
    then have "owned cid old (svc s)" using vinvD(1) [OF put_rx(3)] unfolding maps_ok_def by fastforce
    then have "old < length (chans v1)" by (simp add: owned_def c1)
    then have "mstep (mail_of (s\<lparr>svc := v1\<rparr>))
        (mail_of (s\<lparr>svc := v, regs := (cid, Some ch) # remove1 (cid, None) (regs s)\<rparr>))"
      using c2 by (intro mstep_drop [where i = old]) simp_all
    then show ?thesis using step1 by (meson r_into_rtranclp rtranclp_trans)
  qed
next
  case (send c ch s b v)
  have u: "usable c ch (svc s)" using vinvD(4) [OF send(3,1)] .
  have "mail_of (s\<lparr>svc := v, sent_log := sent_log s @ [(ch, c, b)]\<rparr>)
      = (mail_of s)\<lparr>boxes := (boxes (mail_of s))[ch := (boxes (mail_of s) ! ch)\<lparr>mb_queue := mb_queue (boxes (mail_of s) ! ch) @ [b]\<rparr>],
          posted := posted (mail_of s) @ [(ch, c, b)]\<rparr>"
    using send_spec(5) [OF send(2)] u by (simp add: mail_of_def map_update box_of_def usable_def)
  then show ?case
    using m_post [of ch "mail_of s" c b] u send_spec(4) [OF send(2)]
    by (auto simp: usable_def box_of_def intro!: r_into_rtranclp)
next
  case (connect cid s ch v)
  show ?case
  proof (cases "map_of (cid_input_rxs (svc s)) cid")
    case None
    then have "chans v = chans (svc s) @ [\<lparr>ch_cid = Some cid, ch_queue = [], ch_open = True\<rparr>]"
      using connect(1) by (auto simp: accept_agent_def new_chan_def)
    then show ?thesis by (intro r_into_rtranclp mstep_new) simp_all
  next
    case (Some i)
    then have "chans v = chans (svc s)" using connect(1) by (auto simp: accept_agent_def)
    then have "mail_of (s\<lparr>svc := v, agents := (cid, ch) # agents s\<rparr>) = mail_of s" by (intro mail_of_same) simp_all
    then show ?thesis by simp
  qed
next
  case (relay cid ch s b v)
  obtain q where q: "ch_queue (chans (svc s) ! ch) = b # q"
      "chans v = (chans (svc s))[ch := (chans (svc s) ! ch)\<lparr>ch_queue := q\<rparr>]"
    using relay_spec [OF relay(2)] by metis
  have o: "owned cid ch (svc s)" using vinvD(5) [OF relay(3,1)] .
  have "mail_of (s\<lparr>svc := v, relay_log := relay_log s @ [(ch, cid, b)]\<rparr>)
      = (mail_of s)\<lparr>boxes := (boxes (mail_of s))[ch := (boxes (mail_of s) ! ch)\<lparr>mb_queue := q\<rparr>],
          taken := taken (mail_of s) @ [(ch, cid, b)]\<rparr>"
    using q(2) o by (simp add: mail_of_def map_update box_of_def owned_def)
  then show ?case
    using m_take [of ch "mail_of s" cid b q] o q(1)
    by (auto simp: owned_def box_of_def intro!: r_into_rtranclp)
next
  case (leave cid ch s)
  have "owned cid ch (svc s)" using vinvD(5) [OF leave(2,1)] .
  then have "mstep (mail_of s)
      (mail_of (s\<lparr>svc := agent_session_end cid ch (svc s), agents := remove1 (cid, ch) (agents s)\<rparr>))"
    by (intro mstep_drop [where i = ch]) (simp_all add: agent_session_end_def owned_def)
  then show ?case ..
qed (simp_all add: mail_of_def register_put_tx_def subscribe_agent_disconnect_def publish_caps_def)

text \<open>
  C14. The vsock service implements the mailboxes: every step of the service and its users, the
  interleavings inside a registration included, is a sequence of mailbox steps (or none).
\<close>

theorem vsock_refines_mailboxes:
  assumes "vstep\<^sup>*\<^sup>* vsys_init s" "vstep s t"
  shows "mstep\<^sup>*\<^sup>* (mail_of s) (mail_of t)"
  using refine_step [OF assms(2) vinv_reachable [OF assms(1)]] .

section \<open>Delivery\<close>

definition posts_at :: "nat \<Rightarrow> mailboxes \<Rightarrow> (u32 option \<times> bytes) list" where
  "posts_at i m = map snd (filter (\<lambda>e. fst e = i) (posted m))"

definition takes_at :: "nat \<Rightarrow> mailboxes \<Rightarrow> (u32 \<times> bytes) list" where
  "takes_at i m = map snd (filter (\<lambda>e. fst e = i) (taken m))"

text \<open>
  For a box: what was posted is what was taken, what waits and, once the box is shut, what was
  lost; posts and takes respect the owner.
\<close>

definition box_ok :: "nat \<Rightarrow> mailboxes \<Rightarrow> bool" where
  "box_ok i m \<longleftrightarrow>
    (if i < length (boxes m) then
      (\<exists>lost. map snd (posts_at i m) = map snd (takes_at i m) @ mb_queue (boxes m ! i) @ lost
        \<and> (mb_open (boxes m ! i) \<longrightarrow> lost = []))
      \<and> (\<forall>(c, b) \<in> set (posts_at i m). mb_owner (boxes m ! i) = None \<or> mb_owner (boxes m ! i) = c)
      \<and> (\<forall>(c, b) \<in> set (takes_at i m). mb_owner (boxes m ! i) = Some c)
     else posts_at i m = [] \<and> takes_at i m = [])"

lemma box_ok_other:
  assumes "box_ok j m" "posts_at j m' = posts_at j m" "takes_at j m' = takes_at j m"
    "length (boxes m') = length (boxes m)" "boxes m' ! j = boxes m ! j"
  shows "box_ok j m'"
  using assms by (simp add: box_ok_def)

lemma box_ok_step: "mstep m m' \<Longrightarrow> (\<And>i. box_ok i m) \<Longrightarrow> box_ok j m'"
proof (induction rule: mstep.induct)
  case (m_new m w)
  let ?m = "m\<lparr>boxes := boxes m @ [\<lparr>mb_owner = w, mb_queue = [], mb_open = True\<rparr>]\<rparr>"
  have same: "posts_at j ?m = posts_at j m" "takes_at j ?m = takes_at j m"
    by (simp_all add: posts_at_def takes_at_def)
  consider "j < length (boxes m)" | "j = length (boxes m)" | "length (boxes m) < j" by linarith
  then show ?case
  proof cases
    case 1
    then show ?thesis using m_new [of j] same by (simp add: box_ok_def nth_append)
  next
    case 2
    then show ?thesis using m_new [of j] same by (simp add: box_ok_def)
  next
    case 3
    then show ?thesis using m_new [of j] same by (simp add: box_ok_def)
  qed
next
  case (m_post i m c b)
  show ?case
  proof (cases "i = j")
    case False
    show ?thesis by (rule box_ok_other [OF m_post(4)]) (use False in \<open>simp_all add: posts_at_def takes_at_def\<close>)
  next
    case True
    have "map snd (posts_at i m) = map snd (takes_at i m) @ mb_queue (boxes m ! i)"
      using m_post(4) [of i] m_post(1,2) by (auto simp: box_ok_def)
    then show ?thesis using m_post(4) [of i] m_post(1,2,3) True
      by (auto simp: box_ok_def posts_at_def takes_at_def)
  qed
next
  case (m_take i m cid b q)
  show ?case
  proof (cases "i = j")
    case False
    show ?thesis by (rule box_ok_other [OF m_take(4)]) (use False in \<open>simp_all add: posts_at_def takes_at_def\<close>)
  next
    case True
    then show ?thesis using m_take(4) [of i] m_take(1,2,3)
      by (auto simp: box_ok_def posts_at_def takes_at_def)
  qed
next
  case (m_shut i m)
  show ?case
  proof (cases "i = j")
    case False
    show ?thesis by (rule box_ok_other [OF m_shut(2)]) (use False in \<open>simp_all add: posts_at_def takes_at_def\<close>)
  next
    case True
    then show ?thesis using m_shut(2) [of i] m_shut(1)
      by (auto simp: box_ok_def posts_at_def takes_at_def)
  qed
qed

lemma box_ok_steps: "mstep\<^sup>*\<^sup>* m m' \<Longrightarrow> (\<And>i. box_ok i m) \<Longrightarrow> box_ok j m'"
  by (induction arbitrary: j rule: rtranclp_induct) (auto intro: box_ok_step)

lemma box_ok_init: "box_ok i (mail_of vsys_init)"
  by (simp add: box_ok_def mail_of_def vsys_init_def service_start_def posts_at_def takes_at_def box_of_def)

lemma mail_reachable: "vstep\<^sup>*\<^sup>* vsys_init s \<Longrightarrow> mstep\<^sup>*\<^sup>* (mail_of vsys_init) (mail_of s)"
proof (induction rule: rtranclp_induct)
  case (step s t)
  then show ?case using refine_step vinv_reachable by (meson rtranclp_trans)
qed simp

definition sent_on :: "nat \<Rightarrow> vsys \<Rightarrow> bytes list" where
  "sent_on i s = map (\<lambda>(_, _, b). b) (filter (\<lambda>(k, _, _). k = i) (sent_log s))"

definition relayed_on :: "nat \<Rightarrow> vsys \<Rightarrow> bytes list" where
  "relayed_on i s = map (\<lambda>(_, _, b). b) (filter (\<lambda>(k, _, _). k = i) (relay_log s))"

lemma reachable_box:
  assumes "vstep\<^sup>*\<^sup>* vsys_init s"
  shows "box_ok i (mail_of s)"
  using box_ok_steps [OF mail_reachable [OF assms] box_ok_init] .

lemma logs_at:
  "map snd (posts_at i (mail_of s)) = sent_on i s" "map snd (takes_at i (mail_of s)) = relayed_on i s"
  by (simp_all add: posts_at_def takes_at_def sent_on_def relayed_on_def case_prod_unfold comp_def)

lemma prefix_of_box:
  assumes "vstep\<^sup>*\<^sup>* vsys_init s"
  shows "prefix (relayed_on i s) (sent_on i s)"
proof (cases "i < length (boxes (mail_of s))")
  case True
  then obtain lost where "map snd (posts_at i (mail_of s))
      = map snd (takes_at i (mail_of s)) @ mb_queue (boxes (mail_of s) ! i) @ lost"
    using reachable_box [OF assms, of i] unfolding box_ok_def by auto
  then show ?thesis unfolding logs_at by (simp add: prefix_def)
next
  case False
  then have "posts_at i (mail_of s) = []" "takes_at i (mail_of s) = []"
    using reachable_box [OF assms, of i] unfolding box_ok_def by simp_all
  then show ?thesis using logs_at [of i s] by simp
qed

lemma owner_of_relayed:
  assumes "vstep\<^sup>*\<^sup>* vsys_init s" "(i, cid, b) \<in> set (relay_log s)" "(i, c, b') \<in> set (sent_log s)"
  shows "c = Some cid"
proof -
  have t: "(cid, b) \<in> set (takes_at i (mail_of s))" using assms(2) by (force simp: takes_at_def)
  have p: "(c, b') \<in> set (posts_at i (mail_of s))" using assms(3) by (force simp: posts_at_def)
  note box = reachable_box [OF assms(1), of i, unfolded box_ok_def]
  have len: "i < length (boxes (mail_of s))" using box t by (auto split: if_splits)
  then have "mb_owner (boxes (mail_of s) ! i) = Some cid" using box t by fastforce
  then show ?thesis using box p len by fastforce
qed

text \<open>
  C10. Inputs reach their own machine: on every channel the batches relayed to an agent are a
  prefix of those the sessions sent on it (none lost, repeated or out of order), and what
  the agent of one CID receives was sent by sessions whose token carries that CID, in every
  interleaving of sessions and agents.
\<close>

theorem inputs_reach_own_vm:
  assumes "vstep\<^sup>*\<^sup>* vsys_init s"
  shows "prefix (relayed_on i s) (sent_on i s)
    \<and> filter (\<lambda>((j, cid, _), (k, c, _)). j = k \<and> c \<noteq> Some cid) (List.product (relay_log s) (sent_log s)) = []"
  using prefix_of_box [OF assms] owner_of_relayed [OF assms] by (fastforce simp: filter_empty_conv)

section \<open>A run\<close>

text \<open>The agent of CID 10 connects, a session for it sends one batch, the agent receives it.\<close>

definition demo_chans :: "bytes list \<Rightarrow> vsock_service" where
  "demo_chans q = service_start\<lparr>cid_input_txs := [(10, 1)],
    chans := [\<lparr>ch_cid = None, ch_queue = [], ch_open = True\<rparr>, \<lparr>ch_cid = Some 10, ch_queue = q, ch_open = True\<rparr>]\<rparr>"

definition demo_sent :: vsys where
  "demo_sent = \<lparr>svc = demo_chans [[7]], regs = [], injectors = [(Some 10, 1)], agents = [(10, 1)],
    sent_log = [(1, Some 10, [7])], relay_log = []\<rparr>"

definition demo_relayed :: vsys where
  "demo_relayed = demo_sent\<lparr>svc := demo_chans [], relay_log := [(1, 10, [7])]\<rparr>"

lemma demo_run: "vstep\<^sup>*\<^sup>* vsys_init demo_sent" "vstep demo_sent demo_relayed"
proof -
  let ?a = "\<lparr>svc = demo_chans [], regs = [], injectors = [], agents = [(10, 1)], sent_log = [], relay_log = []\<rparr>"
  have 1: "vstep vsys_init ?a"
    using vstep.connect [of 10 vsys_init 1 "demo_chans []"]
    by (simp add: vsys_init_def accept_agent_def service_start_def new_chan_def demo_chans_def)
  have 2: "vstep ?a (?a\<lparr>injectors := [(Some 10, 1)]\<rparr>)"
    using vstep.inject [of ?a "Some 10"]
    by (simp add: injector_chan_def get_input_tx_for_cid_def demo_chans_def)
  have 3: "vstep (?a\<lparr>injectors := [(Some 10, 1)]\<rparr>) demo_sent"
    using vstep.send [of "Some 10" 1 "?a\<lparr>injectors := [(Some 10, 1)]\<rparr>" "[7]" "demo_chans [[7]]"]
    by (simp add: try_send_def demo_chans_def channel_capacity_def demo_sent_def)
  have "vstep\<^sup>*\<^sup>* ?a demo_sent"
    by (rule converse_rtranclp_into_rtranclp, rule 2, rule r_into_rtranclp, rule 3)
  with 1 show "vstep\<^sup>*\<^sup>* vsys_init demo_sent" by (rule converse_rtranclp_into_rtranclp)
  show "vstep demo_sent demo_relayed"
    using vstep.relay [of 10 1 demo_sent "[7]" "demo_chans []"]
    by (simp add: demo_sent_def relay_next_def demo_chans_def demo_relayed_def)
qed

theorem vsock_refines_mailboxes_witness:
  "mstep\<^sup>*\<^sup>* (mail_of demo_sent) (mail_of demo_relayed) \<and> taken (mail_of demo_relayed) = [(1, 10, [7])]"
  using vsock_refines_mailboxes [OF demo_run] by (simp add: demo_relayed_def)

theorem inputs_reach_own_vm_witness:
  "prefix (relayed_on 1 demo_relayed) (sent_on 1 demo_relayed) \<and> relayed_on 1 demo_relayed = [[7]]"
proof -
  have "vstep\<^sup>*\<^sup>* vsys_init demo_relayed" using demo_run by (rule rtranclp.rtrancl_into_rtrancl)
  from inputs_reach_own_vm [OF this, of 1] show ?thesis
    by (simp add: relayed_on_def demo_relayed_def demo_sent_def)
qed

section \<open>Inputs that are lost\<close>

definition send_all :: "nat \<Rightarrow> bytes list \<Rightarrow> vsock_service \<Rightarrow> vsock_service" where
  "send_all ch bs v = fold (\<lambda>b v. snd (try_send ch b v)) bs v"

lemma try_send_other: "i \<noteq> ch \<Longrightarrow> chans (snd (try_send ch b v)) ! i = chans v ! i"
  by (simp add: try_send_def Let_def)

lemma send_all_other: "i \<noteq> ch \<Longrightarrow> chans (send_all ch bs v) ! i = chans v ! i"
  by (induction bs arbitrary: v) (simp_all add: send_all_def try_send_other)

text \<open>
  A registration that looks up the senders before the agent of its CID connects, and inserts
  its channel after, splits the two: the session's injector sends on one channel and the agent
  reads another, so that no batch of the session reaches the agent.
\<close>

theorem register_race_loses_inputs:
  assumes "get_input_tx_for_cid cid v = None" "map_of (cid_input_rxs v) cid = None"
    and "accept_agent cid v = (a, v1)"
    and "register_put_rx cid v1 = (ch, v2)"
  shows "injector_chan (Some cid) (register_put_tx cid ch v2) = ch
    \<and> relay_next a (send_all ch bs (register_put_tx cid ch v2)) = None"
proof -
  have a: "a = length (chans v)" and v1: "chans v1 = chans v @ [\<lparr>ch_cid = Some cid, ch_queue = [], ch_open = True\<rparr>]"
      "cid_input_rxs v1 = cid_input_rxs v"
    using assms(2,3) by (auto simp: accept_agent_def new_chan_def)
  have ch: "ch = length (chans v1)" and v2: "chans v2 = chans v1 @ [\<lparr>ch_cid = Some cid, ch_queue = [], ch_open = True\<rparr>]"
    using assms(2,4) v1(2) by (auto simp: register_put_rx_def new_chan_def Let_def)
  have "ch_queue (chans (register_put_tx cid ch v2) ! a) = []"
    by (simp add: register_put_tx_def v1(1) v2 a nth_append)
  moreover have "a \<noteq> ch" by (simp add: a ch v1(1))
  ultimately have "relay_next a (send_all ch bs (register_put_tx cid ch v2)) = None"
    by (simp add: relay_next_def send_all_other)
  then show ?thesis
    by (simp add: injector_chan_def get_input_tx_for_cid_def register_put_tx_def update_conv')
qed

theorem register_race_loses_inputs_witness:
  "relay_next 1 (send_all 2 [[1], [2]]
    (register_put_tx 10 2 (snd (register_put_rx 10 (snd (accept_agent 10 service_start)))))) = None"
proof -
  have "get_input_tx_for_cid 10 service_start = None" "map_of (cid_input_rxs service_start) 10 = None"
    by (simp_all add: get_input_tx_for_cid_def service_start_def)
  moreover have "accept_agent 10 service_start = (1, snd (accept_agent 10 service_start))"
    by (simp add: accept_agent_def service_start_def new_chan_def)
  moreover have "register_put_rx 10 (snd (accept_agent 10 service_start))
      = (2, snd (register_put_rx 10 (snd (accept_agent 10 service_start))))"
    by (simp add: register_put_rx_def accept_agent_def service_start_def new_chan_def)
  ultimately show ?thesis using register_race_loses_inputs [where bs = "[[1], [2]]"] by blast
qed

text \<open>A channel whose receiver is gone stays closed.\<close>

definition shut :: "nat \<Rightarrow> vsock_service \<Rightarrow> bool" where
  "shut i v \<longleftrightarrow> i < length (chans v) \<and> \<not> ch_open (chans v ! i)"

lemma shut_mono:
  assumes "shut i v" "length (chans v) \<le> length (chans w)" "ch_open (chans w ! i) \<longrightarrow> ch_open (chans v ! i)"
  shows "shut i w"
  using assms by (auto simp: shut_def)

lemma shut_drop: "shut i v \<Longrightarrow> shut i (drop_receiver j v)"
  by (cases "i = j") (auto simp: shut_def drop_receiver_def)

lemma shut_new: "shut i v \<Longrightarrow> chans w = chans v @ xs \<Longrightarrow> shut i w"
  by (simp add: shut_def nth_append)

lemma shut_same: "shut i v \<Longrightarrow> chans w = chans v \<Longrightarrow> shut i w"
  by (simp add: shut_def)

lemma shut_put_rx: "register_put_rx cid v = (ch, w) \<Longrightarrow> shut i v \<Longrightarrow> shut i w"
proof -
  assume r: "register_put_rx cid v = (ch, w)" and s: "shut i v"
  obtain v1 where v1: "new_chan cid v = (ch, v1)" using r
    by (auto simp: register_put_rx_def Let_def split: prod.splits)
  have 1: "shut i v1" using shut_new [OF s] v1 by (auto simp: new_chan_def)
  have "chans w = chans v1 \<or> (\<exists>old. chans w = chans (drop_receiver old v1))"
    using r v1 by (auto simp: register_put_rx_def Let_def split: option.splits)
  then show "shut i w" using 1 shut_drop shut_same by blast
qed

lemma shut_step: "vstep s t \<Longrightarrow> shut i (svc s) \<Longrightarrow> shut i (svc t)"
proof (induction rule: vstep.induct)
  case (put_rx cid s ch v)
  then show ?case using shut_put_rx by simp
next
  case (send c ch s b v)
  then show ?case using send_spec(5) [OF send(2)] by (cases "i = ch") (auto simp: shut_def)
next
  case (connect cid s ch v)
  have "chans v = chans (svc s) \<or> (\<exists>xs. chans v = chans (svc s) @ xs)"
    using connect(1) by (auto simp: accept_agent_def new_chan_def split: option.splits)
  then have "shut i v" using connect(2) shut_new shut_same by blast
  then show ?case by simp
next
  case (relay cid ch s b v)
  obtain q where "chans v = (chans (svc s))[ch := (chans (svc s) ! ch)\<lparr>ch_queue := q\<rparr>]"
    using relay_spec [OF relay(2)] by metis
  then show ?case using relay(3) by (cases "i = ch") (auto simp: shut_def)
next
  case (leave cid ch s)
  then show ?case using shut_drop by (simp add: agent_session_end_def shut_def)
qed (auto simp: shut_def register_put_tx_def subscribe_agent_disconnect_def publish_caps_def)

lemma shut_steps: "vstep\<^sup>*\<^sup>* s t \<Longrightarrow> shut i (svc s) \<Longrightarrow> shut i (svc t)"
  by (induction rule: rtranclp_induct) (auto intro: shut_step)

text \<open>
  When an agent's session ends, its sender and its capabilities stay published: a session
  that starts before the agent is back does not wait for it, is given the dead channel, and
  every batch it sends is refused for as long as it lives, the agent being back or not.
\<close>

theorem stale_channel_loses_inputs:
  assumes "get_input_tx_for_cid cid (svc s) = Some ch" "ch < length (chans (svc s))"
    and "agent_caps (svc s) = Some caps" "svc s1 = agent_session_end cid ch (svc s)"
    and "vstep\<^sup>*\<^sup>* s1 t"
  shows "wait_for_agent_capabilities n (svc s1) None = Ok caps
    \<and> register_input_for_cid cid (svc s1) = (ch, svc s1)
    \<and> injector_chan (Some cid) (svc s1) = ch
    \<and> try_send ch b (svc t) = (ChannelClosed, svc t)"
proof -
  have tx: "get_input_tx_for_cid cid (svc s1) = Some ch"
    using assms(1) unfolding assms(4) by (simp add: get_input_tx_for_cid_def agent_session_end_def)
  have "agent_caps (svc s1) = Some caps"
    using assms(3) unfolding assms(4) by (simp add: agent_session_end_def notify_agent_disconnect_def drop_receiver_def split: option.splits)
  moreover have "shut ch (svc s1)" using assms(2) unfolding assms(4)
    by (simp add: agent_session_end_def shut_def drop_receiver_def)
  then have "shut ch (svc t)" using shut_steps [OF assms(5)] by blast
  ultimately show ?thesis using tx
    by (simp add: wait_for_agent_capabilities_def register_input_for_cid_def injector_chan_def
        try_send_def shut_def)
qed

definition greeted :: vsys where
  "greeted = vsys_init\<lparr>svc := (demo_chans [])\<lparr>agent_caps := Some stub_caps\<rparr>\<rparr>"

theorem stale_channel_loses_inputs_witness:
  "try_send 1 [7] (svc (greeted\<lparr>svc := agent_session_end 10 1 (svc greeted)\<rparr>))
    = (ChannelClosed, svc (greeted\<lparr>svc := agent_session_end 10 1 (svc greeted)\<rparr>))"
  using stale_channel_loses_inputs [where cid = 10 and s = greeted and ch = 1 and caps = stub_caps
      and ?s1.0 = "greeted\<lparr>svc := agent_session_end 10 1 (svc greeted)\<rparr>"
      and t = "greeted\<lparr>svc := agent_session_end 10 1 (svc greeted)\<rparr>" and b = "[7]" and n = 120]
  by (simp add: greeted_def demo_chans_def get_input_tx_for_cid_def)

end
