(* ===== verification/Listener.thy ===== *)
theory Listener
  imports ProxyRun VsockProps
begin

text \<open>
  The proxy-encoder's side of the machines: the capturer that listens for agents (\<open>VsockCapturer\<close>
  of \<open>nidan-proxy-encoder/src/capture/vsock.rs\<close>), the session of one agent from its first byte,
  the start of the service with its fan-out (\<open>vsock_service.rs\<close>) and the start of the program
  (\<open>main.rs\<close>).  Every agent has a task of its own; a run is the list of what happens, in the
  order in which it happens.
\<close>

section \<open>The capturer\<close>

record vsock_capturer =
  vk_port :: u32
  vk_caps :: capturer_caps
  vk_shared :: bool

definition vsock_default_caps :: capturer_caps where
  "vsock_default_caps = \<lparr>caps_width = default_width, caps_height = default_height, supports_xshm = False,
    supports_xdamage = False, caps_format = Bgra8888\<rparr>"

definition vsock_capturer_new :: "u32 \<Rightarrow> vsock_capturer" where
  "vsock_capturer_new port = \<lparr>vk_port = port, vk_caps = vsock_default_caps, vk_shared = False\<rparr>"

definition vsock_capturer_with_shared_caps :: "u32 \<Rightarrow> vsock_capturer" where
  "vsock_capturer_with_shared_caps port = \<lparr>vk_port = port, vk_caps = vsock_default_caps, vk_shared = True\<rparr>"

section \<open>The session of an agent\<close>

datatype agent_end = AgentRefused link_error | AnswerNotSent | EncoderGone | AgentDone

text \<open>
  How it ended, the bytes written to the agent before any input, the frames passed on, and the
  capabilities published.  \<open>writable\<close> tells whether the answer to the greeting can be written, \<open>room\<close>
  how many frames are taken before the channel of the encoder closes, if it does.
\<close>

definition run_agent_session ::
  "msg_codec \<Rightarrow> string \<Rightarrow> vsock_capturer \<Rightarrow> u32 \<Rightarrow> nat \<Rightarrow> bool \<Rightarrow> nat option \<Rightarrow> u32 \<Rightarrow> bytes \<Rightarrow>
    agent_end \<times> bytes \<times> raw_frame list \<times> capturer_caps option"
where
  "run_agent_session C version k fps_limit pid writable room cid s =
    (case proxy_handshake C version fps_limit pid s of
      Inl e \<Rightarrow> (AgentRefused e, [], [], None)
    | Inr (answer, caps, r) \<Rightarrow>
        (let published = (if vk_shared k then Some caps else None); fs = proxy_frames C cid 0 r in
         if \<not> writable then (AnswerNotSent, [], [], published)
         else (case room of
             None \<Rightarrow> (AgentDone, answer, fs, published)
           | Some n \<Rightarrow>
               if length fs \<le> n then (AgentDone, answer, fs, published)
               else (EncoderGone, answer, take n fs, published))))"

section \<open>The accept loop\<close>

text \<open>
  What can happen: the order to stop, a failed accept, an agent that connects, one that has
  greeted, a frame from the task of an agent, the end of a task; and, on the other side, a
  session that watches an agent.
\<close>

datatype listener_event =
    ListenerShutdown
  | AcceptFailed
  | AgentConnected u32
  | AgentGreeted capturer_caps
  | AgentFrame u32 raw_frame
  | AgentLeft u32 nat
  | SessionWatches u32

text \<open>The state of the service with the tasks of its agents, the frames for the fan-out, and whether the loop still accepts.\<close>

record listener =
  ls_sys :: vsys
  ls_frames :: "raw_frame list"
  ls_open :: bool

definition listener_start :: listener where
  "listener_start = \<lparr>ls_sys = vsys_init, ls_frames = [], ls_open = True\<rparr>"

fun listener_step :: "listener_event \<Rightarrow> listener \<Rightarrow> listener" where
  "listener_step ListenerShutdown l = l\<lparr>ls_open := False\<rparr>"
| "listener_step AcceptFailed l = l"
| "listener_step (AgentConnected cid) l =
    (if ls_open l then
       (let (ch, v) = accept_agent cid (svc (ls_sys l))
        in l\<lparr>ls_sys := (ls_sys l)\<lparr>svc := v, agents := (cid, ch) # agents (ls_sys l)\<rparr>\<rparr>)
     else l)"
| "listener_step (AgentGreeted caps) l = l\<lparr>ls_sys := (ls_sys l)\<lparr>svc := publish_caps caps (svc (ls_sys l))\<rparr>\<rparr>"
| "listener_step (AgentFrame cid f) l = l\<lparr>ls_frames := ls_frames l @ [f\<lparr>source_cid := Some cid\<rparr>]\<rparr>"
| "listener_step (AgentLeft cid ch) l =
    (if (cid, ch) \<in> set (agents (ls_sys l)) then
       l\<lparr>ls_sys := (ls_sys l)\<lparr>svc := agent_session_end cid ch (svc (ls_sys l)), agents := remove1 (cid, ch) (agents (ls_sys l))\<rparr>\<rparr>
     else l)"
| "listener_step (SessionWatches cid) l =
    l\<lparr>ls_sys := (ls_sys l)\<lparr>svc := snd (subscribe_agent_disconnect cid (svc (ls_sys l)))\<rparr>\<rparr>"

definition listener_run :: "listener_event list \<Rightarrow> listener \<Rightarrow> listener" where
  "listener_run es l = fold listener_step es l"

lemma listener_run_simps [simp]:
  "listener_run [] l = l" "listener_run (e # es) l = listener_run es (listener_step e l)"
  "listener_run (es @ fs) l = listener_run fs (listener_run es l)"
  by (simp_all add: listener_run_def)

section \<open>The start of the program\<close>

text \<open>\<open>VsockService::start\<close>: the service of the program is made once; its fan-out passes every frame on.\<close>

definition service_start_once :: "vsock_service option \<Rightarrow> vsock_service \<times> vsock_service option" where
  "service_start_once global = (case global of Some v \<Rightarrow> (v, global) | None \<Rightarrow> (service_start, Some service_start))"

definition fan_out :: "raw_frame list \<Rightarrow> broadcast_event list" where
  "fan_out fs = map BFrame fs"

text \<open>\<open>main\<close>, from the configuration that was read: the display, and the service if frames come by vsock.\<close>

definition proxy_display :: "u32 option \<Rightarrow> server_config \<Rightarrow> u32" where
  "proxy_display env cfg = (case env of None \<Rightarrow> display_number (sv_capture cfg) | Some d \<Rightarrow> d)"

definition proxy_main ::
  "(string \<Rightarrow> bool) \<Rightarrow> bool \<Rightarrow> u32 option \<Rightarrow> server_config \<Rightarrow> (server_config_error, u32 \<times> vsock_service option) result"
where
  "proxy_main exists_path vsock_built display_env cfg =
    bind_result (server_config_validate exists_path cfg) (\<lambda>_.
      Ok (proxy_display display_env cfg,
        if vsock_built \<and> cap_backend (sv_capture cfg) = ''vsock'' then snd (service_start_once None) else None))"

section \<open>The run of the listener\<close>

text \<open>Every event is a step of the service and its users, or none.\<close>

lemma listener_step_vstep: "vstep\<^sup>*\<^sup>* (ls_sys l) (ls_sys (listener_step e l))"
proof (cases e)
  case (AgentConnected cid)
  obtain ch v where a: "accept_agent cid (svc (ls_sys l)) = (ch, v)" by (cases "accept_agent cid (svc (ls_sys l))")
  then show ?thesis using AgentConnected vstep.connect [OF a] by (auto intro: r_into_rtranclp)
next
  case (AgentLeft cid ch)
  then show ?thesis using vstep.leave [of cid ch "ls_sys l"] by (auto intro: r_into_rtranclp)
qed (auto intro: r_into_rtranclp vstep.intros)

lemma listener_run_vstep: "vstep\<^sup>*\<^sup>* (ls_sys l) (ls_sys (listener_run es l))"
proof (induction es arbitrary: l)
  case (Cons e es)
  then show ?case using rtranclp_trans [OF listener_step_vstep Cons.IH] by simp
qed simp

text \<open>The frames of one machine are those of its agents, in their order.\<close>

fun sent_by :: "u32 \<Rightarrow> listener_event list \<Rightarrow> raw_frame list" where
  "sent_by c [] = []"
| "sent_by c (AgentFrame d f # es) = (if c = d then f\<lparr>source_cid := Some d\<rparr> # sent_by c es else sent_by c es)"
| "sent_by c (e # es) = sent_by c es"

lemma frames_of_machine:
  "filter (\<lambda>f. source_cid f = Some c) (ls_frames (listener_run es l))
    = filter (\<lambda>f. source_cid f = Some c) (ls_frames l) @ sent_by c es"
proof (induction es arbitrary: l)
  case (Cons e es)
  then show ?case by (cases e) (auto split: prod.split)
qed simp

end
