(* ===== verification/PortalProps.thy ===== *)
theory PortalProps
  imports Portal PipeWire "HOL-Library.Sublist"
begin

text \<open>
  What holds of the agent's side of a session: the order of the calls of the portal, the token
  that is used again, the stream shared by capture and injection, the rate and numbers of the
  captured frames, and their way to the proxy.
\<close>

section \<open>The order of the calls\<close>

lemma po_calls_log:
  "\<exists>cs'. prefix cs' cs \<and> snd (po_calls P cs h) = rev cs' @ h \<and> (fst (po_calls P cs h) = Ok () \<longrightarrow> cs' = cs)"
proof (induction cs arbitrary: h)
  case Nil
  then show ?case by (simp add: po_return_def)
next
  case (Cons c cs)
  show ?case
  proof (cases "po_ok P h c")
    case True
    obtain cs' where "prefix cs' cs" "snd (po_calls P cs (c # h)) = rev cs' @ c # h"
      "fst (po_calls P cs (c # h)) = Ok () \<longrightarrow> cs' = cs" using Cons.IH by blast
    then show ?thesis using True by (intro exI [of _ "c # cs'"]) (simp add: po_bind_def po_call_def)
  next
    case False
    then show ?thesis by (intro exI [of _ "[c]"]) (simp add: po_bind_def po_call_def)
  qed
qed

lemma po_calls_cases:
  obtains e cs' where "po_calls P cs h = (Inl e, rev cs' @ h)" "prefix cs' cs"
  | "po_calls P cs h = (Ok (), rev cs @ h)"
proof -
  obtain cs' where l: "prefix cs' cs" "snd (po_calls P cs h) = rev cs' @ h" "fst (po_calls P cs h) = Ok () \<longrightarrow> cs' = cs"
    using po_calls_log by blast
  show ?thesis
  proof (cases "fst (po_calls P cs h)")
    case (Inl e)
    then show ?thesis using that(1) [of e cs'] l by (metis prod.collapse)
  next
    case (Inr u)
    then show ?thesis using that(2) l by (metis old.unit.exhaust prod.collapse)
  qed
qed

text \<open>A negotiation makes the calls in their order, each after the one before has succeeded.\<close>

lemma negotiate_log:
  "\<exists>cs. prefix cs (shared_calls saved @ [OpenPipeWireRemote]) \<and> snd (negotiate_shared P saved h) = rev cs @ h \<and>
    (\<forall>x. fst (negotiate_shared P saved h) = Inr x \<longrightarrow> cs = shared_calls saved @ [OpenPipeWireRemote])"
proof (cases rule: po_calls_cases [of P "shared_calls saved" h])
  case (1 e cs')
  then show ?thesis by (intro exI [of _ cs']) (simp add: negotiate_shared_def po_bind_def)
next
  case 2
  let ?h = "rev (shared_calls saved) @ h"
  let ?s = "po_bind (po_read_reply P) (\<lambda>r. po_bind (open_stream P r) (\<lambda>s. po_return (s, pr_token r))) ?h"
  have n: "negotiate_shared P saved h = ?s" using 2 by (simp add: negotiate_shared_def po_bind_def)
  show ?thesis
  proof (cases "Option.bind (po_reply P ?h) first_stream")
    case None
    then have "snd ?s = ?h" and "\<nexists>x. fst ?s = Inr x"
      by (cases "po_reply P ?h"; simp add: po_bind_def po_read_reply_def open_stream_def)+
    then show ?thesis unfolding n by (intro exI [of _ "shared_calls saved"]) auto
  next
    case (Some s)
    then obtain r where "po_reply P ?h = Some r" "first_stream r = Some s" by (cases "po_reply P ?h") auto
    then have "snd ?s = OpenPipeWireRemote # ?h"
      by (cases s) (simp add: po_bind_def po_read_reply_def open_stream_def po_call_def po_return_def)
    then show ?thesis unfolding n by (intro exI [of _ "shared_calls saved @ [OpenPipeWireRemote]"]) simp
  qed
qed

section \<open>The token\<close>

lemma select_devices_token:
  "SelectDevices x m \<in> set (snd (negotiate_shared P saved [])) \<Longrightarrow> x = saved"
  using negotiate_log [of saved P "[]"] by (auto dest!: set_mono_prefix simp: shared_calls_def)

lemma open_capture_log: "snd (snd (open_capture P w home fs h)) = snd (negotiate_shared P (load_token home fs) h)"
  by (auto simp: open_capture_def split: prod.splits sum.splits)

text \<open>
  The token of one start is presented at the next
\<close>

theorem restore_token_reused:
  assumes "negotiate_shared P (load_token home fs) h = (Ok (s, Some t), h')" and "trim t = t" and "t \<noteq> []"
    and "SelectDevices x m \<in> set (snd (snd (open_capture P' w home (fst (snd (open_capture P True home fs h))) [])))"
  shows "x = Some t"
proof -
  have "load_token home (fst (snd (open_capture P True home fs h))) = Some t"
    using assms(1-3) by (simp add: open_capture_def load_token_def save_token_def read_token_def)
  then show ?thesis using assms(4) select_devices_token by (simp add: open_capture_log)
qed

definition demo_portal :: portal where
  "demo_portal = \<lparr>po_ok = (\<lambda>_ _. True),
    po_reply = (\<lambda>_. Some \<lparr>pr_streams = Some [(42, Some (800, 600))], pr_token = Some ''tok''\<rparr>), po_fd = length\<rparr>"

theorem restore_token_reused_witness:
  "\<exists>x. SelectDevices x ExplicitlyRevoked \<in> set (snd (snd (open_capture demo_portal True None
      (fst (snd (open_capture demo_portal True None Map.empty []))) []))) \<and> x = Some ''tok''"
proof -
  have r: "negotiate_shared demo_portal (load_token None Map.empty) []
      = (Ok (\<lparr>st_node = 42, st_fd = 7, st_width = 800, st_height = 600\<rparr>, Some ''tok''),
         rev (shared_calls None @ [OpenPipeWireRemote]))"
    by code_simp
  have t: "trim ''tok'' = ''tok''" "''tok'' \<noteq> []" by code_simp+
  have "\<exists>x. SelectDevices x ExplicitlyRevoked \<in> set (snd (snd (open_capture demo_portal True None
      (fst (snd (open_capture demo_portal True None Map.empty []))) [])))"
    by (rule exI [of _ "Some ''tok''"]) code_simp
  then show ?thesis using restore_token_reused [OF r t] by blast
qed

section \<open>One stream for capture and injection\<close>

lemma apply_event_motion:
  "PointerMotionAbsolute n x y \<in> set (apply_event F node w ht e) \<Longrightarrow>
    n = node \<and> (\<exists>mx my. x = scale F mx w \<and> y = scale F my ht)"
proof (cases "ie_event e")
  case (Some p)
  assume "PointerMotionAbsolute n x y \<in> set (apply_event F node w ht e)"
  then show ?thesis using Some by (cases p) (auto simp: apply_event_def split: option.splits if_splits)
qed (simp add: apply_event_def)

text \<open>
  The pointer moves on the stream that is captured
\<close>

theorem pointer_on_captured_stream:
  assumes "portal_thread F P saved batches h = (Ok (s, tok), acts, h')" and "PointerMotionAbsolute n x y \<in> set acts"
  shows "n = st_node s \<and> OpenPipeWireRemote \<in> set h' \<and>
    (\<exists>mx my. x = scale F mx (caps_width (stream_caps s)) \<and> y = scale F my (caps_height (stream_caps s)))"
proof -
  have neg: "negotiate_shared P saved h = (Inr (s, tok), h')"
    and acts: "acts = apply_batches F (st_node s) (st_width s) (st_height s) batches"
    using assms(1) by (auto simp: portal_thread_def split: prod.splits sum.splits)
  have "OpenPipeWireRemote \<in> set h'" using negotiate_log [of saved P h] neg by auto
  moreover obtain e where "PointerMotionAbsolute n x y \<in> set (apply_event F (st_node s) (st_width s) (st_height s) e)"
    using assms(2) acts by (auto simp: apply_batches_def)
  ultimately show ?thesis using apply_event_motion by (fastforce simp: stream_caps_def)
qed

definition demo_stream :: portal_stream where
  "demo_stream = \<lparr>st_node = 42, st_fd = 7, st_width = 800, st_height = 600\<rparr>"

definition demo_motion :: input_event where
  "demo_motion = \<lparr>ie_seq = 0, ie_type = 3, timestamp_ms = 0, ie_event = Some (MousePayload
    \<lparr>button = 0, mouse_x = F32_nan, mouse_y = F32_nan, scroll_dx = F32_nan, scroll_dy = F32_nan, monitor_idx = 0\<rparr>)\<rparr>"

definition demo_floats :: "u32 float_ops" where
  "demo_floats = \<lparr>scale = (\<lambda>_ w. w), positive = (\<lambda>_. True)\<rparr>"

theorem pointer_on_captured_stream_witness:
  "(42 :: u32) = st_node demo_stream \<and> OpenPipeWireRemote \<in> set (rev (shared_calls None @ [OpenPipeWireRemote])) \<and>
    (\<exists>mx my. 800 = scale demo_floats mx (caps_width (stream_caps demo_stream)) \<and>
      600 = scale demo_floats my (caps_height (stream_caps demo_stream)))"
proof -
  have r: "portal_thread demo_floats demo_portal None [[demo_motion]] []
      = (Ok (demo_stream, Some ''tok''), [PointerMotionAbsolute 42 800 600], rev (shared_calls None @ [OpenPipeWireRemote]))"
    by code_simp
  show ?thesis by (rule pointer_on_captured_stream [OF r]) simp
qed

text \<open>A separate session of the injector may know no stream; its motions then name node 0.\<close>

lemma own_session_node_zero:
  assumes "po_ok P = (\<lambda>_ _. True)" and "po_reply P = (\<lambda>_. Some \<lparr>pr_streams = None, pr_token = None\<rparr>)"
  shows "fst (own_portal_thread F P w home given wd ht batches fs h) = Ok 0"
  using assms by (simp add: own_portal_thread_def shared_calls_def po_bind_def po_call_def po_return_def po_read_reply_def
      first_stream_def Let_def reply_node_def)

text \<open>The proxy-encoder never presents a token for the devices, and its capturer starts once.\<close>

lemma proxy_devices_no_token: "SelectDevices x m \<in> set proxy_device_calls \<Longrightarrow> x = None \<and> m = DoNotPersist"
  by (auto simp: proxy_device_calls_def)

lemma pw_start_once: "fst (pw_start (snd (pw_start c))) = None"
  by (simp add: pw_start_def)

section \<open>The rate of the capture\<close>

definition spaced :: "u64 \<Rightarrow> raw_frame \<Rightarrow> raw_frame \<Rightarrow> bool" where
  "spaced d a b \<longleftrightarrow> unat (rf_timestamp_us a) + unat d \<le> unat (rf_timestamp_us b)"

lemma sat_diff_at_least: "0 < d \<Longrightarrow> \<not> sat_diff a b < d \<Longrightarrow> unat b + unat d \<le> unat a"
proof -
  assume d: "0 < d" "\<not> sat_diff a b < d"
  then have ba: "b \<le> a" by (auto simp: sat_diff_def split: if_splits)
  then have "unat d \<le> unat (a - b)" using d(2) by (simp add: sat_diff_def word_le_nat_alt not_less)
  then show ?thesis using ba by (simp add: unat_sub word_le_nat_alt)
qed

lemma pw_process_spaced:
  assumes "0 < min_interval_us fps" and "pw_process w h fps b st = (Some f, st')"
  shows "unat (pw_last st) + unat (min_interval_us fps) \<le> unat (rf_timestamp_us f) \<and> pw_last st' = rf_timestamp_us f \<and>
    rf_width f = w \<and> rf_height f = h"
  using assms sat_diff_at_least [of "min_interval_us fps" "pb_now b" "pw_last st"]
  by (auto simp: pw_process_def pw_frame_def split: buffer_data.splits if_splits)

lemma pw_process_none: "pw_process w h fps b st = (None, st') \<Longrightarrow> st' = st"
  by (auto simp: pw_process_def split: buffer_data.splits if_splits)

text \<open>No two frames are closer than the interval, wherever the clock jumps.\<close>

lemma pw_loop_spaced:
  assumes "0 < min_interval_us fps"
  shows "sorted_wrt (spaced (min_interval_us fps)) (map fst (fst (pw_loop armed w h fps es st))) \<and>
    (\<forall>f\<in>set (map fst (fst (pw_loop armed w h fps es st))).
      unat (pw_last st) + unat (min_interval_us fps) \<le> unat (rf_timestamp_us f) \<and> rf_width f = w \<and> rf_height f = h)"
proof (induction es arbitrary: st)
  case (Cons ev es)
  show ?case
  proof (cases ev)
    case (PwBuffer b)
    obtain r st' where p: "pw_process w h fps b st = (r, st')" by (cases "pw_process w h fps b st")
    obtain fs e where l: "pw_loop armed w h fps es st' = (fs, e)" by (cases "pw_loop armed w h fps es st'")
    show ?thesis
    proof (cases r)
      case None
      then have "st' = st" using p pw_process_none by simp
      then show ?thesis using Cons.IH [of st'] PwBuffer p l None by simp
    next
      case (Some f)
      have f: "unat (pw_last st) + unat (min_interval_us fps) \<le> unat (rf_timestamp_us f)" "pw_last st' = rf_timestamp_us f"
        "rf_width f = w" "rf_height f = h"
        using pw_process_spaced [OF assms p [unfolded Some]] by simp_all
      have "unat (pw_last st) + unat (min_interval_us fps) \<le> unat (rf_timestamp_us g)" if "g \<in> fst ` set fs" for g
        using Cons.IH [of st'] l f(1,2) that by fastforce
      then show ?thesis using Cons.IH [of st'] PwBuffer p l Some f by (auto simp: spaced_def)
    qed
  next
    case (PwTick stop)
    then show ?thesis using Cons.IH by simp
  qed
qed simp

lemma spaced_times:
  "sorted_wrt (spaced d) fs = sorted_wrt (\<lambda>s t. unat s + unat d \<le> unat t) (map rf_timestamp_us fs)"
  unfolding sorted_wrt_map spaced_def [abs_def] ..

text \<open>The rate is kept on the wall clock: after the clock was set back, nothing is captured before it
  has caught up.\<close>

lemma clock_set_back_freezes:
  assumes "0 < min_interval_us fps" and "\<And>b. PwBuffer b \<in> set es \<Longrightarrow> unat (pb_now b) < unat (pw_last st) + unat (min_interval_us fps)"
  shows "fst (pw_loop armed w h fps es st) = []"
  using assms(2)
proof (induction es)
  case (Cons e es)
  show ?case
  proof (cases e)
    case (PwBuffer b)
    then have "unat (pb_now b) < unat (pw_last st) + unat (min_interval_us fps)" using Cons.prems by simp
    then have "sat_diff (pb_now b) (pw_last st) < min_interval_us fps"
      using assms(1) sat_diff_at_least [of "min_interval_us fps" "pb_now b" "pw_last st"] by linarith
    then have "pw_process w h fps b st = (None, st)"
      using assms(1) by (simp add: pw_process_def split: buffer_data.split)
    then show ?thesis using Cons PwBuffer by (simp add: case_prod_beta)
  qed (use Cons in simp)
qed simp

text \<open>The timer of the agent ends the loop; that of the proxy-encoder is never armed.\<close>

lemma pw_loop_ends: "snd (pw_loop armed w h fps es st) \<longleftrightarrow> armed \<and> PwTick True \<in> set es"
proof (induction es arbitrary: st)
  case (Cons e es)
  then show ?case by (cases e) (auto simp: case_prod_beta Let_def)
qed simp

lemma unarmed_never_returns: "\<not> snd (proxy_pw_loop w h fps es)"
  by (simp add: proxy_pw_loop_def pw_loop_ends)

lemma armed_returns: "PwTick True \<in> set es \<Longrightarrow> snd (agent_pw_loop w h fps es)"
  by (simp add: agent_pw_loop_def pw_loop_ends)

section \<open>From the capture to the proxy\<close>

text \<open>
  C11. The frames the agent captures and queues are those the proxy receives
\<close>

theorem capture_reaches_proxy:
  assumes "0 < min_interval_us fps"
    and "\<And>f. f \<in> set (delivered_frames (fst (agent_pw_loop w h fps es))) \<Longrightarrow> codec_law C (Some (MFrame (proto_frame_of fmt f)))"
    and "codec_law C final_message"
  shows "\<exists>fs. proxy_frames C cid 0 (agent_frames C fmt (delivered_frames (fst (agent_pw_loop w h fps es)))) = fs \<and>
    map rf_data fs = map rf_data (delivered_frames (fst (agent_pw_loop w h fps es))) \<and>
    sorted_wrt (spaced (min_interval_us fps)) fs \<and>
    list_all (\<lambda>f. source_cid f = Some cid \<and> rf_width f = w \<and> rf_height f = h) fs"
proof -
  let ?ds = "delivered_frames (fst (agent_pw_loop w h fps es))"
  let ?recv = "\<lambda>(i, f). received_frame cid i (proto_frame_of fmt f)"
  have r: "proxy_frames C cid 0 (agent_frames C fmt ?ds) = map ?recv (enumerate 0 ?ds)"
    using frames_delivered [OF assms(2,3)] by blast
  have d: "map rf_data (map ?recv (enumerate n fs)) = map rf_data fs" for n fs
    by (induction fs arbitrary: n) (simp_all add: received_frame_def proto_frame_of_def)
  have t: "map rf_timestamp_us (map ?recv (enumerate n fs)) = map rf_timestamp_us fs" for n fs
    by (induction fs arbitrary: n) (simp_all add: received_frame_def proto_frame_of_def)
  have "sorted_wrt (spaced (min_interval_us fps)) ?ds"
    using pw_loop_spaced [OF assms(1), of True w h es pw_init]
    by (simp add: delivered_frames_def agent_pw_loop_def sorted_wrt_map sorted_wrt_filter)
  then have "sorted_wrt (spaced (min_interval_us fps)) (map ?recv (enumerate 0 ?ds))"
    unfolding spaced_times t .
  moreover have "list_all (\<lambda>f. rf_width f = w \<and> rf_height f = h) ?ds"
    using pw_loop_spaced [OF assms(1), of True w h es pw_init]
    by (auto simp: delivered_frames_def agent_pw_loop_def list_all_iff)
  moreover have "list_all (\<lambda>f. source_cid f = Some cid \<and> rf_width f = w \<and> rf_height f = h) (map ?recv (enumerate n fs))
      = list_all (\<lambda>f. rf_width f = w \<and> rf_height f = h) fs" for n fs
    by (induction fs arbitrary: n) (simp_all add: received_frame_def proto_frame_of_def)
  ultimately show ?thesis unfolding r using d by blast
qed

text \<open>One buffer of four bytes of a picture of one pixel, and a codec for its message.\<close>

definition demo_buffer :: pw_event where
  "demo_buffer = PwBuffer \<lparr>pb_now = 40000, pb_data = Mapped 4 [1, 2, 3, 4, 5], pb_answer = Sent\<rparr>"

definition demo_shot :: raw_frame where
  "demo_shot = \<lparr>rf_data = [1, 2, 3, 4], rf_width = 1, rf_height = 1, rf_stride = 4, rf_timestamp_us = 40000,
    rf_seq = 0, rf_keyframe = True, damage_rects = [], source_cid = None\<rparr>"

definition demo_link :: msg_codec where
  "demo_link = \<lparr>encode_msg = (\<lambda>m. if m = final_message then [0] else [1]),
    decode_msg = (\<lambda>b. Some (if b = [0] then final_message else Some (MFrame (proto_frame_of PfBgra8 demo_shot))))\<rparr>"

lemma demo_captured: "delivered_frames (fst (agent_pw_loop 1 1 30 [demo_buffer, PwTick True])) = [demo_shot]"
  by code_simp

theorem capture_reaches_proxy_witness:
  "\<exists>fs. proxy_frames demo_link 5 0 (agent_frames demo_link PfBgra8 [demo_shot]) = fs \<and> map rf_data fs = [[1, 2, 3, 4]] \<and>
    sorted_wrt (spaced 33333) fs \<and> list_all (\<lambda>f. source_cid f = Some 5 \<and> rf_width f = 1 \<and> rf_height f = 1) fs"
proof -
  have i: "min_interval_us 30 = 33333" by code_simp
  have l: "codec_law demo_link (Some (MFrame (proto_frame_of PfBgra8 demo_shot)))" "codec_law demo_link final_message"
    by (simp_all add: codec_law_def demo_link_def final_message_def max_vsock_message_def)
  show ?thesis
    using capture_reaches_proxy [of 30 1 1 "[demo_buffer, PwTick True]" demo_link PfBgra8 5] l
    unfolding demo_captured i by (simp add: demo_shot_def)
qed

end
