(* ===== verification/ListenerProps.thy ===== *)
theory ListenerProps
  imports Listener PortalProps ProxyRunProps
begin

text \<open>
  What holds of every run of the listener: it keeps to the steps of the vsock service, so that
  inputs reach their own machine; a session is told that its agent is gone exactly when a task of
  that agent has ended; what an agent has written arrives, and no more than that.
\<close>

section \<open>The tokens of disconnection\<close>

definition tokens_ok :: "vsock_service \<Rightarrow> bool" where
  "tokens_ok v \<longleftrightarrow> distinct (map fst (agent_disconnect_tokens v)) \<and> distinct (map snd (agent_disconnect_tokens v))
    \<and> (\<forall>t \<in> set (map snd (agent_disconnect_tokens v)) \<union> set (cancelled_tokens v). t < next_token v)
    \<and> set (map snd (agent_disconnect_tokens v)) \<inter> set (cancelled_tokens v) = {}"

lemma same_tokens:
  "agent_disconnect_tokens (snd (accept_agent cid v)) = agent_disconnect_tokens v"
  "cancelled_tokens (snd (accept_agent cid v)) = cancelled_tokens v"
  "next_token (snd (accept_agent cid v)) = next_token v"
  "agent_disconnect_tokens (publish_caps c v) = agent_disconnect_tokens v"
  "cancelled_tokens (publish_caps c v) = cancelled_tokens v" "next_token (publish_caps c v) = next_token v"
  "agent_disconnect_tokens (drop_receiver i v) = agent_disconnect_tokens v"
  "cancelled_tokens (drop_receiver i v) = cancelled_tokens v" "next_token (drop_receiver i v) = next_token v"
  by (simp_all add: accept_agent_def new_chan_def publish_caps_def drop_receiver_def split: option.split)

lemma tokens_ok_same:
  "agent_disconnect_tokens w = agent_disconnect_tokens v \<Longrightarrow> cancelled_tokens w = cancelled_tokens v \<Longrightarrow>
    next_token w = next_token v \<Longrightarrow> tokens_ok v \<Longrightarrow> tokens_ok w"
  by (simp add: tokens_ok_def)

lemma update_values: "set (map snd (AList.update k t m)) \<subseteq> insert t (set (map snd m))"
  using set_update_sub [of k t m] by auto

lemma distinct_update_values:
  "distinct (map snd m) \<Longrightarrow> t \<notin> set (map snd m) \<Longrightarrow> distinct (map snd (AList.update k t m))"
proof (induction m)
  case (Cons e m)
  obtain k' t' where e: "e = (k', t')" by (cases e)
  have "t' \<notin> set (map snd (AList.update k t m))" if "t' \<noteq> t"
    using update_values [of k t m] Cons.prems(1) that unfolding e by auto
  then show ?case using Cons unfolding e by auto
qed simp

lemma delete_values: "set (map snd (AList.delete k m)) \<subseteq> set (map snd m)"
  by (auto simp: AList.delete_eq)

lemma value_key: "distinct (map snd m) \<Longrightarrow> (k, t) \<in> set m \<Longrightarrow> (k', t) \<in> set m \<Longrightarrow> k = k'"
  by (induction m) force+

lemma deleted_value:
  assumes "map_of m k = Some t" and "distinct (map snd m)"
  shows "t \<notin> set (map snd (AList.delete k m))"
  using value_key [OF assms(2) map_of_SomeD [OF assms(1)]] by (auto simp: AList.delete_eq)

lemma bounds_added: "M' \<subseteq> insert n M \<Longrightarrow> \<forall>t \<in> M \<union> C. t < n \<Longrightarrow> \<forall>t \<in> M' \<union> C. t < Suc (n :: nat)"
  by (auto dest!: subsetD simp: less_Suc_eq)

lemma bounds_moved: "M' \<subseteq> M \<Longrightarrow> t \<in> M \<Longrightarrow> \<forall>u \<in> M \<union> C. u < n \<Longrightarrow> \<forall>u \<in> M' \<union> insert t C. u < (n :: nat)"
  by auto

lemma tokens_ok_subscribed:
  assumes "tokens_ok v"
  shows "tokens_ok (snd (subscribe_agent_disconnect cid v))"
proof -
  note ok = assms [unfolded tokens_ok_def]
  let ?m = "agent_disconnect_tokens v" and ?n = "next_token v"
  have new: "?n \<notin> set (map snd ?m)" "?n \<notin> set (cancelled_tokens v)" using ok by blast+
  have "distinct (map snd (AList.update cid ?n ?m))" using ok new(1) by (intro distinct_update_values) simp_all
  moreover have "\<forall>t \<in> set (map snd (AList.update cid ?n ?m)) \<union> set (cancelled_tokens v). t < Suc ?n"
    by (rule bounds_added [OF update_values]) (use ok in \<open>elim conjE\<close>)
  moreover have "set (map snd (AList.update cid ?n ?m)) \<inter> set (cancelled_tokens v) = {}"
    using update_values [of cid ?n ?m] ok new(2) by blast
  ultimately show ?thesis using ok by (simp add: tokens_ok_def subscribe_agent_disconnect_def distinct_update)
qed

lemma notify_ok:
  assumes "tokens_ok v"
  shows "tokens_ok (notify_agent_disconnect cid v)"
proof (cases "map_of (agent_disconnect_tokens v) cid")
  case None
  then show ?thesis using assms by (simp add: notify_agent_disconnect_def)
next
  case (Some t)
  note ok = assms [unfolded tokens_ok_def]
  let ?m = "agent_disconnect_tokens v"
  have t: "t \<in> set (map snd ?m)" using map_of_SomeD [OF Some] by force
  have gone: "t \<notin> set (map snd (AList.delete cid ?m))" using Some ok by (intro deleted_value) simp_all
  have "distinct (map snd (AList.delete cid ?m))" using ok by (simp add: AList.delete_eq distinct_map_filter)
  moreover have "\<forall>u \<in> set (map snd (AList.delete cid ?m)) \<union> set (t # cancelled_tokens v). u < next_token v"
    unfolding list.set(2) by (rule bounds_moved [OF delete_values t]) (use ok in \<open>elim conjE\<close>)
  moreover have "set (map snd (AList.delete cid ?m)) \<inter> set (t # cancelled_tokens v) = {}"
    using delete_values [of cid ?m] ok gone by (simp add: Int_insert_right) blast
  ultimately show ?thesis using ok Some by (simp add: tokens_ok_def notify_agent_disconnect_def distinct_delete)
qed

lemma step_ok:
  assumes "tokens_ok (svc (ls_sys l))"
  shows "tokens_ok (svc (ls_sys (listener_step e l)))"
proof (cases e)
  case (AgentConnected cid)
  obtain ch v where a: "accept_agent cid (svc (ls_sys l)) = (ch, v)" by (cases "accept_agent cid (svc (ls_sys l))")
  then have "tokens_ok v" using same_tokens(1-3) [of cid "svc (ls_sys l)"] assms tokens_ok_same by simp
  then show ?thesis using AgentConnected assms a by simp
next
  case (AgentGreeted c)
  then show ?thesis using assms by (simp add: tokens_ok_def same_tokens)
next
  case (AgentLeft cid ch)
  have "tokens_ok (drop_receiver ch (svc (ls_sys l)))" using assms by (simp add: tokens_ok_def same_tokens)
  then show ?thesis using AgentLeft assms by (simp add: agent_session_end_def notify_ok)
qed (simp_all add: assms tokens_ok_subscribed)

lemma run_ok: "tokens_ok (svc (ls_sys l)) \<Longrightarrow> tokens_ok (svc (ls_sys (listener_run es l)))"
  by (induction es arbitrary: l) (auto intro: step_ok)

lemma start_ok: "tokens_ok (svc (ls_sys listener_start))"
  by (simp add: tokens_ok_def listener_start_def vsys_init_def service_start_def)

section \<open>Agents that leave\<close>

definition leaves :: "u32 \<Rightarrow> listener \<Rightarrow> listener_event \<Rightarrow> bool" where
  "leaves cid l e \<longleftrightarrow> (case e of AgentLeft c ch \<Rightarrow> c = cid \<and> (cid, ch) \<in> set (agents (ls_sys l)) | _ \<Rightarrow> False)"

fun left_during :: "u32 \<Rightarrow> listener_event list \<Rightarrow> listener \<Rightarrow> bool" where
  "left_during cid [] l = False"
| "left_during cid (e # es) l = (leaves cid l e \<or> left_during cid es (listener_step e l))"

definition cancelled_at :: "listener \<Rightarrow> nat set" where
  "cancelled_at l = set (cancelled_tokens (svc (ls_sys l)))"

lemma notify_cancels: "set (cancelled_tokens v) \<subseteq> set (cancelled_tokens (notify_agent_disconnect cid v))"
  by (auto simp: notify_agent_disconnect_def split: option.split)

lemma cancelled_mono_step: "cancelled_at l \<subseteq> cancelled_at (listener_step e l)"
proof (cases e)
  case (AgentConnected cid)
  then show ?thesis using same_tokens(2) [of cid "svc (ls_sys l)"] by (auto simp: cancelled_at_def split: prod.split)
next
  case (AgentLeft cid ch)
  then show ?thesis
    using notify_cancels [of "drop_receiver ch (svc (ls_sys l))" cid]
    by (auto simp: cancelled_at_def agent_session_end_def same_tokens)
qed (simp_all add: cancelled_at_def same_tokens subscribe_agent_disconnect_def)

lemma cancelled_mono: "cancelled_at l \<subseteq> cancelled_at (listener_run es l)"
proof (induction es arbitrary: l)
  case (Cons e es)
  then show ?case using cancelled_mono_step [of l e] Cons.IH [of "listener_step e l"] by auto
qed simp

definition watched :: "u32 \<Rightarrow> nat \<Rightarrow> listener \<Rightarrow> bool" where
  "watched cid t l \<longleftrightarrow> map_of (agent_disconnect_tokens (svc (ls_sys l))) cid = Some t"

lemma watched_step:
  assumes "tokens_ok (svc (ls_sys l))" and "watched cid t l" and "e \<noteq> SessionWatches cid"
  shows "if leaves cid l e then t \<in> cancelled_at (listener_step e l)
    else watched cid t (listener_step e l) \<and> (t \<in> cancelled_at (listener_step e l) \<longrightarrow> t \<in> cancelled_at l)"
proof (cases e)
  case (AgentConnected c)
  then show ?thesis
    using assms(2) same_tokens(1,2) [of c "svc (ls_sys l)"]
    by (auto simp: leaves_def watched_def cancelled_at_def split: prod.split)
next
  case (AgentLeft c ch)
  let ?v = "svc (ls_sys l)"
  have w: "map_of (agent_disconnect_tokens ?v) cid = Some t" using assms(2) by (simp add: watched_def)
  have "t' \<noteq> t" if "map_of (agent_disconnect_tokens ?v) c = Some t'" "c \<noteq> cid" for t'
    using value_key [OF _ map_of_SomeD [OF w]] map_of_SomeD [OF that(1)] that(2) assms(1) unfolding tokens_ok_def by blast
  then show ?thesis
    using AgentLeft w
    by (auto simp: leaves_def watched_def cancelled_at_def agent_session_end_def notify_agent_disconnect_def same_tokens
        delete_conv' split: option.split)
next
  case (SessionWatches c)
  then show ?thesis
    using assms(2,3) by (simp add: leaves_def watched_def cancelled_at_def subscribe_agent_disconnect_def update_conv')
qed (use assms(2) in \<open>simp_all add: leaves_def watched_def cancelled_at_def same_tokens\<close>)

lemma watched_run:
  assumes "tokens_ok (svc (ls_sys l))" and "watched cid t l" and "t \<notin> cancelled_at l" and "SessionWatches cid \<notin> set es"
  shows "t \<in> cancelled_at (listener_run es l) \<longleftrightarrow> left_during cid es l"
  using assms
proof (induction es arbitrary: l)
  case (Cons e es)
  note step = watched_step [OF Cons.prems(1,2), of e]
  show ?case
  proof (cases "leaves cid l e")
    case True
    then have "t \<in> cancelled_at (listener_step e l)" using step Cons.prems(4) by auto
    then show ?thesis using True cancelled_mono by auto
  next
    case False
    then have "watched cid t (listener_step e l)" "t \<notin> cancelled_at (listener_step e l)"
      using step Cons.prems(3,4) by auto
    then show ?thesis using False Cons.IH [OF step_ok [OF Cons.prems(1)]] Cons.prems(4) by simp
  qed
qed (simp add: cancelled_at_def)

text \<open>
  C19. A session is told of the loss of its agent exactly when a task of that agent has ended since it
  began to watch, unless another session has begun to watch the same machine.
\<close>

theorem lost_agent_ends_session:
  assumes "vsock_session ft cfg" and "SessionWatches cid \<notin> set later" and "l = listener_run earlier listener_start"
    and "agent_watch ft cfg (Some cid) (Some (svc (ls_sys l))) = (watch, service)"
  shows "service = Some (svc (ls_sys (listener_step (SessionWatches cid) l)))
    \<and> (\<exists>t. watch = Some t \<and>
      (t \<in> cancelled_at (listener_run later (listener_step (SessionWatches cid) l)) \<longleftrightarrow>
       left_during cid later (listener_step (SessionWatches cid) l)))"
proof -
  let ?v = "svc (ls_sys l)" and ?l = "listener_step (SessionWatches cid) l"
  have ok: "tokens_ok ?v" unfolding assms(3) by (rule run_ok [OF start_ok])
  have w: "watch = Some (next_token ?v)" "service = Some (svc (ls_sys ?l))"
    using assms(1,4) by (auto simp: agent_watch_def subscribe_agent_disconnect_def split: prod.splits)
  have "watched cid (next_token ?v) ?l" by (simp add: watched_def subscribe_agent_disconnect_def update_conv')
  moreover have "next_token ?v \<notin> cancelled_at ?l"
    using ok by (auto simp: tokens_ok_def cancelled_at_def subscribe_agent_disconnect_def)
  ultimately show ?thesis using w watched_run [OF step_ok [OF ok] _ _ assms(2)] by blast
qed

text \<open>An agent of CID 10 connects and leaves; the session that watched it is told.\<close>

theorem lost_agent_ends_session_witness:
  "\<exists>t. t \<in> cancelled_at (listener_run [AgentConnected 10, AgentLeft 10 1] (listener_step (SessionWatches 10) listener_start))"
proof -
  let ?l = "listener_run [] listener_start" and ?later = "[AgentConnected 10, AgentLeft 10 1]"
  obtain watch service where w: "agent_watch default_features demo_vsock_config (Some 10) (Some (svc (ls_sys ?l))) = (watch, service)"
    by (cases "agent_watch default_features demo_vsock_config (Some 10) (Some (svc (ls_sys ?l)))")
  have v: "vsock_session default_features demo_vsock_config"
    by (simp add: vsock_session_def default_features_def demo_vsock_config_def)
  have "left_during 10 ?later (listener_step (SessionWatches 10) ?l)"
    by (simp add: leaves_def listener_start_def vsys_init_def service_start_def accept_agent_def new_chan_def
        subscribe_agent_disconnect_def)
  then show ?thesis using lost_agent_ends_session [OF v _ refl w, of ?later] by auto
qed

text \<open>No interleaving of the agents leaves the steps of the service.\<close>

lemma listener_reachable: "vstep\<^sup>*\<^sup>* vsys_init (ls_sys (listener_run es listener_start))"
  using listener_run_vstep [of listener_start es] by (simp add: listener_start_def)

section \<open>The two ends of an agent's connection\<close>

definition hello_ack :: "string \<Rightarrow> agent_message" where
  "hello_ack version = Some (MHelloAck \<lparr>pa_accepted = True, proxy_version = version, pa_error_message = ''''\<rparr>)"

text \<open>
  C20. From the first byte the agent and the proxy understand each other: the proxy accepts the agent,
  publishes its size, passes on its frames in order under its CID; the agent starts in the
  format it announced first and acts on the inputs that follow.
\<close>

theorem agent_and_proxy_meet:
  assumes "h = hello_of (agent_side_of version cfg caps)" and "st = start_for fps pid h"
    and "list_all (codec_law C) ([Some (MHello h), hello_ack pv, Some (MStart st), final_message]
      @ map (\<lambda>f. Some (MFrame (proto_frame_of fmt f))) fs @ map (\<lambda>b. Some (MInputs b)) bs)"
  shows "\<exists>answer. run_agent_session C pv k fps pid True None cid (send_framed C (Some (MHello h)) @ agent_frames C fmt fs)
      = (AgentDone, answer, map (\<lambda>(i, f). received_frame cid i (proto_frame_of fmt f)) (enumerate 0 fs),
         if vk_shared k then Some (hello_caps h) else None)
    \<and> connect_and_handshake C (answer @ inputs_relay C bs) = Ok (st, inputs_relay C bs)
    \<and> agent_commands C (inputs_relay C bs) = map CmdInputs bs
    \<and> negotiated_format st = hd (announced_formats (caps_format caps))"
proof -
  let ?answer = "send_framed C (hello_ack pv) @ send_framed C (Some (MStart st))"
  have law: "codec_law C (Some (MHello h))" "codec_law C (hello_ack pv)" "codec_law C (Some (MStart st))"
    "codec_law C final_message" "\<And>f. f \<in> set fs \<Longrightarrow> codec_law C (Some (MFrame (proto_frame_of fmt f)))"
    "\<And>b. b \<in> set bs \<Longrightarrow> codec_law C (Some (MInputs b))"
    using assms(3) by (auto simp: list_all_iff)
  have "proxy_handshake C pv fps pid (send_framed C (Some (MHello h)) @ agent_frames C fmt fs)
      = Ok (?answer, hello_caps h, agent_frames C fmt fs)"
    using recv_send [OF law(1)] by (simp add: proxy_handshake_def hello_ack_def assms(2))
  then have "run_agent_session C pv k fps pid True None cid (send_framed C (Some (MHello h)) @ agent_frames C fmt fs)
      = (AgentDone, ?answer, map (\<lambda>(i, f). received_frame cid i (proto_frame_of fmt f)) (enumerate 0 fs),
         if vk_shared k then Some (hello_caps h) else None)"
    using frames_delivered [OF law(5,4)] by (simp add: run_agent_session_def)
  moreover have "connect_and_handshake C (?answer @ inputs_relay C bs) = Ok (st, inputs_relay C bs)"
    using recv_send [OF law(2)] recv_send [OF law(3)] by (simp add: connect_and_handshake_def hello_ack_def)
  moreover have "agent_commands C (inputs_relay C bs) = map CmdInputs bs"
    using inputs_delivered [of bs C "[]", OF law(6)] by simp
  moreover have "negotiated_format st = hd (announced_formats (caps_format caps))"
    by (simp add: assms(1,2) negotiated_format_def start_for_def chosen_format_def hello_of_def agent_side_of_def
        announced_formats_def pixel_try_from_def)
  ultimately show ?thesis by blast
qed

text \<open>A codec that numbers the messages of one connection.\<close>

definition demo_vm_agent_config :: agent_config where
  "demo_vm_agent_config = \<lparr>ag_vsock = default_agent_vsock, ag_capture = \<lparr>ac_backend = ''pipewire'', ac_max_fps = 30\<rparr>,
    ag_input = serde_default_input\<rparr>"

definition demo_hello :: agent_hello where
  "demo_hello = hello_of (agent_side_of ''0.1.0'' demo_vm_agent_config stub_caps)"

definition demo_messages :: "agent_message list" where
  "demo_messages = [Some (MHello demo_hello), hello_ack ''0.1.0'', Some (MStart (start_for 20 1 demo_hello)), final_message,
    Some (MFrame (proto_frame_of PfBgra8 demo_shot)), Some (MInputs [7])]"

definition demo_numbering :: msg_codec where
  "demo_numbering = \<lparr>encode_msg = (\<lambda>m. if m = demo_messages ! 0 then [0] else if m = demo_messages ! 1 then [1]
      else if m = demo_messages ! 2 then [2] else if m = demo_messages ! 3 then [3] else if m = demo_messages ! 4 then [4] else [5]),
    decode_msg = (\<lambda>b. if length b = 1 then Some (demo_messages ! unat (hd b)) else None)\<rparr>"

lemma demo_numbering_law: "list_all (codec_law demo_numbering) demo_messages"
  by (simp add: demo_messages_def demo_numbering_def codec_law_def max_vsock_message_def hello_ack_def final_message_def)

theorem agent_and_proxy_meet_witness:
  "\<exists>answer. run_agent_session demo_numbering ''0.1.0'' (vsock_capturer_with_shared_caps 6100) 20 1 True None 10
      (send_framed demo_numbering (Some (MHello demo_hello)) @ agent_frames demo_numbering PfBgra8 [demo_shot])
      = (AgentDone, answer, [received_frame 10 0 (proto_frame_of PfBgra8 demo_shot)], Some (hello_caps demo_hello))
    \<and> connect_and_handshake demo_numbering (answer @ inputs_relay demo_numbering [[7]])
      = Ok (start_for 20 1 demo_hello, inputs_relay demo_numbering [[7]])
    \<and> agent_commands demo_numbering (inputs_relay demo_numbering [[7]]) = [CmdInputs [7]]
    \<and> negotiated_format (start_for 20 1 demo_hello) = PfBgra8"
proof -
  have l: "list_all (codec_law demo_numbering) ([Some (MHello demo_hello), hello_ack ''0.1.0'',
      Some (MStart (start_for 20 1 demo_hello)), final_message]
      @ map (\<lambda>f. Some (MFrame (proto_frame_of PfBgra8 f))) [demo_shot] @ map (\<lambda>b. Some (MInputs b)) [[7]])"
    using demo_numbering_law by (simp add: demo_messages_def)
  from agent_and_proxy_meet [OF demo_hello_def refl l, of "vsock_capturer_with_shared_caps 6100" 10] show ?thesis
    by (simp add: vsock_capturer_with_shared_caps_def announced_formats_def stub_caps_def)
qed

end
