(* ===== verification/ScreenProps.thy ===== *)
theory ScreenProps
  imports LocalCapture ListenerProps
begin

text \<open>
  What holds of the capturers that read a screen of their own: they make no more frames than the
  rate allows, and an agent that does not use the portal shows no screen at all.
\<close>

section \<open>The rate\<close>

lemma spaced_window:
  fixes d :: nat
  assumes "sorted_wrt (\<lambda>x y. x + d \<le> y) ts"
  shows "length (filter (\<lambda>t. a \<le> t \<and> t < a + n * d) ts) \<le> n"
  using assms
proof (induction ts arbitrary: a n)
  case (Cons x ts)
  show ?case
  proof (cases "a \<le> x \<and> x < a + n * d")
    case True
    then obtain m where n: "n = Suc m" by (cases n) auto
    have "filter (\<lambda>t. a \<le> t \<and> t < a + n * d) ts = filter (\<lambda>t. a + d \<le> t \<and> t < (a + d) + m * d) ts"
      using Cons.prems True by (intro filter_cong refl) (auto simp: n)
    then show ?thesis using Cons.IH [of "a + d" m] Cons.prems True by (simp add: n)
  next
    case False
    then have "filter (\<lambda>t. a \<le> t \<and> t < a + n * d) (x # ts) = filter (\<lambda>t. a \<le> t \<and> t < a + n * d) ts" by simp
    then show ?thesis using Cons by simp
  qed
qed simp

lemma real_spaced:
  "sorted_wrt (\<lambda>x y. x + frame_duration_us fps \<le> y) (map fst (x11_loop_real c fps l seq ts)) \<and>
    (\<forall>t \<in> set (map fst (x11_loop_real c fps l seq ts)). l + frame_duration_us fps \<le> t)"
proof (induction ts arbitrary: l seq)
  case (Cons t ts)
  define w where "w = l + max (ct_elapsed t) (frame_duration_us fps) + ct_late t"
  have w: "l + frame_duration_us fps \<le> w" by (simp add: w_def)
  have step: "x11_loop_real c fps l seq (t # ts) = (if ct_cancelled t then []
    else case Option.bind (ct_image t) (x11_frame c fps (ct_stamp t) seq) of
        None \<Rightarrow> x11_loop_real c fps w seq ts
      | Some f \<Rightarrow> (w, f, ct_answer t) # (if ct_answer t = ChannelClosed then [] else x11_loop_real c fps w (seq + 1) ts))"
    unfolding x11_loop_real.simps Let_def w_def ..
  have later: "l + frame_duration_us fps \<le> x" if "w + frame_duration_us fps \<le> x" for x
    using that w by simp
  show ?case
  proof (cases "ct_cancelled t")
    case True
    then show ?thesis by simp
  next
    case False
    show ?thesis
    proof (cases "Option.bind (ct_image t) (x11_frame c fps (ct_stamp t) seq)")
      case None
      have "x11_loop_real c fps l seq (t # ts) = x11_loop_real c fps w seq ts"
        unfolding step None using False by simp
      then show ?thesis using Cons.IH [of w seq] later by simp
    next
      case (Some f)
      have e: "x11_loop_real c fps l seq (t # ts) =
          (w, f, ct_answer t) # (if ct_answer t = ChannelClosed then [] else x11_loop_real c fps w (seq + 1) ts)"
        unfolding step Some using False by simp
      show ?thesis unfolding e using Cons.IH [of w "seq + 1"] w by (auto intro: later)
    qed
  qed
qed simp

text \<open>
  The capture of an X screen keeps to its rate: whatever delays there are, in no stretch of time of
  \<open>n\<close> times the duration of a frame are more than \<open>n\<close> frames made.
\<close>

theorem capture_rate_bounded:
  "length (filter (\<lambda>(t, f, r). a \<le> t \<and> t < a + n * frame_duration_us fps) (x11_loop_real c fps l seq ts)) \<le> n"
proof -
  have "length (filter (\<lambda>t. a \<le> t \<and> t < a + n * frame_duration_us fps) (map fst (x11_loop_real c fps l seq ts))) \<le> n"
    by (rule spaced_window) (use real_spaced in blast)
  then show ?thesis by (simp add: filter_map o_def case_prod_unfold)
qed

text \<open>The frames that are sent are those of the loop without times.\<close>

lemma sent_frames_loop:
  "list_all (\<lambda>t. \<not> ct_cancelled t) ts \<Longrightarrow> sent_frames (x11_loop_real c fps l seq ts) =
    x11_capture_loop c fps seq (map (\<lambda>t. (ct_stamp t, ct_image t, ct_answer t)) ts)"
proof (induction ts arbitrary: l seq)
  case (Cons t ts)
  then show ?case
    by (cases "ct_answer t") (simp_all add: sent_frames_def Let_def split: option.split)
qed (simp add: sent_frames_def)

section \<open>A screen without the portal\<close>

lemma stub_sent:
  "map rf_data (sent_frames (x11_loop_stub c fps now seq ts)) =
    map (\<lambda>i. stub_data (caps_width c) (caps_height c) (seq + word_of_nat i))
      [0..<length (takeWhile (\<lambda>t. \<not> ct_cancelled t \<and> ct_answer t = Sent) ts)]"
proof (induction ts arbitrary: now seq)
  case Nil
  then show ?case by (simp add: sent_frames_def)
next
  case (Cons t ts)
  let ?n = "length (takeWhile (\<lambda>t. \<not> ct_cancelled t \<and> ct_answer t = Sent) ts)"
  have u: "map g [0..<Suc ?n] = g 0 # map (\<lambda>i. g (Suc i)) [0..<?n]" for g :: "nat \<Rightarrow> bytes"
    by (simp add: upt_conv_Cons map_Suc_upt [symmetric] del: upt_Suc)
  show ?case
  proof (cases "\<not> ct_cancelled t \<and> ct_answer t = Sent")
    case True
    then show ?thesis
      using Cons.IH [of _ "seq + 1"] unfolding sent_frames_def
      by (simp add: Let_def u x11_stub_frame_def algebra_simps del: upt_Suc)
  next
    case False
    then show ?thesis by (auto simp: sent_frames_def Let_def)
  qed
qed

lemma pattern_capture:
  assumes "\<not> wayland_backend (ac_backend (ag_capture cfg))"
    and "agent_open_screen ft X P writable home cfg fs h = (Ok (s, shared), fs', h')"
  shows "shared = None \<and> fs' = fs \<and> h' = h \<and> map rf_data (agent_capture ft X s fps pws ts) =
    map (\<lambda>i. stub_data 1920 1080 (word_of_nat i))
      [0..<length (takeWhile (\<lambda>t. \<not> ct_cancelled t \<and> ct_answer t = Sent) ts)]"
  using assms
  by (auto simp: agent_open_screen_def agent_create_capturer_def x11_new_def agent_build_def bind_result_def
      agent_capture_def x11_start_def stub_sent)

lemma delivered_data:
  "map (rf_data \<circ> (\<lambda>(i, f). received_frame cid i (proto_frame_of fmt f))) (enumerate n fs) = map rf_data fs"
  by (induction fs arbitrary: n) (simp_all add: received_frame_def proto_frame_of_def)

text \<open>
  C12. An agent whose configuration does not name the portal never shows a screen: it asks neither the
  portal nor the X server, takes no inputs, and what the proxy receives is the test pattern, frame
  by frame, whatever features the agent was built with.
\<close>

theorem agent_without_portal_shows_pattern:
  assumes "\<not> wayland_backend (ac_backend (ag_capture cfg))"
    and "agent_open_screen ft X P writable home cfg fs h = (Ok (s, shared), fs', h')"
    and "list_all (codec_law C) (final_message #
      map (\<lambda>f. Some (MFrame (proto_frame_of fmt f))) (agent_capture ft X s fps pws ts))"
  shows "h' = h \<and> agent_injector cfg shared = None \<and>
    map rf_data (proxy_frames C cid 0 (agent_frames C fmt (agent_capture ft X s fps pws ts))) =
      map (\<lambda>i. stub_data 1920 1080 (word_of_nat i))
        [0..<length (takeWhile (\<lambda>t. \<not> ct_cancelled t \<and> ct_answer t = Sent) ts)]"
proof -
  have law: "codec_law C final_message"
    "\<And>f. f \<in> set (agent_capture ft X s fps pws ts) \<Longrightarrow> codec_law C (Some (MFrame (proto_frame_of fmt f)))"
    using assms(3) by (auto simp: list_all_iff)
  have "map rf_data (proxy_frames C cid 0 (agent_frames C fmt (agent_capture ft X s fps pws ts)))
      = map rf_data (agent_capture ft X s fps pws ts)"
    by (simp add: frames_delivered law delivered_data)
  then show ?thesis using pattern_capture [OF assms(1,2)] by (simp add: agent_injector_def)
qed

definition demo_pattern_config :: agent_config where
  "demo_pattern_config = demo_vm_agent_config\<lparr>ag_capture := \<lparr>ac_backend = ''x11'', ac_max_fps = 30\<rparr>\<rparr>"

text \<open>An X server that shows a white screen.\<close>

definition demo_white :: x_display where
  "demo_white = \<lparr>xs_root = (\<lambda>d. Some (2, 1)), xs_shm = True, xs_damage = True, xs_geometry = True\<rparr>"

definition demo_turn :: capture_turn where
  "demo_turn = \<lparr>ct_cancelled = False, ct_elapsed = 0, ct_late = 0, ct_stamp = 1, ct_image = Some (replicate 8 255),
    ct_answer = Sent\<rparr>"

definition demo_two_messages :: "agent_message \<Rightarrow> msg_codec" where
  "demo_two_messages m = \<lparr>encode_msg = (\<lambda>x. if x = final_message then [0] else [1]),
    decode_msg = (\<lambda>b. if b = [0] then Some final_message else Some m)\<rparr>"

theorem agent_without_portal_shows_pattern_witness:
  "\<exists>s fmt C. agent_open_screen \<lparr>af_pipewire = True, af_remotedesktop = True\<rparr> demo_white demo_portal True None
      demo_pattern_config Map.empty [] = (Ok (s, None), Map.empty, [])
    \<and> map rf_data (proxy_frames C 10 0 (agent_frames C fmt
        (agent_capture \<lparr>af_pipewire = True, af_remotedesktop = True\<rparr> demo_white s 30 [] [demo_turn])))
      = [stub_data 1920 1080 0]"
proof -
  let ?ft = "\<lparr>af_pipewire = True, af_remotedesktop = True\<rparr>"
  let ?k = "\<lparr>xc_caps = stub_caps, xc_display = 0, xc_shm = False, xc_damage = False\<rparr>"
  let ?f = "x11_stub_frame stub_caps 1 0"
  let ?C = "demo_two_messages (Some (MFrame (proto_frame_of PfBgra8 ?f)))"
  have b: "\<not> wayland_backend (ac_backend (ag_capture demo_pattern_config))"
    by (simp add: wayland_backend_def demo_pattern_config_def)
  have o: "agent_open_screen ?ft demo_white demo_portal True None demo_pattern_config Map.empty []
      = (Ok (XScreen ?k, None), Map.empty, [])"
    using b by (simp add: agent_open_screen_def agent_create_capturer_def x11_new_def agent_build_def stub_caps_def bind_result_def)
  have c: "agent_capture ?ft demo_white (XScreen ?k) 30 [] [demo_turn] = [?f]"
    by (simp add: agent_capture_def x11_start_def agent_build_def sent_frames_def demo_turn_def)
  have l: "list_all (codec_law ?C) (final_message #
      map (\<lambda>f. Some (MFrame (proto_frame_of PfBgra8 f))) (agent_capture ?ft demo_white (XScreen ?k) 30 [] [demo_turn]))"
    unfolding c by (simp add: codec_law_def demo_two_messages_def max_vsock_message_def final_message_def)
  have "map rf_data (proxy_frames ?C 10 0 (agent_frames ?C PfBgra8
      (agent_capture ?ft demo_white (XScreen ?k) 30 [] [demo_turn]))) = [stub_data 1920 1080 0]"
    using agent_without_portal_shows_pattern [OF b o l, of 10] by (simp add: demo_turn_def)
  with o show ?thesis by (intro exI conjI)
qed

end
