(* ===== verification/Tls.thy ===== *)
theory Tls
  imports ClientConfig ServerConfig
begin

text \<open>
  The set-up of TLS and QUIC in every program: the server side of the proxy-encoder, of the
  earlier server (\<open>stream/mod.rs\<close>) and of the broker (\<open>nidan-broker/src/routing/mod.rs\<close>), the client
  side of the client and of the health checks of the broker.  Reading files, parsing PEM and the
  checks of the TLS library are parameters; a certificate and a key are of any type.
\<close>

record ('c, 'k) pem_lib =
  pem_read :: "string \<Rightarrow> bytes option"
  pem_certs :: "bytes \<Rightarrow> 'c list option"
  pem_pkcs8_keys :: "bytes \<Rightarrow> 'k list option"
  root_ok :: "'c \<Rightarrow> bool"
  verifier_ok :: "'c list \<Rightarrow> bool"
  identity_ok :: "'c list \<Rightarrow> 'k \<Rightarrow> bool"
  quic_ok :: "'c list \<Rightarrow> 'k \<Rightarrow> bool"

datatype tls_error =
    FileUnread string
  | BadPem string
  | NoPkcs8Key string
  | RootRejected
  | VerifierNotBuilt
  | IdentityRejected
  | NotForQuic

text \<open>A server presents a chain, and asks its peers for a certificate under the roots.\<close>

record ('c, 'k) tls_server =
  ts_chain :: "'c list"
  ts_key :: 'k
  ts_client_roots :: "'c list"

text \<open>A client presents a chain too, and checks that of its peer under the roots.\<close>

record ('c, 'k) tls_client =
  tc_chain :: "'c list"
  tc_key :: 'k
  tc_roots :: "'c list"

section \<open>The files\<close>

definition read_certs :: "('c, 'k) pem_lib \<Rightarrow> string \<Rightarrow> (tls_error, 'c list) result" where
  "read_certs L path =
    bind_result (ok_or (pem_read L path) (FileUnread path)) (\<lambda>b. ok_or (pem_certs L b) (BadPem path))"

definition read_key :: "('c, 'k) pem_lib \<Rightarrow> string \<Rightarrow> (tls_error, 'k) result" where
  "read_key L path =
    bind_result (ok_or (pem_read L path) (FileUnread path)) (\<lambda>b.
    bind_result (ok_or (pem_pkcs8_keys L b) (BadPem path)) (\<lambda>ks.
      case ks of [] \<Rightarrow> Err (NoPkcs8Key path) | k # _ \<Rightarrow> Ok k))"

definition read_roots :: "('c, 'k) pem_lib \<Rightarrow> string \<Rightarrow> (tls_error, 'c list) result" where
  "read_roots L path =
    bind_result (read_certs L path) (\<lambda>cas. if list_all (root_ok L) cas then Ok cas else Err RootRejected)"

section \<open>The two sides\<close>

definition server_tls :: "('c, 'k) pem_lib \<Rightarrow> tls_config \<Rightarrow> (tls_error, ('c, 'k) tls_server) result" where
  "server_tls L cfg =
    bind_result (read_certs L (tls_cert cfg)) (\<lambda>chain.
    bind_result (read_key L (tls_key cfg)) (\<lambda>key.
    bind_result (read_roots L (ca_cert cfg)) (\<lambda>cas.
      if \<not> verifier_ok L cas then Err VerifierNotBuilt
      else if \<not> identity_ok L chain key then Err IdentityRejected
      else if \<not> quic_ok L chain key then Err NotForQuic
      else Ok \<lparr>ts_chain = chain, ts_key = key, ts_client_roots = cas\<rparr>)))"

definition client_tls :: "('c, 'k) pem_lib \<Rightarrow> tls_config \<Rightarrow> (tls_error, ('c, 'k) tls_client) result" where
  "client_tls L cfg =
    bind_result (read_certs L (tls_cert cfg)) (\<lambda>chain.
    bind_result (read_key L (tls_key cfg)) (\<lambda>key.
    bind_result (read_roots L (ca_cert cfg)) (\<lambda>cas.
      if \<not> identity_ok L chain key then Err IdentityRejected
      else if \<not> quic_ok L chain key then Err NotForQuic
      else Ok \<lparr>tc_chain = chain, tc_key = key, tc_roots = cas\<rparr>)))"

definition proxy_tls :: "('c, 'k) pem_lib \<Rightarrow> server_config \<Rightarrow> (tls_error, ('c, 'k) tls_server) result" where
  "proxy_tls L cfg = server_tls L (sv_tls cfg)"

definition own_server_tls :: "('c, 'k) pem_lib \<Rightarrow> server_config \<Rightarrow> (tls_error, ('c, 'k) tls_server) result" where
  "own_server_tls L cfg = server_tls L (sv_tls cfg)"

definition broker_tls :: "('c, 'k) pem_lib \<Rightarrow> broker_config \<Rightarrow> (tls_error, ('c, 'k) tls_server) result" where
  "broker_tls L cfg = server_tls L (tls cfg)"

definition nidan_client_tls :: "('c, 'k) pem_lib \<Rightarrow> client_config \<Rightarrow> (tls_error, ('c, 'k) tls_client) result" where
  "nidan_client_tls L cfg = client_tls L (cc_tls cfg)"

section \<open>End points\<close>

text \<open>The limits of a connection, in seconds; without a value those of the library.\<close>

record quic_limits =
  max_idle_secs :: "nat option"
  keep_alive_secs :: "nat option"

definition library_transport :: quic_limits where
  "library_transport = \<lparr>max_idle_secs = None, keep_alive_secs = None\<rparr>"

definition proxy_transport :: quic_limits where
  "proxy_transport = \<lparr>max_idle_secs = Some 60, keep_alive_secs = Some 5\<rparr>"

definition client_transport :: quic_limits where
  "client_transport = \<lparr>max_idle_secs = Some 60, keep_alive_secs = Some 5\<rparr>"

datatype 'a setup_error = BadBindAddr string | TlsSetup tls_error | BindFailed 'a

text \<open>The address is parsed, then TLS is set up, then the socket bound.\<close>

definition server_endpoint ::
  "(string \<Rightarrow> 'a option) \<Rightarrow> ('a \<Rightarrow> bool) \<Rightarrow> quic_limits \<Rightarrow> string \<Rightarrow> (tls_error, ('c, 'k) tls_server) result \<Rightarrow>
    ('a setup_error, 'a \<times> quic_limits \<times> ('c, 'k) tls_server) result"
where
  "server_endpoint parse bindable tr s t =
    (case parse s of
      None \<Rightarrow> Err (BadBindAddr s)
    | Some a \<Rightarrow>
        (case t of
          Inl e \<Rightarrow> Err (TlsSetup e)
        | Inr c \<Rightarrow> if bindable a then Ok (a, tr, c) else Err (BindFailed a)))"

definition quic_server_new ::
  "('c, 'k) pem_lib \<Rightarrow> (string \<Rightarrow> 'a option) \<Rightarrow> ('a \<Rightarrow> bool) \<Rightarrow> server_config \<Rightarrow>
    ('a setup_error, 'a \<times> quic_limits \<times> ('c, 'k) tls_server) result"
where
  "quic_server_new L parse bindable cfg =
    server_endpoint parse bindable proxy_transport (bind_addr (sv_network cfg)) (proxy_tls L cfg)"

definition own_server_new ::
  "('c, 'k) pem_lib \<Rightarrow> (string \<Rightarrow> 'a option) \<Rightarrow> ('a \<Rightarrow> bool) \<Rightarrow> server_config \<Rightarrow>
    ('a setup_error, 'a \<times> quic_limits \<times> ('c, 'k) tls_server) result"
where
  "own_server_new L parse bindable cfg =
    server_endpoint parse bindable library_transport (bind_addr (sv_network cfg)) (own_server_tls L cfg)"

definition run_quic_server ::
  "('c, 'k) pem_lib \<Rightarrow> (string \<Rightarrow> 'a option) \<Rightarrow> ('a \<Rightarrow> bool) \<Rightarrow> broker_config \<Rightarrow>
    ('a setup_error, 'a \<times> quic_limits \<times> ('c, 'k) tls_server) result"
where
  "run_quic_server L parse bindable cfg =
    server_endpoint parse bindable library_transport (quic_bind (network cfg)) (broker_tls L cfg)"

text \<open>The client binds any port.\<close>

definition nidan_client_new ::
  "('c, 'k) pem_lib \<Rightarrow> bool \<Rightarrow> client_config \<Rightarrow> (unit setup_error, quic_limits \<times> ('c, 'k) tls_client) result"
where
  "nidan_client_new L bindable cfg =
    (case nidan_client_tls L cfg of
      Inl e \<Rightarrow> Err (TlsSetup e)
    | Inr c \<Rightarrow> if bindable then Ok (client_transport, c) else Err (BindFailed ()))"

text \<open>The end point of the health checks: the broker is a client with its own certificate.\<close>

definition build_health_endpoint ::
  "('c, 'k) pem_lib \<Rightarrow> bool \<Rightarrow> broker_config \<Rightarrow> (unit setup_error, ('c, 'k) tls_client) result"
where
  "build_health_endpoint L bindable cfg =
    (case client_tls L (tls cfg) of
      Inl e \<Rightarrow> Err (TlsSetup e)
    | Inr c \<Rightarrow> if bindable then Ok c else Err (BindFailed ()))"

section \<open>What a set-up is\<close>

lemma read_key_first: "read_key L path = Ok k \<Longrightarrow> \<exists>b ks. pem_read L path = Some b \<and> pem_pkcs8_keys L b = Some (k # ks)"
  by (auto simp: read_key_def bind_result_def ok_or_def split: option.splits sum.splits list.splits if_splits)

lemma read_certs_Ok: "read_certs L path = Ok cs \<longleftrightarrow> (\<exists>b. pem_read L path = Some b \<and> pem_certs L b = Some cs)"
  by (auto simp: read_certs_def bind_result_def ok_or_def split: option.splits)

text \<open>
  A server never starts without asking its peers for a certificate: the roots are all those of
  the CA file, and the library has made a verifier of them.
\<close>

lemma server_tls_Ok:
  "server_tls L cfg = Ok t \<longleftrightarrow>
    read_certs L (tls_cert cfg) = Ok (ts_chain t) \<and> read_key L (tls_key cfg) = Ok (ts_key t) \<and>
    read_certs L (ca_cert cfg) = Ok (ts_client_roots t) \<and> list_all (root_ok L) (ts_client_roots t) \<and>
    verifier_ok L (ts_client_roots t) \<and> identity_ok L (ts_chain t) (ts_key t) \<and> quic_ok L (ts_chain t) (ts_key t)"
  by (cases t) (auto simp: server_tls_def read_roots_def bind_result_def split: sum.splits if_splits)

lemma client_tls_Ok:
  "client_tls L cfg = Ok t \<longleftrightarrow>
    read_certs L (tls_cert cfg) = Ok (tc_chain t) \<and> read_key L (tls_key cfg) = Ok (tc_key t) \<and>
    read_certs L (ca_cert cfg) = Ok (tc_roots t) \<and> list_all (root_ok L) (tc_roots t) \<and>
    identity_ok L (tc_chain t) (tc_key t) \<and> quic_ok L (tc_chain t) (tc_key t)"
  by (cases t) (auto simp: client_tls_def read_roots_def bind_result_def split: sum.splits if_splits)

text \<open>
  Whatever files it is given, each of the three servers that opens its end point demands from
  its peers a certificate under the certificates of its CA file, all of which the library
  accepted, and shows the chain of its own file with the first PKCS#8 key.
\<close>

theorem servers_demand_certificates:
  assumes "quic_server_new L parse bindable cfg = Ok (a, tr, t) \<and> f = sv_tls cfg
    \<or> own_server_new L parse bindable cfg = Ok (a, tr, t) \<and> f = sv_tls cfg
    \<or> run_quic_server L parse bindable bcfg = Ok (a, tr, t) \<and> f = tls bcfg"
  shows "read_certs L (ca_cert f) = Ok (ts_client_roots t) \<and> verifier_ok L (ts_client_roots t)
    \<and> list_all (root_ok L) (ts_client_roots t) \<and> read_certs L (tls_cert f) = Ok (ts_chain t)
    \<and> (\<exists>b ks. pem_read L (tls_key f) = Some b \<and> pem_pkcs8_keys L b = Some (ts_key t # ks))"
proof -
  have "server_tls L f = Ok t"
    using assms
    by (auto simp: quic_server_new_def own_server_new_def run_quic_server_def server_endpoint_def proxy_tls_def
        own_server_tls_def broker_tls_def split: option.splits sum.splits if_splits)
  then show ?thesis using read_key_first [of L "tls_key f" "ts_key t"] unfolding server_tls_Ok by simp
qed

text \<open>The broker's certificate, usable for its server, is usable for its health checks.\<close>

lemma broker_can_check: "broker_tls L cfg = Ok t \<Longrightarrow> \<exists>c. build_health_endpoint L True cfg = Ok c"
proof -
  assume "broker_tls L cfg = Ok t"
  then have "client_tls L (tls cfg) = Ok \<lparr>tc_chain = ts_chain t, tc_key = ts_key t, tc_roots = ts_client_roots t\<rparr>"
    by (simp add: broker_tls_def server_tls_Ok client_tls_Ok)
  then show ?thesis by (simp add: build_health_endpoint_def)
qed

end
