(* ===== verification/Health.thy ===== *)
theory Health
  imports Tls Broker PoolProps
begin

text \<open>
  The health checks of the pool (\<open>ping_vm\<close> and \<open>probe_udp\<close> of \<open>nidan-broker/src/pool/mod.rs\<close>) and the
  choice of their means when the broker starts (\<open>BrokerState::new\<close>).  The network is a parameter:
  what a QUIC handshake with an address comes to, and how far a datagram gets.
\<close>

datatype quic_attempt = QuicRefused | QuicFailed | QuicTimeout | QuicDone

record 'a probe_net =
  pn_parse :: "string \<Rightarrow> 'a option"
  pn_quic :: "'a \<Rightarrow> quic_attempt"
  pn_bind :: "'a \<Rightarrow> bool"
  pn_connect :: "'a \<Rightarrow> bool"
  pn_send :: "'a \<Rightarrow> bool option"

text \<open>The datagram is sent and no answer awaited; a send that does not end in time is \<open>None\<close>.\<close>

definition probe_udp :: "'a probe_net \<Rightarrow> 'a \<Rightarrow> bool" where
  "probe_udp N a \<longleftrightarrow> pn_bind N a \<and> pn_connect N a \<and> pn_send N a = Some True"

definition ping_vm :: "'a probe_net \<Rightarrow> bool \<Rightarrow> string \<Rightarrow> bool" where
  "ping_vm N has_endpoint s =
    (case pn_parse N s of
      None \<Rightarrow> False
    | Some a \<Rightarrow> if has_endpoint then pn_quic N a = QuicDone else probe_udp N a)"

text \<open>The broker, and whether it has an end point for the checks.\<close>

definition broker_state_new ::
  "('c, 'k) pem_lib \<Rightarrow> bool \<Rightarrow> broker_config \<Rightarrow> timestamp \<Rightarrow> (backend_error, broker \<times> bool) result"
where
  "broker_state_new L bindable cfg now =
    bind_result (broker_new cfg now) (\<lambda>b. Ok (b, is_ok (build_health_endpoint L bindable cfg)))"

definition check_health :: "'a probe_net \<Rightarrow> bool \<Rightarrow> timestamp \<Rightarrow> pool \<Rightarrow> pool" where
  "check_health N has_endpoint now p = health_check_round (ping_vm N has_endpoint) now p"

section \<open>After a round\<close>

lemma checked_vm:
  "get (health_check_vm ping now i p) j =
    (if i = j then map_option (\<lambda>e. e\<lparr>last_health := Some now, e_state :=
        (if \<not> ping (addr e) then if is_available (e_state e) then Unhealthy ''health check timeout'' now else e_state e
         else if is_unhealthy (e_state e) then Available else e_state e)\<rparr>) (get p i)
     else get p j)"
  by (auto simp: health_check_vm_def Let_def get_insert split: option.split)

text \<open>What a check makes of an entry, done once or twice.\<close>

definition checked :: "(string \<Rightarrow> bool) \<Rightarrow> timestamp \<Rightarrow> vm_pool_entry \<Rightarrow> vm_pool_entry" where
  "checked ping now e = e\<lparr>last_health := Some now, e_state :=
    (if \<not> ping (addr e) then if is_available (e_state e) then Unhealthy ''health check timeout'' now else e_state e
     else if is_unhealthy (e_state e) then Available else e_state e)\<rparr>"

lemma checked_twice: "checked ping now (checked ping now e) = checked ping now e"
  by (cases "e_state e") (simp_all add: checked_def addr_def is_available_def)

lemma checked_all:
  "get (fold (health_check_vm ping now) xs p) j =
    (if j \<in> set xs then map_option (checked ping now) (get p j) else get p j)"
proof (induction xs arbitrary: p)
  case (Cons i xs)
  have "get (health_check_vm ping now i p) j = (if i = j then map_option (checked ping now) (get p i) else get p j)"
    unfolding checked_vm checked_def ..
  then show ?case using Cons.IH [of "health_check_vm ping now i p"]
    by (cases "get p j") (auto simp: checked_twice)
qed simp

lemma entry_listed:
  assumes "pool_inv p" and "get p i = Some e"
  shows "i \<in> set (map e_id (filter (\<lambda>e. e_state e \<noteq> Disabled) (entries p))) \<longleftrightarrow> e_state e \<noteq> Disabled"
proof -
  have e: "e \<in> set (entries p)" "e_id e = i"
  proof -
    have m: "(i, e) \<in> set (vms p)" using assms get_mem by simp
    show "e \<in> set (entries p)" unfolding entries_mem using m by (rule exI)
    show "e_id e = i" using pool_invD(3) [OF assms(1) m] by (simp add: entry_ok_def)
  qed
  have same: "f = e" if "f \<in> set (entries p)" "e_id f = i" for f
    using entry_get [OF assms(1) that(1)] that(2) assms(2) by simp
  show ?thesis
  proof
    assume "i \<in> set (map e_id (filter (\<lambda>e. e_state e \<noteq> Disabled) (entries p)))"
    then obtain f where f: "f \<in> set (entries p)" "e_id f = i" "e_state f \<noteq> Disabled" by auto
    then show "e_state e \<noteq> Disabled" using same [OF f(1,2)] by simp
  next
    assume "e_state e \<noteq> Disabled"
    then have "e \<in> set (filter (\<lambda>e. e_state e \<noteq> Disabled) (entries p))" using e(1) by simp
    then have "e_id e \<in> set (map e_id (filter (\<lambda>e. e_state e \<noteq> Disabled) (entries p)))"
      unfolding set_map by (rule imageI)
    then show "i \<in> set (map e_id (filter (\<lambda>e. e_state e \<noteq> Disabled) (entries p)))" unfolding e(2) .
  qed
qed

lemma round_get:
  assumes "pool_inv p"
  shows "get (health_check_round ping now p) i =
    map_option (\<lambda>e. if e_state e = Disabled then e else checked ping now e) (get p i)"
proof (cases "get p i")
  case None
  then show ?thesis by (simp add: health_check_round_def checked_all)
next
  case (Some e)
  show ?thesis unfolding health_check_round_def checked_all entry_listed [OF assms Some] using Some by simp
qed

text \<open>What a VM has to answer to be found healthy.\<close>

lemma ping_vm_iff: "ping_vm N has_endpoint s \<longleftrightarrow> (\<exists>a. pn_parse N s = Some a \<and>
    (if has_endpoint then pn_quic N a = QuicDone else pn_bind N a \<and> pn_connect N a \<and> pn_send N a = Some True))"
  by (auto simp: ping_vm_def probe_udp_def split: option.split)

text \<open>
  C2. After a round a VM is available exactly if it was available or unhealthy before and answered:
  with an end point it has completed a QUIC handshake with the broker's own certificate, and
  without one it is enough that the broker could send it a datagram.
\<close>

theorem available_answers:
  assumes "pool_inv p"
  shows "(\<exists>e. get (check_health N has_endpoint now p) i = Some e \<and> e_state e = Available) \<longleftrightarrow>
    (\<exists>e a. get p i = Some e \<and> (e_state e = Available \<or> is_unhealthy (e_state e)) \<and> pn_parse N (addr e) = Some a
      \<and> (if has_endpoint then pn_quic N a = QuicDone
         else pn_bind N a \<and> pn_connect N a \<and> pn_send N a = Some True))"
proof (cases "get p i")
  case None
  then show ?thesis by (simp add: check_health_def round_get [OF assms])
next
  case (Some e)
  have "(e_state e \<noteq> Disabled \<and> e_state (checked (ping_vm N has_endpoint) now e) = Available) \<longleftrightarrow>
      (e_state e = Available \<or> is_unhealthy (e_state e)) \<and> ping_vm N has_endpoint (addr e)"
    by (cases "e_state e") (simp_all add: checked_def is_available_def)
  then have "(\<exists>e. get (check_health N has_endpoint now p) i = Some e \<and> e_state e = Available) \<longleftrightarrow>
      (e_state e = Available \<or> is_unhealthy (e_state e)) \<and> ping_vm N has_endpoint (addr e)"
    unfolding check_health_def round_get [OF assms] Some by (cases "e_state e = Disabled") simp_all
  then show ?thesis unfolding ping_vm_iff Some by simp
qed

definition demo_probe_net :: "string probe_net" where
  "demo_probe_net = \<lparr>pn_parse = Some, pn_quic = (\<lambda>a. QuicTimeout), pn_bind = (\<lambda>a. True), pn_connect = (\<lambda>a. True),
    pn_send = (\<lambda>a. Some True)\<rparr>"

text \<open>The network of the witness answers nothing: with an end point the VM is found dead, without one alive.\<close>

theorem available_answers_witness:
  "(\<exists>e. get (check_health demo_probe_net False 5 (build demo_mixed 0)) ''vm1'' = Some e \<and> e_state e = Available)
    \<and> \<not> (\<exists>e. get (check_health demo_probe_net True 5 (build demo_mixed 0)) ''vm1'' = Some e \<and> e_state e = Available)"
proof -
  have inv: "pool_inv (build demo_mixed 0)" by (rule build_inv)
  have "(case get (build demo_mixed 0) ''vm1'' of Some e \<Rightarrow> is_available (e_state e) | None \<Rightarrow> False)"
    by code_simp
  then obtain e where "get (build demo_mixed 0) ''vm1'' = Some e" "e_state e = Available"
    by (auto simp: is_available_def split: option.splits)
  then show ?thesis unfolding available_answers [OF inv] by (simp add: demo_probe_net_def)
qed

end
