(* ===== verification/ServerStream.thy ===== *)
theory ServerStream
  imports ProxyRun Injection
begin

text \<open>
  The earlier server (\<open>nidan-server/src/\<close>), which runs inside the machine and captures its own
  screen: the choice of a capturer, the encoder the build selects and its pipeline, the injector,
  and a connection from its handshake to its end (\<open>stream/mod.rs\<close>).  The routines that are the
  same in the proxy-encoder, from the framing of the handshake to the dispatch of control
  messages, are those of \<open>ProxyStream\<close>.
\<close>

section \<open>Capture\<close>

record server_features =
  has_pipewire :: bool
  has_remotedesktop :: bool

text \<open>A backend that is not of Wayland is X11, \<open>vsock\<close> too.\<close>

definition server_create_capturer ::
  "server_features \<Rightarrow> (capturer_kind \<Rightarrow> bool) \<Rightarrow> string \<Rightarrow> u32 \<Rightarrow> bool \<Rightarrow> bool \<Rightarrow> string option \<Rightarrow>
    (capture_error, capturer_kind) result"
where
  "server_create_capturer ft starts backend display xshm xdamage token =
    (let build = (\<lambda>k. if starts k then Ok k else Err CapturerFailed) in
     if backend = ''wayland'' \<or> backend = ''pipewire'' then
       (if has_pipewire ft then build (PipeWireKind token) else Err PipeWireNotCompiled)
     else build (X11Kind display xshm xdamage))"

section \<open>The encoder\<close>

definition server_params :: "codec_choice \<Rightarrow> u32 \<Rightarrow> u32 \<Rightarrow> u32 \<Rightarrow> encoder_params" where
  "server_params c w h fps =
    \<lparr>ep_codec = c, ep_width = w, ep_height = h, ep_fps = fps, bitrate_kbps = 0, crf = 28,
     h264_profile = ''high'', preset = ''ultrafast'', ep_hardware_accel = True, hw_device = None,
     keyframe_interval_secs = 2, threads = 0\<rparr>"

definition server_h264_new :: "'s h264_lib \<Rightarrow> encoder_params \<Rightarrow> (encoder_error, 's h264_encoder) result" where
  "server_h264_new L p =
    bind_result (params_validate p) (\<lambda>_.
      case lib_new L of
        None \<Rightarrow> Err LibraryFailed
      | Some s \<Rightarrow> Ok \<lparr>he_lib = s, he_width = ep_width p, he_height = ep_height p, he_frame_count = 0,
          he_force_keyframe = True,
          keyframe_interval = max (ucast (ep_fps p) * ucast (keyframe_interval_secs p)) 1\<rparr>)"

text \<open>Here the third byte of a pixel is red, in the proxy the first.\<close>

fun copy_bgra_pixels :: "nat \<Rightarrow> bytes \<Rightarrow> bytes" where
  "copy_bgra_pixels (Suc n) (b # g # r # a # rest) = r # g # b # copy_bgra_pixels n rest"
| "copy_bgra_pixels _ _ = []"

definition server_bgra_to_rgb :: "bytes \<Rightarrow> u32 \<Rightarrow> u32 \<Rightarrow> bytes" where
  "server_bgra_to_rgb img w h =
    (let n = unat (w * h); rgb = copy_bgra_pixels n img in rgb @ replicate (n * 3 - length rgb) 0)"

text \<open>
  \<open>yuv_ok w h\<close> is whether the library converts an image of that size; it panics when not (it
  wants even sizes).  A panic is \<open>None\<close>.
\<close>

definition server_h264_encode_frame ::
  "'s h264_lib \<Rightarrow> (u32 \<Rightarrow> u32 \<Rightarrow> bool) \<Rightarrow> raw_frame \<Rightarrow> 's h264_encoder \<Rightarrow>
    ((encoder_error, bytes) result \<times> 's h264_encoder) option"
where
  "server_h264_encode_frame L yuv_ok f e =
    (let e1 = (if he_force_keyframe e \<or> he_frame_count e mod keyframe_interval e = 0
               then e\<lparr>he_lib := lib_force_intra L (he_lib e), he_force_keyframe := False\<rparr> else e);
         rgb = server_bgra_to_rgb (rf_data f) (he_width e1) (he_height e1)
     in if \<not> yuv_ok (he_width e1) (he_height e1) then None
        else (let (r, s) = lib_encode L (he_width e1) (he_height e1) rgb (he_lib e1); e2 = e1\<lparr>he_lib := s\<rparr>
          in Some (case r of
               None \<Rightarrow> (Err LibraryFailed, e2)
             | Some d \<Rightarrow> (Ok d, e2\<lparr>he_frame_count := he_frame_count e2 + 1\<rparr>))))"

text \<open>The alias \<open>ActiveEncoder\<close>: what the pipeline calls, whichever encoder the build selects.\<close>

record 'e active_encoder =
  ae_new :: "encoder_params \<Rightarrow> (encoder_error, 'e) result"
  ae_request_keyframe :: "'e \<Rightarrow> 'e"
  ae_encode :: "raw_frame \<Rightarrow> 'e \<Rightarrow> ((encoder_error, bytes) result \<times> 'e) option"

definition openh264_active :: "'s h264_lib \<Rightarrow> (u32 \<Rightarrow> u32 \<Rightarrow> bool) \<Rightarrow> 's h264_encoder active_encoder" where
  "openh264_active L yuv_ok = \<lparr>ae_new = server_h264_new L, ae_request_keyframe = request_keyframe,
    ae_encode = server_h264_encode_frame L yuv_ok\<rparr>"

definition ffmpeg_request_keyframe :: "ffmpeg_encoder \<Rightarrow> ffmpeg_encoder" where
  "ffmpeg_request_keyframe e = e\<lparr>fe_force_keyframe := True\<rparr>"

definition ffmpeg_active :: "(bytes \<Rightarrow> u64) \<Rightarrow> ffmpeg_encoder active_encoder" where
  "ffmpeg_active hash = \<lparr>ae_new = ffmpeg_new, ae_request_keyframe = ffmpeg_request_keyframe,
    ae_encode = (\<lambda>f e. map_option (\<lambda>(nal, e'). (Ok nal, e')) (ffmpeg_encode_frame hash f e))\<rparr>"

section \<open>The pipeline\<close>

record 'e server_pipeline =
  sp_codec :: codec_choice
  sp_start_us :: u64
  sp_encoder :: 'e
  sp_cipher :: "stream_cipher option"

definition server_pipeline_start ::
  "'e active_encoder \<Rightarrow> encoder_params \<Rightarrow> bytes option \<Rightarrow> u64 \<Rightarrow> (encoder_error, 'e server_pipeline) result"
where
  "server_pipeline_start E p key now =
    bind_result (ae_new E p) (\<lambda>e. Ok \<lparr>sp_codec = ep_codec p, sp_start_us = now, sp_encoder = e,
      sp_cipher = map_option cipher_new key\<rparr>)"

definition server_pipeline_frame ::
  "'e active_encoder \<Rightarrow> aead \<Rightarrow> u32 \<Rightarrow> raw_frame \<Rightarrow> 'e server_pipeline \<Rightarrow>
    (encoded_frame option \<times> 'e server_pipeline) option"
where
  "server_pipeline_frame E A duration f p =
    (let e0 = (if rf_keyframe f then ae_request_keyframe E (sp_encoder p) else sp_encoder p) in
     case ae_encode E f e0 of
       None \<Rightarrow> None
     | Some (r, e1) \<Rightarrow>
         (let p1 = p\<lparr>sp_encoder := e1\<rparr> in
          case r of
            Inl _ \<Rightarrow> Some (None, p1)
          | Inr nal \<Rightarrow>
              if nal = [] then Some (None, p1)
              else (let (x, c) = protect A nal (sp_cipher p1); p2 = p1\<lparr>sp_cipher := c\<rparr>
                in Some (map_option (\<lambda>(ct, nonce).
                      \<lparr>ef_data = ct, ef_nonce = nonce, ef_seq = rf_seq f,
                       ef_pts_ms = pts_of (sp_start_us p) (rf_timestamp_us f), ef_codec = sp_codec p,
                       ef_keyframe = rf_keyframe f, ef_width = rf_width f, ef_height = rf_height f,
                       ef_duration_us = duration\<rparr>) x, p2))))"

text \<open>The frames delivered, and the pipeline, unless it has panicked.\<close>

fun server_pipeline_run ::
  "'e active_encoder \<Rightarrow> aead \<Rightarrow> (raw_frame \<times> u32 \<times> bool) list \<Rightarrow> 'e server_pipeline \<Rightarrow>
    encoded_frame list \<times> 'e server_pipeline option"
where
  "server_pipeline_run E A [] p = ([], Some p)"
| "server_pipeline_run E A ((f, duration, receiver) # rest) p =
    (case server_pipeline_frame E A duration f p of
      None \<Rightarrow> ([], None)
    | Some (None, p1) \<Rightarrow> server_pipeline_run E A rest p1
    | Some (Some e, p1) \<Rightarrow>
        if receiver then (let (es, p2) = server_pipeline_run E A rest p1 in (e # es, p2))
        else ([], Some p1))"

section \<open>The handshake\<close>

text \<open>The claims have no CID here, and nothing of them is kept.\<close>

definition server_check_token ::
  "proxy_libs \<Rightarrow> server_config \<Rightarrow> timestamp \<Rightarrow> client_server_handshake \<Rightarrow> (token_error, unit) result"
where
  "server_check_token L cfg now hs =
    (if require_session_token (sv_security cfg)
     then bind_result (verify_session_token (pl_jwt L) now (from_utf8_lossy (hs_session_token hs)) (srv_jwt_secret (sv_security cfg)))
       (\<lambda>_. Ok ())
     else Ok ())"

record server_session =
  ss_video_cipher :: "stream_cipher option"
  ss_control_cipher :: "stream_cipher option"
  ss_ack :: server_handshake_ack

definition open_server_session ::
  "proxy_libs \<Rightarrow> server_config \<Rightarrow> proxy_conn \<Rightarrow> client_server_handshake \<Rightarrow> (connect_error, server_session) result \<times> bytes"
where
  "open_server_session L cfg c hs =
    (let dims = (case pc_local_caps c of None \<Rightarrow> (1280, 720) | Some k \<Rightarrow> (caps_width k, caps_height k)) in
     case server_keys L cfg hs c of
       Inl e \<Rightarrow> (Err e, [])
     | Inr keys \<Rightarrow>
         (case send_ack L c (session_ack hs dims keys) of
           None \<Rightarrow> (Err AckNotSent, [])
         | Some out \<Rightarrow>
             (Ok \<lparr>ss_video_cipher = fst (snd (snd keys)), ss_control_cipher = snd (snd (snd keys)),
                ss_ack = session_ack hs dims keys\<rparr>, out)))"

text \<open>The result and the bytes written to the client.\<close>

definition handle_server_connection ::
  "proxy_libs \<Rightarrow> server_config \<Rightarrow> proxy_conn \<Rightarrow> (connect_error, server_session) result \<times> bytes"
where
  "handle_server_connection L cfg c =
    (case receive_handshake L (pc_stream c) of
      Inl e \<Rightarrow> (Err e, [])
    | Inr hs \<Rightarrow>
        (case server_check_token L cfg (pc_now c) hs of
          Inl _ \<Rightarrow> (Err TokenRefused, case send_ack L c token_nack of None \<Rightarrow> [] | Some out \<Rightarrow> out)
        | Inr _ \<Rightarrow> open_server_session L cfg c hs))"

section \<open>Injection\<close>

text \<open>As built without X11 the first injector counts the events and keeps the clipboard.\<close>

datatype server_injector = ServerXtest u64 bytes | ServerPortal portal_injector

definition server_make_injector ::
  "server_features \<Rightarrow> bool \<Rightarrow> string \<Rightarrow> u32 \<Rightarrow> u32 \<Rightarrow> server_injector option"
where
  "server_make_injector ft portal_ok backend w h =
    (if has_remotedesktop ft \<and> (backend = ''wayland'' \<or> backend = ''pipewire'') then
       (if portal_ok then Some (ServerPortal \<lparr>pi_width = w, pi_height = h, pi_injected = 0, pi_sent = []\<rparr>) else None)
     else Some (ServerXtest 0 []))"

fun server_inject_batch :: "bool \<Rightarrow> input_batch \<Rightarrow> server_injector \<Rightarrow> server_injector" where
  "server_inject_batch alive b (ServerXtest n clip) = ServerXtest (n + word_of_nat (length b)) clip"
| "server_inject_batch alive b (ServerPortal i) = ServerPortal (snd (portal_inject_batch alive b i))"

fun server_set_clipboard :: "bytes \<Rightarrow> server_injector \<Rightarrow> server_injector" where
  "server_set_clipboard content (ServerXtest n clip) = ServerXtest n content"
| "server_set_clipboard content (ServerPortal i) = ServerPortal i"

fun server_injected_count :: "server_injector \<Rightarrow> u64" where
  "server_injected_count (ServerXtest n clip) = n"
| "server_injected_count (ServerPortal i) = pi_injected i"

fun server_apply_events :: "bool \<Rightarrow> control_event list \<Rightarrow> server_injector \<Rightarrow> server_injector" where
  "server_apply_events alive [] i = i"
| "server_apply_events alive (EvInputs b # es) i = server_apply_events alive es (server_inject_batch alive b i)"
| "server_apply_events alive (EvClipboard c # es) i = server_apply_events alive es (server_set_clipboard c i)"
| "server_apply_events alive (EvRefused r # es) i = server_apply_events alive es i"

section \<open>The session\<close>

text \<open>
  What surrounds a session: the features; which capturers initialise, their capabilities and the
  frames captured; the clock, the time each frame takes; whether the streams open; the control
  bytes of the client and the text of the test hook; the portal; the writes and the end.
\<close>

record server_env =
  se_features :: server_features
  se_starts :: "capturer_kind \<Rightarrow> bool"
  se_caps :: "capturer_kind \<Rightarrow> capturer_caps"
  se_frames :: "raw_frame list"
  se_now :: u64
  se_duration :: "nat \<Rightarrow> u32"
  se_opens :: bool
  se_control :: "bytes option"
  se_test_clip :: "bytes option"
  se_portal_ok :: bool
  se_portal_alive :: bool
  se_writes :: "bool list"
  se_stop :: "video_event list"

record control_libs =
  cb_aead :: aead
  cb_regex :: "string \<Rightarrow> (string \<Rightarrow> bool) option"
  cb_batch :: "bytes \<Rightarrow> input_batch option"
  cb_clip :: "bytes \<Rightarrow> clipboard_transfer_request option"
  cb_render_clip :: "clipboard_transfer_request \<Rightarrow> bytes option"

text \<open>The task of the control stream: the bytes it writes, and its injector at the end.\<close>

definition server_control_task ::
  "control_libs \<Rightarrow> server_env \<Rightarrow> server_config \<Rightarrow> string \<Rightarrow> capturer_caps \<Rightarrow> stream_cipher option \<Rightarrow>
    bytes \<times> server_injector option"
where
  "server_control_task B E cfg sid caps cipher =
    (case se_control E of
      None \<Rightarrow> ([], None)
    | Some s \<Rightarrow>
        (let flt = filter_new (cb_regex B) (sv_clipboard cfg);
             out = (case se_test_clip E of None \<Rightarrow> []
               | Some c \<Rightarrow> fst (send_clipboard_to_client (cb_aead B) (cb_render_clip B) flt sid c (map_option duplicate_fresh cipher)))
         in (out, map_option
              (server_apply_events (se_portal_alive E)
                (control_loop \<lparr>ce_aead = cb_aead B, ce_cipher = cipher, ce_filter = flt, ce_batch = cb_batch B, ce_clip = cb_clip B\<rparr> s))
              (server_make_injector (se_features E) (se_portal_ok E) (cap_backend (sv_capture cfg)) (caps_width caps) (caps_height caps)))))"

text \<open>The frames encoded, and whether the encoder has stopped by itself.\<close>

definition server_encoded ::
  "'e active_encoder \<Rightarrow> aead \<Rightarrow> server_env \<Rightarrow> server_config \<Rightarrow> capturer_caps \<Rightarrow> encoded_frame list \<times> bool"
where
  "server_encoded X A E cfg caps =
    (case server_pipeline_start X (server_params (session_codec cfg) (caps_width caps) (caps_height caps) (vc_max_fps (sv_video cfg)))
        None (se_now E) of
      Inl _ \<Rightarrow> ([], True)
    | Inr p \<Rightarrow> (let (es, q) = server_pipeline_run X A (timed (se_duration E) (se_frames E)) p in (es, q = None)))"

text \<open>No agent is watched: its end is not among the events.\<close>

definition server_events :: "server_env \<Rightarrow> encoded_frame list \<times> bool \<Rightarrow> video_event list" where
  "server_events E enc =
    map2 FrameReady (fst enc) (se_writes E) @ filter (heard None) (se_stop E) @ (if snd enc then [EncoderEnded] else [])"

text \<open>The video stream, and how the session ends with it.\<close>

definition server_stream ::
  "aead \<Rightarrow> (video_frame \<Rightarrow> bytes option) \<Rightarrow> video_event list \<Rightarrow> stream_cipher option \<Rightarrow> run_result \<times> bytes \<times> video_state"
where
  "server_stream A render es c =
    (let (out, r, st) = video_loop A render es (first_state c) in
     (case r of NotRendered \<Rightarrow> RunFailed FrameNotRendered | StillRunning \<Rightarrow> RunOngoing | _ \<Rightarrow> RunEnded, out, st))"

record server_outcome =
  so_result :: run_result
  so_bytes :: bytes
  so_video :: video_state
  so_control :: "bytes \<times> server_injector option"

definition run_server_session ::
  "'e active_encoder \<Rightarrow> control_libs \<Rightarrow> (video_frame \<Rightarrow> bytes option) \<Rightarrow> server_env \<Rightarrow> server_config \<Rightarrow> u32 \<Rightarrow> string \<Rightarrow>
    server_session \<Rightarrow> server_outcome"
where
  "run_server_session X B render E cfg display sid s =
    (let cap = sv_capture cfg; failed = (\<lambda>e. \<lparr>so_result = RunFailed e, so_bytes = [], so_video = first_state (ss_video_cipher s),
           so_control = ([], None)\<rparr>) in
     case server_create_capturer (se_features E) (se_starts E) (cap_backend cap) display (use_xshm cap) (use_xdamage cap)
         (portal_restore_token cap) of
       Inl e \<Rightarrow> failed (CapturerFailure e)
     | Inr k \<Rightarrow>
         if \<not> se_opens E then failed StreamNotOpened
         else (let caps = se_caps E k;
                   (r, out, st) = server_stream (cb_aead B) render (server_events E (server_encoded X (cb_aead B) E cfg caps))
                     (ss_video_cipher s)
           in \<lparr>so_result = r, so_bytes = out, so_video = st,
               so_control = server_control_task B E cfg sid caps (ss_control_cipher s)\<rparr>))"

definition serve_client ::
  "proxy_libs \<Rightarrow> 'e active_encoder \<Rightarrow> control_libs \<Rightarrow> (video_frame \<Rightarrow> bytes option) \<Rightarrow> server_env \<Rightarrow> server_config \<Rightarrow> u32 \<Rightarrow>
    string \<Rightarrow> proxy_conn \<Rightarrow> bytes \<times> (connect_error, server_outcome) result"
where
  "serve_client L X B render E cfg display sid c =
    (case handle_server_connection L cfg c of
      (Inl e, out) \<Rightarrow> (out, Err e)
    | (Inr s, out) \<Rightarrow> (out, Ok (run_server_session X B render E cfg display sid s)))"

section \<open>Accepting connections\<close>

datatype 'c accept_event = AcceptShutdown | AcceptConnection 'c | AcceptClosed

text \<open>Every connection gets a task of its own, whatever \<open>max_connections\<close> is.\<close>

fun server_accept_loop :: "('c \<Rightarrow> 'r) \<Rightarrow> 'c accept_event list \<Rightarrow> 'r list" where
  "server_accept_loop handle [] = []"
| "server_accept_loop handle (AcceptConnection c # es) = handle c # server_accept_loop handle es"
| "server_accept_loop handle (AcceptShutdown # es) = []"
| "server_accept_loop handle (AcceptClosed # es) = []"

end
