(* ===== verification/EncoderProps.thy ===== *)
theory EncoderProps
  imports Encoder "HOL-Library.Sublist"
begin

text \<open>
  The picture the codec library is given, pixel by pixel, for even and odd widths; the order,
  the flags and the nonces of the encoded frames.
\<close>

section \<open>Pixels\<close>

lemma unat_clamp_even: "unat (clamp_even x) = 2 * (unat x div 2)"
proof -
  have "clamp_even x = push_bit 1 (drop_bit 1 x)"
    unfolding clamp_even_def
    by (rule bit_eqI, unfold bit_push_bit_iff bit_and_iff bit_not_iff bit_drop_bit_eq bit_1_iff comp_def) auto
  moreover have "unat (push_bit 1 (drop_bit 1 x)) = 2 * (unat x div 2)"
  proof -
    have "unat x < 4294967296" by (rule unat_u32)
    then have "2 * (unat x div 2) < 4294967296" by linarith
    moreover have "unat (drop_bit 1 x) = unat x div 2" using unat_div [of x 2] by (simp add: drop_bit_eq_div)
    ultimately show ?thesis
      by (simp add: unat_word_ariths)
  qed
  ultimately show ?thesis by simp
qed

lemma copy_pixels_length: "length (copy_pixels n d) = 3 * min n (length d div 4)"
  by (induction n d rule: copy_pixels.induct) (auto simp: min_def)

lemma copy_pixels_at:
  "i < n \<Longrightarrow> 4 * i + 3 < length d \<Longrightarrow> take 3 (drop (3 * i) (copy_pixels n d)) = take 3 (drop (4 * i) d)"
proof (induction n d arbitrary: i rule: copy_pixels.induct)
  case (1 n r g b a rest)
  then show ?case by (cases i) (simp_all add: eval_nat_numeral)
qed auto


lemma bgra_to_rgb_length: "length (bgra_to_rgb d w h) = 3 * unat (w * h)"
  by (simp add: bgra_to_rgb_def Let_def copy_pixels_length)

lemma bgra_to_rgb_at:
  assumes "i < unat (w * h)" "4 * i + 3 < length d"
  shows "take 3 (drop (3 * i) (bgra_to_rgb d w h)) = take 3 (drop (4 * i) d)"
proof -
  have "3 * i + 3 \<le> length (copy_pixels (unat (w * h)) d)"
  proof -
    have "Suc i \<le> length d div 4" using assms(2) by linarith
    then have "Suc i \<le> min (unat (w * h)) (length d div 4)" using assms(1) by simp
    then have "3 * Suc i \<le> 3 * min (unat (w * h)) (length d div 4)" by (rule mult_le_mono2)
    then show ?thesis unfolding copy_pixels_length by (simp only: mult_Suc_right add.commute)
  qed
  then show ?thesis
    using copy_pixels_at [OF assms] by (simp add: bgra_to_rgb_def Let_def)
qed

definition rgb_at :: "bytes \<Rightarrow> nat \<Rightarrow> nat \<Rightarrow> nat \<Rightarrow> bytes" where
  "rgb_at img w r c = take 3 (drop (3 * (r * w + c)) img)"

definition captured_at :: "raw_frame \<Rightarrow> nat \<Rightarrow> nat \<Rightarrow> bytes" where
  "captured_at f r c = take 3 (drop (r * unat (rf_stride f) + 4 * c) (rf_data f))"

definition encoder_input :: "'s h264_encoder \<Rightarrow> raw_frame \<Rightarrow> bytes" where
  "encoder_input e f = bgra_to_rgb (rf_data f) (he_width e) (he_height e)"

lemma h264_new_size:
  assumes "h264_new L p = Ok e"
  shows "unat (he_width e) = 2 * (unat (ep_width p) div 2)" "unat (he_height e) = 2 * (unat (ep_height p) div 2)"
    "0 < unat (he_width e)" "0 < unat (he_height e)"
  using assms
  by (auto simp: h264_new_def bind_result_def Let_def unat_clamp_even unat_eq_zero unat_gt_0
      split: sum.splits if_splits option.splits)

lemma unat_product: "unat a * unat b < 4294967296 \<Longrightarrow> unat (a * b :: u32) = unat a * unat b"
  by (simp add: unat_word_ariths take_bit_nat_eq_self)

lemma pixel_index: "r < h \<Longrightarrow> c < w \<Longrightarrow> r * w + c < w * (h :: nat)"
proof -
  assume "r < h" "c < w"
  then have "r * w + c < r * w + w" by simp
  also have "\<dots> = Suc r * w" by simp
  also have "\<dots> \<le> h * w" using \<open>r < h\<close> by (intro mult_le_mono1) simp
  finally show ?thesis by (simp add: mult.commute)
qed

text \<open>The pixel at row r and column c of the encoder is pixel number \<open>r * width + c\<close> of the capture.\<close>

lemma encoder_pixel:
  assumes "h264_new L p = Ok e"
    and "unat (ep_width p) * unat (ep_height p) < 4294967296"
    and "4 * (unat (ep_width p) * unat (ep_height p)) \<le> length (rf_data f)"
    and "r < unat (he_height e)" "c < unat (he_width e)"
  shows "rgb_at (encoder_input e f) (unat (he_width e)) r c
    = take 3 (drop (4 * (r * unat (he_width e) + c)) (rf_data f))"
proof -
  note sz = h264_new_size [OF assms(1)]
  have le: "unat (he_width e) * unat (he_height e) \<le> unat (ep_width p) * unat (ep_height p)"
    by (rule mult_le_mono) (simp_all add: sz)
  have un: "unat (he_width e * he_height e) = unat (he_width e) * unat (he_height e)"
    using le assms(2) by (intro unat_product) linarith
  have i: "r * unat (he_width e) + c < unat (he_width e) * unat (he_height e)"
    using assms(4,5) by (rule pixel_index)
  then have "Suc (r * unat (he_width e) + c) \<le> unat (ep_width p) * unat (ep_height p)" using le by simp
  then have "4 * Suc (r * unat (he_width e) + c) \<le> 4 * (unat (ep_width p) * unat (ep_height p))"
    by (rule mult_le_mono2)
  then have "4 * (r * unat (he_width e) + c) + 3 < length (rf_data f)" using assms(3) by simp
  then show ?thesis unfolding rgb_at_def encoder_input_def
    using bgra_to_rgb_at i un by metis
qed

text \<open>
  The encoder shows the captured picture: for frames of even width without padding, the
  library gets exactly three bytes per pixel, even sizes, and at each place the captured pixel.
\<close>

theorem even_frames_encoded:
  assumes "h264_new L p = Ok e" "even (unat (ep_width p))"
    and "unat (ep_width p) * unat (ep_height p) < 4294967296"
    and "4 * (unat (ep_width p) * unat (ep_height p)) \<le> length (rf_data f)"
    and "unat (rf_stride f) = 4 * unat (ep_width p)"
    and "r < unat (he_height e)" "c < unat (he_width e)"
  shows "length (encoder_input e f) = 3 * (unat (he_width e) * unat (he_height e))
    \<and> even (unat (he_width e)) \<and> even (unat (he_height e))
    \<and> rgb_at (encoder_input e f) (unat (he_width e)) r c = captured_at f r c"
proof -
  note sz = h264_new_size [OF assms(1)]
  have w: "unat (he_width e) = unat (ep_width p)" using assms(2) sz(1) by simp
  have "unat (he_width e) * unat (he_height e) \<le> unat (ep_width p) * unat (ep_height p)"
    by (rule mult_le_mono) (simp_all add: sz)
  then have "length (encoder_input e f) = 3 * (unat (he_width e) * unat (he_height e))"
    using assms(3) unat_product [of "he_width e" "he_height e"] by (simp add: encoder_input_def bgra_to_rgb_length)
  moreover have "rgb_at (encoder_input e f) (unat (he_width e)) r c = captured_at f r c"
    using encoder_pixel [OF assms(1,3,4,6,7)] assms(5) w
    by (simp add: captured_at_def algebra_simps)
  ultimately show ?thesis using sz by simp
qed

text \<open>
  For frames of odd width the picture is skewed: the first pixel the encoder sees in row r is
  the captured pixel of row r - 1 at column width - r, one column further left in each row.
\<close>

theorem odd_frames_skewed:
  assumes "h264_new L p = Ok e" "odd (unat (ep_width p))"
    and "unat (ep_width p) * unat (ep_height p) < 4294967296"
    and "4 * (unat (ep_width p) * unat (ep_height p)) \<le> length (rf_data f)"
    and "unat (rf_stride f) = 4 * unat (ep_width p)"
    and "0 < r" "r < unat (he_height e)" "r \<le> unat (ep_width p)"
  shows "rgb_at (encoder_input e f) (unat (he_width e)) r 0
    = captured_at f (r - 1) (unat (ep_width p) - r)"
proof -
  note sz = h264_new_size [OF assms(1)]
  have w: "unat (ep_width p) = Suc (unat (he_width e))" using assms(2) sz(1) by (simp add: odd_two_times_div_two_succ)
  have "rgb_at (encoder_input e f) (unat (he_width e)) r 0 = take 3 (drop (4 * (r * unat (he_width e))) (rf_data f))"
    using encoder_pixel [OF assms(1,3,4,7) sz(3)] by simp
  moreover have "4 * (r * unat (he_width e)) = (r - 1) * unat (rf_stride f) + 4 * (unat (ep_width p) - r)"
  proof -
    obtain k where r: "r = Suc k" using assms(6) by (cases r) auto
    have "k \<le> unat (he_width e)" using assms(8) w r by simp
    then show ?thesis unfolding assms(5) w r by (simp add: algebra_simps)
  qed
  ultimately show ?thesis by (simp add: captured_at_def)
qed

section \<open>Two small encoders\<close>

definition toy_lib :: "unit h264_lib" where
  "toy_lib = \<lparr>lib_new = Some (), lib_force_intra = id, lib_encode = (\<lambda>w h rgb s. (Some rgb, s))\<rparr>"

definition toy_encoder :: "u32 \<Rightarrow> unit h264_encoder" where
  "toy_encoder w = \<lparr>he_lib = (), he_width = w, he_height = 2, he_frame_count = 0,
    he_force_keyframe = True, keyframe_interval = 30\<rparr>"

definition toy_frame :: "u32 \<Rightarrow> raw_frame" where
  "toy_frame w = \<lparr>rf_data = map word_of_nat [0 ..< 8 * unat w], rf_width = w, rf_height = 2, rf_stride = 4 * w,
    rf_timestamp_us = 0, rf_seq = 0, rf_keyframe = True, damage_rects = [], source_cid = None\<rparr>"

lemma toy_new:
  "h264_new toy_lib (for_remote_desktop ChoiceH264 2 2 30) = Ok (toy_encoder 2)"
  "h264_new toy_lib (for_remote_desktop ChoiceH264 3 2 30) = Ok (toy_encoder 2)"
  by (simp_all add: h264_new_def params_validate_def for_remote_desktop_def presets_def clamp_even_def
      toy_lib_def toy_encoder_def max_def word_le_nat_alt)

theorem even_frames_encoded_witness:
  "rgb_at (encoder_input (toy_encoder 2) (toy_frame 2)) 2 1 1 = [12, 13, 14]"
proof -
  have "rgb_at (encoder_input (toy_encoder 2) (toy_frame 2)) (unat (he_width (toy_encoder 2))) 1 1
      = captured_at (toy_frame 2) 1 1"
    using even_frames_encoded [OF toy_new(1), where f = "toy_frame 2" and r = 1 and c = 1]
    by (simp add: for_remote_desktop_def toy_encoder_def toy_frame_def)
  then show ?thesis by (simp add: captured_at_def toy_frame_def toy_encoder_def upt_rec)
qed

theorem odd_frames_skewed_witness:
  "rgb_at (encoder_input (toy_encoder 2) (toy_frame 3)) 2 1 0 = [8, 9, 10]
    \<and> captured_at (toy_frame 3) 1 0 = [12, 13, 14]"
proof -
  have "rgb_at (encoder_input (toy_encoder 2) (toy_frame 3)) (unat (he_width (toy_encoder 2))) 1 0
      = captured_at (toy_frame 3) (1 - 1) (3 - 1)"
    using odd_frames_skewed [OF toy_new(2), where f = "toy_frame 3" and r = 1]
    by (simp add: for_remote_desktop_def toy_encoder_def toy_frame_def)
  then show ?thesis by (simp add: captured_at_def toy_frame_def toy_encoder_def upt_rec)
qed

section \<open>The stream of encoded frames\<close>

lemma pipeline_frame_fields:
  assumes "pipeline_frame L A d f p = (Some e, p1)"
  shows "ef_seq e = rf_seq f" "ef_keyframe e = rf_keyframe f" "ef_width e = rf_width f" "ef_height e = rf_height f"
  using assms by (auto simp: pipeline_frame_def Let_def split: prod.splits sum.splits if_splits)

lemma pipeline_in_order:
  "pipeline_run L A xs p = (es, p') \<Longrightarrow>
    subseq (map (\<lambda>e. (ef_seq e, ef_keyframe e)) es) (map (\<lambda>(f, _). (rf_seq f, rf_keyframe f)) xs)"
proof (induction xs arbitrary: p es p')
  case Nil
  then show ?case by simp
next
  case (Cons x xs)
  obtain f d rcv where x: "x = (f, d, rcv)" by (cases x)
  obtain r p1 where pf: "pipeline_frame L A d f p = (r, p1)" by (cases "pipeline_frame L A d f p")
  obtain es1 p2 where rest: "pipeline_run L A xs p1 = (es1, p2)" by (cases "pipeline_run L A xs p1")
  show ?case
  proof (cases r)
    case None
    then have "es = es1" using Cons.prems x pf rest by simp
    then show ?thesis using Cons.IH [OF rest] x by (simp add: list_emb_Cons)
  next
    case (Some e)
    then have "es = (if rcv then e # es1 else [])" using Cons.prems x pf rest by (simp split: if_splits)
    then show ?thesis using Cons.IH [OF rest] pipeline_frame_fields [OF pf [unfolded Some]] x by simp
  qed
qed

lemma pipeline_payload:
  "pipeline_frame L A d f (p\<lparr>pl_cipher := None\<rparr>) = (Some e, p1) \<Longrightarrow> ef_data e \<noteq> [] \<and> length (ef_nonce e) = 12"
  by (auto simp: pipeline_frame_def Let_def protect_def split: prod.splits sum.splits if_splits)

end
