(* ===== verification/ServerProps.thy ===== *)
theory ServerProps
  imports ServerStream EncoderProps ProxyRunProps
begin

text \<open>
  What holds of the earlier server: it serves a client as the proxy-encoder does with a local
  screen, byte for byte; the pictures arrive; its encoder and that of the proxy exchange red and
  blue; a screen of odd size is never shown; a token opens the session of any machine.
\<close>

section \<open>Admission\<close>

definition server_view :: "proxy_session \<Rightarrow> server_session" where
  "server_view s = \<lparr>ss_video_cipher = ps_video_cipher s, ss_control_cipher = ps_control_cipher s, ss_ack = ps_ack s\<rparr>"

lemma local_dims:
  assumes "cap_backend (sv_capture cfg) \<noteq> ''vsock''"
  shows "session_dims cfg cid c service =
    (Ok (case pc_local_caps c of None \<Rightarrow> (1280, 720) | Some k \<Rightarrow> (caps_width k, caps_height k)), service)"
  using assms by (simp add: session_dims_def)

lemma admission_agrees:
  assumes "cap_backend (sv_capture cfg) \<noteq> ''vsock''"
  shows "handle_proxy_connection P cfg c service = (r, out, service') \<Longrightarrow>
    handle_server_connection P cfg c = (map_sum id server_view r, out)"
  by (auto simp: handle_proxy_connection_def handle_server_connection_def check_token_def server_check_token_def
      bind_result_def open_proxy_session_def open_server_session_def local_dims [OF assms] server_view_def Let_def
      split: sum.splits option.splits if_splits)

section \<open>The session\<close>

lemma local_capturer:
  assumes "backend \<noteq> ''vsock''" and "has_pipewire ft = pipewire_capture gt"
  shows "server_create_capturer ft starts backend display xshm xdamage token
    = create_capturer gt starts port backend display xshm xdamage token"
  using assms by (simp add: server_create_capturer_def create_capturer_def)

lemma heard_unwatched: "filter (heard None) es = filter (heard w) es" if "AgentGone \<notin> set es" for es
  using that
proof (induction es)
  case (Cons e es)
  then show ?case by (cases e) auto
qed simp

text \<open>The two surroundings offer the same to the session.\<close>

definition same_surroundings :: "run_env \<Rightarrow> server_env \<Rightarrow> bool" where
  "same_surroundings E F \<longleftrightarrow> has_pipewire (se_features F) = pipewire_capture (re_features E) \<and> se_starts F = re_starts E
    \<and> se_caps F = re_caps E \<and> se_opens F = re_opens E \<and> se_writes F = re_writes E \<and> se_stop F = re_stop E
    \<and> AgentGone \<notin> set (re_stop E)"

lemma served_alike:
  assumes "cap_backend (sv_capture cfg) \<noteq> ''vsock''" and "same_surroundings E F"
    and "\<And>k. server_encoded X (cb_aead B) F cfg (re_caps E k) =
      (case session_encoded L (cb_aead B) E cfg (re_caps E k) (LocalSource k) of None \<Rightarrow> ([], True) | Some es \<Rightarrow> (es, False))"
  shows "so_result (run_server_session X B render F cfg display sid (server_view s))
      = ro_result (run_proxy_session L (cb_aead B) render E cfg display service s)
    \<and> so_bytes (run_server_session X B render F cfg display sid (server_view s))
      = ro_bytes (run_proxy_session L (cb_aead B) render E cfg display service s)
    \<and> so_video (run_server_session X B render F cfg display sid (server_view s))
      = ro_video (run_proxy_session L (cb_aead B) render E cfg display service s)"
proof -
  let ?cap = "sv_capture cfg"
  note s = assms(2) [unfolded same_surroundings_def]
  have not_vsock: "\<not> vsock_session (re_features E) cfg" using assms(1) by (simp add: vsock_session_def)
  then have watch: "agent_watch (re_features E) cfg (ps_cid s) service = (None, service)"
    by (simp add: agent_watch_def split: option.split)
  have create: "server_create_capturer (se_features F) (se_starts F) (cap_backend ?cap) display (use_xshm ?cap) (use_xdamage ?cap)
        (portal_restore_token ?cap)
      = create_capturer (re_features E) (re_starts E) (re_env_port E) (cap_backend ?cap) display (use_xshm ?cap)
        (use_xdamage ?cap) (portal_restore_token ?cap)"
    using s local_capturer [OF assms(1)] by simp
  have events: "server_events F (server_encoded X (cb_aead B) F cfg (re_caps E k))
      = session_events E None (session_encoded L (cb_aead B) E cfg (re_caps E k) (LocalSource k))" for k
    using s by (simp add: assms(3) server_events_def session_events_def split: option.split)
  show ?thesis
    using s not_vsock watch create events
    by (auto simp: run_server_session_def server_stream_def run_proxy_session_def session_source_def run_failed_def close_session_def
        server_view_def Let_def split: sum.split prod.split)
qed

text \<open>
  C17. The server serves a client as the proxy does with a screen of its own: the same answer to the
  handshake, then the same bytes of video and the same end, the encoders delivering the same.
\<close>

theorem server_serves_like_proxy:
  assumes "cap_backend (sv_capture cfg) \<noteq> ''vsock''" and "same_surroundings E F"
    and "\<And>k. server_encoded X (cb_aead B) F cfg (re_caps E k) =
      (case session_encoded L (cb_aead B) E cfg (re_caps E k) (LocalSource k) of None \<Rightarrow> ([], True) | Some es \<Rightarrow> (es, False))"
  shows "map_prod id (map_sum id (\<lambda>o1. (so_result o1, so_bytes o1, so_video o1)))
      (serve_client P X B render F cfg display sid c)
    = map_prod id (map_sum id (\<lambda>o2. (ro_result o2, ro_bytes o2, ro_video o2)))
      (run_connection P L (cb_aead B) render E cfg display c service)"
proof -
  obtain r out service' where h: "handle_proxy_connection P cfg c service = (r, out, service')"
    by (cases "handle_proxy_connection P cfg c service") auto
  show ?thesis
  proof (cases r)
    case (Inl e)
    then show ?thesis using h admission_agrees [OF assms(1) h] by (simp add: serve_client_def run_connection_def)
  next
    case (Inr s)
    then show ?thesis
      using h admission_agrees [OF assms(1) h] served_alike [OF assms, of render display sid s service']
      by (simp add: serve_client_def run_connection_def)
  qed
qed

text \<open>A screen of two by two pixels, captured once; both encoders deliver the one byte of the library.\<close>

definition local_run :: run_env where
  "local_run = demo_run\<lparr>re_starts := \<lambda>_. True, re_local := [demo_raw 7 4]\<rparr>"

definition demo_server_env :: server_env where
  "demo_server_env = \<lparr>se_features = \<lparr>has_pipewire = False, has_remotedesktop = False\<rparr>, se_starts = \<lambda>_. True,
    se_caps = \<lambda>_. demo_caps, se_frames = [demo_raw 7 4], se_now = 0, se_duration = \<lambda>_. 100, se_opens = True,
    se_control = None, se_test_clip = None, se_portal_ok = False, se_portal_alive = False, se_writes = [True],
    se_stop = [ClientClosed]\<rparr>"

definition demo_control :: control_libs where
  "demo_control = \<lparr>cb_aead = vp_aead demo_path, cb_regex = \<lambda>_. None, cb_batch = \<lambda>_. None, cb_clip = \<lambda>_. None,
    cb_render_clip = \<lambda>_. None\<rparr>"

definition demo_active :: "unit h264_encoder active_encoder" where
  "demo_active = openh264_active demo_h264 (\<lambda>w h. even (unat w) \<and> even (unat h))"

lemma demo_server_encoded:
  "server_encoded demo_active (vp_aead demo_path) demo_server_env demo_server demo_caps = ([demo_frame], False)"
  "session_encoded demo_h264 (vp_aead demo_path) local_run demo_server demo_caps (LocalSource k) = Some [demo_frame]"
proof -
  show "server_encoded demo_active (vp_aead demo_path) demo_server_env demo_server demo_caps = ([demo_frame], False)"
    by code_simp
  have "session_encoded demo_h264 (vp_aead demo_path) local_run demo_server demo_caps (LocalSource (X11Kind 0 True True)) = Some [demo_frame]"
    by code_simp
  moreover have "source_frames local_run (LocalSource k) = source_frames local_run (LocalSource (X11Kind 0 True True))" by simp
  ultimately show "session_encoded demo_h264 (vp_aead demo_path) local_run demo_server demo_caps (LocalSource k) = Some [demo_frame]"
    unfolding session_encoded_def by (simp only:)
qed

theorem server_serves_like_proxy_witness:
  "map_prod id (map_sum id (\<lambda>o1. (so_result o1, so_bytes o1, so_video o1)))
      (serve_client demo_proxy demo_active demo_control (vp_render demo_path) demo_server_env demo_server 0 ''s'' (demo_conn (secs 1100)))
    = map_prod id (map_sum id (\<lambda>o2. (ro_result o2, ro_bytes o2, ro_video o2)))
      (run_connection demo_proxy demo_h264 (cb_aead demo_control) (vp_render demo_path) local_run demo_server 0 (demo_conn (secs 1100)) None)
    \<and> fst (serve_client demo_proxy demo_active demo_control (vp_render demo_path) demo_server_env demo_server 0 ''s'' (demo_conn (secs 1100)))
      = write_frame be32 [1]"
proof -
  have b: "cap_backend (sv_capture demo_server) \<noteq> ''vsock''" by simp
  have s: "same_surroundings local_run demo_server_env"
    by (simp add: same_surroundings_def local_run_def demo_server_env_def demo_run_def default_features_def)
  have e: "server_encoded demo_active (cb_aead demo_control) demo_server_env demo_server (re_caps local_run k) =
      (case session_encoded demo_h264 (cb_aead demo_control) local_run demo_server (re_caps local_run k) (LocalSource k) of
        None \<Rightarrow> ([], True) | Some es \<Rightarrow> (es, False))" for k
    using demo_server_encoded by (simp add: demo_control_def local_run_def demo_run_def)
  have "fst (serve_client demo_proxy demo_active demo_control (vp_render demo_path) demo_server_env demo_server 0 ''s''
      (demo_conn (secs 1100))) = write_frame be32 [1]"
    using admission_agrees [OF b demo_handle] by (simp add: serve_client_def)
  then show ?thesis using server_serves_like_proxy [OF b s e] by blast
qed

section \<open>Whose machine\<close>

text \<open>
  A token the broker issued for any machine opens a session on every server that shares the
  secret: the server does not know which machine it is.
\<close>

theorem server_admits_any_machine:
  assumes "issue_session_token J acfg t0 ident sid vm cid = Ok tok"
    and "claims = claims_for (engine_jwt acfg) t0 (secs ttl) ident sid vm cid"
    and "ttl = sint (session_token_ttl_secs acfg)" "0 \<le> unix_secs t0 + ttl"
    and "token_law J (jwt_secret (jwt_cfg acfg)) claims" "jwt_secret (jwt_cfg acfg) \<noteq> []"
    and "pl_jwt L = J" "srv_jwt_secret (sv_security cfg) = jwt_secret (jwt_cfg acfg)"
    and "require_session_token (sv_security cfg)"
    and "receive_handshake L (pc_stream c) = Inr hs" "from_utf8_lossy (hs_session_token hs) = tok"
  shows "handle_server_connection L cfg c
    = (if unix_secs (pc_now c) \<le> unix_secs t0 + ttl + 60 then open_server_session L cfg c hs
       else (Err TokenRefused, case send_ack L c token_nack of None \<Rightarrow> [] | Some out \<Rightarrow> out))"
proof -
  have "verify_session_token J (pc_now c) tok (jwt_secret (jwt_cfg acfg))
      = (if unix_secs (pc_now c) \<le> unix_secs t0 + ttl + 60 then Ok claims else Err InvalidToken)"
    using token_lifetime [OF assms(1-6)] by simp
  then show ?thesis using assms(7-11) by (simp add: handle_server_connection_def server_check_token_def)
qed

theorem server_admits_any_machine_witness:
  "handle_server_connection demo_proxy demo_server (demo_conn (secs 1360))
      = open_server_session demo_proxy demo_server (demo_conn (secs 1360)) demo_hs
    \<and> fst (handle_server_connection demo_proxy demo_server (demo_conn (secs 1361))) = Err TokenRefused"
proof -
  have S: "srv_jwt_secret (sv_security demo_server) = jwt_secret (jwt_cfg default_auth_config)"
    "require_session_token (sv_security demo_server)" by simp_all
  note b = server_admits_any_machine [OF demo_issued(2) demo_claims_def demo_issued(1,5,3) demo_secret demo_issued(4) S demo_receive demo_token]
  have "unix_secs (secs t) = t" "pc_now (demo_conn t) = t" for t by (simp_all add: unix_secs_def secs_def nanos_per_sec_def demo_conn_def)
  then show ?thesis using b [of "secs 1360"] b [of "secs 1361"] by simp
qed

section \<open>Colours\<close>

fun swap_red_blue :: "bytes \<Rightarrow> bytes" where
  "swap_red_blue (b # g # r # a # rest) = r # g # b # a # swap_red_blue rest"
| "swap_red_blue _ = []"

lemma copy_bgra_swapped: "copy_bgra_pixels n d = copy_pixels n (swap_red_blue d)"
  by (induction n d rule: copy_bgra_pixels.induct) simp_all

lemma server_rgb_swapped: "server_bgra_to_rgb d w h = bgra_to_rgb (swap_red_blue d) w h"
  by (simp add: server_bgra_to_rgb_def bgra_to_rgb_def copy_bgra_swapped)

lemma swapped_at:
  "4 * i + 3 < length d \<Longrightarrow> 4 * i + 3 < length (swap_red_blue d) \<and> take 3 (drop (4 * i) (swap_red_blue d)) = rev (take 3 (drop (4 * i) d))"
proof (induction d arbitrary: i rule: swap_red_blue.induct)
  case (1 b g r a rest)
  then show ?case by (cases i) (simp_all add: eval_nat_numeral)
qed auto

lemma server_new_size: "server_h264_new L p = Ok e \<Longrightarrow> he_width e = ep_width p \<and> he_height e = ep_height p"
  by (auto simp: server_h264_new_def bind_result_def split: sum.splits option.splits)

text \<open>
  The server takes the third byte of a captured pixel for red, the proxy the first: of one
  capture they encode pictures with red and blue exchanged, at every pixel.
\<close>

theorem encoders_swap_red_and_blue:
  assumes "h264_new L (for_remote_desktop k w h fps) = Ok e" and "server_h264_new L' (server_params k w h fps) = Ok e'"
    and "even (unat w)" and "even (unat h)" and "unat w * unat h < 4294967296"
    and "4 * (unat w * unat h) \<le> length (rf_data f)" and "unat (rf_stride f) = 4 * unat w"
    and "r < unat h" and "c < unat w"
  shows "rgb_at (server_bgra_to_rgb (rf_data f) (he_width e') (he_height e')) (unat w) r c = rev (captured_at f r c)
    \<and> rgb_at (encoder_input e f) (unat w) r c = captured_at f r c"
proof -
  have p: "ep_width (for_remote_desktop k w h fps) = w" "ep_height (for_remote_desktop k w h fps) = h"
    "ep_width (server_params k w h fps) = w" "ep_height (server_params k w h fps) = h"
    by (simp_all add: for_remote_desktop_def server_params_def)
  have e: "unat (he_width e) = unat w" "unat (he_height e) = unat h"
    using h264_new_size(1,2) [OF assms(1)] assms(3,4) p by simp_all
  have e': "he_width e' = w" "he_height e' = h" using server_new_size [OF assms(2)] p by simp_all
  have i: "r * unat w + c < unat w * unat h" using assms(8,9) by (rule pixel_index)
  then have "4 * Suc (r * unat w + c) \<le> 4 * (unat w * unat h)" by simp
  then have l: "4 * (r * unat w + c) + 3 < length (rf_data f)" using assms(6) by simp
  have at: "take 3 (drop (4 * (r * unat w + c)) (rf_data f)) = captured_at f r c"
    using assms(7) by (simp add: captured_at_def algebra_simps)
  have "rgb_at (server_bgra_to_rgb (rf_data f) w h) (unat w) r c = rev (captured_at f r c)"
    using bgra_to_rgb_at [of "r * unat w + c" w h "swap_red_blue (rf_data f)"] swapped_at [OF l] at i unat_product [OF assms(5)]
    by (simp add: rgb_at_def server_rgb_swapped)
  moreover have "rgb_at (encoder_input e f) (unat w) r c = captured_at f r c"
    using encoder_pixel [OF assms(1), of f r c] assms(5,6,8,9) at by (simp add: e p)
  ultimately show ?thesis by (simp add: e')
qed

lemma toy_server_new:
  "server_h264_new toy_lib (server_params ChoiceH264 2 2 30) = Ok (toy_encoder 2\<lparr>keyframe_interval := 60\<rparr>)"
  by (simp add: server_h264_new_def params_validate_def server_params_def presets_def toy_lib_def toy_encoder_def
      max_def word_le_nat_alt)

theorem encoders_swap_red_and_blue_witness:
  "rgb_at (server_bgra_to_rgb (rf_data (toy_frame 2)) 2 2) 2 1 1 = [14, 13, 12]
    \<and> rgb_at (encoder_input (toy_encoder 2) (toy_frame 2)) 2 1 1 = [12, 13, 14]"
proof -
  have "rgb_at (server_bgra_to_rgb (rf_data (toy_frame 2)) 2 2) (unat (2 :: u32)) 1 1 = rev (captured_at (toy_frame 2) 1 1)
    \<and> rgb_at (encoder_input (toy_encoder 2) (toy_frame 2)) (unat (2 :: u32)) 1 1 = captured_at (toy_frame 2) 1 1"
    using encoders_swap_red_and_blue [OF toy_new(1) toy_server_new, where f = "toy_frame 2" and r = 1 and c = 1]
    by (simp add: toy_encoder_def toy_frame_def)
  moreover have "captured_at (toy_frame 2) 1 1 = [12, 13, 14]"
    by (simp add: captured_at_def toy_frame_def toy_encoder_def upt_rec)
  ultimately show ?thesis by simp
qed

section \<open>Pictures\<close>

lemma odd_encoder_panics:
  assumes "\<And>w h. yuv_ok w h \<Longrightarrow> even (unat w) \<and> even (unat h)" and "odd (unat (he_width e)) \<or> odd (unat (he_height e))"
  shows "server_h264_encode_frame L yuv_ok f e = None"
  using assms by (auto simp: server_h264_encode_frame_def Let_def)

lemma odd_screen_no_frames:
  assumes "\<And>w h. yuv_ok w h \<Longrightarrow> even (unat w) \<and> even (unat h)" and "odd (unat (caps_width caps)) \<or> odd (unat (caps_height caps))"
  shows "fst (server_encoded (openh264_active L yuv_ok) A E cfg caps) = []"
proof (cases "server_h264_new L (server_params (session_codec cfg) (caps_width caps) (caps_height caps) (vc_max_fps (sv_video cfg)))")
  case (Inl x)
  then show ?thesis by (simp add: server_encoded_def server_pipeline_start_def openh264_active_def)
next
  case (Inr e)
  have "odd (unat (he_width (if b then request_keyframe e else e))) \<or> odd (unat (he_height (if b then request_keyframe e else e)))" for b
    using server_new_size [OF Inr] assms(2) by (simp add: server_params_def request_keyframe_def)
  then have n: "server_h264_encode_frame L yuv_ok f (if b then request_keyframe e else e) = None" for f b
    using odd_encoder_panics [OF assms(1)] by blast
  have "server_h264_encode_frame L yuv_ok f (request_keyframe e) = None" "server_h264_encode_frame L yuv_ok f e = None" for f
    using n [of f True] n [of f False] by simp_all
  then have "server_pipeline_frame (openh264_active L yuv_ok) A d f
      \<lparr>sp_codec = k, sp_start_us = t, sp_encoder = e, sp_cipher = None\<rparr> = None" for d f k t
    by (simp add: server_pipeline_frame_def openh264_active_def)
  then have "fst (server_pipeline_run (openh264_active L yuv_ok) A fs
      \<lparr>sp_codec = k, sp_start_us = t, sp_encoder = e, sp_cipher = None\<rparr>) = []" for fs k t
    by (cases fs) auto
  moreover have "server_pipeline_start (openh264_active L yuv_ok)
      (server_params (session_codec cfg) (caps_width caps) (caps_height caps) (vc_max_fps (sv_video cfg))) None (se_now E)
    = Ok \<lparr>sp_codec = session_codec cfg, sp_start_us = se_now E, sp_encoder = e, sp_cipher = None\<rparr>"
    using Inr by (simp add: server_pipeline_start_def openh264_active_def server_params_def)
  ultimately show ?thesis by (simp add: server_encoded_def split: prod.split) (metis fst_conv)
qed

definition server_capturer :: "server_env \<Rightarrow> server_config \<Rightarrow> u32 \<Rightarrow> (capture_error, capturer_kind) result" where
  "server_capturer E cfg display = (let cap = sv_capture cfg in server_create_capturer (se_features E) (se_starts E)
    (cap_backend cap) display (use_xshm cap) (use_xdamage cap) (portal_restore_token cap))"

lemma server_run_bytes:
  assumes "server_capturer E cfg display = Ok k" and "se_opens E"
  shows "so_bytes (run_server_session X B render E cfg display sid s)
    = fst (video_loop (cb_aead B) render (server_events E (server_encoded X (cb_aead B) E cfg (se_caps E k)))
        (first_state (ss_video_cipher s)))"
  using assms by (simp add: server_capturer_def run_server_session_def server_stream_def Let_def split: prod.split)

text \<open>
  A screen whose width or height is odd is never shown: the encoder of the server does not cut
  the size to even numbers and its library panics on the first frame.
\<close>

theorem odd_screen_never_shown:
  assumes "\<And>w h. yuv_ok w h \<Longrightarrow> even (unat w) \<and> even (unat h)" and "server_capturer E cfg display = Ok k"
    and "odd (unat (caps_width (se_caps E k))) \<or> odd (unat (caps_height (se_caps E k)))"
  shows "so_bytes (run_server_session (openh264_active L yuv_ok) B render E cfg display sid s) = []"
proof (cases "se_opens E")
  case True
  have no: "fst (video_loop (cb_aead B) render
      (filter (heard None) (se_stop E) @ (if b then [EncoderEnded] else [])) st) = []" for b st
    by (rule stop_writes_nothing) (auto split: if_splits)
  have "fst (server_encoded (openh264_active L yuv_ok) (cb_aead B) E cfg (se_caps E k)) = []"
    by (rule odd_screen_no_frames [OF assms(1,3)])
  then have "server_events E (server_encoded (openh264_active L yuv_ok) (cb_aead B) E cfg (se_caps E k))
      = filter (heard None) (se_stop E) @ (if snd (server_encoded (openh264_active L yuv_ok) (cb_aead B) E cfg (se_caps E k)) then [EncoderEnded] else [])"
    by (simp add: server_events_def)
  then show ?thesis unfolding server_run_bytes [OF assms(2) True] by (simp only: no)
next
  case False
  then show ?thesis using assms(2) by (simp add: server_capturer_def run_server_session_def Let_def)
qed

theorem odd_screen_never_shown_witness:
  "so_bytes (run_server_session demo_active demo_control (vp_render demo_path)
      (demo_server_env\<lparr>se_caps := \<lambda>_. stub_caps\<lparr>caps_width := 821, caps_height := 536\<rparr>\<rparr>) demo_server 0 ''s'' (server_view (demo_session 7))) = []"
proof -
  let ?E = "demo_server_env\<lparr>se_caps := \<lambda>_. stub_caps\<lparr>caps_width := 821, caps_height := 536\<rparr>\<rparr>"
  have k: "server_capturer ?E demo_server 0 = Ok (X11Kind 0 (use_xshm (sv_capture demo_server)) (use_xdamage (sv_capture demo_server)))"
    by (simp add: server_capturer_def server_create_capturer_def demo_server_env_def Let_def)
  have odd: "odd (unat (caps_width (se_caps ?E k))) \<or> odd (unat (caps_height (se_caps ?E k)))" for k by simp
  show ?thesis unfolding demo_active_def
    by (rule odd_screen_never_shown [OF _ k odd]) simp
qed

text \<open>
  The client reads the pictures the server's encoder has made, in their order, decrypted.
\<close>

theorem server_screen_shown:
  assumes "server_capturer E cfg display = Ok k" and "se_opens E" and "se_writes E = replicate n True"
    and "cb_aead B = vp_aead P" and "server_encoded X (vp_aead P) E cfg (se_caps E k) = (es, stopped)"
    and "video_good P (length (take n es)) (first_state (ss_video_cipher s))" and "list_all (carried_frame P) (take n es)"
  shows "map plain_frame (video_frames (vp_aead P) (vp_parse P) (vp_receiver P)
      (so_bytes (run_server_session X B (vp_render P) E cfg display sid s)))
    = map (\<lambda>f. plain_frame (into_proto 0 f)) (take n es)"
proof -
  let ?rest = "filter (heard None) (se_stop E) @ (if stopped then [EncoderEnded] else [])"
  have ev: "server_events E (es, stopped) = map (\<lambda>f. FrameReady f True) (take n es) @ ?rest"
    by (simp add: server_events_def assms(3) map2_ready)
  have "so_bytes (run_server_session X B (vp_render P) E cfg display sid s)
      = send_frames P (take n es) (first_state (ss_video_cipher s))"
    using video_run [OF assms(6,7), of ?rest] stop_writes_nothing [of ?rest "vp_aead P" "vp_render P"]
      unheard_frames [of _ _ None "se_stop E" stopped]
    unfolding server_run_bytes [OF assms(1,2)] assms(4,5) ev by (metis append_Nil2 fst_conv)
  moreover have "concat (map (\<lambda>f. [plain_frame (into_proto 0 f)]) fs) = map (\<lambda>f. plain_frame (into_proto 0 f)) fs" for fs
    by (induction fs) simp_all
  ultimately show ?thesis
    using video_stream.delivered [OF assms(6,7), of "[]"] by (simp add: shown_frames_def)
qed

theorem server_screen_shown_witness:
  "map plain_frame (video_frames (vp_aead demo_path) (vp_parse demo_path) (vp_receiver demo_path)
      (so_bytes (run_server_session demo_active demo_control (vp_render demo_path) demo_server_env demo_server 0 ''s''
        (server_view (demo_session 7)))))
    = [plain_frame (into_proto 0 demo_frame)]"
proof -
  have k: "server_capturer demo_server_env demo_server 0 = Ok (X11Kind 0 (use_xshm (sv_capture demo_server)) (use_xdamage (sv_capture demo_server)))"
    by (simp add: server_capturer_def server_create_capturer_def demo_server_env_def Let_def)
  have i: "se_opens demo_server_env" "se_writes demo_server_env = replicate 1 True" "cb_aead demo_control = vp_aead demo_path"
    "\<And>k. se_caps demo_server_env k = demo_caps"
    by (simp_all add: demo_server_env_def demo_control_def)
  have e: "server_encoded demo_active (vp_aead demo_path) demo_server_env demo_server
      (se_caps demo_server_env (X11Kind 0 (use_xshm (sv_capture demo_server)) (use_xdamage (sv_capture demo_server)))) = ([demo_frame], False)"
    using demo_server_encoded(1) i(4) by simp
  have g: "video_good demo_path (length (take 1 [demo_frame])) (first_state (ss_video_cipher (server_view (demo_session 7))))"
    using demo_video_good by (simp add: first_state_def demo_session_def server_view_def)
  have c: "list_all (carried_frame demo_path) (take 1 [demo_frame])" using demo_frame_carried by simp
  from server_screen_shown [OF k i(1,2,3) e g c] show ?thesis by simp
qed

text \<open>Every event of the batches that reach the injector is counted.\<close>

fun batch_events :: "control_event list \<Rightarrow> nat" where
  "batch_events [] = 0"
| "batch_events (EvInputs b # es) = length b + batch_events es"
| "batch_events (e # es) = batch_events es"

lemma injected_all:
  "server_injected_count (server_apply_events alive es i) = server_injected_count i + word_of_nat (batch_events es)"
proof (induction alive es i rule: server_apply_events.induct)
  case (2 alive b es i)
  then show ?case by (cases i) (simp_all add: portal_inject_batch_def Let_def)
next
  case (3 alive c es i)
  then show ?case by (cases i) simp_all
qed simp_all

text \<open>The connections accepted before the end are all served, however many.\<close>

lemma accept_all: "server_accept_loop h (map AcceptConnection cs @ AcceptShutdown # es) = map h cs"
  by (induction cs) simp_all

end
