(* ===== verification/LibvirtXml.thy ===== *)
theory LibvirtXml
  imports Prelude
begin

text \<open>
  The string-level editing of libvirt domain descriptions: renaming a domain, dropping its
  identifier, redirecting its disks and configuring its vsock device
  (\<open>nidan-host-agent/src/libvirt_ops.rs\<close>, and the copy of the same functions in
  \<open>nidan-broker/src/provider/libvirt.rs\<close>).  A range outside a string makes the Rust code
  panic; this is the constructor \<open>Panic\<close>.
\<close>

datatype xml_error = NameNotFound | DevicesNotFound | Panic

definition squote :: char where "squote = CHR 0x27"
definition dquote :: char where "dquote = CHR 0x22"
definition newline :: char where "newline = CHR 0x0A"

definition replace_range :: "nat \<Rightarrow> nat \<Rightarrow> 'a list \<Rightarrow> 'a list \<Rightarrow> (xml_error, 'a list) result" where
  "replace_range a b new s =
    (if a \<le> b \<and> b \<le> length s then Ok (take a s @ new @ drop b s) else Err Panic)"

section \<open>Paths\<close>

definition str_rfind :: "'a list \<Rightarrow> 'a \<Rightarrow> nat option" where
  "str_rfind s c =
    (case str_find (rev s) [c] of None \<Rightarrow> None | Some i \<Rightarrow> Some (length s - 1 - i))"

definition split_path :: "string \<Rightarrow> (xml_error, string \<times> string \<times> string) result" where
  "split_path path =
    (let slash = (case str_rfind path (CHR ''/'') of None \<Rightarrow> 0 | Some i \<Rightarrow> i);
         dir = take slash path
     in if length path < slash + 1 then Err Panic
        else let file = drop (slash + 1) path
             in Ok (case str_rfind file (CHR ''.'') of
                  Some dot \<Rightarrow> (dir, take dot file, drop dot file)
                | None \<Rightarrow> (dir, file, [])))"

definition cloned_path :: "string \<Rightarrow> string \<Rightarrow> (xml_error, string) result" where
  "cloned_path new_name path =
    bind_result (split_path path) (\<lambda>(dir, base, ext). Ok (dir @ ''/'' @ new_name @ ext))"

lemma str_rfind_Some:
  assumes "str_rfind s c = Some i"
  shows "i < length s \<and> s ! i = c \<and> c \<notin> set (drop (Suc i) s)"
proof -
  have first: "str_find t [c] = Some j \<Longrightarrow> j < length t \<and> t ! j = c \<and> c \<notin> set (take j t)" for t j
    by (induction t arbitrary: j) (auto simp: starts_with_def split: if_splits)
  obtain j where j: "str_find (rev s) [c] = Some j" "i = length s - 1 - j"
    using assms by (auto simp: str_rfind_def split: option.splits)
  have p: "j < length s" "rev s ! j = c" "c \<notin> set (take j (rev s))"
    using first [OF j(1)] by auto
  have "take j (rev s) = rev (drop (length s - j) s)" by (simp add: take_rev)
  then have "c \<notin> set (drop (length s - j) s)" using p(3) by simp
  moreover have "length s - j = Suc i" using j(2) p(1) by simp
  ultimately show ?thesis using p j(2) by (simp add: rev_nth)
qed

lemma str_rfind_None: "str_rfind s c = None \<longleftrightarrow> c \<notin> set s"
proof -
  have "str_find t [c] = None \<longleftrightarrow> c \<notin> set t" for t
    by (induction t) (auto simp: starts_with_def)
  then have "str_find (rev s) [c] = None \<longleftrightarrow> c \<notin> set s" by simp
  then show ?thesis by (cases "str_find (rev s) [c]") (auto simp: str_rfind_def)
qed

lemma split_path_join:
  assumes "CHR ''/'' \<in> set path"
  shows "\<exists>dir base ext. split_path path = Ok (dir, base, ext) \<and> path = dir @ ''/'' @ base @ ext
    \<and> CHR ''/'' \<notin> set (base @ ext)"
proof -
  obtain i where i: "str_rfind path (CHR ''/'') = Some i"
    using assms by (cases "str_rfind path (CHR ''/'')") (auto simp: str_rfind_None)
  note si = str_rfind_Some [OF i]
  let ?file = "drop (Suc i) path"
  have path: "path = take i path @ ''/'' @ ?file"
    using si by (metis append_Cons append_Nil id_take_nth_drop)
  show ?thesis
  proof (cases "str_rfind ?file (CHR ''.'')")
    case None
    then have "split_path path = Ok (take i path, ?file, [])"
      using i si by (simp add: split_path_def Let_def)
    then show ?thesis using path si by auto
  next
    case (Some d)
    then have "split_path path = Ok (take i path, take d ?file, drop d ?file)"
      using i si by (simp add: split_path_def Let_def)
    moreover have "take d ?file @ drop d ?file = ?file" by (rule append_take_drop_id)
    ultimately show ?thesis using path si by (metis append.assoc)
  qed
qed

section \<open>Disks\<close>

definition source_pat :: "char \<Rightarrow> string" where
  "source_pat q = ''<source file='' @ [q]"

lemma length_source_pat [simp]: "length (source_pat q) = 14"
  by (simp add: source_pat_def)

lemma drop_found_shorter:
  "str_find s p = Some i \<Longrightarrow> p \<noteq> [] \<Longrightarrow> length (drop (i + length p) s) < length s"
  using str_find_Some [of s p i] by (cases p) auto

function extract_quoted :: "char \<Rightarrow> string \<Rightarrow> string list" where
  "extract_quoted q xml =
    (case str_find xml (source_pat q) of
      None \<Rightarrow> []
    | Some idx \<Rightarrow>
        let rest = drop (idx + length (source_pat q)) xml in
        (case str_find rest [q] of
          None \<Rightarrow> []
        | Some e \<Rightarrow> take e rest # extract_quoted q (drop e rest)))"
  by pat_completeness auto
termination
proof (relation "measure (\<lambda>(q, xml). length xml)")
  fix q xml idx rest e
  assume "str_find xml (source_pat q) = Some idx" and r: "rest = drop (idx + length (source_pat q)) xml"
  then have "length rest < length xml"
    using drop_found_shorter [of xml "source_pat q" idx] by (simp add: source_pat_def)
  then show "((q, drop e rest), (q, xml)) \<in> measure (\<lambda>(q, xml). length xml)" by simp
qed simp

definition extract_disk_paths :: "string \<Rightarrow> string list" where
  "extract_disk_paths xml = extract_quoted squote xml @ extract_quoted dquote xml"

function rewrite_quoted :: "char \<Rightarrow> string \<Rightarrow> string \<Rightarrow> (xml_error, string) result" where
  "rewrite_quoted q new_name xml =
    (case str_find xml (source_pat q) of
      None \<Rightarrow> Ok xml
    | Some idx \<Rightarrow>
        let abs = idx + length (source_pat q); rest = drop abs xml in
        (case str_find rest [q] of
          None \<Rightarrow> Ok xml
        | Some e \<Rightarrow>
            bind_result (cloned_path new_name (take e rest)) (\<lambda>new_path.
            bind_result (rewrite_quoted q new_name (drop e rest)) (\<lambda>tail.
              Ok (take abs xml @ new_path @ tail)))))"
  by pat_completeness auto
termination
proof (relation "measure (\<lambda>(q, n, xml). length xml)")
  fix q :: char and new_name xml :: string and idx e x :: nat and rest :: string and xa
  assume "str_find xml (source_pat q) = Some idx" "x = idx + length (source_pat q)"
    "rest = drop x xml"
  then have "length rest < length xml"
    using drop_found_shorter [of xml "source_pat q" idx] by (simp add: source_pat_def)
  then show "((q, new_name, drop e rest), (q, new_name, xml)) \<in> measure (\<lambda>(q, n, xml). length xml)"
    by simp
qed simp

declare extract_quoted.simps [simp del] rewrite_quoted.simps [simp del]

definition rewrite_disk_paths :: "string \<Rightarrow> string \<Rightarrow> (xml_error, string) result" where
  "rewrite_disk_paths xml new_name =
    bind_result (rewrite_quoted squote new_name xml) (rewrite_quoted dquote new_name)"

section \<open>Renaming a domain\<close>

definition name_open :: string where "name_open = ''<name>''"
definition name_close :: string where "name_close = ''</name>''"
definition uuid_open :: string where "uuid_open = ''<uuid>''"
definition uuid_close :: string where "uuid_close = ''</uuid>''"

definition rename_domain :: "string \<Rightarrow> string \<Rightarrow> (xml_error, string) result" where
  "rename_domain new_name xml =
    (case (str_find xml name_open, str_find xml name_close) of
      (Some s, Some e) \<Rightarrow> replace_range (s + length name_open) e new_name xml
    | _ \<Rightarrow> Err NameNotFound)"

definition drop_uuid :: "string \<Rightarrow> (xml_error, string) result" where
  "drop_uuid xml =
    (case str_find xml uuid_open of
      None \<Rightarrow> Ok xml
    | Some s \<Rightarrow>
        (case str_find (drop s xml) uuid_close of
          None \<Rightarrow> Ok xml
        | Some e \<Rightarrow>
            let fin = s + e + length uuid_close;
                trim_at = (if fin < length xml \<and> xml ! fin = newline then fin + 1 else fin)
            in replace_range s trim_at [] xml))"

definition rewrite_domain_xml :: "string \<Rightarrow> string \<Rightarrow> (xml_error, string) result" where
  "rewrite_domain_xml xml new_name =
    bind_result (rename_domain new_name xml) (\<lambda>out.
    bind_result (drop_uuid out) (\<lambda>out.
      rewrite_disk_paths out new_name))"

text \<open>The variant of the broker looks for the closing tag after the opening one.\<close>

definition find_tag_content :: "string \<Rightarrow> string \<Rightarrow> (nat \<times> nat) option" where
  "find_tag_content xml tag =
    (let op = ''<'' @ tag @ ''>''; cl = ''</'' @ tag @ ''>'' in
     case str_find xml op of
       None \<Rightarrow> None
     | Some i \<Rightarrow>
         let start = i + length op in
         (case str_find (drop start xml) cl of
           None \<Rightarrow> None
         | Some j \<Rightarrow> Some (start, j + start)))"

definition find_full_tag :: "string \<Rightarrow> string \<Rightarrow> (nat \<times> nat) option" where
  "find_full_tag xml tag =
    (let op = ''<'' @ tag @ ''>''; cl = ''</'' @ tag @ ''>'' in
     case str_find xml op of
       None \<Rightarrow> None
     | Some start \<Rightarrow>
         (case str_find (drop start xml) cl of
           None \<Rightarrow> None
         | Some j \<Rightarrow> Some (start, j + start + length cl)))"

definition broker_rewrite_domain_xml :: "string \<Rightarrow> string \<Rightarrow> (xml_error, string) result" where
  "broker_rewrite_domain_xml xml new_name =
    bind_result (ok_or (find_tag_content xml ''name'') NameNotFound) (\<lambda>(ns, ne).
    bind_result (replace_range ns ne new_name xml) (\<lambda>out.
    bind_result
      (case find_full_tag out ''uuid'' of
        None \<Rightarrow> Ok out
      | Some (start, fin) \<Rightarrow>
          replace_range start
            (if fin < length out \<and> out ! fin = newline then fin + 1 else fin) [] out) (\<lambda>out.
      rewrite_disk_paths out new_name)))"

section \<open>The vsock device\<close>

definition vsock_elem :: "u32 \<Rightarrow> string" where
  "vsock_elem cid =
    ''    <vsock model='' @ [squote] @ ''virtio'' @ [squote] @ ''>'' @ [newline] @
    ''      <cid auto='' @ [squote] @ ''no'' @ [squote] @ '' address='' @ [squote] @
    dec_string (unat cid) @ [squote] @ ''/>'' @ [newline] @ ''    </vsock>''"

definition vsock_open :: string where "vsock_open = ''<vsock''"
definition vsock_close :: string where "vsock_close = ''</vsock>''"
definition devices_close :: string where "devices_close = ''</devices>''"

definition insert_vsock :: "string \<Rightarrow> u32 \<Rightarrow> (xml_error, string) result" where
  "insert_vsock xml cid =
    (case str_find xml devices_close of
      None \<Rightarrow> Err DevicesNotFound
    | Some pos \<Rightarrow> Ok (take pos xml @ vsock_elem cid @ [newline] @ ''  '' @ drop pos xml))"

definition set_vsock_in_xml :: "string \<Rightarrow> u32 \<Rightarrow> (xml_error, string) result" where
  "set_vsock_in_xml xml cid =
    (case str_find xml vsock_open of
      None \<Rightarrow> insert_vsock xml cid
    | Some s \<Rightarrow>
        (case str_find (drop s xml) vsock_close of
          None \<Rightarrow> insert_vsock xml cid
        | Some re \<Rightarrow> replace_range s (s + re + length vsock_close) (vsock_elem cid) xml))"

section \<open>Lemmas\<close>

lemma cloned_path_parts:
  assumes "CHR ''/'' \<in> set path"
  shows "\<exists>dir base ext. path = dir @ ''/'' @ base @ ext \<and> CHR ''/'' \<notin> set (base @ ext)
    \<and> cloned_path new_name path = Ok (dir @ ''/'' @ new_name @ ext)"
  using split_path_join [OF assms] by (force simp: cloned_path_def)

lemma cloned_path_panics: "cloned_path new_name [] = Err Panic"
  by (simp add: cloned_path_def split_path_def str_rfind_def)

lemma set_vsock_never_panics: "set_vsock_in_xml xml cid \<noteq> Err Panic"
proof (cases "str_find xml vsock_open")
  case None
  then show ?thesis by (simp add: set_vsock_in_xml_def insert_vsock_def split: option.splits)
next
  case (Some s)
  show ?thesis
  proof (cases "str_find (drop s xml) vsock_close")
    case None
    then show ?thesis using Some
      by (simp add: set_vsock_in_xml_def insert_vsock_def split: option.splits)
  next
    case e: (Some re)
    have "s \<le> length xml" using str_find_Some [OF Some] by simp
    moreover have "re + length vsock_close \<le> length xml - s" using str_find_Some [OF e] by simp
    ultimately have "s + re + length vsock_close \<le> length xml" by simp
    then show ?thesis using Some e by (simp add: set_vsock_in_xml_def replace_range_def)
  qed
qed

lemma find_tag_content_bounds:
  assumes "find_tag_content xml tag = Some (a, b)"
  shows "a \<le> b \<and> b \<le> length xml"
proof -
  let ?op = "''<'' @ tag @ ''>''"
  obtain i j where i: "str_find xml ?op = Some i"
    and j: "str_find (drop (i + length ?op) xml) (''</'' @ tag @ ''>'') = Some j"
    and ab: "a = i + length ?op" "b = j + (i + length ?op)"
    using assms unfolding find_tag_content_def Let_def by (auto split: option.splits)
  have "i + length ?op \<le> length xml" using str_find_Some [OF i] by simp
  then show ?thesis using conjunct1 [OF str_find_Some [OF j]] ab by simp
qed

lemma find_full_tag_bounds:
  assumes "find_full_tag xml tag = Some (a, b)"
  shows "a \<le> b \<and> b \<le> length xml"
proof -
  obtain j where i: "str_find xml (''<'' @ tag @ ''>'') = Some a"
    and j: "str_find (drop a xml) (''</'' @ tag @ ''>'') = Some j"
    and b: "b = j + a + length (''</'' @ tag @ ''>'')"
    using assms unfolding find_full_tag_def Let_def by (auto split: option.splits)
  have "a \<le> length xml" using str_find_Some [OF i] by simp
  then show ?thesis using conjunct1 [OF str_find_Some [OF j]] b by simp
qed

end
