(* ===== verification/HostAgent.thy ===== *)
theory HostAgent
  imports HostProto LibvirtXml
begin

text \<open>
  The host agent (\<open>nidan-host-agent/src\<close>): admission of a vsock connection, the request
  frame, the restriction of the proxy, the prefix checks and the operations on libvirt.
  libvirt and \<open>qemu-img\<close> are outside the program.  They are the record \<open>libvirt\<close> of
  functions that answer a call from everything that happened before it; the model keeps
  that history as a list of events, newest first, so that what the agent does to the
  hypervisor is a value that theorems can speak about.
\<close>

section \<open>Configuration\<close>

record vsock_config =
  vc_port :: u32
  allowed_cid :: "u32 option"
  proxy_cid :: "u32 option"

record libvirt_config =
  lc_uri :: string
  lc_storage_pool :: string
  lc_vm_prefix :: string

record host_agent_config =
  hc_vsock :: vsock_config
  hc_libvirt :: libvirt_config
  hc_audit_log :: "string option"

datatype ha_config_error = EmptyPrefix | EmptyUri

definition default_vsock_config :: vsock_config where
  "default_vsock_config = \<lparr>vc_port = 6900, allowed_cid = None, proxy_cid = None\<rparr>"

definition default_libvirt_config :: libvirt_config where
  "default_libvirt_config =
    \<lparr>lc_uri = ''qemu:///system'', lc_storage_pool = ''default'', lc_vm_prefix = ''nidan-''\<rparr>"

definition validate :: "host_agent_config \<Rightarrow> (ha_config_error, unit) result" where
  "validate c =
    (if lc_vm_prefix (hc_libvirt c) = [] then Err EmptyPrefix
     else if lc_uri (hc_libvirt c) = [] then Err EmptyUri
     else Ok ())"

section \<open>libvirt as an environment\<close>

type_synonym domain = string

datatype lv_event =
    NameRead domain string
  | XmlRead domain string
  | Created domain
  | ShutDown domain
  | Destroyed domain
  | Undefined domain
  | VolDeleted string
  | ThinCloned string string
  | VolCopied string string
  | PoolRefreshed string
  | Defined string
  | LockPoisoned

type_synonym lv_log = "lv_event list"

text \<open>A failed call of a library answers \<open>None\<close> (queries) or \<open>False\<close> (commands).\<close>

record libvirt =
  is_alive :: "lv_log \<Rightarrow> bool"
  open_conn :: "lv_log \<Rightarrow> bool"
  lookup_by_uuid :: "lv_log \<Rightarrow> string \<Rightarrow> domain option"
  lookup_by_name :: "lv_log \<Rightarrow> string \<Rightarrow> domain option"
  list_all_domains :: "lv_log \<Rightarrow> domain list option"
  get_name :: "lv_log \<Rightarrow> domain \<Rightarrow> string option"
  get_uuid :: "lv_log \<Rightarrow> domain \<Rightarrow> string option"
  is_active :: "lv_log \<Rightarrow> domain \<Rightarrow> bool option"
  get_xml_desc :: "lv_log \<Rightarrow> domain \<Rightarrow> string option"
  dom_create :: "lv_log \<Rightarrow> domain \<Rightarrow> bool"
  dom_shutdown :: "lv_log \<Rightarrow> domain \<Rightarrow> bool"
  dom_destroy :: "lv_log \<Rightarrow> domain \<Rightarrow> bool"
  dom_undefine :: "lv_log \<Rightarrow> domain \<Rightarrow> bool"
  define_xml :: "lv_log \<Rightarrow> string \<Rightarrow> domain option"
  pool_lookup :: "lv_log \<Rightarrow> string \<Rightarrow> bool"
  vol_lookup :: "lv_log \<Rightarrow> string \<Rightarrow> bool"
  vol_delete :: "lv_log \<Rightarrow> string \<Rightarrow> bool"
  qemu_img_create :: "lv_log \<Rightarrow> string \<Rightarrow> string \<Rightarrow> bool"
  uuid_suffix :: "lv_log \<Rightarrow> string"

datatype ha_error =
    ConnFailed
  | PoisonedLock
  | DomainNotFound string
  | OutOfScope string string
  | QueryFailed string
  | TemplateActive string
  | NameTaken string
  | PoolNotFound string
  | ThinCloneFailed string string
  | XmlFailed xml_error
  | CommandFailed string string

text \<open>An operation runs on the history and returns a result with the longer history.\<close>

type_synonym 'a lv = "lv_log \<Rightarrow> (ha_error, 'a) result \<times> lv_log"

definition lv_return :: "'a \<Rightarrow> 'a lv" where
  "lv_return a = (\<lambda>h. (Ok a, h))"

definition lv_fail :: "ha_error \<Rightarrow> 'a lv" where
  "lv_fail e = (\<lambda>h. (Err e, h))"

definition lv_bind :: "'a lv \<Rightarrow> ('a \<Rightarrow> 'b lv) \<Rightarrow> 'b lv" where
  "lv_bind m f = (\<lambda>h. case m h of (Inl e, h') \<Rightarrow> (Err e, h') | (Inr a, h') \<Rightarrow> f a h')"

text \<open>A query that must answer, a query whose failure is tolerated, an effect.\<close>

definition lv_query :: "(lv_log \<Rightarrow> 'a option) \<Rightarrow> ha_error \<Rightarrow> 'a lv" where
  "lv_query q e = (\<lambda>h. (ok_or (q h) e, h))"

definition lv_try :: "(lv_log \<Rightarrow> 'a) \<Rightarrow> 'a lv" where
  "lv_try q = (\<lambda>h. (Ok (q h), h))"

definition lv_log_event :: "lv_event \<Rightarrow> unit lv" where
  "lv_log_event ev = (\<lambda>h. (Ok (), ev # h))"

definition lv_lift :: "(ha_error, 'a) result \<Rightarrow> 'a lv" where
  "lv_lift r = (\<lambda>h. (r, h))"

definition lv_command :: "(lv_log \<Rightarrow> bool) \<Rightarrow> lv_event \<Rightarrow> bool lv" where
  "lv_command c ev = (\<lambda>h. (Ok (c h), ev # h))"

fun lv_for :: "('a \<Rightarrow> unit lv) \<Rightarrow> 'a list \<Rightarrow> unit lv" where
  "lv_for f [] = lv_return ()"
| "lv_for f (x # xs) = lv_bind (f x) (\<lambda>_. lv_for f xs)"

section \<open>Operations\<close>

text \<open>
  The persistent connection is reopened when it is no longer alive.  It sits behind a
  mutex whose guard is held while the operation runs: a panic inside the operation poisons
  the mutex, and every later operation fails to take it.
\<close>

definition run_conn :: "libvirt \<Rightarrow> 'a lv \<Rightarrow> 'a lv" where
  "run_conn lv f =
    lv_bind (lv_try (is_alive lv)) (\<lambda>alive.
    if alive then f
    else lv_bind (lv_try (open_conn lv)) (\<lambda>ok. if ok then f else lv_fail ConnFailed))"

definition with_conn :: "libvirt \<Rightarrow> 'a lv \<Rightarrow> 'a lv" where
  "with_conn lv f = (\<lambda>h.
    if LockPoisoned \<in> set h then (Err PoisonedLock, h)
    else (case run_conn lv f h of
        (Inl (XmlFailed Panic), h') \<Rightarrow> (Err (XmlFailed Panic), LockPoisoned # h')
      | r \<Rightarrow> r))"

definition read_name :: "libvirt \<Rightarrow> domain \<Rightarrow> string lv" where
  "read_name lv dm =
    lv_bind (lv_query (\<lambda>h. get_name lv h dm) (QueryFailed ''get_name'')) (\<lambda>name.
    lv_bind (lv_log_event (NameRead dm name)) (\<lambda>_. lv_return name))"

definition read_xml :: "libvirt \<Rightarrow> domain \<Rightarrow> string lv" where
  "read_xml lv dm =
    lv_bind (lv_query (\<lambda>h. get_xml_desc lv h dm) (QueryFailed ''get_xml_desc'')) (\<lambda>xml.
    lv_bind (lv_log_event (XmlRead dm xml)) (\<lambda>_. lv_return xml))"

definition lookup_and_verify :: "libvirt \<Rightarrow> string \<Rightarrow> string \<Rightarrow> domain lv" where
  "lookup_and_verify lv vm_id prefix =
    lv_bind
      (lv_query (\<lambda>h. case lookup_by_uuid lv h vm_id of
          Some d \<Rightarrow> Some d | None \<Rightarrow> lookup_by_name lv h vm_id) (DomainNotFound vm_id)) (\<lambda>dm.
    lv_bind (read_name lv dm) (\<lambda>name.
      if starts_with name prefix then lv_return dm else lv_fail (OutOfScope name prefix)))"

definition domain_to_agent_vm :: "libvirt \<Rightarrow> domain \<Rightarrow> agent_vm lv" where
  "domain_to_agent_vm lv dm =
    lv_bind (read_name lv dm) (\<lambda>name.
    lv_bind (lv_query (\<lambda>h. get_uuid lv h dm) (QueryFailed ''get_uuid'')) (\<lambda>uuid.
    lv_bind (lv_query (\<lambda>h. is_active lv h dm) (QueryFailed ''is_active'')) (\<lambda>active.
      lv_return \<lparr>av_provider_id = uuid, av_name = name,
        av_status = (if active then ''running'' else ''stopped'')\<rparr>)))"

fun collect_vms :: "libvirt \<Rightarrow> string \<Rightarrow> domain list \<Rightarrow> lv_log \<Rightarrow> agent_vm list \<times> lv_log" where
  "collect_vms lv prefix [] h = ([], h)"
| "collect_vms lv prefix (dm # doms) h =
    (case read_name lv dm h of
      (Inl _, h1) \<Rightarrow> collect_vms lv prefix doms h1
    | (Inr name, h1) \<Rightarrow>
        if starts_with name prefix then
          (case domain_to_agent_vm lv dm h1 of
            (Inl _, h2) \<Rightarrow> collect_vms lv prefix doms h2
          | (Inr vm, h2) \<Rightarrow>
              (let (vms, h3) = collect_vms lv prefix doms h2 in (vm # vms, h3)))
        else collect_vms lv prefix doms h1)"

definition list_vms :: "libvirt \<Rightarrow> string \<Rightarrow> agent_vm list lv" where
  "list_vms lv prefix =
    with_conn lv (lv_bind (lv_query (list_all_domains lv) (QueryFailed ''list_all_domains''))
      (\<lambda>doms h. let (vms, h') = collect_vms lv prefix doms h in (Ok vms, h')))"

definition get_status :: "libvirt \<Rightarrow> string \<Rightarrow> string \<Rightarrow> agent_vm lv" where
  "get_status lv vm_id prefix =
    with_conn lv (lv_bind (lookup_and_verify lv vm_id prefix) (domain_to_agent_vm lv))"

definition clone_name :: "string \<Rightarrow> string \<Rightarrow> string \<Rightarrow> string" where
  "clone_name prefix new_name suffix =
    (if new_name = [] then prefix @ suffix
     else if \<not> starts_with new_name prefix then prefix @ new_name
     else new_name)"

definition clone_volume :: "libvirt \<Rightarrow> string \<Rightarrow> string \<Rightarrow> string \<Rightarrow> unit lv" where
  "clone_volume lv new_name pool_name src_path =
    lv_bind (lv_lift (case cloned_path new_name src_path of
        Inl e \<Rightarrow> Err (XmlFailed e) | Inr p \<Rightarrow> Ok p)) (\<lambda>new_path.
    lv_bind (lv_try (\<lambda>h. vol_lookup lv h src_path)) (\<lambda>found.
      if \<not> found then lv_return ()
      else lv_bind (lv_command (\<lambda>h. qemu_img_create lv h src_path new_path)
               (ThinCloned src_path new_path)) (\<lambda>ok.
             if \<not> ok then lv_fail (ThinCloneFailed src_path new_path)
             else lv_log_event (PoolRefreshed pool_name))))"

definition clone_volumes :: "libvirt \<Rightarrow> string \<Rightarrow> string \<Rightarrow> string \<Rightarrow> unit lv" where
  "clone_volumes lv xml new_name pool_name =
    lv_bind (lv_query (\<lambda>h. if pool_lookup lv h pool_name then Some () else None)
        (PoolNotFound pool_name)) (\<lambda>_.
      lv_for (clone_volume lv new_name pool_name) (extract_disk_paths xml))"

definition xml_lift :: "(xml_error, 'a) result \<Rightarrow> 'a lv" where
  "xml_lift r = lv_lift (case r of Inl e \<Rightarrow> Err (XmlFailed e) | Inr x \<Rightarrow> Ok x)"

definition define_domain :: "libvirt \<Rightarrow> string \<Rightarrow> string \<Rightarrow> domain lv" where
  "define_domain lv what xml =
    lv_bind (lv_query (\<lambda>h. define_xml lv h xml) (QueryFailed what)) (\<lambda>dm.
    lv_bind (lv_log_event (Defined xml)) (\<lambda>_. lv_return dm))"

definition clone_vm :: "libvirt \<Rightarrow> string \<Rightarrow> string \<Rightarrow> string \<Rightarrow> string \<Rightarrow> agent_vm lv" where
  "clone_vm lv template new_name storage_pool prefix =
    with_conn lv (
    lv_bind (lookup_and_verify lv template prefix) (\<lambda>tmpl.
    lv_bind (lv_try (\<lambda>h. is_active lv h tmpl)) (\<lambda>active.
    if active = Some True then lv_fail (TemplateActive template) else
    lv_bind (lv_try (\<lambda>h. clone_name prefix new_name (uuid_suffix lv h))) (\<lambda>name.
    lv_bind (lv_try (\<lambda>h. lookup_by_name lv h name)) (\<lambda>taken.
    if taken \<noteq> None then lv_fail (NameTaken name) else
    lv_bind (read_xml lv tmpl) (\<lambda>tmpl_xml.
    lv_bind (clone_volumes lv tmpl_xml name storage_pool) (\<lambda>_.
    lv_bind (xml_lift (rewrite_domain_xml tmpl_xml name)) (\<lambda>new_xml.
    lv_bind (define_domain lv ''define_xml'' new_xml) (\<lambda>dm.
      domain_to_agent_vm lv dm)))))))))"

definition start_vm :: "libvirt \<Rightarrow> string \<Rightarrow> string \<Rightarrow> unit lv" where
  "start_vm lv vm_id prefix =
    with_conn lv (lv_bind (lookup_and_verify lv vm_id prefix) (\<lambda>dm.
      lv_bind (lv_command (\<lambda>h. dom_create lv h dm) (Created dm)) (\<lambda>ok.
        if ok then lv_return () else lv_fail (CommandFailed ''start'' vm_id))))"

definition stop_vm :: "libvirt \<Rightarrow> string \<Rightarrow> string \<Rightarrow> unit lv" where
  "stop_vm lv vm_id prefix =
    with_conn lv (lv_bind (lookup_and_verify lv vm_id prefix) (\<lambda>dm.
      lv_bind (lv_command (\<lambda>h. dom_shutdown lv h dm) (ShutDown dm)) (\<lambda>ok.
        if ok then lv_return ()
        else lv_bind (lv_command (\<lambda>h. dom_destroy lv h dm) (Destroyed dm)) (\<lambda>ok2.
          if ok2 then lv_return () else lv_fail (CommandFailed ''destroy'' vm_id)))))"

definition delete_volume :: "libvirt \<Rightarrow> string \<Rightarrow> unit lv" where
  "delete_volume lv path =
    lv_bind (lv_try (\<lambda>h. vol_lookup lv h path)) (\<lambda>found.
      if found then lv_bind (lv_command (\<lambda>h. vol_delete lv h path) (VolDeleted path)) (\<lambda>_. lv_return ())
      else lv_return ())"

definition delete_vm :: "libvirt \<Rightarrow> string \<Rightarrow> string \<Rightarrow> unit lv" where
  "delete_vm lv vm_id prefix =
    with_conn lv (lv_bind (lookup_and_verify lv vm_id prefix) (\<lambda>dm.
      lv_bind (lv_try (\<lambda>h. is_active lv h dm)) (\<lambda>active.
      lv_bind (if active = Some True
               then lv_bind (lv_command (\<lambda>h. dom_destroy lv h dm) (Destroyed dm)) (\<lambda>_. lv_return ())
               else lv_return ()) (\<lambda>_.
      lv_bind (read_xml lv dm) (\<lambda>xml.
      lv_bind (lv_for (delete_volume lv) (extract_disk_paths xml)) (\<lambda>_.
      lv_bind (lv_command (\<lambda>h. dom_undefine lv h dm) (Undefined dm)) (\<lambda>ok.
        if ok then lv_return () else lv_fail (CommandFailed ''undefine'' vm_id))))))))"

definition set_vsock_cid :: "libvirt \<Rightarrow> string \<Rightarrow> u32 \<Rightarrow> string \<Rightarrow> unit lv" where
  "set_vsock_cid lv vm_id cid prefix =
    with_conn lv (lv_bind (lookup_and_verify lv vm_id prefix) (\<lambda>dm.
      lv_bind (read_xml lv dm) (\<lambda>xml.
      lv_bind (xml_lift (set_vsock_in_xml xml cid)) (\<lambda>new_xml.
      lv_bind (define_domain lv ''redefine vsock'' new_xml) (\<lambda>_. lv_return ())))))"

section \<open>Dispatch\<close>

text \<open>The texts of the errors, shortened: only that there is one matters to the peers.\<close>

fun ha_message :: "ha_error \<Rightarrow> string" where
  "ha_message ConnFailed = ''reconnexion libvirt''"
| "ha_message PoisonedLock = ''lock connexion libvirt poisonne''"
| "ha_message (DomainNotFound i) = ''domaine '' @ i @ '' introuvable''"
| "ha_message (OutOfScope n p) = ''domaine '' @ n @ '' hors perimetre (prefixe '' @ p @ '' requis)''"
| "ha_message (QueryFailed q) = q"
| "ha_message (TemplateActive t) = ''template '' @ t @ '' actif''"
| "ha_message (NameTaken n) = ''domaine '' @ n @ '' existe deja''"
| "ha_message (PoolNotFound p) = ''pool '' @ p @ '' introuvable''"
| "ha_message (ThinCloneFailed a b) = ''thin clone '' @ a @ '' '' @ b"
| "ha_message (XmlFailed Panic) = ''task panic''"
| "ha_message (XmlFailed NameNotFound) = ''XML: <name> introuvable''"
| "ha_message (XmlFailed DevicesNotFound) = ''XML: </devices> introuvable''"
| "ha_message (CommandFailed c i) = c @ '' '' @ i"

definition respond_with :: "('a \<Rightarrow> agent_response) \<Rightarrow> 'a lv \<Rightarrow> lv_log \<Rightarrow> agent_response \<times> lv_log"
where
  "respond_with f m h =
    (case m h of (Inl e, h') \<Rightarrow> (resp_err (ha_message e), h') | (Inr a, h') \<Rightarrow> (f a, h'))"

fun dispatch :: "libvirt \<Rightarrow> string \<Rightarrow> string \<Rightarrow> agent_request \<Rightarrow> lv_log \<Rightarrow> agent_response \<times> lv_log"
where
  "dispatch lv storage_pool vm_prefix (ListVms prefix) =
    respond_with (ok_with JVms) (list_vms lv prefix)"
| "dispatch lv storage_pool vm_prefix (GetStatus vm_id) =
    respond_with (ok_with JVm) (get_status lv vm_id vm_prefix)"
| "dispatch lv storage_pool vm_prefix (CloneVm template new_name) =
    respond_with (ok_with JVm) (clone_vm lv template new_name storage_pool vm_prefix)"
| "dispatch lv storage_pool vm_prefix (StartVm vm_id) =
    respond_with (\<lambda>_. ok_empty) (start_vm lv vm_id vm_prefix)"
| "dispatch lv storage_pool vm_prefix (StopVm vm_id) =
    respond_with (\<lambda>_. ok_empty) (stop_vm lv vm_id vm_prefix)"
| "dispatch lv storage_pool vm_prefix (DeleteVm vm_id) =
    respond_with (\<lambda>_. ok_empty) (delete_vm lv vm_id vm_prefix)"
| "dispatch lv storage_pool vm_prefix (SetVsockCid vm_id cid) =
    respond_with (\<lambda>_. ok_empty) (set_vsock_cid lv vm_id cid vm_prefix)"

definition validate_prefix :: "agent_request \<Rightarrow> string \<Rightarrow> (agent_response, unit) result" where
  "validate_prefix req prefix =
    (case req of
      CloneVm template _ \<Rightarrow>
        if \<not> starts_with template prefix
        then Err (resp_err (''template '' @ template @ '' hors perimetre'')) else Ok ()
    | ListVms req_prefix \<Rightarrow>
        if \<not> starts_with req_prefix prefix
        then Err (resp_err (''prefixe '' @ req_prefix @ '' hors perimetre'')) else Ok ()
    | _ \<Rightarrow> Ok ())"

definition is_proxy_peer :: "host_agent_config \<Rightarrow> u32 \<Rightarrow> bool" where
  "is_proxy_peer cfg peer = (proxy_cid (hc_vsock cfg) = Some peer)"

fun proxy_allowed :: "agent_request \<Rightarrow> bool" where
  "proxy_allowed (StopVm _) = True"
| "proxy_allowed (DeleteVm _) = True"
| "proxy_allowed _ = False"

definition handle_request ::
  "libvirt \<Rightarrow> host_agent_config \<Rightarrow> u32 \<Rightarrow> agent_request \<Rightarrow> lv_log \<Rightarrow> agent_response \<times> lv_log"
where
  "handle_request lv cfg peer req h =
    (if is_proxy_peer cfg peer \<and> \<not> proxy_allowed req
     then (resp_err ''operation non autorisee pour le proxy (stop_vm/delete_vm uniquement)'', h)
     else
       let prefix = lc_vm_prefix (hc_libvirt cfg) in
       (case validate_prefix req prefix of
         Inl resp \<Rightarrow> (resp, h)
       | Inr _ \<Rightarrow> dispatch lv (lc_storage_pool (hc_libvirt cfg)) prefix req h))"

section \<open>Connections\<close>

datatype conn_error = Refused | ReadFailed read_error | TooLarge nat | BadJson | ResponseNotSerialised

text \<open>A connection is admitted from the broker (or anyone, when no CID is set) or the proxy.\<close>

definition accept_peer :: "host_agent_config \<Rightarrow> u32 \<Rightarrow> bool" where
  "accept_peer cfg peer =
    ((case allowed_cid (hc_vsock cfg) of None \<Rightarrow> True | Some c \<Rightarrow> peer = c) \<or> is_proxy_peer cfg peer)"

definition max_request :: nat where "max_request = 64 * 1024"

definition handle_connection ::
  "(bytes \<Rightarrow> agent_request option) \<Rightarrow> (agent_response \<Rightarrow> bytes option) \<Rightarrow> libvirt \<Rightarrow>
    host_agent_config \<Rightarrow> u32 \<Rightarrow> bytes \<Rightarrow> lv_log \<Rightarrow> (conn_error, bytes) result \<times> lv_log"
where
  "handle_connection of_json to_json lv cfg peer stream h =
    (case read_exact 4 stream of
      Inl e \<Rightarrow> (Err (ReadFailed e), h)
    | Inr (len_buf, rest) \<Rightarrow>
        let len = be_nat len_buf in
        if max_request < len then (Err (TooLarge len), h)
        else (case read_exact len rest of
          Inl e \<Rightarrow> (Err (ReadFailed e), h)
        | Inr (buf, _) \<Rightarrow>
            (case of_json buf of
              None \<Rightarrow> (Err BadJson, h)
            | Some req \<Rightarrow>
                (let (resp, h') = handle_request lv cfg peer req h in
                 case to_json resp of
                   None \<Rightarrow> (Err ResponseNotSerialised, h')
                 | Some b \<Rightarrow> (Ok (write_frame be32 b), h')))))"

definition serve_connection ::
  "(bytes \<Rightarrow> agent_request option) \<Rightarrow> (agent_response \<Rightarrow> bytes option) \<Rightarrow> libvirt \<Rightarrow>
    host_agent_config \<Rightarrow> u32 \<Rightarrow> bytes \<Rightarrow> lv_log \<Rightarrow> (conn_error, bytes) result \<times> lv_log"
where
  "serve_connection of_json to_json lv cfg peer stream h =
    (if accept_peer cfg peer then handle_connection of_json to_json lv cfg peer stream h
     else (Err Refused, h))"

section \<open>What an operation may do to the hypervisor\<close>

text \<open>
  \<open>wp_lv I m Q h\<close>: running \<open>m\<close> from the history \<open>h\<close> establishes \<open>Q\<close> of the result and the new
  history, or fails with a history that satisfies \<open>I\<close>.
\<close>

definition wp_lv :: "(lv_log \<Rightarrow> bool) \<Rightarrow> 'a lv \<Rightarrow> ('a \<Rightarrow> lv_log \<Rightarrow> bool) \<Rightarrow> lv_log \<Rightarrow> bool" where
  "wp_lv I m Q h = (case m h of (Inl _, h') \<Rightarrow> I h' | (Inr a, h') \<Rightarrow> Q a h')"

lemma wp_bind [simp]: "wp_lv I (lv_bind m f) Q h = wp_lv I m (\<lambda>a. wp_lv I (f a) Q) h"
  by (auto simp: wp_lv_def lv_bind_def split: prod.splits sum.splits)

lemma wp_bindD: "wp_lv I (lv_bind m f) Q h \<Longrightarrow> wp_lv I m (\<lambda>a. wp_lv I (f a) Q) h"
  by simp

lemma wp_return [simp]: "wp_lv I (lv_return a) Q h = Q a h"
  by (simp add: wp_lv_def lv_return_def)

lemma wp_fail [simp]: "wp_lv I (lv_fail e) Q h = I h"
  by (simp add: wp_lv_def lv_fail_def)

lemma wp_try [simp]: "wp_lv I (lv_try q) Q h = Q (q h) h"
  by (simp add: wp_lv_def lv_try_def)

lemma wp_event [simp]: "wp_lv I (lv_log_event ev) Q h = Q () (ev # h)"
  by (simp add: wp_lv_def lv_log_event_def)

lemma wp_command [simp]: "wp_lv I (lv_command c ev) Q h = Q (c h) (ev # h)"
  by (simp add: wp_lv_def lv_command_def)

lemma wp_query [simp]:
  "wp_lv I (lv_query q e) Q h = (case q h of None \<Rightarrow> I h | Some a \<Rightarrow> Q a h)"
  by (simp add: wp_lv_def lv_query_def split: option.splits)

lemma wp_lift [simp]:
  "wp_lv I (lv_lift r) Q h = (case r of Inl _ \<Rightarrow> I h | Inr a \<Rightarrow> Q a h)"
  by (simp add: wp_lv_def lv_lift_def split: sum.splits)

lemma wp_mono:
  "wp_lv I m Q h \<Longrightarrow> (\<And>a h'. Q a h' \<Longrightarrow> R a h') \<Longrightarrow> wp_lv I m R h"
  by (auto simp: wp_lv_def split: prod.splits sum.splits)

lemma wp_for:
  assumes "\<And>x h. x \<in> set xs \<Longrightarrow> J h \<Longrightarrow> wp_lv I (f x) (\<lambda>_. J) h" and "J h"
  shows "wp_lv I (lv_for f xs) (\<lambda>_. J) h"
  using assms
proof (induction xs arbitrary: h)
  case Nil
  then show ?case by simp
next
  case (Cons x xs)
  have hd: "wp_lv I (f x) (\<lambda>_. J) h" using Cons.prems by simp
  have IH: "J h' \<Longrightarrow> wp_lv I (lv_for f xs) (\<lambda>_. J) h'" for h' using Cons by simp
  show ?case by simp (rule wp_mono [OF hd IH])
qed

text \<open>A domain is in scope when its name has been read and starts with the prefix.\<close>

definition in_scope :: "string \<Rightarrow> lv_log \<Rightarrow> domain \<Rightarrow> bool" where
  "in_scope prefix h d =
    list_ex (\<lambda>e. case e of NameRead d' n \<Rightarrow> d' = d \<and> starts_with n prefix | _ \<Rightarrow> False) h"

definition xml_in_scope :: "string \<Rightarrow> lv_log \<Rightarrow> (string \<Rightarrow> bool) \<Rightarrow> bool" where
  "xml_in_scope prefix h P =
    list_ex (\<lambda>e. case e of XmlRead d x \<Rightarrow> in_scope prefix h d \<and> P x | _ \<Rightarrow> False) h"

text \<open>
  An event is allowed after a history when it changes only what belongs to domains in
  scope: their power state, the volumes their descriptions name, and definitions that are
  either a description in scope with another vsock identifier or a clone of a description
  in scope under a name with the prefix.
\<close>

fun event_allowed :: "string \<Rightarrow> lv_event \<Rightarrow> lv_log \<Rightarrow> bool" where
  "event_allowed prefix (Created d) h = in_scope prefix h d"
| "event_allowed prefix (ShutDown d) h = in_scope prefix h d"
| "event_allowed prefix (Destroyed d) h = in_scope prefix h d"
| "event_allowed prefix (Undefined d) h = in_scope prefix h d"
| "event_allowed prefix (VolDeleted p) h =
    xml_in_scope prefix h (\<lambda>x. p \<in> set (extract_disk_paths x))"
| "event_allowed prefix (ThinCloned src dst) h =
    xml_in_scope prefix h (\<lambda>x. src \<in> set (extract_disk_paths x))"
| "event_allowed prefix (Defined new) h =
    xml_in_scope prefix h (\<lambda>x. (\<exists>cid. set_vsock_in_xml x cid = Ok new) \<or>
      (\<exists>name. starts_with name prefix \<and> rewrite_domain_xml x name = Ok new))"
| "event_allowed prefix (VolCopied src new) h =
    xml_in_scope prefix h (\<lambda>x. src \<in> set (extract_disk_paths x))"
| "event_allowed prefix _ h = True"

fun confined :: "string \<Rightarrow> lv_log \<Rightarrow> bool" where
  "confined prefix [] = True"
| "confined prefix (e # h) = (event_allowed prefix e h \<and> confined prefix h)"

lemma in_scope_Cons [intro]: "in_scope prefix h d \<Longrightarrow> in_scope prefix (e # h) d"
  by (simp add: in_scope_def)

lemma in_scope_NameRead [simp]:
  "starts_with n prefix \<Longrightarrow> in_scope prefix (NameRead d n # h) d"
  by (simp add: in_scope_def)

lemma xml_in_scope_Cons: "xml_in_scope prefix h P \<Longrightarrow> xml_in_scope prefix (e # h) P"
  unfolding xml_in_scope_def list_ex_iff
  by (fastforce split: lv_event.splits)

lemma xml_in_scope_XmlRead:
  "in_scope prefix h d \<Longrightarrow> P x \<Longrightarrow> xml_in_scope prefix (XmlRead d x # h) P"
  by (simp add: xml_in_scope_def in_scope_Cons)

text \<open>\<open>wp_lv\<close> with confinement as the invariant of the error exits.\<close>

abbreviation keeps :: "string \<Rightarrow> 'a lv \<Rightarrow> ('a \<Rightarrow> lv_log \<Rightarrow> bool) \<Rightarrow> lv_log \<Rightarrow> bool" where
  "keeps prefix \<equiv> wp_lv (confined prefix)"

lemma keeps_lookup:
  assumes "confined prefix h"
    and "\<And>d h'. confined prefix h' \<Longrightarrow> in_scope prefix h' d \<Longrightarrow> Q d h'"
  shows "keeps prefix (lookup_and_verify lv vm_id prefix) Q h"
  using assms by (auto simp: lookup_and_verify_def read_name_def split: option.splits)

lemma keeps_describe:
  assumes "confined prefix h" "\<And>a h'. confined prefix h' \<Longrightarrow> Q a h'"
  shows "keeps prefix (domain_to_agent_vm lv d) Q h"
  using assms by (auto simp: domain_to_agent_vm_def read_name_def split: option.splits)

lemma keeps_with_conn:
  assumes "confined prefix h" "keeps prefix f (\<lambda>_. confined prefix) h"
  shows "confined prefix (snd (with_conn lv f h))"
proof -
  have "keeps prefix (run_conn lv f) (\<lambda>_. confined prefix) h"
    using assms by (simp add: run_conn_def)
  then have "confined prefix (snd (run_conn lv f h))"
    by (auto simp: wp_lv_def split: prod.splits sum.splits)
  then show ?thesis
    using assms(1) by (auto simp: with_conn_def split: prod.splits sum.splits ha_error.splits xml_error.splits)
qed

lemma keeps_collect: "confined prefix h \<Longrightarrow> confined prefix (snd (collect_vms lv p ds h))"
proof (induction ds arbitrary: h)
  case Nil
  then show ?case by simp
next
  case (Cons d ds)
  have step: "confined prefix h \<Longrightarrow> confined prefix (snd (read_name lv d h))"
    and step2: "confined prefix h \<Longrightarrow> confined prefix (snd (domain_to_agent_vm lv d h))" for h
  proof -
    assume c: "confined prefix h"
    have "keeps prefix (read_name lv d) (\<lambda>_. confined prefix) h"
      using c by (simp add: read_name_def split: option.splits)
    then show "confined prefix (snd (read_name lv d h))"
      by (auto simp: wp_lv_def split: prod.splits sum.splits)
    have "keeps prefix (domain_to_agent_vm lv d) (\<lambda>_. confined prefix) h"
      using c by (rule keeps_describe)
    then show "confined prefix (snd (domain_to_agent_vm lv d h))"
      by (auto simp: wp_lv_def split: prod.splits sum.splits)
  qed
  show ?case using Cons.IH step [OF Cons.prems] step2
    by (auto split: prod.splits sum.splits simp: Let_def) (metis snd_conv)+
qed

lemma keeps_clone_volumes:
  assumes c: "confined prefix h" and x: "xml_in_scope prefix h (\<lambda>y. y = xml)"
    and Q: "\<And>h'. confined prefix h' \<Longrightarrow> xml_in_scope prefix h' (\<lambda>y. y = xml) \<Longrightarrow> Q () h'"
  shows "keeps prefix (clone_volumes lv xml n pool) Q h"
proof -
  let ?J = "\<lambda>h. confined prefix h \<and> xml_in_scope prefix h (\<lambda>y. y = xml)"
  have weaken: "xml_in_scope prefix h (\<lambda>x. p \<in> set (extract_disk_paths x))"
    if "xml_in_scope prefix h (\<lambda>y. y = xml)" "p \<in> set (extract_disk_paths xml)" for h p
    using that unfolding xml_in_scope_def list_ex_iff by (fastforce split: lv_event.splits)
  have "keeps prefix (clone_volume lv n pool p) (\<lambda>_. ?J) h"
    if "p \<in> set (extract_disk_paths xml)" "?J h" for p h
    using that weaken
    by (auto simp: clone_volume_def xml_in_scope_Cons split: sum.splits)
  then have "keeps prefix (lv_for (clone_volume lv n pool) (extract_disk_paths xml)) (\<lambda>_. ?J) h"
    using c x by (intro wp_for) auto
  then have "keeps prefix (lv_for (clone_volume lv n pool) (extract_disk_paths xml)) Q h"
    by (rule wp_mono) (use Q in auto)
  then show ?thesis using c by (simp add: clone_volumes_def)
qed

lemma clone_name_prefix: "starts_with (clone_name prefix n s) prefix"
  by (simp add: clone_name_def)

lemma confined_delete:
  assumes "confined prefix h"
  shows "confined prefix (snd (delete_vm lv i prefix h))"
proof -
  have weaken: "xml_in_scope prefix h (\<lambda>x. p \<in> set (extract_disk_paths x))"
    if "xml_in_scope prefix h (\<lambda>y. y = xml)" "p \<in> set (extract_disk_paths xml)" for h p xml
    using that unfolding xml_in_scope_def list_ex_iff by (fastforce split: lv_event.splits)
  have vols: "keeps prefix (lv_for (delete_volume lv) (extract_disk_paths xml))
      (\<lambda>_ h. confined prefix h \<and> in_scope prefix h d) h"
    if "confined prefix h" "in_scope prefix h d" "xml_in_scope prefix h (\<lambda>y. y = xml)" for h d xml
  proof -
    let ?J = "\<lambda>h. confined prefix h \<and> in_scope prefix h d \<and> xml_in_scope prefix h (\<lambda>y. y = xml)"
    have "keeps prefix (delete_volume lv p) (\<lambda>_. ?J) h"
      if "p \<in> set (extract_disk_paths xml)" "?J h" for p h
      using that weaken by (auto simp: delete_volume_def xml_in_scope_Cons)
    then have "keeps prefix (lv_for (delete_volume lv) (extract_disk_paths xml)) (\<lambda>_. ?J) h"
      using that by (intro wp_for) auto
    then show ?thesis by (rule wp_mono) auto
  qed
  have tail: "keeps prefix (lv_bind (read_xml lv d) (\<lambda>xml.
      lv_bind (lv_for (delete_volume lv) (extract_disk_paths xml)) (\<lambda>_.
      lv_bind (lv_command (\<lambda>h. dom_undefine lv h d) (Undefined d)) (\<lambda>ok.
        if ok then lv_return () else lv_fail e)))) (\<lambda>_. confined prefix) h"
    if "confined prefix h" "in_scope prefix h d" for h d e
    using that
    by (auto simp: read_xml_def xml_in_scope_XmlRead split: option.splits
        intro!: wp_mono [OF vols])
  show ?thesis unfolding delete_vm_def
    by (intro keeps_with_conn assms) (auto intro!: keeps_lookup wp_bindD [OF tail] assms)
qed

lemma confined_clone:
  assumes "confined prefix h"
  shows "confined prefix (snd (clone_vm lv t n pool prefix h))"
proof -
  have def_ok: "event_allowed prefix (Defined new) h"
    if "xml_in_scope prefix h (\<lambda>y. y = xml)" "starts_with name prefix"
      "rewrite_domain_xml xml name = Ok new" for h xml name new
    using that unfolding event_allowed.simps xml_in_scope_def list_ex_iff
    by (fastforce split: lv_event.splits)
  have tail: "keeps prefix (lv_bind (read_xml lv d) (\<lambda>xml.
      lv_bind (clone_volumes lv xml name pool) (\<lambda>_.
      lv_bind (xml_lift (rewrite_domain_xml xml name)) (\<lambda>new_xml.
      lv_bind (define_domain lv w new_xml) (\<lambda>dm. domain_to_agent_vm lv dm)))))
      (\<lambda>_. confined prefix) h"
    if "confined prefix h" "in_scope prefix h d" "starts_with name prefix" for h d name w
    using that
    by (auto simp: read_xml_def xml_lift_def define_domain_def xml_in_scope_XmlRead
        split: option.splits sum.splits simp del: event_allowed.simps(7)
        intro!: keeps_clone_volumes keeps_describe def_ok)
  show ?thesis unfolding clone_vm_def
    by (intro keeps_with_conn assms) (auto intro!: keeps_lookup wp_bindD [OF tail] clone_name_prefix assms)
qed

lemma confined_vsock:
  assumes "confined prefix h"
  shows "confined prefix (snd (set_vsock_cid lv i cid prefix h))"
proof -
  have def_ok: "event_allowed prefix (Defined new) (XmlRead d xml # h)"
    if "in_scope prefix h d" "set_vsock_in_xml xml cid = Ok new" for h d xml new
    using that by (auto intro!: xml_in_scope_XmlRead)
  show ?thesis unfolding set_vsock_cid_def
    by (intro keeps_with_conn assms)
      (auto intro!: keeps_lookup assms def_ok simp: read_xml_def xml_lift_def define_domain_def
        simp del: event_allowed.simps(7) split: option.splits sum.splits)
qed

lemma confined_query_ops:
  assumes "confined prefix h"
  shows "confined prefix (snd (list_vms lv p h))"
    and "confined prefix (snd (get_status lv i prefix h))"
    and "confined prefix (snd (start_vm lv i prefix h))"
    and "confined prefix (snd (stop_vm lv i prefix h))"
proof -
  have "keeps prefix (\<lambda>h. let (vms, h') = collect_vms lv p ds h in (Ok vms, h')) (\<lambda>_. confined prefix) h"
    if "confined prefix h" for h ds
    using keeps_collect [OF that, of lv p ds] by (cases "collect_vms lv p ds h") (simp add: wp_lv_def)
  then show "confined prefix (snd (list_vms lv p h))"
    unfolding list_vms_def
    by (intro keeps_with_conn assms) (simp add: assms split: option.splits)
  show "confined prefix (snd (get_status lv i prefix h))"
    unfolding get_status_def
    by (intro keeps_with_conn assms) (auto intro!: keeps_lookup keeps_describe assms)
  show "confined prefix (snd (start_vm lv i prefix h))"
    unfolding start_vm_def
    by (intro keeps_with_conn assms) (auto intro!: keeps_lookup assms)
  show "confined prefix (snd (stop_vm lv i prefix h))"
    unfolding stop_vm_def
    by (intro keeps_with_conn assms) (auto intro!: keeps_lookup assms)
qed

lemma snd_respond_with [simp]: "snd (respond_with f m h) = snd (m h)"
  by (simp add: respond_with_def split: prod.splits sum.splits)

lemma confined_dispatch:
  "confined prefix h \<Longrightarrow> confined prefix (snd (dispatch lv pool prefix req h))"
  by (cases req) (simp_all add: confined_query_ops confined_clone confined_delete confined_vsock)

lemma confined_handle_request:
  "confined (lc_vm_prefix (hc_libvirt cfg)) h \<Longrightarrow>
    confined (lc_vm_prefix (hc_libvirt cfg)) (snd (handle_request lv cfg peer req h))"
  by (auto simp: handle_request_def Let_def confined_dispatch split: sum.splits)

end
