(* ===== verification/LibvirtProvider.thy ===== *)
theory LibvirtProvider
  imports HostAgent Provider
begin

text \<open>
  The libvirt back end of the broker (\<open>nidan-broker/src/provider/libvirt.rs\<close>).  Its operations run on
  the same history of libvirt calls as those of the host agent, and fail in the same ways; the
  two answers the host agent does not ask for are in the record \<open>libvirt_more\<close>.  Every operation
  opens a connection of its own.  A panic of the blocking task is an error of the operation.
\<close>

record libvirt_more =
  type_known :: "lv_log \<Rightarrow> bool"
  version_known :: "lv_log \<Rightarrow> bool"
  dom_state :: "lv_log \<Rightarrow> domain \<Rightarrow> u32 option"
  vol_create_from :: "lv_log \<Rightarrow> string \<Rightarrow> string \<Rightarrow> string \<Rightarrow> bool"

definition own_conn :: "libvirt \<Rightarrow> 'a lv \<Rightarrow> 'a lv" where
  "own_conn lv f = lv_bind (lv_try (open_conn lv)) (\<lambda>ok. if ok then f else lv_fail ConnFailed)"

definition libvirt_provider_new :: "libvirt \<Rightarrow> libvirt_more \<Rightarrow> unit lv" where
  "libvirt_provider_new lv lx =
    own_conn lv (
    lv_bind (lv_query (\<lambda>h. if type_known lx h then Some () else None) (QueryFailed ''get_type'')) (\<lambda>_.
    lv_query (\<lambda>h. if version_known lx h then Some () else None) (QueryFailed ''get_hyp_version'')))"

section \<open>Domains\<close>

text \<open>The states of libvirt: 1 running, 2 blocked, 3 paused, 4 shutting down, 5 off, 6 crashed, 7
  suspended.\<close>

definition state_status :: "u32 \<Rightarrow> vm_status" where
  "state_status s =
    (if s = 1 \<or> s = 2 then Running
     else if s = 5 then Stopped
     else if s = 3 then Unknown ''paused''
     else if s = 4 then Unknown ''shutting-down''
     else if s = 6 then Unknown ''crashed''
     else if s = 7 then Unknown ''pm-suspended''
     else Unknown (''state-'' @ dec_string (unat s)))"

definition domain_to_vm :: "libvirt \<Rightarrow> libvirt_more \<Rightarrow> domain \<Rightarrow> provider_vm lv" where
  "domain_to_vm lv lx dm =
    lv_bind (read_name lv dm) (\<lambda>name.
    lv_bind (lv_query (\<lambda>h. get_uuid lv h dm) (QueryFailed ''get_uuid'')) (\<lambda>uuid.
    lv_bind (lv_query (\<lambda>h. dom_state lx h dm) (QueryFailed ''get_info'')) (\<lambda>st.
      lv_return \<lparr>provider_id = uuid, pv_name = Some name, pv_status = state_status st\<rparr>)))"

definition lookup_domain :: "libvirt \<Rightarrow> string \<Rightarrow> domain lv" where
  "lookup_domain lv vm_id =
    lv_query (\<lambda>h. case lookup_by_uuid lv h vm_id of
        Some d \<Rightarrow> Some d | None \<Rightarrow> lookup_by_name lv h vm_id) (DomainNotFound vm_id)"

fun collect_domains ::
  "libvirt \<Rightarrow> libvirt_more \<Rightarrow> string \<Rightarrow> domain list \<Rightarrow> lv_log \<Rightarrow> provider_vm list \<times> lv_log"
where
  "collect_domains lv lx prefix [] h = ([], h)"
| "collect_domains lv lx prefix (dm # doms) h =
    (case read_name lv dm h of
      (Inl _, h1) \<Rightarrow> collect_domains lv lx prefix doms h1
    | (Inr name, h1) \<Rightarrow>
        if starts_with name prefix then
          (case domain_to_vm lv lx dm h1 of
            (Inl _, h2) \<Rightarrow> collect_domains lv lx prefix doms h2
          | (Inr vm, h2) \<Rightarrow>
              (let (vms, h3) = collect_domains lv lx prefix doms h2 in (vm # vms, h3)))
        else collect_domains lv lx prefix doms h1)"

section \<open>Operations\<close>

definition lb_list_vms :: "libvirt \<Rightarrow> libvirt_more \<Rightarrow> string \<Rightarrow> provider_vm list lv" where
  "lb_list_vms lv lx prefix =
    own_conn lv (lv_bind (lv_query (list_all_domains lv) (QueryFailed ''list_all_domains''))
      (\<lambda>doms h. let (vms, h') = collect_domains lv lx prefix doms h in (Ok vms, h')))"

definition lb_get_status :: "libvirt \<Rightarrow> libvirt_more \<Rightarrow> string \<Rightarrow> provider_vm lv" where
  "lb_get_status lv lx vm_id = own_conn lv (lv_bind (lookup_domain lv vm_id) (domain_to_vm lv lx))"

definition volume_xml :: "string \<Rightarrow> string \<Rightarrow> string \<Rightarrow> string" where
  "volume_xml new_name ext new_path =
    ''<volume>'' @ [newline] @ ''  <name>'' @ new_name @ ext @ ''</name>'' @ [newline] @
    ''  <target><path>'' @ new_path @ ''</path><format type='' @ [squote] @ ''qcow2'' @ [squote] @
    ''/></target>'' @ [newline] @ ''</volume>''"

definition copy_volume :: "libvirt \<Rightarrow> libvirt_more \<Rightarrow> string \<Rightarrow> string \<Rightarrow> string \<Rightarrow> unit lv" where
  "copy_volume lv lx new_name pool_name src_path =
    lv_bind (xml_lift (split_path src_path)) (\<lambda>(dir, base, ext).
    let xml = volume_xml new_name ext (dir @ ''/'' @ new_name @ ext) in
    lv_bind (lv_try (\<lambda>h. vol_lookup lv h src_path)) (\<lambda>found.
      if \<not> found then lv_return ()
      else lv_bind (lv_command (\<lambda>h. vol_create_from lx h pool_name xml src_path) (VolCopied src_path xml)) (\<lambda>ok.
        if ok then lv_return () else lv_fail (CommandFailed ''clone volume'' src_path))))"

definition copy_volumes :: "libvirt \<Rightarrow> libvirt_more \<Rightarrow> string \<Rightarrow> string \<Rightarrow> string \<Rightarrow> unit lv" where
  "copy_volumes lv lx xml new_name pool_name =
    lv_bind (lv_query (\<lambda>h. if pool_lookup lv h pool_name then Some () else None)
        (PoolNotFound pool_name)) (\<lambda>_.
      lv_for (copy_volume lv lx new_name pool_name) (extract_disk_paths xml))"

definition lb_clone_vm ::
  "libvirt \<Rightarrow> libvirt_more \<Rightarrow> string \<Rightarrow> string \<Rightarrow> string \<Rightarrow> string \<Rightarrow> provider_vm lv"
where
  "lb_clone_vm lv lx storage_pool prefix template new_name =
    lv_bind (lv_try (\<lambda>h. clone_name prefix new_name (uuid_suffix lv h))) (\<lambda>name.
    own_conn lv (
    lv_bind (lookup_domain lv template) (\<lambda>tmpl.
    lv_bind (lv_try (\<lambda>h. is_active lv h tmpl)) (\<lambda>active.
    if active = Some True then lv_fail (TemplateActive template) else
    lv_bind (read_xml lv tmpl) (\<lambda>tmpl_xml.
    lv_bind (lv_try (\<lambda>h. lookup_by_name lv h name)) (\<lambda>taken.
    if taken \<noteq> None then lv_fail (NameTaken name) else
    lv_bind (copy_volumes lv lx tmpl_xml name storage_pool) (\<lambda>_.
    lv_bind (xml_lift (broker_rewrite_domain_xml tmpl_xml name)) (\<lambda>new_xml.
    lv_bind (define_domain lv ''domain_define_xml'' new_xml) (\<lambda>dm.
      domain_to_vm lv lx dm)))))))))"

definition lb_start_vm :: "libvirt \<Rightarrow> string \<Rightarrow> unit lv" where
  "lb_start_vm lv vm_id =
    own_conn lv (lv_bind (lookup_domain lv vm_id) (\<lambda>dm.
      lv_bind (lv_command (\<lambda>h. dom_create lv h dm) (Created dm)) (\<lambda>ok.
        if ok then lv_return () else lv_fail (CommandFailed ''start'' vm_id))))"

definition lb_stop_vm :: "libvirt \<Rightarrow> string \<Rightarrow> unit lv" where
  "lb_stop_vm lv vm_id =
    own_conn lv (lv_bind (lookup_domain lv vm_id) (\<lambda>dm.
      lv_bind (lv_command (\<lambda>h. dom_shutdown lv h dm) (ShutDown dm)) (\<lambda>ok.
        if ok then lv_return ()
        else lv_bind (lv_command (\<lambda>h. dom_destroy lv h dm) (Destroyed dm)) (\<lambda>ok2.
          if ok2 then lv_return () else lv_fail (CommandFailed ''destroy'' vm_id)))))"

definition lb_delete_vm :: "libvirt \<Rightarrow> string \<Rightarrow> unit lv" where
  "lb_delete_vm lv vm_id =
    own_conn lv (lv_bind (lookup_domain lv vm_id) (\<lambda>dm.
      lv_bind (lv_try (\<lambda>h. is_active lv h dm)) (\<lambda>active.
      lv_bind (if active = Some True
               then lv_bind (lv_command (\<lambda>h. dom_destroy lv h dm) (Destroyed dm)) (\<lambda>_. lv_return ())
               else lv_return ()) (\<lambda>_.
      lv_bind (read_xml lv dm) (\<lambda>xml.
      lv_bind (lv_for (delete_volume lv) (extract_disk_paths xml)) (\<lambda>_.
      lv_bind (lv_command (\<lambda>h. dom_undefine lv h dm) (Undefined dm)) (\<lambda>ok.
        if ok then lv_return () else lv_fail (CommandFailed ''undefine'' vm_id))))))))"

definition lb_set_vsock_cid :: "libvirt \<Rightarrow> string \<Rightarrow> u32 \<Rightarrow> unit lv" where
  "lb_set_vsock_cid lv vm_id cid =
    own_conn lv (lv_bind (lookup_domain lv vm_id) (\<lambda>dm.
      lv_bind (read_xml lv dm) (\<lambda>xml.
      lv_bind (xml_lift (set_vsock_in_xml xml cid)) (\<lambda>new_xml.
      lv_bind (define_domain lv ''redefine vsock'' new_xml) (\<lambda>_. lv_return ())))))"

section \<open>The back end behind the trait\<close>

text \<open>The history of libvirt after the calls the pool has made, newest first.\<close>

definition run_call :: "libvirt \<Rightarrow> libvirt_more \<Rightarrow> string \<Rightarrow> string \<Rightarrow> provider_call \<Rightarrow> lv_log \<Rightarrow> lv_log" where
  "run_call lv lx pool prefix c h =
    (case c of
      PListVms \<Rightarrow> snd (lb_list_vms lv lx prefix h)
    | PGetStatus i \<Rightarrow> snd (lb_get_status lv lx i h)
    | PCloneVm t n \<Rightarrow> snd (lb_clone_vm lv lx pool prefix t n h)
    | PStartVm i \<Rightarrow> snd (lb_start_vm lv i h)
    | PStopVm i \<Rightarrow> snd (lb_stop_vm lv i h)
    | PDeleteVm i \<Rightarrow> snd (lb_delete_vm lv i h)
    | PSetVsockCid i cid \<Rightarrow> snd (lb_set_vsock_cid lv i cid h))"

definition replay :: "libvirt \<Rightarrow> libvirt_more \<Rightarrow> string \<Rightarrow> string \<Rightarrow> calls \<Rightarrow> lv_log" where
  "replay lv lx pool prefix cs = foldr (run_call lv lx pool prefix) cs []"

definition answer :: "'a lv \<Rightarrow> lv_log \<Rightarrow> (provider_error, 'a) result" where
  "answer m h = (case fst (m h) of Inl e \<Rightarrow> Err (BackendFailed (ha_message e)) | Inr a \<Rightarrow> Ok a)"

definition libvirt_provider :: "libvirt \<Rightarrow> libvirt_more \<Rightarrow> string \<Rightarrow> string \<Rightarrow> vm_provider" where
  "libvirt_provider lv lx pool prefix =
    (let hist = replay lv lx pool prefix in \<lparr>
      backend_name = ''libvirt'',
      vp_list_vms = (\<lambda>cs. answer (lb_list_vms lv lx prefix) (hist cs)),
      vp_get_status = (\<lambda>cs i. answer (lb_get_status lv lx i) (hist cs)),
      vp_clone_vm = (\<lambda>cs t n. answer (lb_clone_vm lv lx pool prefix t n) (hist cs)),
      vp_start_vm = (\<lambda>cs i. answer (lb_start_vm lv i) (hist cs)),
      vp_stop_vm = (\<lambda>cs i. answer (lb_stop_vm lv i) (hist cs)),
      vp_delete_vm = (\<lambda>cs i. answer (lb_delete_vm lv i) (hist cs)),
      vp_set_vsock_cid = (\<lambda>cs i cid. answer (lb_set_vsock_cid lv i cid) (hist cs))\<rparr>)"

end
