(* ===== verification/HostAgentProps.thy ===== *)
theory HostAgentProps
  imports HostAgent Provider
begin

text \<open>
  The properties of the host agent: everything it does to the hypervisor stays inside the
  configured prefix, the proxy can only stop and delete, rejected connections have no effect,
  a request sent by the provider of the broker comes back with the response of the handler,
  and what happens when the editing of a domain description goes wrong.
\<close>

section \<open>Concrete values\<close>

definition demo_xml :: string where
  "demo_xml = ''<name>t</name><devices><source file='' @ [squote] @ ''/p/t.q'' @ [squote] @ ''/></devices>''"

definition bad_xml :: string where
  "bad_xml = ''<name>t</name><source file='' @ [squote] @ [squote] @ ''/>''"

text \<open>A hypervisor with the domain \<open>nidan-t\<close> and the description it is given.\<close>

definition demo_libvirt :: "string \<Rightarrow> libvirt" where
  "demo_libvirt xml = \<lparr>
    is_alive = (\<lambda>h. True), open_conn = (\<lambda>h. True),
    lookup_by_uuid = (\<lambda>h i. None),
    lookup_by_name = (\<lambda>h n. if n = ''nidan-t'' then Some ''d'' else None),
    list_all_domains = (\<lambda>h. Some [''d'']),
    get_name = (\<lambda>h d. if d = ''d'' then Some ''nidan-t'' else None),
    get_uuid = (\<lambda>h d. Some ''u''),
    is_active = (\<lambda>h d. Some False),
    get_xml_desc = (\<lambda>h d. Some xml),
    dom_create = (\<lambda>h d. True), dom_shutdown = (\<lambda>h d. True),
    dom_destroy = (\<lambda>h d. True), dom_undefine = (\<lambda>h d. True),
    define_xml = (\<lambda>h x. Some ''d''),
    pool_lookup = (\<lambda>h p. True), vol_lookup = (\<lambda>h p. True), vol_delete = (\<lambda>h p. True),
    qemu_img_create = (\<lambda>h a b. True), uuid_suffix = (\<lambda>h. ''a1b2'')\<rparr>"

definition demo_agent_config :: host_agent_config where
  "demo_agent_config = \<lparr>hc_vsock = default_vsock_config\<lparr>allowed_cid := Some 3, proxy_cid := Some 1\<rparr>,
    hc_libvirt = default_libvirt_config, hc_audit_log = None\<rparr>"

section \<open>Confinement\<close>

fun serve_requests ::
  "libvirt \<Rightarrow> host_agent_config \<Rightarrow> (u32 \<times> agent_request) list \<Rightarrow> lv_log \<Rightarrow> agent_response list \<times> lv_log"
where
  "serve_requests lv cfg [] h = ([], h)"
| "serve_requests lv cfg ((peer, req) # rs) h =
    (let (resp, h1) = handle_request lv cfg peer req h;
         (resps, h2) = serve_requests lv cfg rs h1 in (resp # resps, h2))"

lemma serve_requests_confined:
  "confined (lc_vm_prefix (hc_libvirt cfg)) h \<Longrightarrow>
    confined (lc_vm_prefix (hc_libvirt cfg)) (snd (serve_requests lv cfg rs h))"
proof (induction rs arbitrary: h)
  case Nil
  then show ?case by simp
next
  case (Cons r rs)
  obtain peer req where r: "r = (peer, req)" by (cases r)
  obtain resp h1 where h1: "handle_request lv cfg peer req h = (resp, h1)"
    by (cases "handle_request lv cfg peer req h")
  have "confined (lc_vm_prefix (hc_libvirt cfg)) h1"
    using confined_handle_request [OF Cons.prems, of lv peer req] h1 by simp
  then show ?case using Cons.IH [of h1] r h1
    by (cases "serve_requests lv cfg rs h1") (simp add: Let_def)
qed


section \<open>The proxy\<close>

fun creates :: "lv_event \<Rightarrow> bool" where
  "creates (Created _) = True"
| "creates (Defined _) = True"
| "creates (ThinCloned _ _) = True"
| "creates (VolCopied _ _) = True"
| "creates _ = False"

lemma no_creation_with_conn:
  assumes "wp_lv P f (\<lambda>_. P) h" "P h" "\<And>h. P h \<Longrightarrow> P (LockPoisoned # h)"
  shows "P (snd (with_conn lv f h))"
proof -
  have "wp_lv P (run_conn lv f) (\<lambda>_. P) h" using assms(1,2) by (simp add: run_conn_def)
  obtain r g where run: "run_conn lv f h = (r, g)" by (cases "run_conn lv f h")
  then have g: "P g" using \<open>wp_lv P (run_conn lv f) (\<lambda>_. P) h\<close>
    by (simp add: wp_lv_def split: sum.splits)
  show ?thesis
  proof (cases "LockPoisoned \<in> set h \<or> r \<noteq> Inl (XmlFailed Panic)")
    case True
    then show ?thesis using run g assms(2)
      by (auto simp: with_conn_def split: sum.splits ha_error.splits xml_error.splits)
  next
    case False
    then show ?thesis using run assms(3) [OF g] by (simp add: with_conn_def)
  qed
qed

lemma wp_lookup_any:
  assumes "\<And>d n. P (NameRead d n # h)" "P h" "\<And>d n. Q d (NameRead d n # h)"
  shows "wp_lv P (lookup_and_verify lv i prefix) Q h"
  unfolding lookup_and_verify_def read_name_def by (simp add: assms split: option.split)

text \<open>
  A request of the proxy never makes the agent start a domain, define one or copy a volume,
  whatever the request is.
\<close>

theorem proxy_never_creates:
  assumes "is_proxy_peer cfg peer" "e \<in> set (snd (handle_request lv cfg peer req h))" "creates e"
  shows "e \<in> set h"
proof -
  define P where "P g \<longleftrightarrow> (\<forall>e \<in> set g. creates e \<longrightarrow> e \<in> set h)" for g
  have P: "P h" "\<And>x g. P g \<Longrightarrow> \<not> creates x \<Longrightarrow> P (x # g)" by (auto simp: P_def)
  note [simp] = P(2)
  have stop: "P (snd (stop_vm lv i prefix h))" for i prefix
    unfolding stop_vm_def
    by (rule no_creation_with_conn [of P]) (auto simp: P(1) intro!: wp_lookup_any [of P])
  have vol: "wp_lv P (lv_for (delete_volume lv) ps) (\<lambda>_. P) g" if "P g" for ps g
    using that by (intro wp_for) (auto simp: delete_volume_def)
  have "wp_lv P (lv_bind (read_xml lv d) (\<lambda>xml.
      lv_bind (lv_for (delete_volume lv) (extract_disk_paths xml)) (\<lambda>_.
      lv_bind (lv_command (\<lambda>h. dom_undefine lv h d) (Undefined d)) (\<lambda>ok.
        if ok then lv_return () else lv_fail er)))) (\<lambda>_. P) g" if "P g" for d er g
    using that by (simp add: read_xml_def wp_mono [OF vol] split: option.split)
  note tail = wp_bindD [OF this]
  have delete: "P (snd (delete_vm lv i prefix h))" for i prefix
    unfolding delete_vm_def
    by (rule no_creation_with_conn [of P]) (auto simp: P(1) intro!: wp_lookup_any [of P] tail)
  have "P (snd (handle_request lv cfg peer req h))"
    using assms(1) stop delete P(1)
    by (cases req) (auto simp: handle_request_def Let_def validate_prefix_def)
  then show ?thesis using assms(2,3) by (auto simp: P_def)
qed

theorem proxy_never_creates_witness:
  "filter creates (snd (handle_request (demo_libvirt demo_xml) demo_agent_config 1 (DeleteVm ''nidan-t'') [])) = []"
proof -
  have "is_proxy_peer demo_agent_config 1" by (simp add: is_proxy_peer_def demo_agent_config_def)
  from proxy_never_creates [OF this, of _ "demo_libvirt demo_xml" "DeleteVm ''nidan-t''" "[]"]
  show ?thesis by (auto simp: filter_empty_conv)
qed

section \<open>Connections\<close>

text \<open>
  A connection that is refused, cut short, too long or not a request has no effect on the
  hypervisor: libvirt is not even read.
\<close>

theorem rejected_connection_inert:
  assumes "serve_connection of_json to_json lv cfg peer stream h = (Err e, h')"
    and "e \<noteq> ResponseNotSerialised"
  shows "h' = h"
  using assms
  by (auto simp: serve_connection_def handle_connection_def Let_def
      split: if_splits sum.splits prod.splits option.splits)

theorem rejected_connection_inert_witness:
  "snd (serve_connection (\<lambda>_. Some (StopVm ''nidan-t'')) (\<lambda>_. Some []) (demo_libvirt demo_xml)
    demo_agent_config 7 (be32 1 @ [0]) []) = []"
proof -
  have "serve_connection (\<lambda>_. Some (StopVm ''nidan-t'')) (\<lambda>_. Some []) (demo_libvirt demo_xml)
    demo_agent_config 7 (be32 1 @ [0]) [] = (Err Refused, [])"
    by (simp add: serve_connection_def accept_peer_def is_proxy_peer_def demo_agent_config_def)
  from rejected_connection_inert [OF this] this show ?thesis by simp
qed

text \<open>The transport that connects a provider to a host agent in a given state.\<close>

definition agent_transport ::
  "(bytes \<Rightarrow> agent_request option) \<Rightarrow> (agent_response \<Rightarrow> bytes option) \<Rightarrow> libvirt \<Rightarrow>
    host_agent_config \<Rightarrow> u32 \<Rightarrow> lv_log \<Rightarrow> transport"
where
  "agent_transport of_json to_json lv cfg peer h = (\<lambda>cs cid port stream.
    (case serve_connection of_json to_json lv cfg peer stream h of
      (Inr b, _) \<Rightarrow> Some b | (Inl _, _) \<Rightarrow> None))"

text \<open>
  A request that the broker's provider sends to the agent returns the response of the
  handler, when the peer is admitted, the JSON library round-trips both messages and they
  fit the limits (64 KiB for the request, 1 MiB for the response).
\<close>

theorem host_agent_round_trip:
  assumes "accept_peer cfg peer"
    and "req_to_json req = Some p" "req_of_json p = Some req" "length p \<le> max_request"
    and "resp = fst (handle_request lv cfg peer req h)"
    and "resp_to_json resp = Some b" "resp_of_json b = Some resp" "length b \<le> max_response"
  shows "send_request req_to_json resp_of_json
      (agent_transport req_of_json resp_to_json lv cfg peer h) pcfg cs req = Ok resp"
proof (rule send_request_delivers [where p = p and b = b])
  show "req_to_json req = Some p" "length b \<le> max_response" "resp_of_json b = Some resp"
    using assms by simp_all
  have "length p < 2 ^ 32" using assms(4) by (simp add: max_request_def)
  then have "serve_connection req_of_json resp_to_json lv cfg peer (write_frame be32 p) h
      = (Ok (write_frame be32 b), snd (handle_request lv cfg peer req h))"
    using assms(1,3-6)
    by (cases "handle_request lv cfg peer req h")
      (simp add: serve_connection_def handle_connection_def write_frame_def Let_def)
  then show "agent_transport req_of_json resp_to_json lv cfg peer h cs (host_cid pcfg) (hp_port pcfg) (write_frame be32 p)
      = Some (write_frame be32 b)"
    by (simp add: agent_transport_def)
qed

lemma demo_stop: "fst (handle_request (demo_libvirt demo_xml) demo_agent_config 3 (StopVm ''nidan-t'') []) = ok_empty"
  by code_simp

theorem host_agent_round_trip_witness:
  "send_request (\<lambda>_. Some [7]) (\<lambda>_. Some ok_empty)
      (agent_transport (\<lambda>_. Some (StopVm ''nidan-t'')) (\<lambda>_. Some [9]) (demo_libvirt demo_xml) demo_agent_config 3 [])
      default_host_agent_provider_config [] (StopVm ''nidan-t'') = Ok ok_empty"
proof -
  have "accept_peer demo_agent_config 3" by (simp add: accept_peer_def demo_agent_config_def)
  from host_agent_round_trip [OF this, of "\<lambda>_. Some [7]" "StopVm ''nidan-t''" "[7]" "\<lambda>_. Some (StopVm ''nidan-t'')"
      ok_empty "demo_libvirt demo_xml" "[]" "\<lambda>_. Some [9]" "[9]" "\<lambda>_. Some ok_empty"]
  show ?thesis by (simp add: demo_stop max_request_def max_response_def)
qed

section \<open>Poisoning\<close>

lemma poisoned_with_conn: "LockPoisoned \<in> set h \<Longrightarrow> with_conn lv f h = (Err PoisonedLock, h)"
  by (simp add: with_conn_def)

lemma poisoned_dispatch:
  assumes "LockPoisoned \<in> set h"
  shows "dispatch lv pool prefix req h = (resp_err (ha_message PoisonedLock), h)"
  using assms
  by (cases req) (simp_all add: respond_with_def list_vms_def get_status_def clone_vm_def start_vm_def
      stop_vm_def delete_vm_def set_vsock_cid_def poisoned_with_conn)

text \<open>
  If cloning a template panics while its description is edited, the lock of the libvirt
  connection is poisoned and from then on every request of every peer fails, with no effect
  on the hypervisor, until the agent is restarted.
\<close>

theorem clone_panic_wedges_agent:
  assumes "fst (clone_vm lv template new_name pool prefix h) = Err (XmlFailed Panic)"
    and "h' = snd (clone_vm lv template new_name pool prefix h)"
  shows "\<not> success (fst (handle_request lv cfg peer req h')) \<and> snd (handle_request lv cfg peer req h') = h'"
proof -
  have "LockPoisoned \<in> set h'"
    using assms unfolding clone_vm_def
    by (auto simp: with_conn_def split: if_splits prod.splits sum.splits ha_error.splits xml_error.splits)
  moreover have "validate_prefix req prefix = Inl r \<Longrightarrow> \<not> success r" for prefix r
    by (cases req) (auto simp: validate_prefix_def resp_err_def split: if_splits)
  ultimately show ?thesis
    by (auto simp: handle_request_def Let_def poisoned_dispatch resp_err_def split: sum.splits)
qed

lemma demo_clone_panics:
  "fst (clone_vm (demo_libvirt bad_xml) ''nidan-t'' [] ''default'' ''nidan-'' []) = Err (XmlFailed Panic)"
  by code_simp

theorem clone_panic_wedges_agent_witness:
  "\<not> success (fst (handle_request (demo_libvirt bad_xml) demo_agent_config 3 (StopVm ''nidan-t'')
    (snd (clone_vm (demo_libvirt bad_xml) ''nidan-t'' [] ''default'' ''nidan-'' []))))"
  using clone_panic_wedges_agent [OF demo_clone_panics refl] by blast

section \<open>Domain descriptions\<close>

text \<open>
  Two disks of a template that lie in one directory and have the same extension are given
  the same path in the clone, so that both devices of the clone share one file.
\<close>

theorem clone_disks_collide:
  assumes "split_path p = Ok (dir, base1, ext)" "split_path q = Ok (dir, base2, ext)"
  shows "cloned_path new_name p = cloned_path new_name q"
  using assms by (simp add: cloned_path_def)

theorem clone_disks_collide_witness:
  "cloned_path ''nidan-a'' ''/p/system.qcow2'' = cloned_path ''nidan-a'' ''/p/data.qcow2''"
proof -
  have "split_path ''/p/system.qcow2'' = Ok (''/p'', ''system'', ''.qcow2'')"
    "split_path ''/p/data.qcow2'' = Ok (''/p'', ''data'', ''.qcow2'')" by code_simp+
  then show ?thesis by (rule clone_disks_collide)
qed

text \<open>
  The host agent and the broker rename a template to the same description whenever the
  first closing name tag of the description follows its first opening one.
\<close>

theorem rewrite_variants_agree:
  assumes "find_tag_content xml ''name'' = Some (a, b)" "str_find xml name_close = Some b"
  shows "rewrite_domain_xml xml new_name = broker_rewrite_domain_xml xml new_name"
proof -
  have tags: "name_open = ''<'' @ ''name'' @ ''>''" "name_close = ''</'' @ ''name'' @ ''>''"
    "uuid_open = ''<'' @ ''uuid'' @ ''>''" "uuid_close = ''</'' @ ''uuid'' @ ''>''"
    by (simp_all add: name_open_def name_close_def uuid_open_def uuid_close_def)
  obtain i where i: "str_find xml name_open = Some i" "a = i + length name_open"
    using assms(1) unfolding find_tag_content_def Let_def tags by (auto split: option.splits)
  have ren: "rename_domain new_name xml = replace_range a b new_name xml"
    using i assms(2) by (simp add: rename_domain_def)
  have drop: "drop_uuid out = (case find_full_tag out ''uuid'' of
        None \<Rightarrow> Ok out
      | Some (start, fin) \<Rightarrow>
          replace_range start (if fin < length out \<and> out ! fin = newline then fin + 1 else fin) [] out)" for out
    unfolding drop_uuid_def find_full_tag_def Let_def tags
    by (auto split: option.splits simp: add.commute add.left_commute)
  show ?thesis
    unfolding rewrite_domain_xml_def broker_rewrite_domain_xml_def ren drop using assms(1)
    by (simp add: bind_result_def split: sum.splits)
qed

theorem rewrite_variants_agree_witness:
  "rewrite_domain_xml demo_xml ''nidan-a'' = broker_rewrite_domain_xml demo_xml ''nidan-a''"
proof -
  have "find_tag_content demo_xml ''name'' = Some (6, 7)" "str_find demo_xml name_close = Some 7"
    by code_simp+
  then show ?thesis by (rule rewrite_variants_agree)
qed

end
