(* ===== verification/LibvirtProps.thy ===== *)
theory LibvirtProps
  imports LibvirtProvider HostAgentProps
begin

text \<open>
  The two ways to libvirt compared: on a machine inside the prefix of the host agent, the libvirt
  back end of the broker does the same to the hypervisor and returns the same; outside of it the
  host agent refuses, and the back end of the broker acts.
\<close>

section \<open>Operations that differ only in what they read\<close>

fun is_effect :: "lv_event \<Rightarrow> bool" where
  "is_effect (NameRead _ _) = False"
| "is_effect (XmlRead _ _) = False"
| "is_effect _ = True"

definition effects :: "lv_log \<Rightarrow> lv_log" where
  "effects h = filter is_effect h"

lemma effects_Cons [simp]: "effects (e # h) = (if is_effect e then e # effects h else effects h)"
  by (simp add: effects_def)

text \<open>Reading names and descriptions changes no later answer of libvirt.\<close>

definition reads_invisible :: "libvirt \<Rightarrow> bool" where
  "reads_invisible lv \<longleftrightarrow> (\<forall>h. lookup_by_uuid lv h = lookup_by_uuid lv (effects h)
    \<and> lookup_by_name lv h = lookup_by_name lv (effects h)
    \<and> get_name lv h = get_name lv (effects h)
    \<and> is_active lv h = is_active lv (effects h)
    \<and> get_xml_desc lv h = get_xml_desc lv (effects h)
    \<and> dom_create lv h = dom_create lv (effects h)
    \<and> dom_shutdown lv h = dom_shutdown lv (effects h)
    \<and> dom_destroy lv h = dom_destroy lv (effects h)
    \<and> dom_undefine lv h = dom_undefine lv (effects h)
    \<and> define_xml lv h = define_xml lv (effects h)
    \<and> vol_lookup lv h = vol_lookup lv (effects h)
    \<and> vol_delete lv h = vol_delete lv (effects h))"

definition agree :: "'a lv \<Rightarrow> 'a lv \<Rightarrow> lv_log \<Rightarrow> lv_log \<Rightarrow> bool" where
  "agree m n h g \<longleftrightarrow> fst (m h) = fst (n g) \<and> effects (snd (m h)) = effects (snd (n g))"

text \<open>An operation that cannot tell apart two histories with the same effects.\<close>

definition blind :: "'a lv \<Rightarrow> bool" where
  "blind m \<longleftrightarrow> (\<forall>h g. effects h = effects g \<longrightarrow> agree m m h g)"

lemma blindD: "blind m \<Longrightarrow> effects h = effects g \<Longrightarrow> agree m m h g"
  by (simp add: blind_def)

lemma blind_bind [intro!]:
  assumes m: "blind m" and f: "\<And>a. blind (f a)"
  shows "blind (lv_bind m f)"
  unfolding blind_def
proof (intro allI impI)
  fix h g assume e: "effects h = effects g"
  obtain r h1 s g1 where r: "m h = (r, h1)" "m g = (s, g1)" by (cases "m h", cases "m g") auto
  then have s: "s = r" and e1: "effects h1 = effects g1" using blindD [OF m e] by (simp_all add: agree_def)
  show "agree (lv_bind m f) (lv_bind m f) h g"
  proof (cases r)
    case (Inl x)
    then show ?thesis using r s e1 by (simp add: agree_def lv_bind_def)
  next
    case (Inr a)
    then show ?thesis using r s blindD [OF f e1, of a] by (simp add: agree_def lv_bind_def)
  qed
qed

lemma blind_query [intro!]: "(\<And>h. q h = q (effects h)) \<Longrightarrow> blind (lv_query q e)"
  unfolding blind_def agree_def lv_query_def by (metis fst_conv snd_conv)

lemma blind_try [intro!]: "(\<And>h. q h = q (effects h)) \<Longrightarrow> blind (lv_try q)"
  unfolding blind_def agree_def lv_try_def by (metis fst_conv snd_conv)

lemma blind_command [intro!]: "(\<And>h. q h = q (effects h)) \<Longrightarrow> blind (lv_command q ev)"
  unfolding blind_def agree_def lv_command_def by (simp, metis)

lemma blind_simps [simp, intro!]:
  "blind (lv_return a)" "blind (lv_fail e)" "blind (lv_lift r)" "blind (lv_log_event ev)"
  by (simp_all add: blind_def agree_def lv_return_def lv_fail_def lv_lift_def lv_log_event_def)

lemma blind_for [intro!]: "(\<And>x. blind (f x)) \<Longrightarrow> blind (lv_for f xs)"
  by (induction xs) auto

lemma blind_if [intro!]: "blind m \<Longrightarrow> blind n \<Longrightarrow> blind (if b then m else n)"
  by simp

text \<open>No operation compared here can panic.\<close>

definition no_panic :: "'a lv \<Rightarrow> bool" where
  "no_panic m \<longleftrightarrow> (\<forall>h. fst (m h) \<noteq> Err (XmlFailed Panic))"

lemma no_panic_bind [intro!]:
  assumes "no_panic m" "\<And>a. no_panic (f a)"
  shows "no_panic (lv_bind m f)"
  unfolding no_panic_def
proof
  fix h
  obtain r h1 where r: "m h = (r, h1)" by (cases "m h")
  then have "r \<noteq> Err (XmlFailed Panic)" using assms(1) unfolding no_panic_def by (metis fst_conv)
  then show "fst (lv_bind m f h) \<noteq> Err (XmlFailed Panic)"
    using r assms(2) by (cases r) (simp_all add: lv_bind_def no_panic_def)
qed

lemma no_panic_simps [simp, intro!]:
  "no_panic (lv_return a)" "no_panic (lv_try q)" "no_panic (lv_command c ev)" "no_panic (lv_log_event ev)"
  "e \<noteq> XmlFailed Panic \<Longrightarrow> no_panic (lv_fail e)" "e \<noteq> XmlFailed Panic \<Longrightarrow> no_panic (lv_query p e)"
  by (simp_all add: no_panic_def lv_return_def lv_try_def lv_command_def lv_log_event_def lv_fail_def
      lv_query_def ok_or_def split: option.split)

lemma no_panic_for [intro!]: "(\<And>x. no_panic (f x)) \<Longrightarrow> no_panic (lv_for f xs)"
  by (induction xs) auto

lemma no_panic_if [intro!]: "no_panic m \<Longrightarrow> no_panic n \<Longrightarrow> no_panic (if b then m else n)"
  by simp

section \<open>The two back ends\<close>

definition found_in_prefix :: "libvirt \<Rightarrow> string \<Rightarrow> string \<Rightarrow> lv_log \<Rightarrow> bool" where
  "found_in_prefix lv prefix i h \<longleftrightarrow>
    (case fst (lookup_domain lv i h) of
      Inl _ \<Rightarrow> True
    | Inr dm \<Rightarrow> (case get_name lv h dm of None \<Rightarrow> False | Some n \<Rightarrow> starts_with n prefix))"

text \<open>What both do once the domain is found.\<close>

lemma agree_operation:
  assumes f: "\<And>dm. blind (f dm)" "\<And>dm. no_panic (f dm)"
    and lv: "reads_invisible lv" "\<And>g. open_conn lv g" "LockPoisoned \<notin> set h" "found_in_prefix lv prefix i h"
  shows "agree (own_conn lv (lv_bind (lookup_domain lv i) f))
    (with_conn lv (lv_bind (lookup_and_verify lv i prefix) f)) h h"
proof -
  let ?agent = "lv_bind (lookup_and_verify lv i prefix) f"
  have own: "own_conn lv m h = m h" for m :: "'a lv"
    using lv(2) by (simp add: own_conn_def lv_bind_def lv_try_def)
  have run: "run_conn lv ?agent h = ?agent h"
    using lv(2) by (simp add: run_conn_def lv_bind_def lv_try_def)
  have "no_panic (lookup_and_verify lv i prefix)"
    unfolding lookup_and_verify_def read_name_def by auto
  then have "no_panic ?agent" using f(2) by blast
  then have "fst (?agent h) \<noteq> Err (XmlFailed Panic)" by (simp add: no_panic_def)
  then have agent: "with_conn lv ?agent h = ?agent h"
    using lv(3) by (auto simp: with_conn_def run split: prod.splits sum.splits ha_error.splits xml_error.splits)
  show ?thesis
  proof (cases "fst (lookup_domain lv i h)")
    case (Inl e)
    then show ?thesis unfolding agree_def own agent
      by (auto simp: lookup_domain_def lookup_and_verify_def lv_bind_def lv_query_def ok_or_def split: option.splits)
  next
    case (Inr dm)
    then obtain n where n: "get_name lv h dm = Some n" "starts_with n prefix"
      using lv(4) by (auto simp: found_in_prefix_def split: option.splits)
    have l: "(case lookup_by_uuid lv h i of Some d \<Rightarrow> Some d | None \<Rightarrow> lookup_by_name lv h i) = Some dm"
      using Inr by (auto simp: lookup_domain_def lv_query_def ok_or_def split: option.splits)
    have "lv_bind (lookup_domain lv i) f h = f dm h"
      using l by (simp add: lookup_domain_def lv_bind_def lv_query_def)
    moreover have "?agent h = f dm (NameRead dm n # h)"
      using l n by (simp add: lookup_and_verify_def read_name_def lv_bind_def lv_query_def
          lv_log_event_def lv_return_def)
    moreover have "agree (f dm) (f dm) h (NameRead dm n # h)" by (rule blindD [OF f(1)]) simp
    ultimately show ?thesis unfolding agree_def own agent by simp
  qed
qed

text \<open>
  On a machine whose name has the prefix of the host agent, or that does not exist, the
  libvirt back end of the broker and the host agent return the same and do the same to the
  hypervisor, in the same order, whatever libvirt answers: starting, stopping, deleting and
  setting the vsock identifier.
\<close>

theorem libvirt_backends_agree:
  assumes "reads_invisible lv" "\<And>g. open_conn lv g" "LockPoisoned \<notin> set h" "found_in_prefix lv prefix i h"
  shows "agree (lb_start_vm lv i) (start_vm lv i prefix) h h
    \<and> agree (lb_stop_vm lv i) (stop_vm lv i prefix) h h
    \<and> agree (lb_delete_vm lv i) (delete_vm lv i prefix) h h
    \<and> agree (lb_set_vsock_cid lv i cid) (set_vsock_cid lv i cid prefix) h h"
proof -
  have b: "is_active lv h = is_active lv (effects h)" "get_xml_desc lv h = get_xml_desc lv (effects h)"
    "dom_create lv h = dom_create lv (effects h)" "dom_shutdown lv h = dom_shutdown lv (effects h)"
    "dom_destroy lv h = dom_destroy lv (effects h)" "dom_undefine lv h = dom_undefine lv (effects h)"
    "define_xml lv h = define_xml lv (effects h)" "vol_lookup lv h = vol_lookup lv (effects h)"
    "vol_delete lv h = vol_delete lv (effects h)" for h
    using assms(1) unfolding reads_invisible_def by blast+
  note bl = b [THEN fun_cong]
  note steps = blind_bind blind_query blind_try blind_command blind_for blind_if blind_simps bl
    no_panic_bind no_panic_for no_panic_if no_panic_simps
  have xml: "blind (read_xml lv dm)" "no_panic (read_xml lv dm)" for dm
    unfolding read_xml_def by (auto intro!: steps)
  have vol: "blind (delete_volume lv p)" "no_panic (delete_volume lv p)" for p
    unfolding delete_volume_def by (auto intro!: steps split del: if_split)
  have new: "blind (define_domain lv w x)" "no_panic (define_domain lv w x)" for w x
    unfolding define_domain_def by (auto intro!: steps)
  have lift: "blind (xml_lift (set_vsock_in_xml x cid))" "no_panic (xml_lift (set_vsock_in_xml x cid))" for x
    using set_vsock_never_panics [of x cid]
    by (auto simp: xml_lift_def no_panic_def lv_lift_def blind_def agree_def split: sum.split)
  show ?thesis
    unfolding lb_start_vm_def start_vm_def lb_stop_vm_def stop_vm_def lb_delete_vm_def delete_vm_def
      lb_set_vsock_cid_def set_vsock_cid_def
    by (intro conjI agree_operation assms) (auto intro!: steps xml vol new lift)
qed

lemma demo_delete:
  "delete_vm (demo_libvirt demo_xml) ''nidan-t'' ''nidan-'' []
    = (Ok (), [Undefined ''d'', VolDeleted ''/p/t.q'', XmlRead ''d'' demo_xml, NameRead ''d'' ''nidan-t''])"
  by code_simp

theorem libvirt_backends_agree_witness:
  "fst (lb_delete_vm (demo_libvirt demo_xml) ''nidan-t'' []) = Ok ()
    \<and> effects (snd (lb_delete_vm (demo_libvirt demo_xml) ''nidan-t'' [])) = [Undefined ''d'', VolDeleted ''/p/t.q'']"
proof -
  have "reads_invisible (demo_libvirt demo_xml)" by (simp add: reads_invisible_def demo_libvirt_def)
  moreover have "open_conn (demo_libvirt demo_xml) g" for g by (simp add: demo_libvirt_def)
  moreover have "found_in_prefix (demo_libvirt demo_xml) ''nidan-'' ''nidan-t'' []" by code_simp
  ultimately show ?thesis
    using libvirt_backends_agree [of "demo_libvirt demo_xml" "[]" "''nidan-''" "''nidan-t''"]
    by (simp add: agree_def demo_delete effects_def)
qed

section \<open>Outside the prefix\<close>

text \<open>The back end of the broker stops and deletes any domain, whatever its name.\<close>

lemma broker_stops_any:
  assumes "open_conn lv h" "lookup_by_uuid lv h i = Some dm" "dom_shutdown lv h dm"
  shows "lb_stop_vm lv i h = (Ok (), ShutDown dm # h)"
  using assms by (simp add: lb_stop_vm_def own_conn_def lookup_domain_def lv_bind_def lv_try_def
      lv_query_def lv_command_def lv_return_def)

text \<open>A clone that fails after its volumes were copied leaves the copies behind.\<close>

lemma copied_volumes_stay:
  assumes "copy_volume lv lx n pool p h = (r, h')"
  shows "\<exists>new. h' = new @ h \<and> set new \<subseteq> {e. \<exists>x. e = VolCopied p x}"
  using assms
  by (auto simp: copy_volume_def lv_bind_def lv_try_def lv_command_def lv_return_def lv_fail_def
      xml_lift_def lv_lift_def Let_def split: sum.splits prod.splits if_splits)

end
