(* ===== verification/Proxmox.thy ===== *)
theory Proxmox
  imports Provider Proto
begin

text \<open>
  The Proxmox back end (\<open>nidan-broker/src/provider/proxmox.rs\<close>): a client of the REST interface with
  a pinned certificate, the requests for cloning, starting, stopping, deleting and configuring,
  and the wait for the end of a task.  The server answers from the requests and pauses before,
  newest first; JSON values are given by shape.  The wait may last for ever: an operation
  that never returns is \<open>None\<close>.
\<close>

section \<open>The pinned certificate\<close>

datatype fingerprint_error = FpLength nat | FpDigit nat | FpBoundary

definition hex_value :: "char \<Rightarrow> nat option" where
  "hex_value c =
    (let n = of_char c :: nat in
     if 48 \<le> n \<and> n \<le> 57 then Some (n - 48)
     else if 97 \<le> n \<and> n \<le> 102 then Some (n - 87)
     else if 65 \<le> n \<and> n \<le> 70 then Some (n - 55)
     else None)"

fun hex_number :: "nat \<Rightarrow> string \<Rightarrow> nat option" where
  "hex_number acc [] = Some acc"
| "hex_number acc (c # cs) = Option.bind (hex_value c) (\<lambda>v. hex_number (acc * 16 + v) cs)"

text \<open>\<open>u8::from_str_radix\<close> of two bytes: a sign in front of a digit is accepted.\<close>

definition parse_hex_byte :: "char \<Rightarrow> char \<Rightarrow> u8 option" where
  "parse_hex_byte a b = map_option word_of_nat (hex_number 0 (if a = CHR ''+'' then [b] else [a, b]))"

definition continues :: "string \<Rightarrow> bool" where
  "continues s = (case s of [] \<Rightarrow> False | c # _ \<Rightarrow> cont_byte (word_of_nat (of_char c)))"

fun parse_pairs :: "nat \<Rightarrow> string \<Rightarrow> (fingerprint_error, bytes) result" where
  "parse_pairs i (a # b # rest) =
    (if continues rest then Err FpBoundary
     else (case parse_hex_byte a b of
         None \<Rightarrow> Err (FpDigit i)
       | Some x \<Rightarrow> bind_result (parse_pairs (i + 2) rest) (\<lambda>xs. Ok (x # xs))))"
| "parse_pairs i rest = Ok []"

definition parse_sha256_fingerprint :: "string \<Rightarrow> (fingerprint_error, bytes) result" where
  "parse_sha256_fingerprint s =
    (let cleaned = filter (\<lambda>c. c \<noteq> CHR '':'') s in
     if length cleaned \<noteq> 64 then Err (FpLength (length cleaned)) else parse_pairs 0 cleaned)"

definition verify_server_cert :: "(bytes \<Rightarrow> bytes) \<Rightarrow> bytes \<Rightarrow> bytes \<Rightarrow> bool" where
  "verify_server_cert sha256 expected der = (sha256 der = expected)"

text \<open>The signature of the handshake: the message, the certificate and the signature are not looked at.\<close>

definition verify_tls_signature :: "bytes \<Rightarrow> bytes \<Rightarrow> bytes \<Rightarrow> bool" where
  "verify_tls_signature message cert dss = True"

definition handshake_accepted :: "(bytes \<Rightarrow> bytes) \<Rightarrow> bytes \<Rightarrow> bytes \<Rightarrow> bytes \<Rightarrow> bytes \<Rightarrow> bool" where
  "handshake_accepted sha256 expected der message dss =
    (verify_server_cert sha256 expected der \<and> verify_tls_signature message der dss)"

section \<open>The interface\<close>

record proxmox_config =
  px_base_url :: string
  px_node :: string
  px_token_id :: string
  px_token_secret :: string
  cert_fingerprint_sha256 :: string

record pve_status =
  ps_vmid :: u32
  ps_status :: string
  ps_name :: "string option"
  ps_uptime :: "u64 option"

record pve_summary =
  pu_vmid :: u32
  pu_status :: string
  pu_name :: "string option"

datatype pve_json = PvUpid string | PvTask string "string option" | PvStatus pve_status | PvList "pve_summary list" | PvOther

datatype http_method = HttpGet | HttpPost | HttpPut | HttpDelete

datatype pve_body = NoBody | EmptyBody | CloneBody u32 string | ConfigBody string string

datatype px_event = Requested http_method string pve_body | Slept nat

type_synonym px_log = "px_event list"

datatype px_error =
    NotSent
  | HttpStatus nat
  | NotParsed
  | TaskTimeout string
  | TaskFailed string string
  | BadVmid string

text \<open>An answer has a status and a value; the clock counts milliseconds.\<close>

record proxmox_api =
  px_send :: "px_log \<Rightarrow> string \<Rightarrow> http_method \<Rightarrow> string \<Rightarrow> pve_body \<Rightarrow> (nat \<times> pve_json) option"
  px_clock :: "px_log \<Rightarrow> nat"

record proxmox_client =
  pc_base_url :: string
  pc_node :: string
  auth_header :: string
  pinned :: bytes

datatype client_build_error = BadFingerprint fingerprint_error | HttpClientNotBuilt

definition proxmox_client_new :: "bool \<Rightarrow> proxmox_config \<Rightarrow> (client_build_error, proxmox_client) result" where
  "proxmox_client_new builds cfg =
    (case parse_sha256_fingerprint (cert_fingerprint_sha256 cfg) of
      Inl e \<Rightarrow> Err (BadFingerprint e)
    | Inr fp \<Rightarrow>
        if \<not> builds then Err HttpClientNotBuilt
        else Ok \<lparr>pc_base_url = rev (dropWhile (\<lambda>c. c = CHR ''/'') (rev (px_base_url cfg))), pc_node = px_node cfg,
          auth_header = ''PVEAPIToken='' @ px_token_id cfg @ ''='' @ px_token_secret cfg, pinned = fp\<rparr>)"

section \<open>Requests\<close>

type_synonym 'a px = "px_log \<Rightarrow> ((px_error, 'a) result \<times> px_log) option"

definition px_return :: "'a \<Rightarrow> 'a px" where
  "px_return a = (\<lambda>h. Some (Ok a, h))"

definition px_fail :: "px_error \<Rightarrow> 'a px" where
  "px_fail e = (\<lambda>h. Some (Err e, h))"

definition px_bind :: "'a px \<Rightarrow> ('a \<Rightarrow> 'b px) \<Rightarrow> 'b px" where
  "px_bind m f = (\<lambda>h. case m h of
      None \<Rightarrow> None
    | Some (Inl e, h') \<Rightarrow> Some (Err e, h')
    | Some (Inr a, h') \<Rightarrow> f a h')"

definition http_ok :: "nat \<Rightarrow> bool" where
  "http_ok status \<longleftrightarrow> 200 \<le> status \<and> status < 300"

text \<open>A request: the history grows, and an answer that is not a success is an error.\<close>

definition pve_request ::
  "proxmox_api \<Rightarrow> proxmox_client \<Rightarrow> http_method \<Rightarrow> string \<Rightarrow> pve_body \<Rightarrow> (pve_json \<Rightarrow> 'a option) \<Rightarrow> px_log \<Rightarrow>
    (px_error, 'a) result \<times> px_log"
where
  "pve_request A c mth url body read h =
    (case px_send A h (auth_header c) mth url body of
      None \<Rightarrow> (Err NotSent, Requested mth url body # h)
    | Some (status, json) \<Rightarrow>
        (if \<not> http_ok status then Err (HttpStatus status) else ok_or (read json) NotParsed,
         Requested mth url body # h))"

definition px_request ::
  "proxmox_api \<Rightarrow> proxmox_client \<Rightarrow> http_method \<Rightarrow> string \<Rightarrow> pve_body \<Rightarrow> (pve_json \<Rightarrow> 'a option) \<Rightarrow> 'a px"
where
  "px_request A c mth url body read = (\<lambda>h. Some (pve_request A c mth url body read h))"

fun read_upid :: "pve_json \<Rightarrow> string option" where
  "read_upid (PvUpid u) = Some u"
| "read_upid _ = None"

fun read_task :: "pve_json \<Rightarrow> (string \<times> string option) option" where
  "read_task (PvTask s e) = Some (s, e)"
| "read_task _ = None"

fun read_status :: "pve_json \<Rightarrow> pve_status option" where
  "read_status (PvStatus s) = Some s"
| "read_status _ = None"

fun read_list :: "pve_json \<Rightarrow> pve_summary list option" where
  "read_list (PvList l) = Some l"
| "read_list _ = None"

definition node_url :: "proxmox_client \<Rightarrow> string" where
  "node_url c = pc_base_url c @ ''/api2/json/nodes/'' @ pc_node c"

definition vm_url :: "proxmox_client \<Rightarrow> u32 \<Rightarrow> string" where
  "vm_url c vmid = node_url c @ ''/qemu/'' @ dec_string (unat vmid)"

definition pve_get_vm_status :: "proxmox_api \<Rightarrow> proxmox_client \<Rightarrow> u32 \<Rightarrow> pve_status px" where
  "pve_get_vm_status A c vmid = px_request A c HttpGet (vm_url c vmid @ ''/status/current'') NoBody read_status"

definition pve_list_vms :: "proxmox_api \<Rightarrow> proxmox_client \<Rightarrow> pve_summary list px" where
  "pve_list_vms A c = px_request A c HttpGet (node_url c @ ''/qemu'') NoBody read_list"

definition pve_clone_vm :: "proxmox_api \<Rightarrow> proxmox_client \<Rightarrow> u32 \<Rightarrow> u32 \<Rightarrow> string \<Rightarrow> string px" where
  "pve_clone_vm A c template_vmid new_vmid name =
    px_request A c HttpPost (vm_url c template_vmid @ ''/clone'') (CloneBody new_vmid name) read_upid"

definition set_config :: "proxmox_api \<Rightarrow> proxmox_client \<Rightarrow> u32 \<Rightarrow> string \<Rightarrow> string \<Rightarrow> unit px" where
  "set_config A c vmid key value =
    px_request A c HttpPut (vm_url c vmid @ ''/config'') (ConfigBody key value) (\<lambda>_. Some ())"

definition pve_start_vm :: "proxmox_api \<Rightarrow> proxmox_client \<Rightarrow> u32 \<Rightarrow> string px" where
  "pve_start_vm A c vmid = px_request A c HttpPost (vm_url c vmid @ ''/status/start'') EmptyBody read_upid"

definition pve_stop_vm :: "proxmox_api \<Rightarrow> proxmox_client \<Rightarrow> u32 \<Rightarrow> string px" where
  "pve_stop_vm A c vmid = px_request A c HttpPost (vm_url c vmid @ ''/status/stop'') EmptyBody read_upid"

definition pve_delete_vm :: "proxmox_api \<Rightarrow> proxmox_client \<Rightarrow> u32 \<Rightarrow> string px" where
  "pve_delete_vm A c vmid =
    px_request A c HttpDelete (vm_url c vmid @ ''?purge=1&destroy-unreferenced-disks=1'') NoBody read_upid"

section \<open>Waiting for a task\<close>

definition task_url :: "proxmox_client \<Rightarrow> string \<Rightarrow> string" where
  "task_url c upid = node_url c @ ''/tasks/'' @ str_replace upid ''/'' ''%2F'' @ ''/status''"

definition task_outcome :: "string \<Rightarrow> string option \<Rightarrow> (px_error, unit) result" where
  "task_outcome upid exit_status =
    (case exit_status of
      None \<Rightarrow> Ok ()
    | Some e \<Rightarrow> if e = ''OK'' then Ok () else Err (TaskFailed upid e))"

partial_function (option) wait_loop ::
  "proxmox_api \<Rightarrow> proxmox_client \<Rightarrow> string \<Rightarrow> nat \<Rightarrow> nat \<Rightarrow> nat \<Rightarrow> unit px"
where
  "wait_loop A c upid start timeout interval h =
    (if timeout < px_clock A h - start then Some (Err (TaskTimeout upid), h)
     else (case pve_request A c HttpGet (task_url c upid) NoBody read_task h of
         (Inl e, h1) \<Rightarrow> Some (Err e, h1)
       | (Inr (status, exit_status), h1) \<Rightarrow>
           if status = ''stopped'' then Some (task_outcome upid exit_status, h1)
           else wait_loop A c upid start timeout interval (Slept interval # h1)))"

definition wait_for_task :: "proxmox_api \<Rightarrow> proxmox_client \<Rightarrow> string \<Rightarrow> nat \<Rightarrow> nat \<Rightarrow> unit px" where
  "wait_for_task A c upid timeout interval = (\<lambda>h. wait_loop A c upid (px_clock A h) timeout interval h)"

section \<open>Behind the trait\<close>

text \<open>\<open>str::parse::<u32>\<close>: an optional sign, digits, no overflow.\<close>

fun dec_number :: "nat \<Rightarrow> string \<Rightarrow> nat option" where
  "dec_number acc [] = Some acc"
| "dec_number acc (c # cs) =
    (let n = of_char c :: nat in
     if 48 \<le> n \<and> n \<le> 57 \<and> acc * 10 + (n - 48) < 2 ^ 32 then dec_number (acc * 10 + (n - 48)) cs else None)"

definition parse_u32 :: "string \<Rightarrow> u32 option" where
  "parse_u32 s =
    (let d = (case s of [] \<Rightarrow> [] | c # r \<Rightarrow> if c = CHR ''+'' then r else s) in
     if d = [] then None else map_option word_of_nat (dec_number 0 d))"

definition pve_vm_status :: "string \<Rightarrow> vm_status" where
  "pve_vm_status s = (if s = ''running'' then Running else if s = ''stopped'' then Stopped else Unknown s)"

definition with_vmid :: "string \<Rightarrow> (u32 \<Rightarrow> 'a px) \<Rightarrow> 'a px" where
  "with_vmid s f = (case parse_u32 s of None \<Rightarrow> px_fail (BadVmid s) | Some vmid \<Rightarrow> f vmid)"

definition px_list_vms :: "proxmox_api \<Rightarrow> proxmox_client \<Rightarrow> provider_vm list px" where
  "px_list_vms A c = px_bind (pve_list_vms A c) (\<lambda>l. px_return (map (\<lambda>s.
    \<lparr>provider_id = dec_string (unat (pu_vmid s)), pv_name = pu_name s, pv_status = pve_vm_status (pu_status s)\<rparr>) l))"

definition px_get_status :: "proxmox_api \<Rightarrow> proxmox_client \<Rightarrow> string \<Rightarrow> provider_vm px" where
  "px_get_status A c i = with_vmid i (\<lambda>vmid. px_bind (pve_get_vm_status A c vmid) (\<lambda>s. px_return
    \<lparr>provider_id = dec_string (unat (ps_vmid s)), pv_name = ps_name s, pv_status = pve_vm_status (ps_status s)\<rparr>))"

definition px_clone_vm :: "proxmox_api \<Rightarrow> proxmox_client \<Rightarrow> string \<Rightarrow> string \<Rightarrow> provider_vm px" where
  "px_clone_vm A c template_id new_name =
    with_vmid template_id (\<lambda>t.
      px_bind (pve_clone_vm A c t (t + 100) new_name) (\<lambda>upid.
      px_bind (wait_for_task A c upid 120000 500) (\<lambda>_.
        px_get_status A c (dec_string (unat (t + 100))))))"

definition px_task :: "proxmox_api \<Rightarrow> proxmox_client \<Rightarrow> (u32 \<Rightarrow> string px) \<Rightarrow> string \<Rightarrow> unit px" where
  "px_task A c start i =
    with_vmid i (\<lambda>vmid. px_bind (start vmid) (\<lambda>upid. wait_for_task A c upid 60000 500))"

definition px_start_vm :: "proxmox_api \<Rightarrow> proxmox_client \<Rightarrow> string \<Rightarrow> unit px" where
  "px_start_vm A c = px_task A c (pve_start_vm A c)"

definition px_stop_vm :: "proxmox_api \<Rightarrow> proxmox_client \<Rightarrow> string \<Rightarrow> unit px" where
  "px_stop_vm A c = px_task A c (pve_stop_vm A c)"

definition px_delete_vm :: "proxmox_api \<Rightarrow> proxmox_client \<Rightarrow> string \<Rightarrow> unit px" where
  "px_delete_vm A c = px_task A c (pve_delete_vm A c)"

definition px_set_vsock_cid :: "proxmox_api \<Rightarrow> proxmox_client \<Rightarrow> string \<Rightarrow> u32 \<Rightarrow> unit px" where
  "px_set_vsock_cid A c i cid =
    with_vmid i (\<lambda>vmid. set_config A c vmid ''args''
      (''-device vhost-vsock-pci,guest-cid='' @ dec_string (unat cid)))"

end
