(* ===== verification/ProxmoxProps.thy ===== *)
theory ProxmoxProps
  imports Proxmox
begin

text \<open>
  What holds of the Proxmox back end: the pinned certificate, the end of every wait for a
  task, and the requests a clone and the other operations make.
\<close>

section \<open>The pinned certificate\<close>

lemma hex_digit_code: "n < 16 \<Longrightarrow> of_char (hex_digit n) = (if n < 10 then 48 + n else 87 + n)"
  by (simp add: hex_digit_def)

lemma digit_read:
  assumes "lower_char c = hex_digit n" and "n < 16"
  shows "hex_value c = Some n" and "c \<noteq> CHR ''+''" and "\<not> continues (c # s)"
proof -
  have e: "(of_char (lower_char c) :: nat) = (if n < 10 then 48 + n else 87 + n)" using assms hex_digit_code by simp
  have l: "of_char c < (256 :: nat)" by simp
  have lw: "(of_char (lower_char c) :: nat) =
      (if (65 :: nat) \<le> of_char c \<and> of_char c \<le> (90 :: nat) then of_char c + 32 else of_char c)"
    by (simp add: lower_char_def)
  have m: "(48 + n = of_char c \<and> n < 10) \<or> (87 + n = of_char c \<and> \<not> n < 10) \<or> (55 + n = of_char c \<and> \<not> n < 10)"
    using e lw by (auto split: if_splits)
  then show "hex_value c = Some n" using assms(2) by (auto simp: hex_value_def)
  have "of_char c \<noteq> (43 :: nat)" and lt: "of_char c < (128 :: nat)" using m assms(2) by auto
  then show "c \<noteq> CHR ''+''" by auto
  show "\<not> continues (c # s)"
    using lt by (simp add: continues_def cont_byte_def word_le_nat_alt unat_of_nat)
qed

lemma parse_hex_byte_digits:
  assumes "lower_char a = hex_digit (unat x div 16)" and "lower_char b = hex_digit (unat x mod 16)"
  shows "parse_hex_byte a b = Some (x :: u8)"
proof -
  have lt: "unat x div 16 < 16" "unat x mod 16 < 16" using unat_u8 [of x] by simp_all
  have "unat x div 16 * 16 + unat x mod 16 = unat x" by (rule div_mult_mod_eq)
  then show ?thesis
    using digit_read [OF assms(1) lt(1)] digit_read [OF assms(2) lt(2)] by (simp add: parse_hex_byte_def of_nat_unat)
qed

lemma no_continuation: "map lower_char s = hex_encode b \<Longrightarrow> \<not> continues s"
proof (cases b)
  case (Cons y b')
  assume s: "map lower_char s = hex_encode b"
  then obtain c r where "s = c # r" and "lower_char c = hex_digit (unat y div 16)"
    using Cons by (cases s) (simp_all add: hex_encode_def)
  moreover have "unat y div 16 < 16" using unat_u8 [of y] by simp
  ultimately show ?thesis using digit_read(3) by simp
qed (simp add: hex_encode_def continues_def)

lemma parse_pairs_encode: "map lower_char s = hex_encode b \<Longrightarrow> parse_pairs i s = Ok b"
proof (induction b arbitrary: i s)
  case (Cons x b)
  then obtain c d r where s: "s = c # d # r" and "lower_char c = hex_digit (unat x div 16)"
    and "lower_char d = hex_digit (unat x mod 16)" and r: "map lower_char r = hex_encode b"
    by (auto simp: hex_encode_def map_eq_Cons_conv)
  then have "parse_hex_byte c d = Some x" by (intro parse_hex_byte_digits)
  then show ?case using Cons.IH [OF r] no_continuation [OF r] by (simp add: s)
qed (simp add: hex_encode_def)

lemma length_hex_encode: "length (hex_encode b) = 2 * length b"
  by (induction b) (simp_all add: hex_encode_def)

lemma parse_fingerprint_encode:
  assumes "to_lowercase (filter (\<lambda>c. c \<noteq> CHR '':'') s) = hex_encode fp" and "length fp = 32"
  shows "parse_sha256_fingerprint s = Ok fp"
proof -
  have "length (filter (\<lambda>c. c \<noteq> CHR '':'') s) = length (hex_encode fp)"
    unfolding assms(1) [symmetric] by (simp add: to_lowercase_def)
  then show ?thesis
    using assms parse_pairs_encode by (simp add: parse_sha256_fingerprint_def length_hex_encode to_lowercase_def)
qed

text \<open>A sign in front of a single digit passes as a byte.\<close>

lemma sign_accepted: "parse_hex_byte (CHR ''+'') (CHR ''7'') = Some 7"
  by (simp add: parse_hex_byte_def hex_value_def)

text \<open>The pinned certificate\<close>

theorem pinned_certificate_accepted:
  assumes "to_lowercase (filter (\<lambda>ch. ch \<noteq> CHR '':'') (cert_fingerprint_sha256 cfg)) = hex_encode fp" and "length fp = 32"
  shows "\<exists>c. proxmox_client_new True cfg = Ok c \<and>
    (\<forall>der message dss. handshake_accepted sha (pinned c) der message dss \<longleftrightarrow> sha der = fp)"
  using parse_fingerprint_encode [OF assms]
  by (simp add: proxmox_client_new_def handshake_accepted_def verify_server_cert_def verify_tls_signature_def)

definition toy_proxmox :: proxmox_config where
  "toy_proxmox = \<lparr>px_base_url = ''https://pve:8006/'', px_node = ''pve'', px_token_id = ''broker'', px_token_secret = ''s'',
    cert_fingerprint_sha256 = concat (replicate 31 ''Ab:'') @ ''0F''\<rparr>"

theorem pinned_certificate_accepted_witness:
  "\<exists>c. proxmox_client_new True toy_proxmox = Ok c \<and>
    (\<forall>der message dss. handshake_accepted (\<lambda>m. take 32 (m @ replicate 32 0)) (pinned c) der message dss \<longleftrightarrow>
      take 32 (der @ replicate 32 0) = replicate 31 0xAB @ [0x0F])"
  by (rule pinned_certificate_accepted [where fp = "replicate 31 0xAB @ [0x0F]" and sha = "\<lambda>m. take 32 (m @ replicate 32 0)"])
    (code_simp, simp)

section \<open>The wait for a task\<close>

lemma pve_request_ok:
  assumes "pve_request A c mth url body read h = (Inr a, h1)"
  obtains st json where "h1 = Requested mth url body # h" and "px_send A h (auth_header c) mth url body = Some (st, json)"
    and "http_ok st" and "read json = Some a"
  using assms by (auto simp: pve_request_def ok_or_def split: option.splits if_splits prod.splits)

lemma pve_request_log: "snd (pve_request A c mth url body read h) = Requested mth url body # h"
  by (auto simp: pve_request_def split: option.splits prod.splits)

text \<open>The answer that ends the wait with success: a task that stopped without an error.\<close>

definition task_done :: "proxmox_api \<Rightarrow> proxmox_client \<Rightarrow> string \<Rightarrow> px_log \<Rightarrow> bool" where
  "task_done A c upid h = (case h of
      Requested HttpGet url NoBody # h1 \<Rightarrow> url = task_url c upid \<and>
        (case px_send A h1 (auth_header c) HttpGet url NoBody of
          Some (st, PvTask s e) \<Rightarrow> http_ok st \<and> s = ''stopped'' \<and> (e = None \<or> e = Some ''OK'')
        | _ \<Rightarrow> False)
    | _ \<Rightarrow> False)"

lemma task_outcome_ok: "task_outcome upid e = Ok () \<longleftrightarrow> e = None \<or> e = Some ''OK''"
  by (auto simp: task_outcome_def split: option.splits)

lemma read_task_some: "read_task j = Some (s, e) \<longleftrightarrow> j = PvTask s e"
  by (cases j) auto

lemma wait_loop_returns:
  assumes clock: "\<And>e h. px_clock A h \<le> px_clock A (e # h)" and slept: "\<And>n h. px_clock A h + n \<le> px_clock A (Slept n # h)"
    and "start \<le> px_clock A h" and "Suc timeout \<le> px_clock A h - start + n * interval"
  shows "\<exists>r h'. wait_loop A c upid start timeout interval h = Some (r, h') \<and> length h' \<le> length h + 2 * n \<and>
    (r = Ok () \<longrightarrow> task_done A c upid h')"
  using assms(3,4)
proof (induction n arbitrary: h)
  case 0
  then show ?case by (subst wait_loop.simps) simp
next
  case (Suc n)
  show ?case
  proof (cases "timeout < px_clock A h - start")
    case True
    then show ?thesis by (subst wait_loop.simps) simp
  next
    case in_time: False
    let ?q = "pve_request A c HttpGet (task_url c upid) NoBody read_task h"
    let ?h1 = "Requested HttpGet (task_url c upid) NoBody # h"
    let ?h2 = "Slept interval # ?h1"
    show ?thesis
    proof (cases "fst ?q")
      case (Inl e)
      then have "?q = (Inl e, ?h1)" by (metis pve_request_log prod.collapse)
      then show ?thesis using in_time by (subst wait_loop.simps) simp
    next
      case (Inr t)
      then obtain s e where q: "?q = (Inr (s, e), ?h1)" by (metis pve_request_log prod.collapse)
      show ?thesis
      proof (cases "s = ''stopped''")
        case True
        obtain st json where "px_send A h (auth_header c) HttpGet (task_url c upid) NoBody = Some (st, json)"
          and "http_ok st" and "json = PvTask s e"
          using q by (rule pve_request_ok) (simp add: read_task_some)
        then have "task_done A c upid ?h1" if "task_outcome upid e = Ok ()"
          using that True by (simp add: task_done_def task_outcome_ok)
        then show ?thesis using in_time q True by (subst wait_loop.simps) simp
      next
        case False
        have "px_clock A h + interval \<le> px_clock A ?h2"
          using clock [of h "Requested HttpGet (task_url c upid) NoBody"] slept [of ?h1 interval] by linarith
        then have "start \<le> px_clock A ?h2" and "Suc timeout \<le> px_clock A ?h2 - start + n * interval"
          using Suc.prems by simp_all
        from Suc.IH [OF this] obtain r h' where r: "wait_loop A c upid start timeout interval ?h2 = Some (r, h')"
          "length h' \<le> length ?h2 + 2 * n" "r = Ok () \<longrightarrow> task_done A c upid h'" by blast
        have "wait_loop A c upid start timeout interval h = wait_loop A c upid start timeout interval ?h2"
          using in_time q False by (subst wait_loop.simps) simp
        then show ?thesis using r by simp
      qed
    qed
  qed
qed

text \<open>C40. Every wait for a task ends\<close>

theorem wait_for_task_returns:
  assumes "\<And>e h. px_clock A h \<le> px_clock A (e # h)" and "\<And>n h. px_clock A h + n \<le> px_clock A (Slept n # h)"
    and "0 < interval"
  shows "\<exists>r h'. wait_for_task A c upid timeout interval h = Some (r, h') \<and>
    length h' \<le> length h + 2 * (timeout div interval + 1) \<and> (r = Ok () \<longrightarrow> task_done A c upid h')"
proof -
  have "Suc timeout \<le> (timeout div interval + 1) * interval"
    using assms(3) dividend_less_div_times [of interval timeout] by (simp add: Suc_leI)
  then show ?thesis
    using wait_loop_returns [OF assms(1,2), of "px_clock A h" h timeout "timeout div interval + 1" interval c upid]
    by (simp add: wait_for_task_def)
qed

section \<open>The operations\<close>

lemma px_bind_total: "m h \<noteq> None \<Longrightarrow> (\<And>a h'. f a h' \<noteq> None) \<Longrightarrow> px_bind m f h \<noteq> None"
  by (auto simp: px_bind_def split: sum.splits)

lemma px_request_total: "px_request A c mth url body read h \<noteq> None"
  by (simp add: px_request_def)

lemma with_vmid_total: "(\<And>v. f v h \<noteq> None) \<Longrightarrow> with_vmid s f h \<noteq> None"
  by (simp add: with_vmid_def px_fail_def split: option.split)

text \<open>The identifier of the new machine depends on the template alone: whatever was cloned before, it is asked for again.\<close>

lemma clone_same_vmid:
  assumes "parse_u32 template_id = Some t" and "px_send A h (auth_header c) HttpPost (vm_url c t @ ''/clone'') (CloneBody (t + 100) name) = Some (st, j)"
    and "\<not> http_ok st"
  shows "px_clone_vm A c template_id name h =
    Some (Err (HttpStatus st), Requested HttpPost (vm_url c t @ ''/clone'') (CloneBody (t + 100) name) # h)"
  using assms by (simp add: px_clone_vm_def with_vmid_def pve_clone_vm_def px_bind_def px_request_def pve_request_def)

text \<open>With a clock that keeps up with the pauses, no operation hangs.\<close>

definition clock_advances :: "proxmox_api \<Rightarrow> bool" where
  "clock_advances A \<longleftrightarrow> (\<forall>e h. px_clock A h \<le> px_clock A (e # h)) \<and> (\<forall>n h. px_clock A h + n \<le> px_clock A (Slept n # h))"

lemma wait_total: "clock_advances A \<Longrightarrow> 0 < interval \<Longrightarrow> wait_for_task A c upid timeout interval h \<noteq> None"
proof -
  assume A: "clock_advances A" and i: "0 < interval"
  have "Suc timeout \<le> (timeout div interval + 1) * interval"
    using i dividend_less_div_times [of interval timeout] by (simp add: Suc_leI)
  then show ?thesis
    using A wait_loop_returns [of A "px_clock A h" h timeout "timeout div interval + 1" interval c upid]
    by (auto simp: wait_for_task_def clock_advances_def)
qed

lemma px_clone_total: "clock_advances A \<Longrightarrow> px_clone_vm A c template_id name h \<noteq> None"
  unfolding px_clone_vm_def pve_clone_vm_def px_get_status_def pve_get_vm_status_def px_return_def
  by (intro with_vmid_total px_bind_total px_request_total wait_total) simp_all

lemma px_task_total: "clock_advances A \<Longrightarrow> (\<And>v h. start v h \<noteq> None) \<Longrightarrow> px_task A c start i h \<noteq> None"
  unfolding px_task_def by (intro with_vmid_total px_bind_total wait_total) simp_all

text \<open>A server on which the task of the URL stops a second after the start.\<close>

definition slept_time :: "px_log \<Rightarrow> nat" where
  "slept_time h = sum_list (map (\<lambda>e. case e of Slept n \<Rightarrow> n | _ \<Rightarrow> 1) h)"

definition toy_pve :: proxmox_api where
  "toy_pve = \<lparr>px_send = (\<lambda>h _ m _ _. Some (200,
      if m = HttpGet then PvTask (if 1000 \<le> slept_time h then ''stopped'' else ''running'') (Some ''OK'') else PvUpid ''UPID:1'')),
    px_clock = slept_time\<rparr>"

definition toy_client :: proxmox_client where
  "toy_client = \<lparr>pc_base_url = ''https://pve:8006'', pc_node = ''pve'', auth_header = ''t'', pinned = []\<rparr>"

theorem wait_for_task_returns_witness:
  "\<exists>r h'. wait_for_task toy_pve toy_client ''UPID:1'' 60000 500 [] = Some (r, h') \<and> length h' \<le> 242 \<and>
    (r \<noteq> Ok () \<or> task_done toy_pve toy_client ''UPID:1'' h')"
  using wait_for_task_returns [of toy_pve 500 toy_client "''UPID:1''" 60000 "[]"]
  by (auto simp: toy_pve_def slept_time_def)

end
