(* ===== verification/Selection.thy ===== *)
theory Selection
  imports ClientStream
begin

text \<open>
  The clipboard on an X display (\<open>clipboard_x11.rs\<close> of the proxy-encoder and of the client) and
  the clipboard of the client's desktop (\<open>nidan-client/src/clipboard_local.rs\<close>): a hidden window
  takes the CLIPBOARD selection and answers the requests of the programs that paste.  The X
  server decides from the requests before, newest first, whether one can be sent.
\<close>

section \<open>The X server\<close>

record atoms =
  at_clipboard :: u32
  at_utf8_string :: u32
  at_targets :: u32
  at_string :: u32
  at_text :: u32

record selection_request =
  sr_time :: u32
  sr_requestor :: u32
  sr_selection :: u32
  sr_target :: u32
  sr_property :: u32

datatype x_call =
    XConnect "string option"
  | XIntern string
  | XGenerateId
  | XCreateWindow u32
  | XFlush
  | XSetOwner u32 u32
  | XChangeProperty u32 u32 u32 nat nat bytes
  | XNotify selection_request u32

record x_server =
  xs_ok :: "x_call list \<Rightarrow> x_call \<Rightarrow> bool"
  xs_atom :: "string \<Rightarrow> u32"
  xs_window :: "x_call list \<Rightarrow> u32"
  xa_atom :: u32

text \<open>Requests one after another, up to the first that fails.\<close>

fun x_run :: "x_server \<Rightarrow> x_call list \<Rightarrow> x_call list \<Rightarrow> bool \<times> x_call list" where
  "x_run S [] h = (True, h)"
| "x_run S (c # cs) h = (if xs_ok S h c then x_run S cs (c # h) else (False, c # h))"

section \<open>Start\<close>

definition intern_names :: "string list" where
  "intern_names = [''CLIPBOARD'', ''UTF8_STRING'', ''TARGETS'', ''STRING'', ''TEXT'']"

definition server_atoms :: "x_server \<Rightarrow> atoms" where
  "server_atoms S = \<lparr>at_clipboard = xs_atom S ''CLIPBOARD'', at_utf8_string = xs_atom S ''UTF8_STRING'',
    at_targets = xs_atom S ''TARGETS'', at_string = xs_atom S ''STRING'', at_text = xs_atom S ''TEXT''\<rparr>"

text \<open>The window of an owner that could be started.\<close>

definition owner_start :: "x_server \<Rightarrow> string option \<Rightarrow> x_call list \<Rightarrow> u32 option \<times> x_call list" where
  "owner_start S display h =
    (case x_run S (XConnect display # map XIntern intern_names @ [XGenerateId]) h of
      (False, h1) \<Rightarrow> (None, h1)
    | (True, h1) \<Rightarrow>
        (case x_run S [XCreateWindow (xs_window S h1), XFlush] h1 of
          (False, h2) \<Rightarrow> (None, h2)
        | (True, h2) \<Rightarrow> (Some (xs_window S h1), h2)))"

text \<open>The proxy-encoder names the display.\<close>

definition proxy_owner_start :: "x_server \<Rightarrow> u32 \<Rightarrow> x_call list \<Rightarrow> u32 option \<times> x_call list" where
  "proxy_owner_start S display = owner_start S (Some (CHR '':'' # dec_string (unat display)))"

section \<open>Requests for the selection\<close>

definition target_list :: "atoms \<Rightarrow> u32 list" where
  "target_list a = [at_targets a, at_utf8_string a, at_string a, at_text a]"

text \<open>The property change a request asks for, if its target is served.\<close>

definition selection_answer :: "x_server \<Rightarrow> atoms \<Rightarrow> bytes \<Rightarrow> selection_request \<Rightarrow> x_call option" where
  "selection_answer S a content r =
    (if sr_target r = at_targets a then
       Some (XChangeProperty (sr_requestor r) (sr_property r) (xa_atom S) 32 4
         (concat (map (\<lambda>t. le32 (unat t)) (target_list a))))
     else if sr_target r = at_utf8_string a \<or> sr_target r = at_string a \<or> sr_target r = at_text a then
       Some (XChangeProperty (sr_requestor r) (sr_property r) (sr_target r) 8 (length content) content)
     else None)"

definition x_none :: u32 where "x_none = 0"

definition handle_selection_request ::
  "x_server \<Rightarrow> atoms \<Rightarrow> bytes \<Rightarrow> selection_request \<Rightarrow> x_call list \<Rightarrow> u32 \<times> x_call list"
where
  "handle_selection_request S a content r h =
    (case selection_answer S a content r of
      None \<Rightarrow> (x_none, h)
    | Some c \<Rightarrow> (if xs_ok S h c then sr_property r else x_none, c # h))"

section \<open>The loop\<close>

text \<open>What happens: the session sets the content, or the loop gets an event or loses its connection.\<close>

datatype x_event = SelectionRequest selection_request | SelectionClear | OtherEvent

datatype sel_step = SetContent bytes | SelEvent x_event | ConnectionLost

fun selection_loop ::
  "x_server \<Rightarrow> atoms \<Rightarrow> sel_step list \<Rightarrow> bytes \<Rightarrow> x_call list \<Rightarrow> bytes \<times> x_call list"
where
  "selection_loop S a [] content h = (content, h)"
| "selection_loop S a (SetContent d # steps) content h = selection_loop S a steps d h"
| "selection_loop S a (ConnectionLost # steps) content h = (content, h)"
| "selection_loop S a (SelEvent (SelectionRequest r) # steps) content h =
    (let (prop, h1) = handle_selection_request S a content r h; (ok, h2) = x_run S [XNotify r prop, XFlush] h1
     in if ok then selection_loop S a steps content h2 else (content, h2))"
| "selection_loop S a (SelEvent e # steps) content h = selection_loop S a steps content h"

definition run_selection_loop :: "x_server \<Rightarrow> atoms \<Rightarrow> u32 \<Rightarrow> sel_step list \<Rightarrow> x_call list \<Rightarrow> bytes \<times> x_call list" where
  "run_selection_loop S a win steps h =
    (case x_run S [XSetOwner win (at_clipboard a), XFlush] h of
      (False, h1) \<Rightarrow> ([], h1)
    | (True, h1) \<Rightarrow> selection_loop S a steps [] h1)"

section \<open>The clipboard of the desktop\<close>

datatype local_clipboard = LcWayland | LcX11 u32 | LcNoop

text \<open>Which backends are compiled in, which variables are set, and the X server.\<close>

definition detect_and_start ::
  "bool \<Rightarrow> bool \<Rightarrow> bool \<Rightarrow> bool \<Rightarrow> x_server \<Rightarrow> local_clipboard \<times> x_call list"
where
  "detect_and_start ft_wayland ft_x11 has_wayland has_x11 S =
    (if ft_wayland \<and> has_wayland then (LcWayland, [])
     else if ft_x11 \<and> has_x11 then
       (case owner_start S None [] of (None, h) \<Rightarrow> (LcNoop, h) | (Some win, h) \<Rightarrow> (LcX11 win, h))
     else (LcNoop, []))"

text \<open>What setting the content does: a copy handed to Wayland, a step of the owner's loop, nothing.\<close>

datatype local_effect = WaylandCopy bytes | OwnerStep sel_step | NoEffect

fun local_set_content :: "local_clipboard \<Rightarrow> bytes \<Rightarrow> local_effect" where
  "local_set_content LcWayland content = WaylandCopy content"
| "local_set_content (LcX11 win) content = OwnerStep (SetContent content)"
| "local_set_content LcNoop content = NoEffect"

end
