(* ===== verification/SelectionProps.thy ===== *)
theory SelectionProps
  imports Selection Channel
begin

text \<open>
  What holds of the clipboard on its way from the machine to the desktop of the user: a content
  the policy allows is the one pasted there, until the next; and what the owner of the
  selection never does.
\<close>

section \<open>The owner of the selection\<close>

definition x_works :: "x_server \<Rightarrow> bool" where
  "x_works S \<longleftrightarrow> (\<forall>h c. xs_ok S h c)"

lemma x_run_works: "x_works S \<Longrightarrow> x_run S cs h = (True, rev cs @ h)"
  by (induction cs arbitrary: h) (simp_all add: x_works_def)

text \<open>The content set last, nothing at first.\<close>

fun last_set :: "bytes \<Rightarrow> sel_step list \<Rightarrow> bytes" where
  "last_set content [] = content"
| "last_set content (SetContent d # steps) = last_set d steps"
| "last_set content (s # steps) = last_set content steps"

text \<open>The calls a step adds: the answer to a request, with the content at that time.\<close>

definition served :: "x_server \<Rightarrow> atoms \<Rightarrow> bytes \<Rightarrow> selection_request \<Rightarrow> x_call list" where
  "served S a content r =
    [XFlush, XNotify r (case selection_answer S a content r of None \<Rightarrow> x_none | Some _ \<Rightarrow> sr_property r)]
    @ (case selection_answer S a content r of None \<Rightarrow> [] | Some c \<Rightarrow> [c])"

lemma handle_works:
  "x_works S \<Longrightarrow> handle_selection_request S a content r h =
    (case selection_answer S a content r of None \<Rightarrow> x_none | Some _ \<Rightarrow> sr_property r,
     (case selection_answer S a content r of None \<Rightarrow> [] | Some c \<Rightarrow> [c]) @ h)"
  by (simp add: handle_selection_request_def x_works_def split: option.split)

lemma loop_request:
  "x_works S \<Longrightarrow> selection_loop S a (SelEvent (SelectionRequest r) # steps) content h
    = selection_loop S a steps content (served S a content r @ h)"
  by (simp add: handle_works x_works_def served_def)

lemma loop_append:
  assumes "x_works S" and "ConnectionLost \<notin> set steps"
  shows "selection_loop S a (steps @ later) content h
    = selection_loop S a later (last_set content steps) (snd (selection_loop S a steps content h))"
  using assms(2)
proof (induction steps arbitrary: content h)
  case (Cons s steps)
  show ?case
  proof (cases s)
    case (SelEvent e)
    then show ?thesis
      using Cons loop_request [OF assms(1)] by (cases e) (simp_all del: selection_loop.simps(4))
  qed (use Cons in simp_all)
qed simp

lemma owner_runs:
  "x_works S \<Longrightarrow> run_selection_loop S a win steps h
    = selection_loop S a steps [] (XFlush # XSetOwner win (at_clipboard a) # h)"
  by (simp add: run_selection_loop_def x_works_def)

lemma text_answer:
  assumes "sr_target r \<noteq> at_targets a" and "sr_target r \<in> {at_utf8_string a, at_string a, at_text a}"
  shows "served S a content r = [XFlush, XNotify r (sr_property r),
    XChangeProperty (sr_requestor r) (sr_property r) (sr_target r) 8 (length content) content]"
  using assms by (auto simp: served_def selection_answer_def)

text \<open>A program that pastes text is given the content set last.\<close>

lemma paste_serves_last:
  assumes "x_works S" and "ConnectionLost \<notin> set steps"
    and "sr_target r \<noteq> at_targets a" and "sr_target r \<in> {at_utf8_string a, at_string a, at_text a}"
  shows "snd (run_selection_loop S a win (steps @ [SelEvent (SelectionRequest r)]) h)
    = [XFlush, XNotify r (sr_property r),
       XChangeProperty (sr_requestor r) (sr_property r) (sr_target r) 8 (length (last_set [] steps)) (last_set [] steps)]
      @ snd (run_selection_loop S a win steps h)"
  using assms loop_request [OF assms(1), of a r "[]"]
  by (simp add: owner_runs loop_append text_answer del: selection_loop.simps(4))

lemma last_set_append: "last_set c (steps @ [SetContent d]) = d"
  by (induction c steps rule: last_set.induct) auto

text \<open>The selection is taken once, at the start, before there is a content: never again after it
  was lost to another program.\<close>

definition takes_selection :: "x_call \<Rightarrow> bool" where
  "takes_selection c = (case c of XSetOwner _ _ \<Rightarrow> True | _ \<Rightarrow> False)"

lemma served_takes_nothing: "filter takes_selection (served S a content r) = []"
  by (simp add: served_def selection_answer_def takes_selection_def)

lemma loop_takes_nothing:
  assumes "x_works S"
  shows "filter takes_selection (snd (selection_loop S a steps content h)) = filter takes_selection h"
proof (induction steps arbitrary: content h)
  case (Cons s steps)
  show ?case
  proof (cases s)
    case (SelEvent e)
    then show ?thesis
      using Cons loop_request [OF assms] served_takes_nothing by (cases e) (simp_all del: selection_loop.simps(4))
  qed (use Cons in simp_all)
qed simp

lemma selection_taken_once:
  "x_works S \<Longrightarrow> filter takes_selection (snd (run_selection_loop S a win steps [])) = [XSetOwner win (at_clipboard a)]"
  by (simp add: owner_runs loop_takes_nothing) (simp add: takes_selection_def)

section \<open>From the machine to the desktop\<close>

lemma encrypt_dir_lawful:
  assumes "aead_law A p" and "unat (frame_counter c) + 1 < 2 ^ 64"
  obtains ct nonce c' where "encrypt_dir A d p c = (Inr (ct, nonce), c')" and "length nonce = 12"
    and "length ct = length p + 16" and "\<And>r. cipher_key r = cipher_key c \<Longrightarrow> decrypt A ct nonce r = Ok p"
proof -
  let ?n = "nonce_for_counter_dir (frame_counter c) d"
  obtain ct where ct: "seal A (cipher_key c) ?n p = Some ct" "unseal A (cipher_key c) ?n ct = Some p"
    "length ct = length p + 16"
    using assms(1) by (auto simp: aead_law_def)
  have "checked_incr (frame_counter c) = Some (frame_counter c + 1)" using checked_incr_below [OF assms(2)] by blast
  then have "encrypt_dir A d p c = (Inr (ct, ?n), c\<lparr>frame_counter := frame_counter c + 1\<rparr>)"
    using ct(1) by (simp add: encrypt_dir_def encrypt_with_def Let_def)
  then show ?thesis
    by (rule that) (use ct(2,3) in \<open>simp_all add: decrypt_def chacha20_nonce_size_def\<close>)
qed

lemma read_control_written:
  assumes "2 \<le> length p" and "length p \<le> max_control_reply"
  shows "read_control_frame (write_frame be32 p) = Ok (Some (p ! 0, p ! 1, drop 2 p), [])"
  using assms by (simp add: read_control_frame_def write_frame_def max_control_reply_def)

definition clipboard_offer :: "string \<Rightarrow> bytes \<Rightarrow> clipboard_transfer_request" where
  "clipboard_offer sid content = \<lparr>clip_session_id = sid, clip_direction = clip_dir_server_to_client, clip_mime_type = 0,
    clip_content = content, content_hash = 0, size_bytes = word_of_nat (length content)\<rparr>"

text \<open>An allowed content arrives in one frame, whether the channel is encrypted or not.\<close>

lemma offer_received:
  assumes "evaluate_proto flt clip_dir_server_to_client (clip_mime_to_str 0) content = Allow"
    and "render (clipboard_offer sid content) = Some json" and "parse json = Some (clipboard_offer sid content)"
    and "aead_law A json" and "length json + 30 \<le> max_control_reply" and "room 1 k" and "same_key kc k"
  shows "\<exists>fr. read_control_frame (fst (send_clipboard_to_client A render flt sid content k)) = Ok (Some fr, []) \<and>
    received_clipboard A parse kc fr = Some content"
proof (cases k)
  case None
  then have "fst (send_clipboard_to_client A render flt sid content k) = write_frame be32 ([ctrl_msg_clipboard, 0] @ json)"
    using assms(1,2) by (simp add: send_clipboard_to_client_def clipboard_offer_def)
  then show ?thesis
    using assms(3,5) read_control_written [of "[ctrl_msg_clipboard, 0] @ json"]
    by (simp add: received_clipboard_def clipboard_offer_def)
next
  case (Some c)
  obtain ct nonce c' where e: "encrypt_dir A 1 json c = (Inr (ct, nonce), c')" "length nonce = 12"
    "length ct = length json + 16" "\<And>r. cipher_key r = cipher_key c \<Longrightarrow> decrypt A ct nonce r = Ok json"
    using encrypt_dir_lawful [OF assms(4), of c 1] assms(6) Some by (auto simp: room_def)
  obtain r where r: "kc = Some r" "cipher_key r = cipher_key c" using assms(7) Some by (auto simp: same_key_def)
  have "fst (send_clipboard_to_client A render flt sid content k) = write_frame be32 ([ctrl_msg_clipboard, 1] @ nonce @ ct)"
    using assms(1,2) Some e(1) by (simp add: send_clipboard_to_client_def clipboard_offer_def)
  then show ?thesis
    using assms(3,5) e(2,3) e(4) [OF r(2)] r(1) read_control_written [of "[ctrl_msg_clipboard, 1] @ nonce @ ct"]
    by (simp add: received_clipboard_def clipboard_offer_def)
qed


definition demo_clip_filter :: clipboard_filter where
  "demo_clip_filter = filter_new (\<lambda>_. None) \<lparr>allow_client_to_server = False, allow_server_to_client = True,
    max_size_bytes = 100, allowed_mime_types = [], blocked_patterns = [], audit_transfers = False\<rparr>"

definition clip_aead :: aead where
  "clip_aead = \<lparr>seal = (\<lambda>k n p. Some (replicate 16 0 @ p)), unseal = (\<lambda>k n c. Some (drop 16 c))\<rparr>"

definition demo_x :: x_server where
  "demo_x = \<lparr>xs_ok = (\<lambda>_ _. True), xs_atom = (\<lambda>n. word_of_nat (length n)), xs_window = (\<lambda>_. 77), xa_atom = 4\<rparr>"

definition demo_paste :: selection_request where
  "demo_paste = \<lparr>sr_time = 1, sr_requestor = 99, sr_selection = 9, sr_target = 11, sr_property = 5\<rparr>"


end
