(* ===== verification/ClientRun.thy ===== *)
theory ClientRun
  imports ClientStream Decoder
begin

text \<open>
  The whole session of the client (\<open>nidan-client/src/stream/mod.rs\<close>, \<open>run_session\<close>): the server
  found, the connection, the handshake, the streams, then the loop that serves frames, inputs
  and the clipboard until something ends it.
\<close>

section \<open>The loop\<close>

text \<open>What the decoder's channel makes of a frame within five seconds, and the control stream of a batch.\<close>

datatype handed = Taken | ReceiverGone | Stuck

datatype loop_event =
    LeShutdown
  | LeClosed
  | LeVideo video_frame handed
  | LeVideoEnded
  | LeDecoded decoded_frame bool
  | LeBatch input_batch handed
  | LeControl "u8 \<times> u8 \<times> bytes"
  | LeControlEnded

datatype loop_end = LoopRunning | LoopShutdown | LoopClosed | DecoderGone | DecoderStuck | LoopVideoEnded | ControlStuck

record client_state =
  cl_cipher :: "stream_cipher option"
  cl_written :: bytes
  cl_decoding :: "video_frame list"
  cl_shown :: "decoded_frame list"
  cl_pasted :: "bytes list"

record loop_env =
  le_aead :: aead
  le_render :: client_render
  le_session :: string
  le_parse_clip :: "bytes \<Rightarrow> clipboard_transfer_request option"
  le_video_cipher :: "stream_cipher option"

text \<open>A batch that cannot be written at once is lost, the bytes that may have passed not being
  counted; the cipher has moved on.\<close>

definition loop_batch :: "loop_env \<Rightarrow> input_batch \<Rightarrow> handed \<Rightarrow> client_state \<Rightarrow> client_state" where
  "loop_batch E b w st =
    (let (out, c) = send_message (le_aead E) (le_render E) (le_session E) (MsgInputs b) (cl_cipher st)
     in st\<lparr>cl_cipher := c, cl_written := cl_written st @ (if w = Taken then out else [])\<rparr>)"

definition loop_control :: "loop_env \<Rightarrow> u8 \<times> u8 \<times> bytes \<Rightarrow> client_state \<Rightarrow> client_state" where
  "loop_control E fr st =
    (case received_clipboard (le_aead E) (le_parse_clip E) (cl_cipher st) fr of
      None \<Rightarrow> st
    | Some content \<Rightarrow> st\<lparr>cl_pasted := cl_pasted st @ [content]\<rparr>)"

fun client_loop :: "loop_env \<Rightarrow> loop_event list \<Rightarrow> client_state \<Rightarrow> client_state \<times> loop_end" where
  "client_loop E [] st = (st, LoopRunning)"
| "client_loop E (LeShutdown # es) st = (st, LoopShutdown)"
| "client_loop E (LeClosed # es) st = (st, LoopClosed)"
| "client_loop E (LeVideoEnded # es) st = (st, LoopVideoEnded)"
| "client_loop E (LeVideo f h # es) st =
    (case open_video_frame (le_aead E) (le_video_cipher E) f of
      None \<Rightarrow> client_loop E es st
    | Some g \<Rightarrow>
        (case h of
          Taken \<Rightarrow> client_loop E es (st\<lparr>cl_decoding := cl_decoding st @ [g]\<rparr>)
        | ReceiverGone \<Rightarrow> (st, DecoderGone)
        | Stuck \<Rightarrow> (st, DecoderStuck)))"
| "client_loop E (LeDecoded d fits # es) st =
    client_loop E es (if fits then st\<lparr>cl_shown := cl_shown st @ [d]\<rparr> else st)"
| "client_loop E (LeBatch b h # es) st =
    (if h = Stuck then (loop_batch E b h st, ControlStuck) else client_loop E es (loop_batch E b h st))"
| "client_loop E (LeControl fr # es) st = client_loop E es (loop_control E fr st)"
| "client_loop E (LeControlEnded # es) st = client_loop E es st"

section \<open>The reader of the video stream\<close>

text \<open>The task that reads the frames and passes them to the loop, up to the first it cannot read.\<close>

function video_reader :: "(bytes \<Rightarrow> video_frame option) \<Rightarrow> bytes \<Rightarrow> video_frame list" where
  "video_reader parse s = (case read_video_frame parse s of Inl _ \<Rightarrow> [] | Inr (f, r) \<Rightarrow> f # video_reader parse r)"
  by pat_completeness auto
termination
  by (relation "measure (\<lambda>(parse, s). length s)") (auto dest: read_video_frame_shorter)

declare video_reader.simps [simp del]

section \<open>The session\<close>

datatype session_error =
    ServerNotFound client_error
  | BadServerAddress string
  | ConnectFailed
  | HandshakeFailed client_error
  | StreamsNotOpened

text \<open>
  What the surroundings supply: the reply of the broker, which addresses parse, whether the
  connection is made in time, the reply of the proxy, whether the streams open, the test
  content of the environment, and the events of the loop.
\<close>

record client_env =
  en_broker_reply :: bytes
  en_address :: "string \<Rightarrow> bool"
  en_connects :: bool
  en_secrets :: client_secrets
  en_proxy_reply :: bytes
  en_streams :: bool
  en_test_clip :: "bytes option"
  en_aead :: aead
  en_render :: client_render
  en_session :: string
  en_parse_clip :: "bytes \<Rightarrow> clipboard_transfer_request option"
  en_events :: "loop_event list"

definition first_client_state :: "client_env \<Rightarrow> stream_cipher option \<Rightarrow> client_state" where
  "first_client_state N c =
    (let (out, c1) = (case en_test_clip N of
        None \<Rightarrow> ([], c)
      | Some t \<Rightarrow> send_message (en_aead N) (en_render N) ''test-session'' (MsgClipboard 0 t) c)
     in \<lparr>cl_cipher = c1, cl_written = open_frame @ out, cl_decoding = [], cl_shown = [], cl_pasted = []\<rparr>)"

definition client_loop_env :: "client_env \<Rightarrow> stream_cipher option \<Rightarrow> loop_env" where
  "client_loop_env N v = \<lparr>le_aead = en_aead N, le_render = en_render N, le_session = en_session N,
    le_parse_clip = en_parse_clip N, le_video_cipher = v\<rparr>"

definition run_client_session ::
  "client_libs \<Rightarrow> string \<Rightarrow> client_config \<Rightarrow> client_env \<Rightarrow> (session_error, (u32 \<times> u32) \<times> client_state \<times> loop_end) result"
where
  "run_client_session L version cfg N =
    (case find_server L version cfg (en_broker_reply N) of
      Inl e \<Rightarrow> Err (ServerNotFound e)
    | Inr (server, token) \<Rightarrow>
        if \<not> en_address N server then Err (BadServerAddress server)
        else if \<not> en_connects N then Err ConnectFailed
        else (case snd (do_handshake L cfg (en_secrets N) token (en_proxy_reply N)) of
            Inl e \<Rightarrow> Err (HandshakeFailed e)
          | Inr (ack, v, c) \<Rightarrow>
              if \<not> en_streams N then Err StreamsNotOpened
              else Ok (session_size cfg ack,
                client_loop (client_loop_env N v) (en_events N) (first_client_state N c))))"

text \<open>The run of the client over its successive sessions, each with whether a stop was asked for
  before it and by its end.\<close>

definition client_sessions ::
  "client_libs \<Rightarrow> string \<Rightarrow> client_config \<Rightarrow> (bool \<times> client_env \<times> bool) list \<Rightarrow> nat \<times> session_error option"
where
  "client_sessions L version cfg ns = client_run (auto_reconnect (cc_network cfg))
    (map (\<lambda>(before, N, after). (before, run_client_session L version cfg N, after)) ns)"

end
