(* ===== verification/Mtls.thy ===== *)
theory Mtls
  imports Auth
begin

text \<open>
  The identity of a client from its certificate (\<open>nidan-broker/src/auth/mtls.rs\<close>).  The parser of
  certificates is a parameter; what it yields is the subject as text and the values of its
  common names, one that is not text being \<open>None\<close>.
\<close>

record x509_cert =
  xc_subject :: string
  xc_common_names :: "string option list"

text \<open>What the connection says of its peer: nothing, a value of another type, or a chain.\<close>

datatype peer_identity = NoPeerIdentity | OtherIdentity | PeerChain "bytes list"

definition extract_subject_dn :: "(bytes \<Rightarrow> x509_cert option) \<Rightarrow> bytes \<Rightarrow> string option" where
  "extract_subject_dn parse der = map_option xc_subject (parse der)"

definition extract_peer_identity :: "(bytes \<Rightarrow> x509_cert option) \<Rightarrow> peer_identity \<Rightarrow> string option" where
  "extract_peer_identity parse p =
    (case p of
      NoPeerIdentity \<Rightarrow> None
    | OtherIdentity \<Rightarrow> None
    | PeerChain [] \<Rightarrow> None
    | PeerChain (leaf # _) \<Rightarrow> extract_subject_dn parse leaf)"

text \<open>The first common name, if it is text.\<close>

definition extract_common_name :: "(bytes \<Rightarrow> x509_cert option) \<Rightarrow> bytes \<Rightarrow> string option" where
  "extract_common_name parse der =
    Option.bind (parse der) (\<lambda>c. case xc_common_names c of [] \<Rightarrow> None | cn # _ \<Rightarrow> cn)"

lemma identity_of_leaf: "extract_peer_identity parse (PeerChain (leaf # rest)) = extract_peer_identity parse (PeerChain [leaf])"
  by (simp add: extract_peer_identity_def)

text \<open>Without a readable certificate the mTLS method has no identity to go by, and refuses.\<close>

lemma unreadable_certificate_refused:
  assumes "\<And>der. parse der = None"
  shows "\<exists>r. auth_mtls cfg now (extract_peer_identity parse p) i = OutFailure r"
proof -
  have "extract_peer_identity parse p = None"
    using assms by (simp add: extract_peer_identity_def extract_subject_dn_def split: peer_identity.split list.split)
  then show ?thesis by (simp add: auth_mtls_def)
qed

end
