(* ===== verification/ControlProps.thy ===== *)
theory ControlProps
  imports Channel Agent
begin

text \<open>
  Properties of the control channel and of the path of the inputs: from the events of the
  client, through its batches, the control stream, the injector of the proxy, the channel of
  the virtual machine and the agent, to the actions asked of the portal.
\<close>

section \<open>A concrete channel\<close>

text \<open>A cipher that puts sixteen zeros before the plain text, and codecs that know two messages.\<close>

definition demo_aead :: aead where
  "demo_aead = \<lparr>seal = (\<lambda>k n p. Some (replicate 16 0 @ p)), unseal = (\<lambda>k n c. Some (drop 16 c))\<rparr>"

definition demo_batch :: input_batch where
  "demo_batch = [\<lparr>ie_seq = 0, ie_type = 1, timestamp_ms = 5, ie_event = Some (KeyPayload (default_key\<lparr>scancode := 4\<rparr>))\<rparr>]"

definition demo_render :: client_render where
  "demo_render = \<lparr>cr_batch = (\<lambda>b. if b = demo_batch then Some [91, 93] else None),
    cr_clip = (\<lambda>q. if q = clipboard_request ''s'' 0 [104, 105] then Some [123, 125] else None)\<rparr>"

definition demo_env :: control_env where
  "demo_env = \<lparr>ce_aead = demo_aead, ce_cipher = Some (cipher_new [7]),
    ce_filter = filter_new (\<lambda>_. None) serde_default_policy,
    ce_batch = (\<lambda>p. if p = [91, 93] then Some demo_batch else None),
    ce_clip = (\<lambda>p. if p = [123, 125] then Some (clipboard_request ''s'' 0 [104, 105]) else None)\<rparr>"

lemma demo_aead_law: "aead_law demo_aead p"
  by (simp add: aead_law_def demo_aead_def)

lemma demo_carried:
  "carried_msg demo_env demo_render ''s'' (MsgInputs demo_batch)"
  "carried_msg demo_env demo_render ''s'' (MsgClipboard 0 [104, 105])"
  by (simp_all add: carried_msg_def demo_render_def demo_env_def demo_aead_law max_control_frame_def)

lemma demo_allows:
  "evaluate_proto (filter_new (\<lambda>_. None) serde_default_policy) 1 (clip_mime_to_str 0) [104, 105] = Allow"
  by (simp add: evaluate_proto_def evaluate_def filter_new_def direction_ok_def serde_default_policy_def
      effective_max_def max_clipboard_bytes_def split: option.split)

lemma demo_good: "control_good demo_env 2 (Some (cipher_new [7]))"
  by (simp add: control_good_def room_def same_key_def demo_env_def cipher_new_def)

section \<open>The control channel\<close>

text \<open>
  What the client writes on the control stream, encrypted or not, is what the proxy acts on:
  every batch and every clipboard content in order, once, the clipboard subject to the filter
  in the client-to-server direction.
\<close>

theorem control_channel_delivers:
  assumes "control_good E (length ms) c" "list_all (carried_msg E R sid) ms"
  shows "control_loop E (open_frame @ fst (send_messages (ce_aead E) R sid ms c))
    = concat (map (delivered_msg E) ms)"
  using control_channel.delivered [OF assms, of "[]"] by simp

theorem control_channel_delivers_witness:
  "control_loop demo_env (open_frame @ fst (send_messages demo_aead demo_render ''s''
      [MsgInputs demo_batch, MsgClipboard 0 [104, 105]] (Some (cipher_new [7]))))
    = [EvInputs demo_batch, EvClipboard [104, 105]]"
proof -
  let ?ms = "[MsgInputs demo_batch, MsgClipboard 0 [104, 105]]"
  have g: "control_good demo_env (length ?ms) (Some (cipher_new [7]))"
    using demo_good by (simp add: numeral_2_eq_2)
  have c: "list_all (carried_msg demo_env demo_render ''s'') ?ms" using demo_carried by simp
  have "concat (map (delivered_msg demo_env) ?ms) = [EvInputs demo_batch, EvClipboard [104, 105]]"
    using demo_allows by (simp add: delivered_msg_def demo_env_def)
  then show ?thesis using control_channel_delivers [OF g c] by (simp add: demo_env_def)
qed


text \<open>An oversized frame whose contents start with a frame of the attacker's choice.\<close>

definition smuggling_frame :: bytes where
  "smuggling_frame = write_frame be32 [ctrl_msg_clipboard, 0, 123, 125] @ replicate 65532 0"

lemma control_loop_zeros: "control_loop E (replicate (4 * n) 0) = []"
proof (induction n)
  case 0
  then show ?case by simp
next
  case (Suc n)
  have z: "replicate (4 * Suc n) (0 :: u8) = replicate 4 0 @ replicate (4 * n) 0"
    by (simp add: replicate_add [symmetric])
  have "read_exact 4 (replicate (4 * Suc n) (0 :: u8)) = Ok (replicate 4 0, replicate (4 * n) 0)"
    unfolding z by (rule read_exact_append) simp
  moreover have "be_nat (replicate 4 0) = 0" by code_simp
  ultimately show ?case using Suc by (subst control_loop.simps) simp
qed


text \<open>
  With a control key the proxy still acts on frames in clear, whoever wrote them, and acts
  again on a frame it has already received.
\<close>

theorem clear_and_repeated_frames_accepted:
  assumes "length p + 2 \<le> max_control_frame" "length f \<le> max_control_frame" "f \<noteq> []"
  shows "control_loop E (write_frame be32 ([ty, 0] @ p) @ write_frame be32 f @ write_frame be32 f)
    = control_dispatch E ty p @ control_frame E f @ control_frame E f"
  using control_loop_frame [of "[ty, 0] @ p" E] control_loop_frame [of f E] control_loop_frame [of f E "[]"]
    control_frame_clear [of E ty p] assms by simp

theorem clear_and_repeated_frames_accepted_witness:
  "control_loop demo_env (write_frame be32 ([ctrl_msg_input, 0] @ [91, 93])
      @ write_frame be32 [ctrl_msg_open, 0] @ write_frame be32 [ctrl_msg_open, 0])
    = [EvInputs demo_batch]"
proof -
  have o: "control_frame demo_env [ctrl_msg_open, 0] = []"
    using control_frame_clear [of demo_env ctrl_msg_open "[]"]
    by (simp add: control_dispatch_def ctrl_msg_open_def ctrl_msg_input_def ctrl_msg_clipboard_def)
  have d: "control_dispatch demo_env ctrl_msg_input [91, 93] = [EvInputs demo_batch]"
    by (simp add: control_dispatch_def demo_env_def)
  show ?thesis
    using clear_and_repeated_frames_accepted [of "[91, 93]" "[ctrl_msg_open, 0]" demo_env ctrl_msg_input] o d
    by (simp add: max_control_frame_def)
qed

section \<open>From the events to the batches\<close>

text \<open>
  By the next tick of the period every key, button and wheel event has been sent exactly
  once, in the order it came and with its number, whatever motions and flushes came in between.
\<close>

theorem discrete_inputs_sent:
  "filter (\<lambda>e. \<not> is_motion e) (concat (fst (sender_run (is @ [Tick]) input_sender_new))) = discrete_events is 0"
  using discrete_events_kept [of input_sender_new "is @ [Tick]" "fst (sender_run (is @ [Tick]) input_sender_new)"
      "snd (sender_run (is @ [Tick]) input_sender_new)"] nothing_waits_after_tick [of "is" input_sender_new]
  by (simp add: only_motion_def input_sender_new_def)

text \<open>
  C39. Every event of every batch is well typed: a key event carries a key and a mouse event
  a mouse payload, with a code the injectors know.
\<close>

theorem batches_well_typed: "list_all (list_all well_typed) (fst (sender_run is input_sender_new))"
  by (rule run_typed) (simp add: sender_typed_def input_sender_new_def)

text \<open>
  A motion followed by a click within a period is sent after the click, so the portal presses
  the button where the pointer was before the motion.
\<close>

theorem click_before_move:
  "apply_batches F node w h
      (fst (sender_run [Arrives (MouseMove x y m) t1, Arrives (MouseDown 1 x y) t2, Tick] input_sender_new))
    = [PointerButton 0x110 True, PointerMotionAbsolute node (scale F x w) (scale F y h)]"
  by (simp add: input_sender_new_def to_proto_def flush_def apply_batches_def apply_event_def
      evdev_button_def default_mouse_def)

section \<open>From the client to the portal\<close>

lemma try_send_room:
  assumes "ch_open (chans v ! ch)" "length (ch_queue (chans v ! ch)) < channel_capacity"
  shows "try_send ch b v = (Sent, v\<lparr>chans := (chans v)[ch := (chans v ! ch)\<lparr>ch_queue := ch_queue (chans v ! ch) @ [b]\<rparr>]\<rparr>)"
  using assms by (simp add: try_send_def Let_def)

lemma apply_inputs_queue:
  assumes "ch < length (chans v)" "ch_open (chans v ! ch)"
    and "length (ch_queue (chans v ! ch)) + length bs \<le> channel_capacity"
    and "list_all (\<lambda>b. render b \<noteq> None) bs"
  shows "\<exists>n' v'. apply_events render (map EvInputs bs) (VsockRelay ch n) (Some v) = (VsockRelay ch n', Some v')
    \<and> ch_queue (chans v' ! ch) = ch_queue (chans v ! ch) @ map (the \<circ> render) bs"
  using assms
proof (induction bs arbitrary: v n)
  case Nil
  then show ?case by simp
next
  case (Cons b bs)
  obtain x where x: "render b = Some x" using Cons.prems(4) by auto
  let ?c = "(chans v ! ch)\<lparr>ch_queue := ch_queue (chans v ! ch) @ [x]\<rparr>"
  let ?v = "v\<lparr>chans := (chans v)[ch := ?c]\<rparr>"
  have s: "try_send ch x v = (Sent, ?v)"
    using try_send_room Cons.prems(2,3) by simp
  have "\<exists>n' v'. apply_events render (map EvInputs bs) (VsockRelay ch (n + word_of_nat (length b))) (Some ?v)
        = (VsockRelay ch n', Some v')
      \<and> ch_queue (chans v' ! ch) = ch_queue (chans ?v ! ch) @ map (the \<circ> render) bs"
    using Cons.prems by (intro Cons.IH) simp_all
  then show ?case using x s Cons.prems(1) by (simp add: comp_def)
qed

lemma delivered_inputs: "concat (map (delivered_msg E) (map MsgInputs bs)) = map EvInputs bs"
  by (induction bs) (simp_all add: delivered_msg_def)

text \<open>The batches the portal thread is handed, given what the client wrote on the control stream and
  the injector's channel, before the relay has run.\<close>

definition portal_batches ::
  "control_env \<Rightarrow> (input_batch \<Rightarrow> bytes option) \<Rightarrow> (bytes \<Rightarrow> input_batch option) \<Rightarrow> msg_codec \<Rightarrow>
    nat \<Rightarrow> vsock_service \<Rightarrow> bytes \<Rightarrow> portal_injector \<Rightarrow> input_batch list"
where
  "portal_batches E render parse C ch v s i =
    (case apply_events render (control_loop E s) (VsockRelay ch 0) (Some v) of
      (_, Some v') \<Rightarrow>
        (case run_commands parse (agent_commands C (inputs_relay C (ch_queue (chans v' ! ch)))) (Some i) of
          (Some j, _) \<Rightarrow> pi_sent j | _ \<Rightarrow> [])
    | _ \<Rightarrow> [])"

lemma inputs_end_to_end_lemma:
  assumes "control_good E (length bs) c" "list_all (carried_msg E R sid) (map MsgInputs bs)"
    and "ch < length (chans v)" "ch_open (chans v ! ch)" "ch_queue (chans v ! ch) = []" "length bs \<le> channel_capacity"
    and "list_all (\<lambda>b. \<exists>x. render b = Some x \<and> parse x = Some b \<and> codec_law C (Some (MInputs x))) bs"
  shows "portal_batches E render parse C ch v
      (open_frame @ fst (send_messages (ce_aead E) R sid (map MsgInputs bs) c)) i = pi_sent i @ bs"
proof -
  have loop: "control_loop E (open_frame @ fst (send_messages (ce_aead E) R sid (map MsgInputs bs) c)) = map EvInputs bs"
    using control_channel.delivered [of E "map MsgInputs bs" c R sid "[]"] assms(1,2) delivered_inputs by simp
  have r: "list_all (\<lambda>b. render b \<noteq> None) bs" using assms(7) by (auto simp: list_all_iff)
  obtain n' v' where v': "apply_events render (map EvInputs bs) (VsockRelay ch 0) (Some v) = (VsockRelay ch n', Some v')"
      "ch_queue (chans v' ! ch) = map (the \<circ> render) bs"
    using apply_inputs_queue [of ch v bs render 0] assms(3-6) r by auto
  have cl: "codec_law C (Some (MInputs x))" if "x \<in> set (map (the \<circ> render) bs)" for x
    using that assms(7) by (fastforce simp: list_all_iff)
  have cmds: "agent_commands C (inputs_relay C (map (the \<circ> render) bs)) = map CmdInputs (map (the \<circ> render) bs)"
    using inputs_delivered [of "map (the \<circ> render) bs" C "[]", OF cl] by simp
  have rt: "parse (the (render b)) = Some b" if "b \<in> set bs" for b
    using that assms(7) by (fastforce simp: list_all_iff)
  have "parse x \<noteq> None" if "x \<in> set (map (the \<circ> render) bs)" for x using that rt by auto
  note run = run_commands_inputs [of "map (the \<circ> render) bs" parse i, OF this]
  have "map (the \<circ> parse) (map (the \<circ> render) bs) = bs" using rt by (simp add: map_idI)
  then show ?thesis unfolding portal_batches_def loop using v' cmds run by simp
qed


definition demo_msg_codec :: msg_codec where
  "demo_msg_codec = \<lparr>encode_msg = (\<lambda>m. case m of Some (MInputs b) \<Rightarrow> b | _ \<Rightarrow> []),
    decode_msg = (\<lambda>b. Some (Some (MInputs b)))\<rparr>"


end
