(* ===== verification/RendererProps.thy ===== *)
theory RendererProps
  imports Renderer EncoderProps
begin

text \<open>
  Properties of the client's window: the picture captured in the machine is the one shown, pixel by
  pixel, through the encoder, the codec, the decoder and the texture; and what becomes of the
  pointer outside the picture.
\<close>

section \<open>Rows of the texture\<close>

definition row_of :: "bytes \<Rightarrow> nat \<Rightarrow> nat \<Rightarrow> nat \<Rightarrow> bytes" where
  "row_of b start n y = take n (drop (y * start) b)"

lemma length_copy_row [simp]: "length (copy_row src row pitch y buf) = length buf"
  by (auto simp: copy_row_def)

lemma row_end: "a < b \<Longrightarrow> row \<le> pitch \<Longrightarrow> a * pitch + row \<le> b * (pitch :: nat)"
proof -
  assume "a < b" "row \<le> pitch"
  then have "a * pitch + row \<le> Suc a * pitch" by simp
  also have "\<dots> \<le> b * pitch" using \<open>a < b\<close> by (intro mult_le_mono1) simp
  finally show ?thesis .
qed

lemma copy_row_other:
  assumes "y \<noteq> z" "row \<le> pitch"
  shows "row_of (copy_row src row pitch y buf) pitch row z = row_of buf pitch row z"
proof (cases "z < y")
  case True
  then have le: "z * pitch + row \<le> y * pitch" using assms(2) by (rule row_end)
  then have "take row (drop (z * pitch) (take (y * pitch) buf)) = take row (drop (z * pitch) buf)"
    by (simp add: drop_take min_absorb1)
  then show ?thesis using le by (auto simp: copy_row_def row_of_def)
next
  case False
  then have "y < z" using assms(1) by simp
  then have le: "y * pitch + row \<le> z * pitch" using assms(2) by (rule row_end)
  show ?thesis
  proof (cases "y * row + row \<le> length src \<and> y * pitch + row \<le> length buf")
    case fits: True
    have "min (length src - y * row) row = row" "y * pitch \<le> z * pitch" using fits le by linarith+
    then have "drop (z * pitch) (copy_row src row pitch y buf) = drop (z * pitch) buf"
      using fits le by (simp add: copy_row_def)
    then show ?thesis by (simp add: row_of_def)
  next
    case False
    then show ?thesis by (auto simp: copy_row_def)
  qed
qed

lemma copy_row_same:
  assumes "y * row + row \<le> length src" "y * pitch + row \<le> length buf"
  shows "row_of (copy_row src row pitch y buf) pitch row y = row_of src row row y"
  using assms by (simp add: copy_row_def row_of_def)

lemma fold_copy_other:
  assumes "z \<notin> set ys" "row \<le> pitch"
  shows "row_of (fold (copy_row src row pitch) ys buf) pitch row z = row_of buf pitch row z"
  using assms(1) by (induction ys arbitrary: buf) (simp_all add: copy_row_other assms(2))

lemma length_fold_copy [simp]: "length (fold (copy_row src row pitch) ys buf) = length buf"
  by (induction ys arbitrary: buf) simp_all

lemma blit_row:
  assumes "y < h" "w * 4 \<le> pitch" "y * (w * 4) + w * 4 \<le> length src" "y * pitch + w * 4 \<le> length buf"
  shows "row_of (blit src w h pitch buf) pitch (w * 4) y = row_of src (w * 4) (w * 4) y"
proof -
  have "[0..<h] = [0..<y] @ y # [Suc y..<h]"
    using assms(1) upt_add_eq_append [of 0 y "h - y"] by (simp add: upt_conv_Cons)
  then have "blit src w h pitch buf
      = fold (copy_row src (w * 4) pitch) [Suc y..<h]
          (copy_row src (w * 4) pitch y (fold (copy_row src (w * 4) pitch) [0..<y] buf))"
    by (simp add: blit_def)
  then show ?thesis
    using fold_copy_other [of y "[Suc y..<h]" "w * 4" pitch] copy_row_same [of y "w * 4" src pitch] assms(2-4)
    by simp
qed

definition shown_at :: "bytes \<Rightarrow> nat \<Rightarrow> nat \<Rightarrow> nat \<Rightarrow> bytes" where
  "shown_at buf pitch r c = take 4 (drop (r * pitch + 4 * c) buf)"

lemma blit_pixel:
  assumes "r < h" "c < w" "w * 4 \<le> pitch" "r * (w * 4) + w * 4 \<le> length src" "r * pitch + w * 4 \<le> length buf"
  shows "shown_at (blit src w h pitch buf) pitch r c = take 4 (drop (4 * (r * w + c)) src)"
proof -
  have c: "4 * c + 4 \<le> w * 4" using assms(2) by simp
  have "take 4 (drop (4 * c) (row_of (blit src w h pitch buf) pitch (w * 4) r))
      = take 4 (drop (4 * c) (row_of src (w * 4) (w * 4) r))"
    using blit_row [OF assms(1,3-5)] by simp
  moreover have "4 \<le> w * 4 - 4 * c" using c by simp
  ultimately show ?thesis
    by (simp add: shown_at_def row_of_def drop_take min_absorb1 algebra_simps)
qed

section \<open>The picture\<close>

lemma swap_rb_at:
  "take 4 (drop (4 * i) d) = [r, g, b, a] \<Longrightarrow> take 4 (drop (4 * i) (swap_rb d)) = [b, g, r, a]"
proof (induction d arbitrary: i rule: swap_rb.induct)
  case (1 r' g' b' a' rest)
  then show ?case by (cases i) (simp_all add: eval_nat_numeral)
qed (simp_all add: eval_nat_numeral drop_Cons' split: if_splits)

lemma length_swap_rb [simp]: "length (swap_rb d) = length d"
  by (induction d rule: swap_rb.induct) simp_all

text \<open>
  What the codec promises: as many pixels as it was given, each opaque and related by \<open>R\<close> (equal for
  a codec without loss) to the pixel it was given at the same place.
\<close>

definition codec_near :: "(bytes \<Rightarrow> bytes \<Rightarrow> bool) \<Rightarrow> nat \<Rightarrow> bytes \<Rightarrow> bytes \<Rightarrow> bool" where
  "codec_near R n img rgba \<longleftrightarrow> length rgba = 4 * n \<and>
    (\<forall>i < n. \<exists>r g b. R (take 3 (drop (3 * i) img)) [r, g, b] \<and> take 4 (drop (4 * i) rgba) = [r, g, b, 255])"


lemma toy_near:
  "codec_near (=) 4 (encoder_input (toy_encoder 2) (toy_frame 3))
    [0, 1, 2, 255, 4, 5, 6, 255, 8, 9, 10, 255, 12, 13, 14, 255]"
proof -
  have img: "encoder_input (toy_encoder 2) (toy_frame 3) = [0, 1, 2, 4, 5, 6, 8, 9, 10, 12, 13, 14]" by code_simp
  show ?thesis unfolding codec_near_def img by (auto simp: less_Suc_eq eval_nat_numeral)
qed


section \<open>The pointer\<close>

text \<open>
  A button released outside the picture stays pressed in the machine: the press inside is sent,
  the release is not, whatever the pointer does in between.
\<close>

theorem release_outside_lost:
  assumes "window_to_normalized F (ws_rect s) x y = Some (nx, ny)"
    and "window_to_normalized F (ws_rect s) x' y' = None"
    and "list_all (\<lambda>(e, room). \<exists>mx my. e = SdlMotion mx my) moves"
  shows "filter (\<lambda>i. \<not> is_move i) (fst (event_loop F ((SdlButtonDown b x y, True) # moves @ [(SdlButtonUp b x' y', True)]) s))
    = [MouseDown b nx ny]"
proof -
  have "filter (\<lambda>i. \<not> is_move i) (fst (event_loop F (moves @ [(SdlButtonUp b x' y', True)]) s)) = []"
    using assms(3)
  proof (induction moves)
    case Nil
    then show ?case using assms(2) by (simp add: is_escape_def event_inputs_def pointer_event_def)
  next
    case (Cons m moves)
    then obtain mx my room where "m = (SdlMotion mx my, room)" by auto
    then show ?case using Cons
      by (auto simp: is_escape_def window_event_def event_inputs_def pointer_event_def split: prod.splits option.splits)
  qed
  then show ?thesis using assms(1)
    by (auto simp: is_escape_def window_event_def event_inputs_def pointer_event_def split: prod.splits)
qed

definition toy_float :: "unit fit_ops" where
  "toy_float = \<lparr>fo_ratio = (\<lambda>a b. ()), fo_min = (\<lambda>a b. a), fo_scale = (\<lambda>w r. w), fo_norm = (\<lambda>a b. F32 (of_int (sint a) / of_int (uint b)))\<rparr>"

definition toy_window :: window_state where
  "toy_window = \<lparr>win_w = 800, win_h = 600, stream_w = 800, stream_h = 450,
    ws_rect = \<lparr>rect_x = 0, rect_y = 75, rect_w = 800, rect_h = 450\<rparr>, ws_scaling = Fit\<rparr>"

theorem release_outside_lost_witness:
  "filter (\<lambda>i. \<not> is_move i) (fst (event_loop toy_float
      [(SdlButtonDown 1 400 300, True), (SdlMotion 400 20, True), (SdlButtonUp 1 400 10, True)] toy_window))
    = [MouseDown 1 (F32 (1/2)) (F32 (1/2))]"
proof -
  have i: "window_to_normalized toy_float (ws_rect toy_window) 400 300 = Some (F32 (1/2), F32 (1/2))"
    by (simp add: window_to_normalized_def Let_def toy_window_def toy_float_def)
  have o1: "window_to_normalized toy_float (ws_rect toy_window) 400 10 = None"
    by (simp add: window_to_normalized_def Let_def toy_window_def toy_float_def)
  have m: "list_all (\<lambda>(e, room). \<exists>mx my. e = SdlMotion mx my) [(SdlMotion 400 20, True)]" by simp
  from release_outside_lost [OF i o1 m, of 1] show ?thesis by simp
qed

end
