(* ===== verification/Watermark.thy ===== *)
theory Watermark
  imports Prelude
begin

text \<open>
  The hidden mark in the pictures (\<open>nidan-audit/src/watermark/mod.rs\<close>): thirteen bytes (session, age,
  checksum) written bit by bit into the low bits of the blue and red channels of scattered
  pixels, and read back.  SHA-256 is a parameter; a remainder by zero panics: \<open>None\<close>.
  Positions are 64-bit integers that cannot overflow here, so they are natural numbers.
\<close>

unbundle bit_operations_syntax

section \<open>The mark\<close>

record watermarker =
  wm_session_id :: bytes
  wm_session_start :: u64
  wm_strength :: u8
  wm_frame_count :: u64

definition watermarker_new :: "(bytes \<Rightarrow> bytes) \<Rightarrow> string \<Rightarrow> u8 \<Rightarrow> u64 \<Rightarrow> watermarker" where
  "watermarker_new sha256 sid strength now =
    \<lparr>wm_session_id = take 8 (sha256 (string_bytes sid)), wm_session_start = now,
     wm_strength = (if strength < 1 then 1 else if 4 < strength then 4 else strength), wm_frame_count = 0\<rparr>"

definition crc_step :: "u8 \<Rightarrow> u8" where
  "crc_step c = (if c AND 0x80 \<noteq> 0 then push_bit 1 c XOR 7 else push_bit 1 c)"

definition crc8 :: "bytes \<Rightarrow> u8" where
  "crc8 d = foldl (\<lambda>c b. (crc_step ^^ 8) (c XOR b)) 0 d"

text \<open>\<open>saturating_sub\<close>, cut to 32 bits.\<close>

definition elapsed_secs :: "u64 \<Rightarrow> watermarker \<Rightarrow> u32" where
  "elapsed_secs now m = ucast (if wm_session_start m \<le> now then now - wm_session_start m else 0)"

definition build_payload :: "u64 \<Rightarrow> watermarker \<Rightarrow> bytes" where
  "build_payload now m =
    (let p = wm_session_id m @ le_bytes 4 (unat (elapsed_secs now m)) in p @ [crc8 p])"

definition lsb_mask :: "watermarker \<Rightarrow> u8" where
  "lsb_mask m = push_bit (unat (wm_strength m)) 1 - 1"

section \<open>Positions\<close>

definition scatter :: nat where "scatter = 0x9E3779B9"

definition mark_zone :: "u32 \<Rightarrow> u32 \<Rightarrow> nat" where
  "mark_zone w h = unat (w * h) div 4"

definition pixel_position :: "nat \<Rightarrow> u32 \<Rightarrow> u32 \<Rightarrow> nat option" where
  "pixel_position i w h =
    (if mark_zone w h = 0 then None else Some ((i * scatter + 0x6C62272E) mod mark_zone w h))"

definition mark_channel :: "nat \<Rightarrow> nat" where
  "mark_channel i = (if i mod 2 = 0 then 0 else 2)"

definition payload_bit :: "bytes \<Rightarrow> nat \<Rightarrow> u8" where
  "payload_bit p i = drop_bit (i mod 8) (p ! (i div 8)) AND 1"

section \<open>Writing\<close>

definition marked_byte :: "u8 \<Rightarrow> u8 \<Rightarrow> u8 \<Rightarrow> u8" where
  "marked_byte lsb b old = (old AND NOT lsb) OR (b * lsb)"

definition mark_bit :: "bytes \<Rightarrow> u8 \<Rightarrow> u32 \<Rightarrow> u32 \<Rightarrow> nat \<Rightarrow> bytes \<times> nat \<Rightarrow> (bytes \<times> nat) option" where
  "mark_bit p lsb w h i st =
    (case st of (px, n) \<Rightarrow>
      map_option (\<lambda>pos.
        (let base = pos * 4; k = base + mark_channel i in
         if length px \<le> base + 3 then (px, n)
         else (let new = marked_byte lsb (payload_bit p i) (px ! k) in
           (px[k := new], if new \<noteq> px ! k then Suc n else n)))) (pixel_position i w h))"

fun mark_bits :: "bytes \<Rightarrow> u8 \<Rightarrow> u32 \<Rightarrow> u32 \<Rightarrow> nat list \<Rightarrow> bytes \<times> nat \<Rightarrow> (bytes \<times> nat) option" where
  "mark_bits p lsb w h [] st = Some st"
| "mark_bits p lsb w h (i # is) st = Option.bind (mark_bit p lsb w h i st) (mark_bits p lsb w h is)"

text \<open>The pixels, how many changed, and the marker.\<close>

definition mark_frame ::
  "u64 \<Rightarrow> bytes \<Rightarrow> u32 \<Rightarrow> u32 \<Rightarrow> watermarker \<Rightarrow> (bytes \<times> nat \<times> watermarker) option"
where
  "mark_frame now px w h m =
    (if length px < unat (w * h * 4) then Some (px, 0, m)
     else (let p = build_payload now m in
       map_option (\<lambda>(px', n). (px', n, m\<lparr>wm_frame_count := wm_frame_count m + 1\<rparr>))
         (mark_bits p (lsb_mask m) w h [0 ..< length p * 8] (px, 0))))"

section \<open>Reading\<close>

definition read_bit :: "bytes \<Rightarrow> u8 \<Rightarrow> u32 \<Rightarrow> u32 \<Rightarrow> nat \<Rightarrow> u8 option option" where
  "read_bit px lsb w h i =
    map_option (\<lambda>pos. let base = pos * 4 in
      if length px \<le> base + 3 then None
      else Some (if px ! (base + mark_channel i) AND lsb \<noteq> 0 then 1 else 0)) (pixel_position i w h)"

definition set_payload_bit :: "nat \<Rightarrow> u8 \<Rightarrow> bytes \<Rightarrow> bytes" where
  "set_payload_bit i b p = p[i div 8 := (p ! (i div 8)) OR push_bit (i mod 8) b]"

text \<open>The outer option is the panic, the inner one the early return.\<close>

fun read_bits :: "bytes \<Rightarrow> u8 \<Rightarrow> u32 \<Rightarrow> u32 \<Rightarrow> nat list \<Rightarrow> bytes \<Rightarrow> bytes option option" where
  "read_bits px lsb w h [] p = Some (Some p)"
| "read_bits px lsb w h (i # is) p =
    (case read_bit px lsb w h i of
      None \<Rightarrow> None
    | Some None \<Rightarrow> Some None
    | Some (Some b) \<Rightarrow> read_bits px lsb w h is (set_payload_bit i b p))"

record watermark_data =
  wd_session_id :: bytes
  wd_timestamp_secs :: u32

definition extract_mark :: "bytes \<Rightarrow> u32 \<Rightarrow> u32 \<Rightarrow> watermarker \<Rightarrow> watermark_data option option" where
  "extract_mark px w h m =
    map_option (\<lambda>r. case r of
        None \<Rightarrow> None
      | Some p \<Rightarrow>
          if p ! 12 \<noteq> crc8 (take 12 p) then None
          else Some \<lparr>wd_session_id = take 8 p, wd_timestamp_secs = word_of_nat (le_nat (take 4 (drop 8 p)))\<rparr>)
      (read_bits px (lsb_mask m) w h [0 ..< 13 * 8] (replicate 13 0))"

definition matches_session :: "(bytes \<Rightarrow> bytes) \<Rightarrow> string \<Rightarrow> watermark_data \<Rightarrow> bool" where
  "matches_session sha256 sid d \<longleftrightarrow> wd_session_id d = take 8 (sha256 (string_bytes sid))"

section \<open>Masks\<close>

definition lawful_mark :: "watermarker \<Rightarrow> bool" where
  "lawful_mark m \<longleftrightarrow> length (wm_session_id m) = 8 \<and> 1 \<le> unat (wm_strength m) \<and> unat (wm_strength m) \<le> 4"

lemma watermarker_new_lawful:
  "length (sha256 (string_bytes sid)) = 32 \<Longrightarrow> lawful_mark (watermarker_new sha256 sid s now)"
  by (auto simp: lawful_mark_def watermarker_new_def word_less_nat_alt)

lemma mask_is_mask: "lsb_mask m = mask (unat (wm_strength m))"
  by (simp add: lsb_mask_def mask_eq_decr_exp push_bit_eq_mult)

text \<open>The bits above the mask are kept, and the mask reads back the bit.\<close>

lemma payload_bit_of_bool: "payload_bit p i = of_bool (bit (p ! (i div 8)) (i mod 8))"
  by (simp add: payload_bit_def and_one_eq mod_2_eq_odd bit_iff_odd_drop_bit)

lemma marked_byte_high: "drop_bit n (marked_byte (mask n) (of_bool b) old) = drop_bit n old"
  by (rule bit_word_eqI)
    (auto simp: marked_byte_def bit_drop_bit_eq bit_or_iff bit_and_iff bit_not_iff bit_mask_iff dest: bit_imp_le_length)

lemma marked_byte_reads:
  assumes "0 < n" "n \<le> 8"
  shows "marked_byte (mask n) (of_bool b) old AND mask n \<noteq> 0 \<longleftrightarrow> b"
proof -
  have e: "marked_byte (mask n) (of_bool b) old AND mask n = of_bool b * mask n"
    by (rule bit_word_eqI) (auto simp: marked_byte_def bit_or_iff bit_and_iff bit_not_iff bit_mask_iff)
  have "bit (mask n :: u8) 0" using assms by (simp add: bit_mask_iff)
  then have "(mask n :: u8) \<noteq> 0" by (metis bit_0_eq bot_apply bot_bool_def)
  then show ?thesis unfolding e by simp
qed

end
