(* ===== verification/WatermarkProps.thy ===== *)
theory WatermarkProps
  imports Watermark
begin

text \<open>
  The mark is read back from the pictures it was written into when its bits fall on different
  bytes, which a condition on the size guarantees; and it changes nothing but low bits of blue
  and red.
\<close>

section \<open>Slots\<close>

text \<open>The index of the byte that carries a bit.\<close>

definition slot :: "u32 \<Rightarrow> u32 \<Rightarrow> nat \<Rightarrow> nat" where
  "slot w h i = ((i * scatter + 0x6C62272E) mod mark_zone w h) * 4 + mark_channel i"

lemma pixel_position_Some: "0 < mark_zone w h \<Longrightarrow>
    pixel_position i w h = Some ((i * scatter + 0x6C62272E) mod mark_zone w h)"
  by (simp add: pixel_position_def)

lemma position_in_picture:
  assumes "0 < mark_zone w h" "unat (w * h) \<le> n"
  shows "(i * scatter + 0x6C62272E) mod mark_zone w h * 4 + 3 < n"
proof -
  have "(i * scatter + 0x6C62272E) mod mark_zone w h < mark_zone w h" using assms(1) by simp
  then have "(i * scatter + 0x6C62272E) mod mark_zone w h * 4 + 4 \<le> mark_zone w h * 4" by simp
  also have "\<dots> \<le> unat (w * h)" by (simp add: mark_zone_def)
  finally show ?thesis using assms(2) by simp
qed

lemma slot_in_picture: "0 < mark_zone w h \<Longrightarrow> unat (w * h) \<le> n \<Longrightarrow> slot w h i < n"
  using position_in_picture [of w h n i] by (simp add: slot_def mark_channel_def)

lemma slot_channel: "slot w h i mod 4 = 0 \<or> slot w h i mod 4 = 2"
  by (simp add: slot_def mark_channel_def)

text \<open>Bits fall on different bytes when the period of the scattering is not shorter than the mark.\<close>

lemma multiple_of_period:
  fixes z k d :: nat
  assumes "z dvd d * k" "0 < z"
  shows "z div gcd z k dvd d"
proof -
  have "z div gcd z k dvd d * (k div gcd z k)"
    using assms by (metis div_dvd_div dvd_mult_div_cancel gcd_dvd1 gcd_dvd2 div_mult_swap dvd_mult)
  moreover have "coprime (z div gcd z k) (k div gcd z k)"
    using assms(2) by (intro div_gcd_coprime) simp
  ultimately show ?thesis using coprime_dvd_mult_left_iff by blast
qed

lemma positions_differ:
  assumes "104 \<le> z div gcd z scatter" "i < 104" "j < i"
  shows "(i * scatter + c) mod z \<noteq> (j * scatter + c) mod (z :: nat)"
proof
  assume "(i * scatter + c) mod z = (j * scatter + c) mod z"
  moreover have "j * scatter + c \<le> i * scatter + c" using assms(3) by simp
  ultimately have "z dvd (i * scatter + c) - (j * scatter + c)" using mod_eq_dvd_iff_nat by blast
  then have "z dvd (i - j) * scatter" by (simp add: diff_mult_distrib)
  moreover have "0 < z" using assms(1) by (cases z) auto
  ultimately have "z div gcd z scatter dvd i - j" by (rule multiple_of_period)
  then have "z div gcd z scatter \<le> i - j" using assms(3) by (intro dvd_imp_le) simp_all
  then show False using assms by linarith
qed

lemma slots_distinct:
  assumes "104 \<le> mark_zone w h div gcd (mark_zone w h) scatter"
  shows "distinct (map (slot w h) [0 ..< 104])"
proof -
  have "slot w h i \<noteq> slot w h j" if "i < 104" "j < i" for i j
  proof
    assume "slot w h i = slot w h j"
    then have "slot w h i div 4 = slot w h j div 4" by simp
    then have "(i * scatter + 0x6C62272E) mod mark_zone w h = (j * scatter + 0x6C62272E) mod mark_zone w h"
      by (simp add: slot_def mark_channel_def split: if_splits)
    then show False using positions_differ [OF assms that, of "0x6C62272E"] by simp
  qed
  then have "inj_on (slot w h) (set [0 ..< 104])" by (auto intro!: linorder_inj_onI simp: not_less) (metis not_less)
  then show ?thesis by (simp add: distinct_map)
qed

section \<open>Writing\<close>

definition marks :: "bytes \<Rightarrow> u8 \<Rightarrow> u32 \<Rightarrow> u32 \<Rightarrow> nat list \<Rightarrow> bytes \<Rightarrow> bytes" where
  "marks p lsb w h is px =
    fold (\<lambda>i b. b[slot w h i := marked_byte lsb (payload_bit p i) (b ! slot w h i)]) is px"

lemma length_marks [simp]: "length (marks p lsb w h is px) = length px"
  unfolding marks_def by (induction "is" arbitrary: px) simp_all

lemma mark_bits_marks:
  assumes "0 < mark_zone w h" "unat (w * h) \<le> length px"
  shows "\<exists>n'. mark_bits p lsb w h is (px, n) = Some (marks p lsb w h is px, n')"
  using assms(2)
proof (induction "is" arbitrary: px n)
  case Nil
  then show ?case by (simp add: marks_def)
next
  case (Cons i "is")
  let ?px = "px[slot w h i := marked_byte lsb (payload_bit p i) (px ! slot w h i)]"
  have "\<exists>n'. mark_bit p lsb w h i (px, n) = Some (?px, n')"
    using position_in_picture [OF assms(1) Cons.prems, of i]
    by (simp add: mark_bit_def pixel_position_Some [OF assms(1)] slot_def Let_def)
  then obtain n' where "mark_bit p lsb w h i (px, n) = Some (?px, n')" by blast
  then show ?case using Cons.IH [of ?px n'] Cons.prems by (simp add: marks_def)
qed

lemma marks_other: "k \<notin> slot w h ` set is \<Longrightarrow> marks p lsb w h is px ! k = px ! k"
  unfolding marks_def by (induction "is" arbitrary: px) auto

lemma marks_at:
  assumes "distinct (map (slot w h) is)" "i \<in> set is" "\<And>j. slot w h j < length px"
  shows "marks p lsb w h is px ! slot w h i = marked_byte lsb (payload_bit p i) (px ! slot w h i)"
  using assms
proof (induction "is" arbitrary: px)
  case Nil
  then show ?case by simp
next
  case (Cons j "is")
  let ?px = "px[slot w h j := marked_byte lsb (payload_bit p j) (px ! slot w h j)]"
  have m: "marks p lsb w h (j # is) px = marks p lsb w h is ?px" by (simp add: marks_def)
  show ?case
  proof (cases "i = j")
    case True
    have "slot w h j \<notin> slot w h ` set is" using Cons.prems(1) by auto
    from marks_other [OF this, of p lsb ?px] show ?thesis unfolding m True using Cons.prems(3) by simp
  next
    case False
    then have "i \<in> set is" using Cons.prems(2) by simp
    moreover have "slot w h i \<noteq> slot w h j" using Cons.prems(1) \<open>i \<in> set is\<close> by (metis distinct.simps(2) image_eqI list.set_map list.simps(9))
    ultimately show ?thesis unfolding m using Cons.IH [of ?px] Cons.prems(1,3) by simp
  qed
qed

lemma marks_high: "drop_bit n (marks p (mask n) w h is px ! k) = drop_bit n (px ! k)"
  unfolding marks_def
proof (induction "is" arbitrary: px)
  case Nil
  then show ?case by simp
next
  case (Cons i "is")
  let ?px = "px[slot w h i := marked_byte (mask n) (payload_bit p i) (px ! slot w h i)]"
  have "drop_bit n (?px ! k) = drop_bit n (px ! k)"
    by (cases "k = slot w h i"; cases "k < length px")
      (simp_all add: payload_bit_of_bool marked_byte_high list_update_beyond)
  then show ?case using Cons.IH [of ?px] by simp
qed

section \<open>Reading\<close>

lemma read_bits_fold:
  assumes "\<And>i. i \<in> set is \<Longrightarrow> read_bit px lsb w h i = Some (Some (b i))"
  shows "read_bits px lsb w h is p = Some (Some (fold (\<lambda>i. set_payload_bit i (b i)) is p))"
  using assms by (induction "is" arbitrary: p) simp_all

lemma take_bit_step:
  "take_bit m x OR push_bit m (of_bool (bit x m)) = take_bit (Suc m) (x :: u8)"
  by (rule bit_word_eqI) (auto simp: bit_or_iff bit_take_bit_iff bit_push_bit_iff bit_1_iff less_Suc_eq not_le)

lemma set_bits_prefix:
  assumes "length p = n" "k \<le> 8 * n"
  shows "fold (\<lambda>i. set_payload_bit i (of_bool (bit (p ! (i div 8)) (i mod 8)))) [0 ..< k] (replicate n 0)
    = map (\<lambda>j. take_bit (k - 8 * j) (p ! j)) [0 ..< n]"
  using assms(2)
proof (induction k)
  case 0
  then show ?case by (simp add: map_replicate_const)
next
  case (Suc k)
  let ?q = "map (\<lambda>j. take_bit (k - 8 * j) (p ! j)) [0 ..< n]"
  have k: "k div 8 < n" using Suc.prems by (simp add: less_mult_imp_div_less)
  have "set_payload_bit k (of_bool (bit (p ! (k div 8)) (k mod 8))) ?q
      = map (\<lambda>j. take_bit (Suc k - 8 * j) (p ! j)) [0 ..< n]"
  proof (rule nth_equalityI)
    fix j assume "j < length (set_payload_bit k (of_bool (bit (p ! (k div 8)) (k mod 8))) ?q)"
    then have j: "j < n" by (simp add: set_payload_bit_def)
    consider "j = k div 8" | "j < k div 8" | "k div 8 < j" by linarith
    then show "set_payload_bit k (of_bool (bit (p ! (k div 8)) (k mod 8))) ?q ! j
        = map (\<lambda>j. take_bit (Suc k - 8 * j) (p ! j)) [0 ..< n] ! j"
    proof cases
      case 1
      have "k - 8 * (k div 8) = k mod 8" "Suc k - 8 * (k div 8) = Suc (k mod 8)"
        by (simp_all add: minus_mult_div_eq_mod Suc_diff_le)
      then show ?thesis using 1 j by (simp add: set_payload_bit_def take_bit_step)
    next
      case 2
      then have "8 * j + 8 \<le> k" by linarith
      then show ?thesis using 2 j k by (simp add: set_payload_bit_def take_bit_word_eq_self)
    next
      case 3
      then have "Suc k \<le> 8 * j" by linarith
      then show ?thesis using 3 j k by (simp add: set_payload_bit_def)
    qed
  qed (simp add: set_payload_bit_def)
  then show ?case using Suc by simp
qed

lemma payload_read_back:
  assumes "length p = n"
  shows "fold (\<lambda>i. set_payload_bit i (of_bool (bit (p ! (i div 8)) (i mod 8)))) [0 ..< n * 8] (replicate n 0) = p"
proof -
  have "map (\<lambda>j. take_bit (n * 8 - 8 * j) (p ! j)) [0 ..< n] = p"
    using assms by (intro nth_equalityI) (simp_all add: take_bit_word_eq_self)
  then show ?thesis using set_bits_prefix [of p n "n * 8"] assms by simp
qed

lemma length_payload: "lawful_mark m \<Longrightarrow> length (build_payload now m) = 13"
  by (simp add: build_payload_def Let_def lawful_mark_def)

lemma payload_parts:
  assumes "lawful_mark m"
  shows "build_payload now m ! 12 = crc8 (take 12 (build_payload now m))"
    "take 8 (build_payload now m) = wm_session_id m"
    "word_of_nat (le_nat (take 4 (drop 8 (build_payload now m)))) = elapsed_secs now m"
  using assms le_nat_le_bytes [of "unat (elapsed_secs now m)" 4] unat_u32 [of "elapsed_secs now m"]
  by (simp_all add: build_payload_def Let_def lawful_mark_def nth_append)

lemma picture_size: "unat w * unat h * 4 < 4294967296 \<Longrightarrow> unat (w * h) \<le> unat (w * h * (4 :: u32))"
proof -
  assume s: "unat w * unat h * 4 < 4294967296"
  have "unat (w * h) = unat w * unat h mod 4294967296" by (simp add: unat_word_ariths)
  then have wh: "unat (w * h) = unat w * unat h" using s by simp
  have "unat (w * h * 4) = unat (w * h) * 4 mod 4294967296" by (simp add: unat_word_ariths)
  then show "unat (w * h) \<le> unat (w * h * (4 :: u32))" using s wh by simp
qed

text \<open>
  C31. A mark written into a picture is read back from it, with the session and its age, by any
  marker of the same strength, when the scattered positions do not repeat within the mark.
\<close>

theorem mark_read_back:
  assumes "lawful_mark m" "wm_strength reader = wm_strength m"
    and "104 \<le> mark_zone w h div gcd (mark_zone w h) scatter"
    and "unat w * unat h * 4 < 4294967296" "unat (w * h * 4) \<le> length px"
  shows "\<exists>px' n m'. mark_frame now px w h m = Some (px', n, m')
    \<and> extract_mark px' w h reader
      = Some (Some \<lparr>wd_session_id = wm_session_id m, wd_timestamp_secs = elapsed_secs now m\<rparr>)"
proof -
  let ?p = "build_payload now m" and ?lsb = "lsb_mask m"
  have z: "0 < mark_zone w h" using assms(3) by (cases "mark_zone w h") auto
  have s: "unat (w * h) \<le> length px" using picture_size [OF assms(4)] assms(5) by linarith
  obtain n' where mb: "mark_bits ?p ?lsb w h [0 ..< 104] (px, 0) = Some (marks ?p ?lsb w h [0 ..< 104] px, n')"
    using mark_bits_marks [OF z s] by blast
  let ?px = "marks ?p ?lsb w h [0 ..< 104] px"
  have mf: "mark_frame now px w h m = Some (?px, n', m\<lparr>wm_frame_count := wm_frame_count m + 1\<rparr>)"
    using assms(5) mb length_payload [OF assms(1)] by (simp add: mark_frame_def Let_def)
  have n: "0 < unat (wm_strength m)" "unat (wm_strength m) \<le> 8" using assms(1) by (simp_all add: lawful_mark_def)
  have "read_bit ?px ?lsb w h i = Some (Some (of_bool (bit (?p ! (i div 8)) (i mod 8))))" if "i \<in> set [0 ..< 104]" for i
  proof -
    have "?px ! slot w h i = marked_byte ?lsb (payload_bit ?p i) (px ! slot w h i)"
      using marks_at [OF slots_distinct [OF assms(3)] that] slot_in_picture [OF z s] by blast
    then show ?thesis
      using marked_byte_reads [OF n] position_in_picture [OF z s, of i]
      by (simp add: read_bit_def pixel_position_Some [OF z] Let_def slot_def mask_is_mask payload_bit_of_bool not_le)
  qed
  then have "read_bits ?px ?lsb w h [0 ..< 104] (replicate 13 0) = Some (Some ?p)"
    using read_bits_fold [of "[0 ..< 104]" ?px ?lsb w h "\<lambda>i. of_bool (bit (?p ! (i div 8)) (i mod 8))" "replicate 13 0"]
      payload_read_back [of ?p 13] length_payload [OF assms(1)] by simp
  moreover have "lsb_mask reader = ?lsb" using assms(2) by (simp add: lsb_mask_def)
  ultimately have "extract_mark ?px w h reader
      = Some (Some \<lparr>wd_session_id = wm_session_id m, wd_timestamp_secs = elapsed_secs now m\<rparr>)"
    using payload_parts [OF assms(1), of now] by (simp add: extract_mark_def)
  then show ?thesis using mf by blast
qed

text \<open>
  The mark is hidden: the size of the picture is kept, green and alpha are untouched, and in
  blue and red only the lowest bits change, at most four of them.
\<close>

theorem mark_hidden:
  assumes "lawful_mark m" "unat w * unat h * 4 < 4294967296" "mark_frame now px w h m = Some (px', n, m')"
  shows "length px' = length px \<and> unat (wm_strength m) \<le> 4
    \<and> drop_bit (unat (wm_strength m)) (px' ! k) = drop_bit (unat (wm_strength m)) (px ! k)
    \<and> (odd k \<longrightarrow> px' ! k = px ! k)"
proof (cases "length px < unat (w * h * 4)")
  case True
  then show ?thesis using assms by (simp add: mark_frame_def lawful_mark_def)
next
  case False
  let ?p = "build_payload now m" and ?lsb = "lsb_mask m"
  have l: "length ?p = 13" by (rule length_payload [OF assms(1)])
  obtain n0 where mb: "mark_bits ?p ?lsb w h [0 ..< 104] (px, 0) = Some (px', n0)"
    using assms(3) False l by (auto simp: mark_frame_def Let_def)
  have z: "0 < mark_zone w h"
  proof (rule ccontr)
    assume "\<not> 0 < mark_zone w h"
    then have "pixel_position 0 w h = None" by (simp add: pixel_position_def)
    then show False using mb by (simp add: upt_rec mark_bit_def)
  qed
  have s: "unat (w * h) \<le> length px" using picture_size [OF assms(2)] False by linarith
  have px': "px' = marks ?p ?lsb w h [0 ..< 104] px"
    using mark_bits_marks [OF z s, of ?p ?lsb "[0 ..< 104]" 0] mb by auto
  have "px' ! k = px ! k" if "odd k"
  proof -
    have "even (slot w h i)" for i using slot_channel [of w h i] by presburger
    then have "k \<notin> slot w h ` set [0 ..< 104]" using that by auto
    then show ?thesis unfolding px' by (rule marks_other)
  qed
  then show ?thesis
    using marks_high [of "unat (wm_strength m)" ?p w h "[0 ..< 104]" px k] assms(1) px'
    by (simp add: mask_is_mask lawful_mark_def)
qed

section \<open>Sizes\<close>

definition toy_marker :: watermarker where
  "toy_marker = \<lparr>wm_session_id = [1, 2, 3, 4, 5, 6, 7, 8], wm_session_start = 100, wm_strength = 2, wm_frame_count = 0\<rparr>"

lemma toy_lawful: "lawful_mark toy_marker"
  by (simp add: lawful_mark_def toy_marker_def)

lemma full_hd_zone: "mark_zone 1920 1080 = 518400" "518400 div gcd 518400 scatter = (172800 :: nat)"
  by (simp_all add: mark_zone_def scatter_def gcd_non_0_nat)

lemma full_hd_size: "unat (1920 :: u32) * unat (1080 :: u32) * 4 < 4294967296"
  by simp

theorem mark_read_back_witness:
  "\<exists>px' n m'. mark_frame 160 (replicate (unat (1920 * 1080 * 4 :: u32)) 0) 1920 1080 toy_marker = Some (px', n, m')
    \<and> extract_mark px' 1920 1080 toy_marker
      = Some (Some \<lparr>wd_session_id = [1, 2, 3, 4, 5, 6, 7, 8], wd_timestamp_secs = 60\<rparr>)"
proof -
  have p: "104 \<le> mark_zone 1920 1080 div gcd (mark_zone 1920 1080) scatter" unfolding full_hd_zone by simp
  have e: "elapsed_secs 160 toy_marker = 60" by (simp add: elapsed_secs_def toy_marker_def)
  have l: "unat (1920 * 1080 * 4 :: u32) \<le> length (replicate (unat (1920 * 1080 * 4 :: u32)) (0 :: u8))"
    by (simp only: length_replicate)
  have i: "wm_session_id toy_marker = [1, 2, 3, 4, 5, 6, 7, 8]" by (simp add: toy_marker_def)
  from mark_read_back [OF toy_lawful refl p full_hd_size l, of 160] show ?thesis unfolding e i .
qed

theorem mark_hidden_witness:
  "(case mark_frame 160 (replicate 64 9) 4 4 toy_marker of None \<Rightarrow> False
    | Some (px', n, m') \<Rightarrow> length px' = 64 \<and> px' ! 5 = 9 \<and> drop_bit 2 (px' ! 4) = 2)"
proof -
  have "unat (4 :: u32) * unat (4 :: u32) * 4 < 4294967296" by simp
  note h = mark_hidden [OF toy_lawful this]
  have z: "0 < mark_zone 4 4" "unat (4 * 4 :: u32) \<le> length (replicate 64 (9 :: u8))"
    by (simp_all add: mark_zone_def)
  obtain px' n m' where mf: "mark_frame 160 (replicate 64 9) 4 4 toy_marker = Some (px', n, m')"
    using mark_bits_marks [OF z, of "build_payload 160 toy_marker" "lsb_mask toy_marker" "[0 ..< 104]" 0]
      length_payload [OF toy_lawful, of 160] by (auto simp: mark_frame_def Let_def)
  have "wm_strength toy_marker = 2" by (simp add: toy_marker_def)
  then show ?thesis using h [OF mf, of 5] h [OF mf, of 4] mf by (simp add: drop_bit_eq_div)
qed

end
