(* ===== verification/Recording.thy ===== *)
theory Recording
  imports Proto
begin

text \<open>
  The recording of sessions (\<open>nidan-audit/src/recording/mod.rs\<close>): a file with a header, one block
  for each frame, an index and tags, a hash over the frames, and a seal in a file beside it.
  Hash, message authentication, hexadecimal notation and dates are parameters; the file system
  is a map from paths to contents.
\<close>

unbundle bit_operations_syntax

record audit_libs =
  al_sha256 :: "bytes \<Rightarrow> bytes"
  al_hmac :: "bytes \<Rightarrow> bytes \<Rightarrow> bytes"
  al_hex :: "bytes \<Rightarrow> string"
  al_rfc3339 :: "timestamp \<Rightarrow> string"
  al_stamp :: "timestamp \<Rightarrow> string"

type_synonym file_system = "string \<Rightarrow> bytes option"

section \<open>Paths\<close>

text \<open>The name after the last slash and what comes before it; the name before its last dot, unless that
  is its first character.\<close>

definition split_name :: "string \<Rightarrow> string \<times> string" where
  "split_name p =
    (let name = rev (takeWhile (\<lambda>c. c \<noteq> CHR ''/'') (rev p)) in (take (length p - length name) p, name))"

definition file_stem :: "string \<Rightarrow> string" where
  "file_stem n =
    (let stem = rev (tl (dropWhile (\<lambda>c. c \<noteq> CHR ''.'') (rev n))) in
     if CHR ''.'' \<notin> set n \<or> stem = [] then n else stem)"

definition with_extension :: "string \<Rightarrow> string \<Rightarrow> string" where
  "with_extension p ext = (case split_name p of (dir, name) \<Rightarrow> dir @ file_stem name @ ''.'' @ ext)"

definition path_join :: "string \<Rightarrow> string \<Rightarrow> string" where
  "path_join dir name = (if starts_with name ''/'' then name else dir @ ''/'' @ name)"

section \<open>Elements of the file\<close>

record time_index =
  ti_timestamp_ms :: u64
  ti_frame_seq :: u64
  ti_file_offset :: u64
  ti_is_keyframe :: bool

text \<open>The length of a block, in one, two or three bytes.\<close>

definition block_length :: "nat \<Rightarrow> bytes" where
  "block_length n =
    (if n < 0x7F then [0x80 OR word_of_nat n]
     else if n < 0x3FFF then [0x40 OR word_of_nat (n div 256), word_of_nat (n mod 256)]
     else [0x20 OR word_of_nat (n div 65536), word_of_nat (n div 256 mod 256), word_of_nat (n mod 256)])"

definition make_simple_block :: "u64 \<Rightarrow> u64 \<Rightarrow> bool \<Rightarrow> bytes \<Rightarrow> bytes" where
  "make_simple_block n pts kf d =
    [0xA3] @ block_length (4 + 8 + length d)
    @ [0x81, ucast (drop_bit 8 pts AND 0xFF), ucast (pts AND 0xFF), if kf then 0x80 else 0]
    @ be_bytes 8 (unat n) @ d"

definition make_ebml_header ::
  "audit_libs \<Rightarrow> string \<Rightarrow> string \<Rightarrow> string \<Rightarrow> string \<Rightarrow> timestamp \<Rightarrow> bytes"
where
  "make_ebml_header L sid uid vm ip started =
    [0x1A, 0x45, 0xDF, 0xA3]
    @ [0x42, 0x86, 0x81, 1] @ [0x42, 0xF7, 0x81, 1] @ [0x42, 0xF2, 0x81, 4] @ [0x42, 0xF3, 0x81, 8]
    @ [0x42, 0x82, 8] @ string_bytes ''matroska''
    @ string_bytes ''NIDAN'' @ [0]
    @ string_bytes (''NIDAN-SESSION:'' @ sid @ ''|USER:'' @ uid @ ''|VM:'' @ vm @ ''|IP:'' @ ip
        @ ''|TS:'' @ al_rfc3339 L started) @ [0]"

definition make_cues_element :: "time_index list \<Rightarrow> bytes" where
  "make_cues_element idx = [0x1C, 0x53, 0xBB, 0x6B]
    @ concat (map (\<lambda>e. [0xBB] @ [0xB3, 0x88] @ be_bytes 8 (unat (ti_timestamp_ms e))
        @ [0xB7, 0x88] @ be_bytes 8 (unat (ti_file_offset e))) idx)"

definition make_tags_element :: "audit_libs \<Rightarrow> string \<Rightarrow> string \<Rightarrow> timestamp \<Rightarrow> string \<Rightarrow> bytes" where
  "make_tags_element L sid uid ended chain = [0x12, 0x54, 0xC3, 0x67]
    @ string_bytes (''SESSION_ID='' @ sid @ [CHR 0x0A] @ ''USER_ID='' @ uid @ [CHR 0x0A] @ ''ENDED_AT=''
        @ al_rfc3339 L ended @ [CHR 0x0A] @ ''CHAIN_HASH='' @ chain)"

section \<open>The recorder\<close>

record recording_meta =
  rm_session_id :: string
  rm_user_id :: string
  rm_vm_id :: string
  rm_client_ip :: string
  rm_started_at :: timestamp
  rm_ended_at :: "timestamp option"
  rm_frame_count :: u64
  rm_file_path :: string
  rm_file_size :: u64
  rm_chain_hash :: string
  rm_hmac_seal :: "string option"

text \<open>\<open>sr_hashed\<close> is what the hash has been fed with so far.\<close>

record session_recorder =
  sr_meta :: recording_meta
  sr_hashed :: bytes
  sr_index :: "time_index list"
  sr_offset :: u64
  sr_seal_key :: "bytes option"
  sr_quality :: u8

datatype recording_error = PrefixSplitsCharacter | FileNotCreated | FrameNotWritten | TailNotWritten

definition recording_name :: "audit_libs \<Rightarrow> string \<Rightarrow> timestamp \<Rightarrow> string" where
  "recording_name L sid started = ''session_'' @ take 8 sid @ ''_'' @ al_stamp L started @ ''.mkv''"

text \<open>A slice that ends inside a character panics; creating the file empties one that was there.\<close>

definition recorder_new ::
  "audit_libs \<Rightarrow> timestamp \<Rightarrow> string \<Rightarrow> string \<Rightarrow> string \<Rightarrow> string \<Rightarrow> string \<Rightarrow> bytes option \<Rightarrow> u8 \<Rightarrow> bool \<Rightarrow>
    file_system \<Rightarrow> (recording_error, session_recorder) result \<times> file_system"
where
  "recorder_new L now sid uid vm ip dir key quality writable fs =
    (if 8 < length sid \<and> cont_byte (of_char (sid ! 8)) then (Err PrefixSplitsCharacter, fs)
     else if \<not> writable then (Err FileNotCreated, fs)
     else (let path = path_join dir (recording_name L sid now);
               header = make_ebml_header L sid uid vm ip now;
               size = word_of_nat (length header)
       in (Ok \<lparr>sr_meta = \<lparr>rm_session_id = sid, rm_user_id = uid, rm_vm_id = vm, rm_client_ip = ip,
             rm_started_at = now, rm_ended_at = None, rm_frame_count = 0, rm_file_path = path,
             rm_file_size = size, rm_chain_hash = [], rm_hmac_seal = None\<rparr>,
           sr_hashed = [], sr_index = [], sr_offset = size, sr_seal_key = key, sr_quality = quality\<rparr>,
         fs(path \<mapsto> header))))"

definition append_file :: "string \<Rightarrow> bytes \<Rightarrow> file_system \<Rightarrow> file_system" where
  "append_file p b fs = fs(p \<mapsto> (case fs p of None \<Rightarrow> [] | Some c \<Rightarrow> c) @ b)"

definition indexed :: "video_frame \<Rightarrow> bool" where
  "indexed f \<longleftrightarrow> keyframe f \<or> (ucast (pts_ms f) :: u64) mod 1000 < 40"

definition frame_block :: "video_frame \<Rightarrow> bytes" where
  "frame_block f = make_simple_block (frame_seq f) (ucast (pts_ms f)) (keyframe f) (encoded_data f)"

text \<open>The index entry is kept when the block cannot be written.\<close>

definition record_frame ::
  "video_frame \<Rightarrow> bool \<Rightarrow> session_recorder \<Rightarrow> file_system \<Rightarrow>
    (recording_error, unit) result \<times> session_recorder \<times> file_system"
where
  "record_frame f writable r fs =
    (let r1 = (if indexed f
         then r\<lparr>sr_index := sr_index r @ [\<lparr>ti_timestamp_ms = ucast (pts_ms f), ti_frame_seq = frame_seq f,
           ti_file_offset = sr_offset r, ti_is_keyframe = keyframe f\<rparr>]\<rparr> else r)
     in if \<not> writable then (Err FrameNotWritten, r1, fs)
     else (let offset = sr_offset r1 + word_of_nat (length (frame_block f)) in
       (Ok (),
        r1\<lparr>sr_hashed := sr_hashed r1 @ le_bytes 8 (unat (frame_seq f)) @ encoded_data f, sr_offset := offset,
          sr_meta := (sr_meta r1)\<lparr>rm_file_size := offset, rm_frame_count := rm_frame_count (sr_meta r1) + 1\<rparr>\<rparr>,
        append_file (rm_file_path (sr_meta r1)) (frame_block f) fs)))"

fun record_frames :: "video_frame list \<Rightarrow> session_recorder \<Rightarrow> file_system \<Rightarrow> session_recorder \<times> file_system" where
  "record_frames [] r fs = (r, fs)"
| "record_frames (f # rest) r fs = (case record_frame f True r fs of (_, r', fs') \<Rightarrow> record_frames rest r' fs')"

definition file_content :: "string \<Rightarrow> file_system \<Rightarrow> bytes" where
  "file_content p fs = (case fs p of None \<Rightarrow> [] | Some c \<Rightarrow> c)"

definition seal_file :: "audit_libs \<Rightarrow> string \<Rightarrow> bytes \<Rightarrow> file_system \<Rightarrow> string \<times> file_system" where
  "seal_file L path key fs =
    (let seal = al_hex L (al_hmac L key (file_content path fs))
     in (seal, fs(with_extension path ''seal'' \<mapsto> string_bytes seal)))"

text \<open>The tail of the file, the seal when there is a key, and the final description.\<close>

definition finalize ::
  "audit_libs \<Rightarrow> timestamp \<Rightarrow> bool \<Rightarrow> session_recorder \<Rightarrow> file_system \<Rightarrow>
    (recording_error, recording_meta) result \<times> file_system"
where
  "finalize L now writable r fs =
    (let m = sr_meta r;
         chain = al_hex L (al_sha256 L (sr_hashed r));
         tail = make_cues_element (sr_index r) @ make_tags_element L (rm_session_id m) (rm_user_id m) now chain
     in if \<not> writable then (Err TailNotWritten, fs)
     else (let fs1 = append_file (rm_file_path m) tail fs;
               (seal, fs2) = (case sr_seal_key r of
                   None \<Rightarrow> (None, fs1)
                 | Some key \<Rightarrow> (case seal_file L (rm_file_path m) key fs1 of (s, fs') \<Rightarrow> (Some s, fs')))
       in (Ok (m\<lparr>rm_ended_at := Some now, rm_chain_hash := chain, rm_hmac_seal := seal\<rparr>), fs2)))"

datatype seal_error = SealUnreadable | SessionUnreadable

definition verify_seal :: "audit_libs \<Rightarrow> string \<Rightarrow> bytes \<Rightarrow> file_system \<Rightarrow> (seal_error, bool) result" where
  "verify_seal L path key fs =
    bind_result (ok_or (Option.bind (fs (with_extension path ''seal'')) from_utf8) SealUnreadable) (\<lambda>expected.
    bind_result (ok_or (fs path) SessionUnreadable) (\<lambda>content.
      Ok (al_hex L (al_hmac L key content) = trim expected)))"

section \<open>Reading the blocks\<close>

text \<open>The specification of the format: a length with a marker bit, and a block with its fields.\<close>

definition read_length :: "bytes \<Rightarrow> (nat \<times> bytes) option" where
  "read_length s =
    (case s of
      [] \<Rightarrow> None
    | a # r \<Rightarrow>
        if 0x80 \<le> a then Some (unat a - 0x80, r)
        else if 0x40 \<le> a then (case r of b # r1 \<Rightarrow> Some ((unat a - 0x40) * 256 + unat b, r1) | [] \<Rightarrow> None)
        else if 0x20 \<le> a then
          (case r of b # c # r2 \<Rightarrow> Some ((unat a - 0x20) * 65536 + unat b * 256 + unat c, r2) | _ \<Rightarrow> None)
        else None)"

record stored_frame =
  sf_seq :: u64
  sf_timecode :: nat
  sf_keyframe :: bool
  sf_data :: bytes

definition read_block :: "bytes \<Rightarrow> (stored_frame \<times> bytes) option" where
  "read_block s =
    (case s of
      [] \<Rightarrow> None
    | a # r \<Rightarrow>
        if a \<noteq> 0xA3 then None
        else Option.bind (read_length r) (\<lambda>(n, r1).
          if n < 12 \<or> length r1 < n then None
          else Some (\<lparr>sf_seq = word_of_nat (be_nat (take 8 (drop 4 r1))),
            sf_timecode = be_nat (take 2 (drop 1 r1)), sf_keyframe = (r1 ! 3 = 0x80),
            sf_data = drop 12 (take n r1)\<rparr>, drop n r1)))"

fun read_blocks :: "nat \<Rightarrow> bytes \<Rightarrow> stored_frame list \<times> bytes" where
  "read_blocks 0 s = ([], s)"
| "read_blocks (Suc n) s =
    (case read_block s of
      None \<Rightarrow> ([], s)
    | Some (f, r) \<Rightarrow> (let (fs, r') = read_blocks n r in (f # fs, r')))"

definition stored_of :: "video_frame \<Rightarrow> stored_frame" where
  "stored_of f = \<lparr>sf_seq = frame_seq f, sf_timecode = unat (pts_ms f) mod 65536, sf_keyframe = keyframe f,
    sf_data = encoded_data f\<rparr>"

end
