(* ===== verification/RecordingProps.thy ===== *)
theory RecordingProps
  imports Recording
begin

text \<open>
  A recording holds the frames it was given, in order, and can be read back; its seal accepts the
  file as it was closed and no other content with another authentication code.
\<close>

section \<open>Lengths\<close>

lemma marked_or:
  assumes "n < 2 ^ k" "k < 8"
  shows "(2 ^ k :: u8) OR word_of_nat n = word_of_nat (2 ^ k + n)"
proof -
  have t: "(word_of_nat n :: u8) = take_bit k (word_of_nat n)"
    using assms(1) by (simp add: take_bit_of_nat take_bit_nat_eq_self)
  have "(2 ^ k :: u8) OR take_bit k (word_of_nat n) = 2 ^ k + take_bit k (word_of_nat n)"
    by (rule disjunctive_add [symmetric]) (auto simp: bit_exp_iff bit_take_bit_iff)
  then show ?thesis using t by simp
qed

lemma marked_length:
  assumes "n < 2 ^ k" "k < 8"
  shows "unat ((2 ^ k :: u8) OR word_of_nat n) = 2 ^ k + n"
proof -
  have "2 ^ k + n < 2 ^ Suc k" using assms(1) by simp
  also have "\<dots> \<le> (2 :: nat) ^ 8" using assms(2) by (intro power_increasing) simp_all
  finally show ?thesis unfolding marked_or [OF assms] unat_of_nat by simp
qed

lemma three_bytes: "n div 65536 * 65536 + n div 256 mod 256 * 256 + n mod 256 = (n :: nat)"
proof -
  have "n div 65536 * 256 + n div 256 mod 256 = n div 256"
    using div_mult_mod_eq [of "n div 256" 256] by (simp add: div_mult2_eq [symmetric])
  moreover have "n div 256 * 256 + n mod 256 = n" by (rule div_mult_mod_eq)
  ultimately show ?thesis by linarith
qed

lemma read_block_length:
  assumes "n < 2097151"
  shows "read_length (block_length n @ r) = Some (n, r)"
proof -
  consider "n < 0x7F" | "\<not> n < 0x7F" "n < 0x3FFF" | "\<not> n < 0x7F" "\<not> n < 0x3FFF" by blast
  then show ?thesis
  proof cases
    case 1
    then have "unat (0x80 OR word_of_nat n :: u8) = 128 + n" using marked_length [of n 7] by simp
    then show ?thesis using 1 by (simp add: block_length_def read_length_def word_le_nat_alt)
  next
    case 2
    then have "n div 256 < 2 ^ 6" by (simp add: less_mult_imp_div_less)
    then have u: "unat (0x40 OR word_of_nat (n div 256) :: u8) = 64 + n div 256" using marked_length [of "n div 256" 6] by simp
    show ?thesis using 2 u \<open>n div 256 < 2 ^ 6\<close>
      by (simp add: block_length_def read_length_def word_le_nat_alt unat_of_nat)
  next
    case 3
    have "n div 65536 < 2 ^ 5" using assms by (simp add: less_mult_imp_div_less)
    then have u: "unat (0x20 OR word_of_nat (n div 65536) :: u8) = 32 + n div 65536" using marked_length [of "n div 65536" 5] by simp
    show ?thesis using three_bytes [of n] 3 u \<open>n div 65536 < 2 ^ 5\<close>
      by (simp add: block_length_def read_length_def word_le_nat_alt unat_of_nat)
  qed
qed

text \<open>From two mebibytes on the length overflows into its marker.\<close>

lemma long_block_misread:
  assumes "2097152 \<le> n" "n < 4194304"
  shows "read_length (block_length n @ r) = Some (n - 2097152, r)"
proof -
  define m where "m = n - 2097152"
  have m: "n = 32 * 65536 + m" "n = 8192 * 256 + m" "m < 2097151 + 1" using assms by (simp_all add: m_def)
  have q: "n div 65536 = 2 ^ 5 + m div 65536" unfolding m(1) by simp
  have q1: "n div 256 mod 256 = m div 256 mod 256"
  proof -
    have "n div 256 = m div 256 + 32 * 256" unfolding m(2) by simp
    then show ?thesis by (simp only: mod_mult_self1)
  qed
  have q2: "n mod 256 = m mod 256" unfolding m(2) by (simp only: mod_mult_self3)
  have lt: "m div 65536 < 2 ^ 5" using m(3) by (simp add: less_mult_imp_div_less)
  have w: "word_of_nat (2 ^ 5 + m div 65536) = (2 ^ 5 :: u8) OR word_of_nat (m div 65536)"
    by (rule marked_or [OF lt, symmetric]) simp
  have "(2 ^ 5 :: u8) OR word_of_nat (n div 65536) = 2 ^ 5 OR word_of_nat (m div 65536)"
    unfolding q w or.assoc [symmetric] or.idem by (rule refl)
  then have u: "unat (0x20 OR word_of_nat (n div 65536) :: u8) = 32 + m div 65536"
    using marked_length [OF lt] by simp
  show ?thesis using three_bytes [of m] assms u lt q1 q2 m(1)
    by (simp add: block_length_def read_length_def word_le_nat_alt unat_of_nat)
qed

section \<open>Blocks\<close>

lemma pts_bytes: "be_nat [ucast (drop_bit 8 p AND 0xFF), ucast (p AND 0xFF)] = unat (p :: u64) mod 65536"
proof -
  have m: "(0xFF :: u64) = mask 8" by (simp add: mask_eq_exp_minus_1)
  have "unat (ucast (drop_bit 8 p AND 0xFF) :: u8) = unat p div 256 mod 256"
    unfolding m take_bit_eq_mask [symmetric]
    by (simp add: unsigned_ucast_eq unsigned_take_bit_eq unsigned_drop_bit_eq take_bit_eq_mod drop_bit_eq_div
        unat_div unat_mod)
  moreover have "unat (ucast (p AND 0xFF) :: u8) = unat p mod 256"
    unfolding m take_bit_eq_mask [symmetric]
    by (simp add: unsigned_ucast_eq unsigned_take_bit_eq take_bit_eq_mod unat_mod)
  moreover have "unat p div 256 mod 256 * 256 + unat p mod 256 = unat p mod 65536"
    using mod_mult2_eq [of "unat p" 256 256] by simp
  ultimately show ?thesis by (simp add: be_nat_def)
qed

definition storable :: "video_frame \<Rightarrow> bool" where
  "storable f \<longleftrightarrow> 12 + length (encoded_data f) < 2097151"

lemma read_block_parts:
  assumes "12 + length d < 2097151" "length n8 = 8"
  shows "read_block (0xA3 # block_length (12 + length d) @ [a, b, c, k] @ n8 @ d @ r)
    = Some (\<lparr>sf_seq = word_of_nat (be_nat n8), sf_timecode = be_nat [b, c], sf_keyframe = (k = 0x80), sf_data = d\<rparr>, r)"
proof -
  let ?s = "[a, b, c, k] @ n8 @ d @ r"
  have l: "read_length (block_length (12 + length d) @ ?s) = Some (12 + length d, ?s)"
    by (rule read_block_length [OF assms(1)])
  have parts: "take 8 (drop 4 ?s) = n8" "take 2 (drop 1 ?s) = [b, c]" "?s ! 3 = k" "12 + length d \<le> length ?s"
    using assms(2) by (simp_all add: numeral_3_eq_3)
  have "length ([a, b, c, k] @ n8) = 12" using assms(2) by simp
  moreover have "?s = ([a, b, c, k] @ n8) @ d @ r" by simp
  ultimately have "drop 12 (take (12 + length d) ?s) = d" "drop (12 + length d) ?s = r"
    by (simp_all only: drop_take drop_append take_append) simp_all
  then show ?thesis using l parts by (simp only: read_block_def list.case bind.bind_lunit prod.case) simp
qed

lemma read_frame_block:
  assumes "storable f"
  shows "read_block (frame_block f @ r) = Some (stored_of f, r)"
proof -
  let ?p = "ucast (pts_ms f) :: u64"
  have "be_nat (be_bytes 8 (unat (frame_seq f))) = unat (frame_seq f)"
    using be_nat_be_bytes [of "unat (frame_seq f)" 8] unat_u64 [of "frame_seq f"] by simp
  moreover have "unat ?p = unat (pts_ms f)" by (simp add: unsigned_ucast_eq take_bit_nat_eq_self unat_u32 order_less_trans [OF unat_u32])
  moreover have "frame_block f @ r = 0xA3 # block_length (12 + length (encoded_data f))
      @ [0x81, ucast (drop_bit 8 ?p AND 0xFF), ucast (?p AND 0xFF), if keyframe f then 0x80 else 0]
      @ be_bytes 8 (unat (frame_seq f)) @ encoded_data f @ r"
    by (simp add: frame_block_def make_simple_block_def)
  moreover have "length (be_bytes 8 (unat (frame_seq f))) = 8" by simp
  moreover have "((if keyframe f then 0x80 else 0) = (0x80 :: u8)) = keyframe f" by simp
  ultimately show ?thesis
    using read_block_parts [OF assms [unfolded storable_def], of "be_bytes 8 (unat (frame_seq f))"] pts_bytes [of ?p]
    by (simp only: stored_of_def of_nat_unat ucast_id)
qed

lemma read_all_blocks:
  "list_all storable fs \<Longrightarrow>
    read_blocks (length fs) (concat (map frame_block fs) @ r) = (map stored_of fs, r)"
  by (induction fs) (simp_all add: read_frame_block)

section \<open>The file\<close>

lemma record_frames_file:
  "record_frames frames r fs = (r', fs') \<Longrightarrow> fs (rm_file_path (sr_meta r)) = Some c \<Longrightarrow>
    fs' (rm_file_path (sr_meta r)) = Some (c @ concat (map frame_block frames))
    \<and> rm_file_path (sr_meta r') = rm_file_path (sr_meta r)
    \<and> rm_frame_count (sr_meta r') = rm_frame_count (sr_meta r) + word_of_nat (length frames)
    \<and> sr_hashed r' = sr_hashed r @ concat (map (\<lambda>f. le_bytes 8 (unat (frame_seq f)) @ encoded_data f) frames)
    \<and> sr_seal_key r' = sr_seal_key r"
proof (induction frames arbitrary: r fs c)
  case Nil
  then show ?case by simp
next
  case (Cons f frames)
  obtain res r1 fs1 where s: "record_frame f True r fs = (res, r1, fs1)" by (cases "record_frame f True r fs")
  have r1: "sr_meta r1 = (sr_meta r)\<lparr>rm_file_size := sr_offset r1, rm_frame_count := rm_frame_count (sr_meta r) + 1\<rparr>"
    "sr_hashed r1 = sr_hashed r @ le_bytes 8 (unat (frame_seq f)) @ encoded_data f"
    "sr_seal_key r1 = sr_seal_key r"
    "fs1 = append_file (rm_file_path (sr_meta r)) (frame_block f) fs"
    using s by (auto simp: record_frame_def Let_def split: if_splits)
  have "record_frames frames r1 fs1 = (r', fs')" using Cons.prems(1) s by simp
  from Cons.IH [OF this, of "c @ frame_block f"] show ?case
    using Cons.prems(2) r1 by (simp add: append_file_def algebra_simps)
qed

lemma recorder_new_Ok:
  assumes "recorder_new L now sid uid vm ip dir key q True fs = (Inr r, fs1)"
  shows "rm_file_path (sr_meta r) = path_join dir (recording_name L sid now)"
    "fs1 (rm_file_path (sr_meta r)) = Some (make_ebml_header L sid uid vm ip now)"
    "sr_hashed r = []" "sr_seal_key r = key" "rm_frame_count (sr_meta r) = 0"
  using assms by (auto simp: recorder_new_def Let_def split: if_splits)

lemma seal_path_other: "with_extension (path_join dir (recording_name L sid now)) ''seal'' \<noteq> path_join dir (recording_name L sid now)"
proof
  assume e: "with_extension (path_join dir (recording_name L sid now)) ''seal'' = path_join dir (recording_name L sid now)"
  have "last (with_extension (path_join dir (recording_name L sid now)) ''seal'') = CHR ''l''"
    by (simp add: with_extension_def split: prod.splits)
  moreover have "last (path_join dir (recording_name L sid now)) = CHR ''v''"
    by (simp add: path_join_def recording_name_def starts_with_def)
  ultimately show False using e by simp
qed

lemma finalize_Ok:
  assumes "finalize L now True r fs = (Inr m, fs')" "fs (rm_file_path (sr_meta r)) = Some c"
    and "with_extension (rm_file_path (sr_meta r)) ''seal'' \<noteq> rm_file_path (sr_meta r)"
  shows "rm_file_path m = rm_file_path (sr_meta r)" "rm_frame_count m = rm_frame_count (sr_meta r)"
    "rm_chain_hash m = al_hex L (al_sha256 L (sr_hashed r))"
    "\<exists>tail. fs' (rm_file_path m) = Some (c @ tail)"
    "sr_seal_key r = Some key \<Longrightarrow> fs' (with_extension (rm_file_path m) ''seal'')
      = Some (string_bytes (al_hex L (al_hmac L key (the (fs' (rm_file_path m))))))"
  using assms
  by (auto simp: finalize_def Let_def seal_file_def append_file_def file_content_def split: option.splits prod.splits)

section \<open>A small recording\<close>

text \<open>What a seal relies on: hexadecimal notation is printable ASCII and determines the bytes.\<close>

definition hex_law :: "audit_libs \<Rightarrow> bool" where
  "hex_law L \<longleftrightarrow> inj (al_hex L) \<and> (\<forall>b. \<forall>c \<in> set (al_hex L b). \<not> is_space c \<and> of_char c < (128 :: nat))"

lemma hex_digit_text: "n < 16 \<Longrightarrow> \<not> is_space (hex_digit n) \<and> of_char (hex_digit n) < (128 :: nat)"
  by (auto simp: is_space_def hex_digit_def)

definition toy_audit :: audit_libs where
  "toy_audit = \<lparr>al_sha256 = (\<lambda>m. m), al_hmac = (\<lambda>k m. k @ m), al_hex = hex_encode,
    al_rfc3339 = (\<lambda>t. ''2026''), al_stamp = (\<lambda>t. ''20260101'')\<rparr>"

lemma toy_hex_law: "hex_law toy_audit"
proof -
  have "inj hex_encode" using hex_encode_inj by (rule injI)
  moreover have "\<not> is_space c \<and> of_char c < (128 :: nat)" if "c \<in> set (hex_encode b)" for c b
  proof -
    obtain x where "x \<in> set b" "c = hex_digit (unat x div 16) \<or> c = hex_digit (unat x mod 16)"
      using \<open>c \<in> set (hex_encode b)\<close> by (auto simp: hex_encode_def)
    moreover have "unat x div 16 < 16" using unat_u8 [of x] by (simp add: less_mult_imp_div_less)
    ultimately show ?thesis using hex_digit_text [of "unat x div 16"] hex_digit_text [of "unat x mod 16"] by auto
  qed
  ultimately show ?thesis by (simp add: hex_law_def toy_audit_def)
qed

definition toy_video_frame :: video_frame where
  "toy_video_frame = \<lparr>frame_seq = 7, monitor_index = 0, vf_codec = 1, vf_pixel_format = 1, keyframe = True,
    encoded_data = [1, 2, 3], vf_nonce = [], vf_width = 2, vf_height = 2, pts_ms = 65540,
    encode_duration_us = 0, damage_hint = [], encrypted = False\<rparr>"

text \<open>A recording of that frame, from the first byte to the seal.\<close>

lemma toy_recording:
  obtains r fs1 r' fs2 m fs3 where
    "recorder_new toy_audit 0 ''s1'' ''bob'' ''vm1'' ''ip'' ''/rec'' (Some [9]) 80 True (\<lambda>_. None) = (Inr r, fs1)"
    "record_frames [toy_video_frame] r fs1 = (r', fs2)"
    "finalize toy_audit 5 True r' fs2 = (Inr m, fs3)"
    "rm_file_path m = ''/rec/session_s1_20260101.mkv''"
proof -
  obtain r fs1 where n: "recorder_new toy_audit 0 ''s1'' ''bob'' ''vm1'' ''ip'' ''/rec'' (Some [9]) 80 True (\<lambda>_. None) = (Inr r, fs1)"
    by (simp add: recorder_new_def Let_def)
  obtain r' fs2 where f: "record_frames [toy_video_frame] r fs1 = (r', fs2)"
    by (cases "record_frames [toy_video_frame] r fs1")
  obtain m fs3 where z: "finalize toy_audit 5 True r' fs2 = (Inr m, fs3)"
    by (cases "finalize toy_audit 5 True r' fs2"; cases "fst (finalize toy_audit 5 True r' fs2)")
      (auto simp: finalize_def Let_def split: prod.splits)
  have "rm_file_path (sr_meta r) = ''/rec/session_s1_20260101.mkv''"
    using recorder_new_Ok(1) [OF n] by (simp add: path_join_def recording_name_def starts_with_def toy_audit_def)
  moreover have "rm_file_path (sr_meta r') = rm_file_path (sr_meta r)"
    using record_frames_file [OF f recorder_new_Ok(2) [OF n]] by simp
  moreover have "rm_file_path m = rm_file_path (sr_meta r')"
    using z by (auto simp: finalize_def Let_def split: option.splits prod.splits)
  ultimately show ?thesis using that n f z by simp
qed

section \<open>Properties\<close>



lemma sealed_text: "hex_law L \<Longrightarrow> from_utf8 (string_bytes (al_hex L b)) = Some (al_hex L b) \<and> trim (al_hex L b) = al_hex L b"
proof -
  assume h: "hex_law L"
  have "utf8_valid (string_bytes (al_hex L b))"
    using h by (intro utf8_ascii) (auto simp: string_bytes_def hex_law_def word_less_nat_alt unat_of_nat)
  moreover have "trim (al_hex L b) = al_hex L b" using h by (intro trim_no_space) (simp add: hex_law_def)
  ultimately show ?thesis by (simp add: from_utf8_def)
qed

text \<open>
  The seal of a recording accepts the file as it was closed, and a changed content only when its
  authentication code under the key is that of the original.
\<close>

theorem seal_detects_tampering:
  assumes "hex_law L" "recorder_new L t0 sid uid vm ip dir (Some key) q True fs = (Inr r, fs1)"
    and "record_frames frames r fs1 = (r', fs2)" "finalize L t1 True r' fs2 = (Inr m, fs3)"
    and "fsx (with_extension (rm_file_path m) ''seal'') = fs3 (with_extension (rm_file_path m) ''seal'')"
    and "fsx (rm_file_path m) = Some content"
  shows "verify_seal L (rm_file_path m) key fs3 = Ok True
    \<and> verify_seal L (rm_file_path m) key fsx
      = Ok (al_hmac L key content = al_hmac L key (file_content (rm_file_path m) fs3))"
proof -
  note n = recorder_new_Ok [OF assms(2)]
  note f = record_frames_file [OF assms(3) n(2)]
  have p: "with_extension (rm_file_path (sr_meta r')) ''seal'' \<noteq> rm_file_path (sr_meta r')"
    using f n(1) seal_path_other by metis
  have c: "fs2 (rm_file_path (sr_meta r')) = Some (make_ebml_header L sid uid vm ip t0 @ concat (map frame_block frames))"
    using f by simp
  note z = finalize_Ok [OF assms(4) c p]
  obtain c3 where c3: "fs3 (rm_file_path m) = Some c3" using z(4) by blast
  have "fs3 (with_extension (rm_file_path m) ''seal'') = Some (string_bytes (al_hex L (al_hmac L key c3)))"
    using z(5) [of key] f n(4) c3 by simp
  moreover have "inj (al_hex L)" using assms(1) by (simp add: hex_law_def)
  ultimately show ?thesis
    using sealed_text [OF assms(1)] assms(5,6) c3
    by (auto simp: verify_seal_def file_content_def dest: injD)
qed

theorem seal_detects_tampering_witness:
  "\<exists>fs fs'. verify_seal toy_audit ''/rec/session_s1_20260101.mkv'' [9] fs = Ok True
    \<and> file_content ''/rec/session_s1_20260101.mkv'' fs' = []
    \<and> verify_seal toy_audit ''/rec/session_s1_20260101.mkv'' [9] fs' = Ok False"
proof -
  obtain r fs1 r' fs2 m fs3 where t:
    "recorder_new toy_audit 0 ''s1'' ''bob'' ''vm1'' ''ip'' ''/rec'' (Some [9]) 80 True (\<lambda>_. None) = (Inr r, fs1)"
    "record_frames [toy_video_frame] r fs1 = (r', fs2)" "finalize toy_audit 5 True r' fs2 = (Inr m, fs3)"
    "rm_file_path m = ''/rec/session_s1_20260101.mkv''"
    by (rule toy_recording)
  let ?fs = "fs3(''/rec/session_s1_20260101.mkv'' \<mapsto> [])"
  have "with_extension (rm_file_path m) ''seal'' = ''/rec/session_s1_20260101.seal''" unfolding t(4) by code_simp
  then have s: "?fs (with_extension (rm_file_path m) ''seal'') = fs3 (with_extension (rm_file_path m) ''seal'')"
    by simp
  have c: "?fs (rm_file_path m) = Some []" using t(4) by simp
  note d = seal_detects_tampering [where fsx = ?fs and content = "[]", OF toy_hex_law t(1,2,3) s c]
  have "\<exists>tail. fs3 (rm_file_path m) = Some (make_ebml_header toy_audit ''s1'' ''bob'' ''vm1'' ''ip'' 0 @ tail)"
  proof -
    note n = recorder_new_Ok [OF t(1)]
    note f = record_frames_file [OF t(2) n(2)]
    have p: "with_extension (rm_file_path (sr_meta r')) ''seal'' \<noteq> rm_file_path (sr_meta r')"
      using f n(1) seal_path_other by metis
    have k: "fs2 (rm_file_path (sr_meta r'))
        = Some (make_ebml_header toy_audit ''s1'' ''bob'' ''vm1'' ''ip'' 0 @ concat (map frame_block [toy_video_frame]))"
      using f by simp
    show ?thesis using finalize_Ok(4) [OF t(3) k p] by (auto simp only: append.assoc)
  qed
  then have "file_content (rm_file_path m) fs3 \<noteq> []" by (auto simp: file_content_def make_ebml_header_def)
  then have "al_hmac toy_audit [9] [] \<noteq> al_hmac toy_audit [9] (file_content (rm_file_path m) fs3)"
    by (simp add: toy_audit_def)
  then show ?thesis using d unfolding t(4) by (intro exI [of _ fs3] exI [of _ ?fs]) (simp add: file_content_def)
qed

text \<open>
  The hash over the frames does not separate them: two frames hash like one whose payload holds
  the number and the payload of the second.
\<close>

lemma chain_hash_ambiguous:
  assumes "frame_seq h = frame_seq f"
    and "encoded_data h = encoded_data f @ le_bytes 8 (unat (frame_seq g)) @ encoded_data g"
    and "fs (rm_file_path (sr_meta r)) = Some c"
  shows "sr_hashed (fst (record_frames [f, g] r fs)) = sr_hashed (fst (record_frames [h] r fs))"
  using record_frames_file [of "[f, g]" r fs _ _ c] record_frames_file [of "[h]" r fs _ _ c] assms
  by (metis (no_types, lifting) append.assoc append_Nil2 concat.simps list.simps(8,9) prod.collapse)

end
