(* ===== verification/AuditStore.thy ===== *)
theory AuditStore
  imports Recording
begin

text \<open>
  The store of the recordings and the audit engine: the index of the sessions and its retention
  (\<open>nidan-audit/src/storage/mod.rs\<close>), the counters (\<open>metrics/mod.rs\<close>), the loop over the audit events
  (\<open>lib.rs\<close>) and the configuration (\<open>config.rs\<close>).  JSON is a parameter; a file system is a map from
  paths to contents.
\<close>

section \<open>Configuration\<close>

record storage_config =
  session_dir :: string
  event_log_dir :: string
  persist_events :: bool
  seal_key :: "string option"
  retention_days :: u32
  max_storage_mb :: u64

record watermark_config =
  wm_enabled :: bool
  wmc_strength :: u8
  wm_interval_frames :: u32

record metrics_config =
  mc_bind_addr :: string
  update_interval_secs :: u64

record recording_config =
  rc_enabled :: bool
  rc_format :: string
  rc_quality :: u8
  include_audio :: bool

record audit_daemon_config =
  ad_storage :: storage_config
  ad_watermark :: watermark_config
  ad_metrics :: metrics_config
  ad_recording :: recording_config

definition default_audit_daemon :: audit_daemon_config where
  "default_audit_daemon = \<lparr>
    ad_storage = \<lparr>session_dir = ''/var/lib/nidan/sessions'', event_log_dir = ''/var/lib/nidan/events'',
      persist_events = True, seal_key = None, retention_days = 90, max_storage_mb = 0\<rparr>,
    ad_watermark = \<lparr>wm_enabled = True, wmc_strength = 2, wm_interval_frames = 30\<rparr>,
    ad_metrics = \<lparr>mc_bind_addr = ''0.0.0.0:9090'', update_interval_secs = 15\<rparr>,
    ad_recording = \<lparr>rc_enabled = True, rc_format = ''mkv'', rc_quality = 80, include_audio = False\<rparr>\<rparr>"

section \<open>Index of the sessions\<close>

record session_index_entry =
  se_session_id :: string
  se_user_id :: string
  se_vm_id :: string
  se_started_at :: timestamp
  se_ended_at :: "timestamp option"
  se_file_name :: string
  se_file_size :: u64
  se_frame_count :: u64
  se_chain_hash :: string
  se_sealed :: bool

record index_codec =
  ic_render :: "session_index_entry list \<Rightarrow> bytes option"
  ic_parse :: "bytes \<Rightarrow> session_index_entry list option"

record worm_storage =
  base_dir :: string
  ws_retention_days :: u32
  ws_max_storage_mb :: u64

datatype storage_error = IndexNotRendered | IndexNotWritten

definition index_path :: "worm_storage \<Rightarrow> string" where
  "index_path w = path_join (base_dir w) ''index.json''"

text \<open>An index that is missing or cannot be read is an empty one.\<close>

definition load_index :: "index_codec \<Rightarrow> worm_storage \<Rightarrow> file_system \<Rightarrow> session_index_entry list" where
  "load_index C w fs =
    (case fs (index_path w) of
      None \<Rightarrow> []
    | Some b \<Rightarrow> (case ic_parse C b of None \<Rightarrow> [] | Some es \<Rightarrow> es))"

definition save_index ::
  "index_codec \<Rightarrow> worm_storage \<Rightarrow> bool \<Rightarrow> session_index_entry list \<Rightarrow> file_system \<Rightarrow>
    (storage_error, unit) result \<times> file_system"
where
  "save_index C w writable es fs =
    (case ic_render C es of
      None \<Rightarrow> (Err IndexNotRendered, fs)
    | Some b \<Rightarrow> if writable then (Ok (), fs(index_path w \<mapsto> b)) else (Err IndexNotWritten, fs))"

definition register_session ::
  "index_codec \<Rightarrow> worm_storage \<Rightarrow> bool \<Rightarrow> session_index_entry \<Rightarrow> file_system \<Rightarrow>
    (storage_error, unit) result \<times> file_system"
where
  "register_session C w writable e fs = save_index C w writable (load_index C w fs @ [e]) fs"

text \<open>Days as in \<open>chrono::Duration::days\<close>; what does not start before the limit is kept.\<close>

definition retention_cutoff :: "worm_storage \<Rightarrow> timestamp \<Rightarrow> timestamp" where
  "retention_cutoff w now = now - secs (86400 * uint (ws_retention_days w))"

definition session_expired :: "worm_storage \<Rightarrow> timestamp \<Rightarrow> session_index_entry \<Rightarrow> bool" where
  "session_expired w now e \<longleftrightarrow> se_started_at e < retention_cutoff w now"

definition remove_file :: "string \<Rightarrow> file_system \<Rightarrow> file_system" where
  "remove_file p fs = fs(p := None)"

definition remove_recording :: "worm_storage \<Rightarrow> string \<Rightarrow> file_system \<Rightarrow> file_system" where
  "remove_recording w name fs =
    remove_file (path_join (base_dir w) (with_extension name ''seal''))
      (remove_file (path_join (base_dir w) name) fs)"

text \<open>The number of sessions removed.  Removals that fail are only logged: here they succeed.\<close>

definition apply_retention ::
  "index_codec \<Rightarrow> worm_storage \<Rightarrow> bool \<Rightarrow> timestamp \<Rightarrow> file_system \<Rightarrow>
    (storage_error, nat) result \<times> file_system"
where
  "apply_retention C w writable now fs =
    (if ws_retention_days w = 0 then (Ok 0, fs)
     else (let es = load_index C w fs;
               kept = filter (\<lambda>e. \<not> session_expired w now e) es;
               gone = map se_file_name (filter (session_expired w now) es);
               fs1 = fold (remove_recording w) gone fs
       in (case save_index C w writable kept fs1 of
            (Inl e, fs2) \<Rightarrow> (Err e, fs2)
          | (Inr _, fs2) \<Rightarrow> (Ok (length es - length kept), fs2))))"

text \<open>The sizes of the files of the directory come from the file system.\<close>

definition total_size :: "nat list option \<Rightarrow> nat" where
  "total_size sizes = (case sizes of None \<Rightarrow> 0 | Some ns \<Rightarrow> sum_list ns)"

definition is_storage_full :: "worm_storage \<Rightarrow> nat list option \<Rightarrow> bool" where
  "is_storage_full w sizes =
    (ws_max_storage_mb w \<noteq> 0 \<and> unat (ws_max_storage_mb w) \<le> total_size sizes div (1024 * 1024))"

record storage_stats =
  ss_total_size_bytes :: nat
  ss_total_size_mb :: nat
  ss_file_count :: nat
  ss_oldest :: "timestamp option"

definition storage_stats_of ::
  "index_codec \<Rightarrow> worm_storage \<Rightarrow> nat list option \<Rightarrow> file_system \<Rightarrow> storage_stats"
where
  "storage_stats_of C w sizes fs =
    (let es = load_index C w fs in
     \<lparr>ss_total_size_bytes = total_size sizes, ss_total_size_mb = total_size sizes div (1024 * 1024),
      ss_file_count = length es,
      ss_oldest = (if es = [] then None else Some (Min (set (map se_started_at es))))\<rparr>)"

section \<open>Counters\<close>

text \<open>A histogram of the library: the bounds it is made with and the values it has been given.\<close>

record histogram =
  hist_bounds :: "nat list"
  hist_values :: "real list"

definition observe :: "real \<Rightarrow> histogram \<Rightarrow> histogram" where
  "observe v h = h\<lparr>hist_values := hist_values h @ [v]\<rparr>"

record nidan_metrics =
  sessions_total :: u64
  sessions_active :: "64 word"
  auth_failures_total :: u64
  clipboard_blocked_total :: u64
  policy_violations_total :: u64
  frames_encoded_total :: u64
  frames_decoded_total :: u64
  recording_bytes_total :: u64
  pool_available_gauge :: "64 word"
  stream_latency_us :: histogram
  encode_duration_us :: histogram
  decode_duration_us :: histogram

definition latency_buckets :: "nat list" where
  "latency_buckets = [100, 500, 1000, 5000, 10000, 33000, 66000, 100000, 200000]"

definition encode_buckets :: "nat list" where
  "encode_buckets = [500, 1000, 2000, 5000, 10000, 20000, 50000, 100000]"

definition metrics_new :: nidan_metrics where
  "metrics_new = \<lparr>sessions_total = 0, sessions_active = 0, auth_failures_total = 0,
    clipboard_blocked_total = 0, policy_violations_total = 0, frames_encoded_total = 0, frames_decoded_total = 0,
    recording_bytes_total = 0, pool_available_gauge = 0,
    stream_latency_us = \<lparr>hist_bounds = latency_buckets, hist_values = []\<rparr>,
    encode_duration_us = \<lparr>hist_bounds = encode_buckets, hist_values = []\<rparr>,
    decode_duration_us = \<lparr>hist_bounds = encode_buckets, hist_values = []\<rparr>\<rparr>"

definition frame_encoded :: "real \<Rightarrow> nidan_metrics \<Rightarrow> nidan_metrics" where
  "frame_encoded us m = m\<lparr>frames_encoded_total := frames_encoded_total m + 1,
    encode_duration_us := observe us (encode_duration_us m)\<rparr>"

definition frame_decoded :: "real \<Rightarrow> nidan_metrics \<Rightarrow> nidan_metrics" where
  "frame_decoded us m = m\<lparr>frames_decoded_total := frames_decoded_total m + 1,
    decode_duration_us := observe us (decode_duration_us m)\<rparr>"

definition stream_latency :: "real \<Rightarrow> nidan_metrics \<Rightarrow> nidan_metrics" where
  "stream_latency us m = m\<lparr>stream_latency_us := observe us (stream_latency_us m)\<rparr>"

text \<open>The argument is signed and is cast: a negative number of bytes wraps around.\<close>

definition recording_bytes :: "64 word \<Rightarrow> nidan_metrics \<Rightarrow> nidan_metrics" where
  "recording_bytes n m = m\<lparr>recording_bytes_total := recording_bytes_total m + n\<rparr>"

definition set_pool_available :: "64 word \<Rightarrow> nidan_metrics \<Rightarrow> nidan_metrics" where
  "set_pool_available n m = m\<lparr>pool_available_gauge := n\<rparr>"

text \<open>The server of the metrics: two routes; the text of the registry is the library's.\<close>

datatype metrics_reply = MetricsText string | MetricsError string | HealthText string | NoSuchRoute

definition audit_metrics_handler :: "(nidan_metrics \<Rightarrow> (string, string) result) \<Rightarrow> nidan_metrics \<Rightarrow> metrics_reply" where
  "audit_metrics_handler encode m = (case encode m of Inl e \<Rightarrow> MetricsError e | Inr t \<Rightarrow> MetricsText t)"

definition metrics_route :: "(nidan_metrics \<Rightarrow> (string, string) result) \<Rightarrow> nidan_metrics \<Rightarrow> string \<Rightarrow> metrics_reply" where
  "metrics_route encode m path =
    (if path = ''/metrics'' then audit_metrics_handler encode m
     else if path = ''/health'' then HealthText ''ok'' else NoSuchRoute)"

definition session_started :: "nidan_metrics \<Rightarrow> nidan_metrics" where
  "session_started m = m\<lparr>sessions_total := sessions_total m + 1, sessions_active := sessions_active m + 1\<rparr>"

definition session_ended :: "nidan_metrics \<Rightarrow> nidan_metrics" where
  "session_ended m = m\<lparr>sessions_active := sessions_active m - 1\<rparr>"

definition auth_failure :: "nidan_metrics \<Rightarrow> nidan_metrics" where
  "auth_failure m = m\<lparr>auth_failures_total := auth_failures_total m + 1\<rparr>"

definition clipboard_blocked :: "nidan_metrics \<Rightarrow> nidan_metrics" where
  "clipboard_blocked m = m\<lparr>clipboard_blocked_total := clipboard_blocked_total m + 1\<rparr>"

definition policy_violation :: "nidan_metrics \<Rightarrow> nidan_metrics" where
  "policy_violation m = m\<lparr>policy_violations_total := policy_violations_total m + 1\<rparr>"

definition record_audit_event :: "audit_event \<Rightarrow> nidan_metrics \<Rightarrow> nidan_metrics" where
  "record_audit_event e m =
    (case audit_event_try_from (event_type e) of
      Some SessionStart \<Rightarrow> session_started m
    | Some SessionEnd \<Rightarrow> session_ended m
    | Some Proto.AuthFailure \<Rightarrow> auth_failure m
    | Some ClipboardBlocked \<Rightarrow> clipboard_blocked m
    | Some PolicyViolation \<Rightarrow> policy_violation m
    | _ \<Rightarrow> m)"

section \<open>The audit engine\<close>

definition event_log_path :: "audit_daemon_config \<Rightarrow> (timestamp \<Rightarrow> string) \<Rightarrow> timestamp \<Rightarrow> string" where
  "event_log_path cfg day now = path_join (event_log_dir (ad_storage cfg)) (''audit-'' @ day now @ ''.jsonl'')"

definition persist_event ::
  "audit_daemon_config \<Rightarrow> (timestamp \<Rightarrow> string) \<Rightarrow> (audit_event \<Rightarrow> bytes option) \<Rightarrow> timestamp \<Rightarrow> bool \<Rightarrow>
    audit_event \<Rightarrow> file_system \<Rightarrow> file_system"
where
  "persist_event cfg day render now writable e fs =
    (case render e of
      None \<Rightarrow> fs
    | Some json \<Rightarrow> if writable then append_file (event_log_path cfg day now) (json @ [10]) fs else fs)"

definition handle_event ::
  "audit_daemon_config \<Rightarrow> (timestamp \<Rightarrow> string) \<Rightarrow> (audit_event \<Rightarrow> bytes option) \<Rightarrow> timestamp \<Rightarrow> bool \<Rightarrow>
    audit_event \<Rightarrow> nidan_metrics \<times> file_system \<Rightarrow> nidan_metrics \<times> file_system"
where
  "handle_event cfg day render now writable e st =
    (let m1 = record_audit_event e (fst st);
         ty = (case audit_event_try_from (event_type e) of None \<Rightarrow> EventUnspecified | Some t \<Rightarrow> t);
         m2 = (case ty of
             SessionStart \<Rightarrow> session_started m1
           | SessionEnd \<Rightarrow> session_ended m1
           | Proto.AuthFailure \<Rightarrow> auth_failure m1
           | ClipboardBlocked \<Rightarrow> clipboard_blocked m1
           | PolicyViolation \<Rightarrow> policy_violation m1
           | _ \<Rightarrow> m1)
     in (m2, if persist_events (ad_storage cfg) then persist_event cfg day render now writable e (snd st) else snd st))"

text \<open>The loop over the events received, each with the time and whether the log can be written.\<close>

fun audit_loop ::
  "audit_daemon_config \<Rightarrow> (timestamp \<Rightarrow> string) \<Rightarrow> (audit_event \<Rightarrow> bytes option) \<Rightarrow>
    (audit_event \<times> timestamp \<times> bool) list \<Rightarrow> nidan_metrics \<times> file_system \<Rightarrow> nidan_metrics \<times> file_system"
where
  "audit_loop cfg day render [] st = st"
| "audit_loop cfg day render ((e, now, writable) # es) st =
    audit_loop cfg day render es (handle_event cfg day render now writable e st)"

text \<open>
  The daemon: the directories are made, then the counters; its loop reads a channel whose only sender
  stays in \<open>run\<close> and is never used, so it waits for ever in the state it had after no event at all.
\<close>

datatype audit_init_error = SessionDirFailed string | EventDirFailed string

definition audit_engine_new ::
  "(string \<Rightarrow> bool) \<Rightarrow> audit_daemon_config \<Rightarrow> (audit_init_error, audit_daemon_config \<times> nidan_metrics) result"
where
  "audit_engine_new mkdir cfg =
    (if \<not> mkdir (session_dir (ad_storage cfg)) then Err (SessionDirFailed (session_dir (ad_storage cfg)))
     else if \<not> mkdir (event_log_dir (ad_storage cfg)) then Err (EventDirFailed (event_log_dir (ad_storage cfg)))
     else Ok (cfg, metrics_new))"

definition make_audit_sender :: "audit_daemon_config \<times> nidan_metrics \<Rightarrow> (audit_event \<Rightarrow> bool) option" where
  "make_audit_sender engine = None"

definition audit_engine_run ::
  "(timestamp \<Rightarrow> string) \<Rightarrow> (audit_event \<Rightarrow> bytes option) \<Rightarrow> audit_daemon_config \<times> nidan_metrics \<Rightarrow> file_system \<Rightarrow>
    nidan_metrics \<times> file_system"
where
  "audit_engine_run day render engine fs = audit_loop (fst engine) day render [] (snd engine, fs)"

section \<open>Retention\<close>

lemma removed_files:
  "fold (remove_recording w) names fs p
    = (if p \<in> set (map (path_join (base_dir w)) names)
          \<or> p \<in> set (map (\<lambda>n. path_join (base_dir w) (with_extension n ''seal'')) names)
       then None else fs p)"
  by (induction names arbitrary: fs) (auto simp: remove_recording_def remove_file_def)

text \<open>What an index codec promises for the entries it is given.\<close>

definition codec_keeps :: "index_codec \<Rightarrow> session_index_entry list \<Rightarrow> bool" where
  "codec_keeps C es \<longleftrightarrow> (\<exists>b. ic_render C es = Some b \<and> ic_parse C b = Some es)"

text \<open>
  Retention removes exactly the expired sessions: the index keeps the others in order, the
  answer counts those removed, and the files of the others stay unless they share a name.
\<close>

theorem retention_exact:
  assumes "ws_retention_days w \<noteq> 0" "codec_keeps C (filter (\<lambda>e. \<not> session_expired w now e) (load_index C w fs))"
    and "apply_retention C w True now fs = (r, fs')"
  shows "r = Ok (length (filter (session_expired w now) (load_index C w fs)))
    \<and> load_index C w fs' = filter (\<lambda>e. \<not> session_expired w now e) (load_index C w fs)
    \<and> (p \<noteq> index_path w \<longrightarrow>
        fs' p = (if \<exists>e \<in> set (load_index C w fs). session_expired w now e
              \<and> (p = path_join (base_dir w) (se_file_name e)
                \<or> p = path_join (base_dir w) (with_extension (se_file_name e) ''seal''))
            then None else fs p))"
proof -
  let ?es = "load_index C w fs"
  let ?kept = "filter (\<lambda>e. \<not> session_expired w now e) ?es"
  obtain b where b: "ic_render C ?kept = Some b" "ic_parse C b = Some ?kept"
    using assms(2) by (auto simp: codec_keeps_def)
  have l: "length ?es - length ?kept = length (filter (session_expired w now) ?es)"
    using sum_length_filter_compl [of "session_expired w now" ?es] by simp
  have a: "r = Ok (length ?es - length ?kept)"
    "fs' = (fold (remove_recording w) (map se_file_name (filter (session_expired w now) ?es)) fs)(index_path w \<mapsto> b)"
    using assms(1,3) b(1) by (auto simp: apply_retention_def save_index_def Let_def)
  moreover have "load_index C w fs' = ?kept" using b(2) by (simp add: load_index_def a(2))
  ultimately show ?thesis using l by (auto simp: removed_files)
qed

definition toy_entry :: "string \<Rightarrow> int \<Rightarrow> session_index_entry" where
  "toy_entry n days = \<lparr>se_session_id = n, se_user_id = ''u'', se_vm_id = ''v'', se_started_at = secs (86400 * days),
    se_ended_at = None, se_file_name = n @ ''.mkv'', se_file_size = 0, se_frame_count = 0, se_chain_hash = [],
    se_sealed = False\<rparr>"

definition toy_codec :: index_codec where
  "toy_codec = \<lparr>ic_render = (\<lambda>es. Some [word_of_nat (length es)]),
    ic_parse = (\<lambda>b. if b = [1] then Some [toy_entry ''new'' 20] else if b = [2] then Some [toy_entry ''old'' 1, toy_entry ''new'' 20] else None)\<rparr>"

definition toy_store :: worm_storage where
  "toy_store = \<lparr>base_dir = ''/s'', ws_retention_days = 7, ws_max_storage_mb = 0\<rparr>"

theorem retention_exact_witness:
  "load_index toy_codec toy_store (snd (apply_retention toy_codec toy_store True (secs (86400 * 21))
      [''/s/index.json'' \<mapsto> [2], ''/s/old.mkv'' \<mapsto> [1], ''/s/new.mkv'' \<mapsto> [1]])) = [toy_entry ''new'' 20]
    \<and> snd (apply_retention toy_codec toy_store True (secs (86400 * 21))
      [''/s/index.json'' \<mapsto> [2], ''/s/old.mkv'' \<mapsto> [1], ''/s/new.mkv'' \<mapsto> [1]]) ''/s/old.mkv'' = None"
proof -
  let ?fs = "[''/s/index.json'' \<mapsto> [2], ''/s/old.mkv'' \<mapsto> [1], ''/s/new.mkv'' \<mapsto> [1]]"
  obtain r fs' where a: "apply_retention toy_codec toy_store True (secs (86400 * 21)) ?fs = (r, fs')"
    by (cases "apply_retention toy_codec toy_store True (secs (86400 * 21)) ?fs")
  have ip: "index_path toy_store = ''/s/index.json''"
    by (simp add: index_path_def toy_store_def path_join_def starts_with_def)
  have es: "load_index toy_codec toy_store ?fs = [toy_entry ''old'' 1, toy_entry ''new'' 20]"
    by (simp add: load_index_def ip toy_codec_def)
  have ex: "session_expired toy_store (secs (86400 * 21)) (toy_entry ''old'' 1)" "\<not> session_expired toy_store (secs (86400 * 21)) (toy_entry ''new'' 20)"
    by (simp_all add: session_expired_def retention_cutoff_def toy_store_def toy_entry_def secs_def nanos_per_sec_def)
  have k: "codec_keeps toy_codec (filter (\<lambda>e. \<not> session_expired toy_store (secs (86400 * 21)) e) (load_index toy_codec toy_store ?fs))"
    unfolding es using ex by (simp add: codec_keeps_def toy_codec_def)
  have d: "ws_retention_days toy_store \<noteq> 0" by (simp add: toy_store_def)
  have n: "''/s/old.mkv'' = path_join (base_dir toy_store) (se_file_name (toy_entry ''old'' 1))"
    by (simp add: path_join_def toy_store_def toy_entry_def starts_with_def)
  have x: "\<exists>e \<in> set [toy_entry ''old'' 1, toy_entry ''new'' 20]. session_expired toy_store (secs (86400 * 21)) e
      \<and> (''/s/old.mkv'' = path_join (base_dir toy_store) (se_file_name e)
        \<or> ''/s/old.mkv'' = path_join (base_dir toy_store) (with_extension (se_file_name e) ''seal''))"
    using ex n by (intro bexI [of _ "toy_entry ''old'' 1"]) (simp_all only: list.set insert_iff simp_thms)
  have i: "''/s/old.mkv'' \<noteq> index_path toy_store" by (simp add: ip)
  have f: "filter (\<lambda>e. \<not> session_expired toy_store (secs (86400 * 21)) e) [toy_entry ''old'' 1, toy_entry ''new'' 20]
      = [toy_entry ''new'' 20]" using ex by simp
  from retention_exact [OF d k a, of "''/s/old.mkv''"]
  have r: "load_index toy_codec toy_store fs' = [toy_entry ''new'' 20] \<and> fs' ''/s/old.mkv'' = None"
    unfolding es f using x i by (simp only: if_True simp_thms)
  show ?thesis unfolding a snd_conv by (rule r)
qed

section \<open>Counting\<close>

definition count_type :: "audit_event_type \<Rightarrow> (audit_event \<times> timestamp \<times> bool) list \<Rightarrow> nat" where
  "count_type t es = length (filter (\<lambda>(e, _). audit_event_try_from (event_type e) = Some t) es)"

lemma count_type_Cons:
  "count_type t ((e, now, x) # es) = (if audit_event_try_from (event_type e) = Some t then 1 else 0) + count_type t es"
  by (simp add: count_type_def)

lemma handle_event_metrics:
  "fst (handle_event cfg day render now x e st)
    = (case audit_event_try_from (event_type e) of
        Some SessionStart \<Rightarrow> session_started (session_started (fst st))
      | Some SessionEnd \<Rightarrow> session_ended (session_ended (fst st))
      | Some Proto.AuthFailure \<Rightarrow> auth_failure (auth_failure (fst st))
      | Some ClipboardBlocked \<Rightarrow> clipboard_blocked (clipboard_blocked (fst st))
      | Some PolicyViolation \<Rightarrow> policy_violation (policy_violation (fst st))
      | _ \<Rightarrow> fst st)"
  by (simp add: handle_event_def Let_def record_audit_event_def split: option.split audit_event_type.split)

text \<open>
  Every counted event is counted twice: after any events, each counter is twice the number of
  events of its type, and the number of active sessions twice the difference.
\<close>

theorem events_counted_twice:
  "fst (audit_loop cfg day render es (m, fs)) = m\<lparr>
    sessions_total := sessions_total m + 2 * word_of_nat (count_type SessionStart es),
    sessions_active := sessions_active m + 2 * word_of_nat (count_type SessionStart es) - 2 * word_of_nat (count_type SessionEnd es),
    auth_failures_total := auth_failures_total m + 2 * word_of_nat (count_type Proto.AuthFailure es),
    clipboard_blocked_total := clipboard_blocked_total m + 2 * word_of_nat (count_type ClipboardBlocked es),
    policy_violations_total := policy_violations_total m + 2 * word_of_nat (count_type PolicyViolation es)\<rparr>"
proof (induction es arbitrary: m fs)
  case Nil
  then show ?case by (simp add: count_type_def)
next
  case (Cons x es)
  obtain e now writable where x: "x = (e, now, writable)" by (cases x)
  obtain m' fs' where h: "handle_event cfg day render now writable e (m, fs) = (m', fs')"
    by (cases "handle_event cfg day render now writable e (m, fs)")
  have m': "m' = fst (handle_event cfg day render now writable e (m, fs))" using h by simp
  show ?case unfolding x using Cons.IH [of m' fs'] h
    unfolding m' handle_event_metrics
    by (simp add: count_type_Cons session_started_def session_ended_def auth_failure_def clipboard_blocked_def
        policy_violation_def algebra_simps split: option.split audit_event_type.split)
qed

text \<open>
  An index that cannot be parsed is forgotten at the next registration: the sessions it held are
  no longer listed, so they never expire.
\<close>

lemma unreadable_index_forgotten:
  assumes "fs (index_path w) = Some b" "ic_parse C b = None" "codec_keeps C [e]"
  shows "load_index C w (snd (register_session C w True e fs)) = [e]"
  using assms by (auto simp: register_session_def save_index_def load_index_def codec_keeps_def)

end
